(* ===== verification/Metering_Price.thy ===== *)
theory Metering_Price
  imports Prelude
begin

text \<open>
  \<^verbatim>\<open>control-plane/internal/metering/price.go\<close>: the versioned price table and the
  overflow-checked charge computation. Amounts are 64-bit words, so the products and sums
  wrap exactly as Go's \<^verbatim>\<open>uint64\<close> does and the overflow tests are the source's own.
\<close>

record PriceSchedule =
  Version :: u32
  CPUCoreSecond :: u64
  RAMMBSecond :: u64
  StorageGBSecond :: u64
  NetworkMB :: u64

definition priceSchedules :: "u32 \<Rightarrow> PriceSchedule option" where
  "priceSchedules v =
     (if v = 1
      then Some \<lparr>Version = 1, CPUCoreSecond = 1, RAMMBSecond = 1, StorageGBSecond = 1, NetworkMB = 1\<rparr>
      else None)"

definition CurrentPriceVersion :: u32 where
  "CurrentPriceVersion = 1"

definition LookupPriceSchedule :: "u32 \<Rightarrow> PriceSchedule option" where
  "LookupPriceSchedule version = priceSchedules version"

record Charge =
  CPUAmount :: u64
  RAMAmount :: u64
  StorageAmount :: u64
  NetworkAmount :: u64
  TotalAmount :: u64

datatype charge_error = ErrChargeOverflow

definition checkedMul :: "u64 \<Rightarrow> u64 \<Rightarrow> charge_error + u64" where
  "checkedMul a b =
     (if a = 0 \<or> b = 0 then Inr 0
      else let result = a * b
           in if result div a \<noteq> b then Inl ErrChargeOverflow else Inr result)"

definition checkedAdd :: "u64 \<Rightarrow> u64 \<Rightarrow> charge_error + u64" where
  "checkedAdd a b =
     (let result = a + b in if result < a then Inl ErrChargeOverflow else Inr result)"

definition ComputeCharge ::
  "PriceSchedule \<Rightarrow> u64 \<Rightarrow> u64 \<Rightarrow> u64 \<Rightarrow> u64 \<Rightarrow> u64 \<Rightarrow> charge_error + Charge" where
  "ComputeCharge schedule cpuCoreSeconds ramMBSeconds storageGBSeconds networkEgressMB networkIngressMB =
     andThen (checkedMul cpuCoreSeconds (CPUCoreSecond schedule)) (\<lambda>cpuAmount.
     andThen (checkedMul ramMBSeconds (RAMMBSecond schedule)) (\<lambda>ramAmount.
     andThen (checkedMul storageGBSeconds (StorageGBSecond schedule)) (\<lambda>storageAmount.
     andThen (checkedAdd networkEgressMB networkIngressMB) (\<lambda>networkMB.
     andThen (checkedMul networkMB (NetworkMB schedule)) (\<lambda>networkAmount.
     andThen (checkedAdd cpuAmount ramAmount) (\<lambda>total1.
     andThen (checkedAdd total1 storageAmount) (\<lambda>total2.
     andThen (checkedAdd total2 networkAmount) (\<lambda>total.
     Inr \<lparr>CPUAmount = cpuAmount, RAMAmount = ramAmount, StorageAmount = storageAmount,
          NetworkAmount = networkAmount, TotalAmount = total\<rparr>))))))))"

section \<open>The checked operations are exact\<close>

lemma checkedAdd_exact:
  "checkedAdd a b = (if unat a + unat b < 2 ^ 64 then Inr (a + b) else Inl ErrChargeOverflow)"
proof (cases "unat a + unat b < 2 ^ 64")
  case True
  then have "unat (a + b) = unat a + unat b" by (simp add: unat_word_ariths)
  then show ?thesis using True by (simp add: checkedAdd_def word_less_nat_alt)
next
  case False
  have "unat a < 2 ^ 64" and "unat b < 2 ^ 64"
    using unat_u64_less [of a] unat_u64_less [of b] by simp_all
  with False have "unat (a + b) = unat a + unat b - 2 ^ 64"
    by (simp add: unat_word_ariths mod_if)
  with False \<open>unat b < 2 ^ 64\<close> have "unat (a + b) < unat a" by simp
  then show ?thesis using False by (simp add: checkedAdd_def word_less_nat_alt)
qed

text \<open>The division test: the wrapped product divides back to \<open>b\<close> only if it did not wrap.\<close>

lemma checkedMul_exact:
  "checkedMul a b = (if unat a * unat b < 2 ^ 64 then Inr (a * b) else Inl ErrChargeOverflow)"
proof (cases "a = 0 \<or> b = 0")
  case True
  then show ?thesis by (auto simp: checkedMul_def)
next
  case False
  then have a: "0 < unat a" by (simp add: unat_gt_0)
  have q: "a * b div a = b \<longleftrightarrow> unat (a * b) div unat a = unat b"
    by (simp add: word_unat_eq_iff unat_div)
  show ?thesis
  proof (cases "unat a * unat b < 2 ^ 64")
    case True
    then have "unat (a * b) = unat a * unat b" by (simp add: unat_word_ariths)
    with a q show ?thesis using False True by (simp add: checkedMul_def)
  next
    case no: False
    have "unat (a * b) < unat a * unat b"
      using no unat_u64_less [of "a * b"] by simp
    then have "unat (a * b) div unat a < unat b"
      using a div_less_iff_less_mult [of "unat a" "unat (a * b)" "unat b"]
      by (simp only: mult.commute [of "unat b"])
    with q show ?thesis using False no by (simp add: checkedMul_def)
  qed
qed

lemma andThen_checkedAdd:
  "andThen (checkedAdd a b) f = (if unat a + unat b < 2 ^ 64 then f (a + b) else Inl ErrChargeOverflow)"
  by (simp add: checkedAdd_exact)

lemma andThen_checkedMul:
  "andThen (checkedMul a b) f = (if unat a * unat b < 2 ^ 64 then f (a * b) else Inl ErrChargeOverflow)"
  by (simp add: checkedMul_exact)

lemmas checked_steps = andThen_checkedAdd andThen_checkedMul

section \<open>The charge against its exact value\<close>

text \<open>The unbounded value of ADR-029's formula, component by component.\<close>

definition exact_network :: "PriceSchedule \<Rightarrow> u64 \<Rightarrow> u64 \<Rightarrow> nat" where
  "exact_network s egress ingress = (unat egress + unat ingress) * unat (NetworkMB s)"

definition exact_total :: "PriceSchedule \<Rightarrow> u64 \<Rightarrow> u64 \<Rightarrow> u64 \<Rightarrow> u64 \<Rightarrow> u64 \<Rightarrow> nat" where
  "exact_total s cpu ram storage egress ingress =
     unat cpu * unat (CPUCoreSecond s) + unat ram * unat (RAMMBSecond s)
       + unat storage * unat (StorageGBSecond s) + exact_network s egress ingress"

definition charge_is_exact ::
  "PriceSchedule \<Rightarrow> u64 \<Rightarrow> u64 \<Rightarrow> u64 \<Rightarrow> u64 \<Rightarrow> u64 \<Rightarrow> Charge \<Rightarrow> bool" where
  "charge_is_exact s cpu ram storage egress ingress c \<longleftrightarrow>
     unat (CPUAmount c) = unat cpu * unat (CPUCoreSecond s) \<and>
     unat (RAMAmount c) = unat ram * unat (RAMMBSecond s) \<and>
     unat (StorageAmount c) = unat storage * unat (StorageGBSecond s) \<and>
     unat (NetworkAmount c) = exact_network s egress ingress \<and>
     unat (TotalAmount c) = exact_total s cpu ram storage egress ingress"

lemma ComputeCharge_ok:
  assumes "unat egress + unat ingress < 2 ^ 64"
    and "exact_total s cpu ram storage egress ingress < 2 ^ 64"
  shows "\<exists>c. ComputeCharge s cpu ram storage egress ingress = Inr c
           \<and> charge_is_exact s cpu ram storage egress ingress c"
  using assms
  by (simp add: ComputeCharge_def checked_steps charge_is_exact_def exact_total_def
      exact_network_def unat_add_u64 unat_mult_u64)

lemma ComputeCharge_Inr_fits:
  assumes "ComputeCharge s cpu ram storage egress ingress = Inr c"
  shows "unat egress + unat ingress < 2 ^ 64 \<and>
         exact_total s cpu ram storage egress ingress < 2 ^ 64"
  using assms
  by (simp add: ComputeCharge_def checked_steps exact_total_def exact_network_def
      unat_add_u64 unat_mult_u64 split: if_splits)

lemma ComputeCharge_Inr_exact:
  assumes "ComputeCharge s cpu ram storage egress ingress = Inr c"
  shows "charge_is_exact s cpu ram storage egress ingress c"
  using ComputeCharge_ok [of egress ingress s cpu ram storage] ComputeCharge_Inr_fits [OF assms] assms
  by simp

text \<open>
  C12. The charge computation is exact: it returns a charge exactly when the traffic sum and
  the unbounded total both fit in 64 bits, and then every component and the total have the
  unbounded value of the formula. In every other case it reports the overflow; it never
  returns a wrapped amount.
\<close>

theorem ComputeCharge_exact:
  "case ComputeCharge s cpu ram storage egress ingress of
     Inr c \<Rightarrow> charge_is_exact s cpu ram storage egress ingress c
   | Inl e \<Rightarrow> e = ErrChargeOverflow \<and>
       (2 ^ 64 \<le> unat egress + unat ingress \<or> 2 ^ 64 \<le> exact_total s cpu ram storage egress ingress)"
proof (cases "ComputeCharge s cpu ram storage egress ingress")
  case (Inl e)
  then have "\<not> (unat egress + unat ingress < 2 ^ 64
      \<and> exact_total s cpu ram storage egress ingress < 2 ^ 64)"
    using ComputeCharge_ok [of egress ingress s cpu ram storage] by auto
  then show ?thesis using Inl by (cases e) auto
next
  case (Inr c)
  with ComputeCharge_Inr_exact [OF Inr] show ?thesis by simp
qed

end
