(* ===== verification/Byte_Codec.thy ===== *)
theory Byte_Codec
  imports Prelude
begin

text \<open>
  Byte encodings. \<^verbatim>\<open>metering/signing.go\<close> writes its canonical signed bytes with
  \<^verbatim>\<open>appendU32\<close>, \<^verbatim>\<open>appendU64\<close> and \<^verbatim>\<open>appendU32Prefixed\<close>; this theory models the
  three and states their common contract as a locale: a decoder that, given an encoding
  followed by anything, returns the value and the rest. Two encodings that satisfy it can be
  concatenated without ambiguity.
\<close>

unbundle bit_operations_syntax

type_synonym bytes = "byte list"

definition bytes_of :: "string \<Rightarrow> bytes" where
  "bytes_of s = map (\<lambda>c. word_of_nat (of_char c)) s"

definition put_u32 :: "u32 \<Rightarrow> bytes" where
  "put_u32 v = [ucast (drop_bit 24 v), ucast (drop_bit 16 v), ucast (drop_bit 8 v), ucast v]"

definition put_u64 :: "u64 \<Rightarrow> bytes" where
  "put_u64 v =
     [ucast (drop_bit 56 v), ucast (drop_bit 48 v), ucast (drop_bit 40 v), ucast (drop_bit 32 v),
      ucast (drop_bit 24 v), ucast (drop_bit 16 v), ucast (drop_bit 8 v), ucast v]"

definition appendU32 :: "bytes \<Rightarrow> u32 \<Rightarrow> bytes" where
  "appendU32 dst v = dst @ put_u32 v"

definition appendU64 :: "bytes \<Rightarrow> u64 \<Rightarrow> bytes" where
  "appendU64 dst v = dst @ put_u64 v"

definition appendU32Prefixed :: "bytes \<Rightarrow> bytes \<Rightarrow> bytes" where
  "appendU32Prefixed dst v = appendU32 dst (word_of_nat (length v)) @ v"

section \<open>The contract of an encoding\<close>

locale codec =
  fixes enc :: "'a \<Rightarrow> bytes"
    and dec :: "bytes \<Rightarrow> ('a \<times> bytes) option"
    and encodable :: "'a \<Rightarrow> bool"
  assumes dec_enc: "encodable x \<Longrightarrow> dec (enc x @ rest) = Some (x, rest)"
begin

lemma enc_append_inject:
  assumes "encodable x" and "encodable y"
  shows "enc x @ r = enc y @ r' \<longleftrightarrow> x = y \<and> r = r'"
proof
  assume eq: "enc x @ r = enc y @ r'"
  have "Some (x, r) = dec (enc x @ r)" by (simp add: dec_enc assms(1))
  also have "\<dots> = Some (y, r')" by (simp add: eq dec_enc assms(2))
  finally show "x = y \<and> r = r'" by simp
qed simp

lemma enc_inject: "encodable x \<Longrightarrow> encodable y \<Longrightarrow> enc x = enc y \<longleftrightarrow> x = y"
  using enc_append_inject [of x y "[]" "[]"] by simp

end

section \<open>Big-endian words\<close>

definition lane :: "nat \<Rightarrow> 'a::len word \<Rightarrow> byte" where
  "lane k v = ucast (drop_bit k v)"

lemma bit_lane:
  "bit (push_bit k (ucast (lane k (v :: 'a word))) :: 'a::len word) n \<longleftrightarrow> k \<le> n \<and> n < k + 8 \<and> bit v n"
  using bit_imp_le_length [of v n] by (auto simp: lane_def bit_simps)

lemmas join_lanes = bit_or_iff bit_lane len_num0 len_num1 len_bit0 len_bit1

definition get_u32 :: "bytes \<Rightarrow> (u32 \<times> bytes) option" where
  "get_u32 bs = (case bs of
     b0 # b1 # b2 # b3 # rest \<Rightarrow>
       Some (push_bit 24 (ucast b0) OR push_bit 16 (ucast b1) OR push_bit 8 (ucast b2)
             OR push_bit 0 (ucast b3), rest)
   | _ \<Rightarrow> None)"

definition get_u64 :: "bytes \<Rightarrow> (u64 \<times> bytes) option" where
  "get_u64 bs = (case bs of
     b0 # b1 # b2 # b3 # b4 # b5 # b6 # b7 # rest \<Rightarrow>
       Some (push_bit 56 (ucast b0) OR push_bit 48 (ucast b1) OR push_bit 40 (ucast b2)
             OR push_bit 32 (ucast b3) OR push_bit 24 (ucast b4) OR push_bit 16 (ucast b5)
             OR push_bit 8 (ucast b6) OR push_bit 0 (ucast b7), rest)
   | _ \<Rightarrow> None)"

lemma put_u32_lanes: "put_u32 v = [lane 24 v, lane 16 v, lane 8 v, lane 0 v]"
  by (simp add: put_u32_def lane_def)

lemma put_u64_lanes:
  "put_u64 v = [lane 56 v, lane 48 v, lane 40 v, lane 32 v, lane 24 v, lane 16 v, lane 8 v, lane 0 v]"
  by (simp add: put_u64_def lane_def)

lemma lanes_u32:
  "push_bit 24 (ucast (lane 24 v)) OR push_bit 16 (ucast (lane 16 v)) OR push_bit 8 (ucast (lane 8 v))
     OR push_bit 0 (ucast (lane 0 v)) = (v :: u32)"
  by (rule bit_word_eqI) (auto simp only: join_lanes)

lemma lanes_u64:
  "push_bit 56 (ucast (lane 56 v)) OR push_bit 48 (ucast (lane 48 v)) OR push_bit 40 (ucast (lane 40 v))
     OR push_bit 32 (ucast (lane 32 v)) OR push_bit 24 (ucast (lane 24 v)) OR push_bit 16 (ucast (lane 16 v))
     OR push_bit 8 (ucast (lane 8 v)) OR push_bit 0 (ucast (lane 0 v)) = (v :: u64)"
  by (rule bit_word_eqI) (auto simp only: join_lanes)

interpretation u32be: codec put_u32 get_u32 "\<lambda>_. True"
  by unfold_locales (simp only: put_u32_lanes get_u32_def append_Cons append_Nil list.case lanes_u32)

interpretation u64be: codec put_u64 get_u64 "\<lambda>_. True"
  by unfold_locales (simp only: put_u64_lanes get_u64_def append_Cons append_Nil list.case lanes_u64)

section \<open>Length-prefixed byte strings\<close>

definition put_prefixed :: "bytes \<Rightarrow> bytes" where
  "put_prefixed v = put_u32 (word_of_nat (length v)) @ v"

definition get_prefixed :: "bytes \<Rightarrow> (bytes \<times> bytes) option" where
  "get_prefixed bs = (case get_u32 bs of
     None \<Rightarrow> None
   | Some (n, rest) \<Rightarrow>
       if length rest < unat n then None else Some (take (unat n) rest, drop (unat n) rest))"

definition prefixable :: "bytes \<Rightarrow> bool" where
  "prefixable v \<longleftrightarrow> length v < 2 ^ 32"

lemma appendU32Prefixed_eq: "appendU32Prefixed dst v = dst @ put_prefixed v"
  by (simp add: appendU32Prefixed_def appendU32_def put_prefixed_def)

interpretation pre: codec put_prefixed get_prefixed prefixable
proof
  fix v rest :: bytes
  assume "prefixable v"
  then have "unat (word_of_nat (length v) :: u32) = length v"
    by (simp add: prefixable_def unat_of_nat)
  then show "get_prefixed (put_prefixed v @ rest) = Some (v, rest)"
    by (simp add: get_prefixed_def put_prefixed_def u32be.dec_enc)
qed

lemma bytes_of_inject: "bytes_of s = bytes_of t \<longleftrightarrow> s = t"
proof -
  have "char_of (unat (word_of_nat (of_char c) :: byte)) = c" for c
    by (simp add: unat_of_nat)
  then have "inj (\<lambda>c. word_of_nat (of_char c) :: byte)"
    by (metis injI)
  then show ?thesis by (simp add: bytes_of_def inj_map_eq_map)
qed

lemma length_bytes_of [simp]: "length (bytes_of s) = length s"
  by (simp add: bytes_of_def)

lemmas append_codecs = appendU32_def appendU64_def appendU32Prefixed_eq

end
