(* ===== verification/Metering_Signing.thy ===== *)
theory Metering_Signing
  imports Byte_Codec
begin

text \<open>
  \<^verbatim>\<open>control-plane/internal/metering/signing.go\<close>: the canonical bytes of a metering
  summary, its evidence hash and the signature check. SHA-256 and Ed25519 are parameters
  (\<open>sha256\<close>, \<open>ed25519_verify\<close>). The theory proves that the canonical bytes determine the
  summary, so a signature over them covers every field.
\<close>

record MeteringSummary =
  WorkloadId :: string
  LeaseId :: string
  Sequence :: u64
  PeriodStart :: u64
  PeriodEnd :: u64
  MeteringSchemaVersion :: u32
  CpuCoreSeconds :: u64
  RamMbSeconds :: u64
  StorageGbSeconds :: u64
  NetworkEgressMb :: u64
  NetworkIngressMb :: u64
  GpuSeconds :: u64

definition meteringDomain :: bytes where
  "meteringDomain = bytes_of ''openinfra-metering-v1'' @ [0]"

definition signedBytes :: "MeteringSummary \<Rightarrow> bytes" where
  "signedBytes summary =
     (let workloadID = bytes_of (WorkloadId summary);
          leaseID = bytes_of (LeaseId summary);
          buf = meteringDomain;
          buf = appendU32Prefixed buf workloadID;
          buf = appendU32Prefixed buf leaseID;
          buf = appendU64 buf (Sequence summary);
          buf = appendU64 buf (PeriodStart summary);
          buf = appendU64 buf (PeriodEnd summary);
          buf = appendU32 buf (MeteringSchemaVersion summary);
          buf = appendU64 buf (CpuCoreSeconds summary);
          buf = appendU64 buf (RamMbSeconds summary);
          buf = appendU64 buf (StorageGbSeconds summary);
          buf = appendU64 buf (NetworkEgressMb summary);
          buf = appendU64 buf (NetworkIngressMb summary);
          buf = appendU64 buf (GpuSeconds summary)
      in buf)"

definition evidenceHash :: "(bytes \<Rightarrow> bytes) \<Rightarrow> bytes \<Rightarrow> bytes" where
  "evidenceHash sha256 buf = sha256 buf"

definition verifySignature ::
  "(bytes \<Rightarrow> bytes \<Rightarrow> bytes \<Rightarrow> bool) \<Rightarrow> bytes \<Rightarrow> MeteringSummary \<Rightarrow> bytes \<Rightarrow> bool" where
  "verifySignature ed25519_verify publicKey summary signature =
     (if length publicKey \<noteq> 32 \<or> length signature \<noteq> 64 then False
      else ed25519_verify publicKey (signedBytes summary) signature)"

definition ids_encodable :: "MeteringSummary \<Rightarrow> bool" where
  "ids_encodable s \<longleftrightarrow> length (WorkloadId s) < 2 ^ 32 \<and> length (LeaseId s) < 2 ^ 32"

lemma ids_prefixable:
  "ids_encodable s \<Longrightarrow> prefixable (bytes_of (WorkloadId s)) \<and> prefixable (bytes_of (LeaseId s))"
  by (simp add: ids_encodable_def prefixable_def)

text \<open>
  C13. The canonical encoding is unambiguous: two summaries whose identifiers are shorter
  than 4 GiB and that have the same signed bytes are the same summary, so no field of an
  accepted summary can be changed without changing what the signature covers.
\<close>

theorem signedBytes_inject:
  assumes "ids_encodable s" and "ids_encodable t" and "signedBytes s = signedBytes t"
  shows "s = t"
proof -
  note pre = ids_prefixable [OF assms(1)] ids_prefixable [OF assms(2)]
  from assms(3) pre show ?thesis
    by (simp add: signedBytes_def Let_def append_codecs pre.enc_append_inject
        u32be.enc_append_inject u64be.enc_append_inject u64be.enc_inject bytes_of_inject
        append_assoc)
qed

definition sample_summary :: MeteringSummary where
  "sample_summary = \<lparr>WorkloadId = ''w1'', LeaseId = ''7'', Sequence = 3, PeriodStart = 100,
     PeriodEnd = 160, MeteringSchemaVersion = 1, CpuCoreSeconds = 60, RamMbSeconds = 30720,
     StorageGbSeconds = 600, NetworkEgressMb = 5, NetworkIngressMb = 2, GpuSeconds = 0\<rparr>"

theorem signedBytes_inject_witness:
  "ids_encodable sample_summary \<and> sample_summary = sample_summary\<lparr>Sequence := 1 + 2\<rparr> \<and>
   signedBytes sample_summary \<noteq> signedBytes (sample_summary\<lparr>Sequence := 4\<rparr>)"
proof (intro conjI)
  show enc: "ids_encodable sample_summary" by (simp add: ids_encodable_def sample_summary_def)
  show "sample_summary = sample_summary\<lparr>Sequence := 1 + 2\<rparr>"
    by (rule signedBytes_inject) (simp_all add: ids_encodable_def sample_summary_def)
  have "ids_encodable (sample_summary\<lparr>Sequence := 4\<rparr>)"
    by (simp add: ids_encodable_def sample_summary_def)
  then show "signedBytes sample_summary \<noteq> signedBytes (sample_summary\<lparr>Sequence := 4\<rparr>)"
    using signedBytes_inject [OF enc, of "sample_summary\<lparr>Sequence := 4\<rparr>"] by (auto simp: sample_summary_def)
qed

end
