(* ===== verification/Metering_Ledger.thy ===== *)
theory Metering_Ledger
  imports Metering_Price Metering_Signing
begin

text \<open>
  The durable half of \<^verbatim>\<open>control-plane/internal/metering\<close>: the repository interface of
  \<^verbatim>\<open>service.go\<close>, its data types, and the PostgreSQL implementation of
  \<^verbatim>\<open>postgres.go\<close> over the tables of migration 000016. A table is a list of rows in
  insertion order; a transaction is one step that either commits or leaves the ledger as it
  was. The \<^verbatim>\<open>CHECK\<close>, \<^verbatim>\<open>UNIQUE\<close>, primary-key and foreign-key constraints of the
  migration are tests of the model. The identifiers \<^verbatim>\<open>uuid.NewString()\<close> draws and the
  outcome of each database round trip are inputs.
\<close>

section \<open>Service data\<close>

datatype Outcome =
    OutcomeAccepted | OutcomeDuplicate | OutcomeConflictingEvidence | OutcomeOutOfOrder
  | OutcomeInvalidSignature | OutcomeClockSkew | OutcomeBoundsViolation
  | OutcomeUnknownSchemaVersion | OutcomeUnknownPriceVersion | OutcomeChargeOverflow
  | OutcomeUnknownProvider | OutcomeUnknownWorkload | OutcomeWorkloadProviderMismatch
  | OutcomeLeaseMismatch

fun Outcome_String :: "Outcome \<Rightarrow> string" where
  "Outcome_String OutcomeAccepted = ''accepted''"
| "Outcome_String OutcomeDuplicate = ''duplicate''"
| "Outcome_String OutcomeConflictingEvidence = ''conflicting_evidence''"
| "Outcome_String OutcomeOutOfOrder = ''out_of_order''"
| "Outcome_String OutcomeInvalidSignature = ''invalid_signature''"
| "Outcome_String OutcomeClockSkew = ''clock_skew''"
| "Outcome_String OutcomeBoundsViolation = ''bounds_violation''"
| "Outcome_String OutcomeUnknownSchemaVersion = ''unknown_schema_version''"
| "Outcome_String OutcomeUnknownPriceVersion = ''unknown_price_version''"
| "Outcome_String OutcomeChargeOverflow = ''charge_overflow''"
| "Outcome_String OutcomeUnknownProvider = ''unknown_provider''"
| "Outcome_String OutcomeUnknownWorkload = ''unknown_workload''"
| "Outcome_String OutcomeWorkloadProviderMismatch = ''workload_provider_mismatch''"
| "Outcome_String OutcomeLeaseMismatch = ''lease_mismatch''"

record MeteringResult =
  res_Outcome :: Outcome
  res_EvidenceID :: string
  res_InvoiceLineID :: string
  res_TotalAmount :: u64

record WorkloadRef =
  ref_ProviderID :: string
  ref_LeaseID :: int
  ref_ConsumerID :: "string option"

record AcceptRequest =
  req_ProviderID :: string
  req_WorkloadID :: string
  req_LeaseID :: int
  req_ConsumerID :: "string option"
  req_Sequence :: u64
  req_PeriodStart :: int
  req_PeriodEnd :: int
  req_SchemaVersion :: u32
  req_CPUCoreSeconds :: u64
  req_RAMMBSeconds :: u64
  req_StorageGBSeconds :: u64
  req_NetworkEgressMB :: u64
  req_NetworkIngressMB :: u64
  req_GPUSeconds :: u64
  req_Signature :: bytes
  req_EvidenceHash :: bytes
  req_PriceVersion :: u32
  req_Charge :: Charge

record Rejection =
  rej_ProviderID :: string
  rej_WorkloadID :: "string option"
  rej_Sequence :: "u64 option"
  rej_Reason :: string
  rej_EvidenceHash :: "bytes option"

datatype DisputeStatus = DisputeStatusOpen | DisputeStatusResolvedPayProvider | DisputeStatusResolvedRefundPayer

record Dispute =
  DisputeID :: string
  InvoiceLineID :: string
  RaisedBy :: string
  Reason :: string
  Status :: DisputeStatus
  RaisedAt :: int

datatype repo_error =
    ErrProviderNotFound | ErrWorkloadNotFound | ErrBigintRange | ErrNoRows | ErrDatabase
  | ErrInvoiceLineNotFound | ErrInvalidDisputeParty | ErrEmptyDisputeReason

section \<open>Tables\<close>

record evidence_row =
  ev_evidence_id :: string
  ev_provider_id :: string
  ev_workload_id :: string
  ev_lease_id :: int
  ev_sequence :: int
  ev_period_start :: int
  ev_period_end :: int
  ev_schema_version :: int
  ev_cpu_core_seconds :: int
  ev_ram_mb_seconds :: int
  ev_storage_gb_seconds :: int
  ev_network_egress_mb :: int
  ev_network_ingress_mb :: int
  ev_gpu_seconds :: int
  ev_signature :: bytes
  ev_evidence_hash :: bytes

record invoice_row =
  il_invoice_line_id :: string
  il_evidence_id :: string
  il_provider_id :: string
  il_consumer_id :: "string option"
  il_workload_id :: string
  il_lease_id :: int
  il_price_version :: int
  il_cpu_amount :: int
  il_ram_amount :: int
  il_storage_amount :: int
  il_network_amount :: int
  il_total_amount :: int
  il_evidence_hash :: bytes
  il_supersedes :: "string option"

record rejection_row =
  rr_provider_id :: string
  rr_workload_id :: "string option"
  rr_sequence :: "int option"
  rr_reason :: string
  rr_evidence_hash :: "bytes option"

record ledger =
  providers :: "string \<Rightarrow> bytes option"
  workloads :: "string \<Rightarrow> (string option \<times> int option \<times> string option) option"
  users :: "string list"
  cursors :: "string \<times> string \<Rightarrow> int option"
  evidence :: "evidence_row list"
  invoice_lines :: "invoice_row list"
  rejections :: "rejection_row list"
  disputes :: "Dispute list"

definition int64_of :: "u64 \<Rightarrow> int" where
  "int64_of x = sint x"

definition int32_of :: "u32 \<Rightarrow> int" where
  "int32_of x = sint x"

section \<open>The PostgreSQL repository\<close>

definition ProviderPublicKey :: "db_call \<Rightarrow> ledger \<Rightarrow> string \<Rightarrow> repo_error + bytes" where
  "ProviderPublicKey c l providerID =
     (if \<not> db_up c then Inl ErrDatabase
      else case providers l providerID of None \<Rightarrow> Inl ErrProviderNotFound | Some k \<Rightarrow> Inr k)"

definition Workload :: "db_call \<Rightarrow> ledger \<Rightarrow> string \<Rightarrow> repo_error + WorkloadRef" where
  "Workload c l workloadID =
     (if \<not> db_up c then Inl ErrDatabase
      else case uuid_parse c workloadID of
        None \<Rightarrow> Inl ErrDatabase
      | Some w \<Rightarrow>
          (case workloads l w of
             None \<Rightarrow> Inl ErrWorkloadNotFound
           | Some (providerID, leaseID, consumerID) \<Rightarrow>
               Inr \<lparr>ref_ProviderID = (case providerID of None \<Rightarrow> '''' | Some p \<Rightarrow> p),
                    ref_LeaseID = (case leaseID of None \<Rightarrow> 0 | Some i \<Rightarrow> i),
                    ref_ConsumerID = consumerID\<rparr>))"

definition checkBigintRange :: "AcceptRequest \<Rightarrow> bool" where
  "checkBigintRange r \<longleftrightarrow>
     (\<forall>v \<in> set [req_Sequence r, req_CPUCoreSeconds r, req_RAMMBSeconds r, req_StorageGBSeconds r,
        req_NetworkEgressMB r, req_NetworkIngressMB r, req_GPUSeconds r,
        CPUAmount (req_Charge r), RAMAmount (req_Charge r), StorageAmount (req_Charge r),
        NetworkAmount (req_Charge r), TotalAmount (req_Charge r)].
      \<not> v > 9223372036854775807)"

definition find_evidence :: "ledger \<Rightarrow> string \<Rightarrow> string \<Rightarrow> int \<Rightarrow> evidence_row option" where
  "find_evidence l p w n =
     find (\<lambda>e. ev_provider_id e = p \<and> ev_workload_id e = w \<and> ev_sequence e = n) (evidence l)"

definition find_original_line :: "ledger \<Rightarrow> string \<Rightarrow> invoice_row option" where
  "find_original_line l evidenceID =
     find (\<lambda>i. il_evidence_id i = evidenceID \<and> il_supersedes i = None) (invoice_lines l)"

definition classifyStaleSequence ::
  "ledger \<Rightarrow> string \<Rightarrow> AcceptRequest \<Rightarrow> repo_error + MeteringResult" where
  "classifyStaleSequence l w r =
     (case find_evidence l (req_ProviderID r) w (int64_of (req_Sequence r)) of
        None \<Rightarrow> Inr \<lparr>res_Outcome = OutcomeOutOfOrder, res_EvidenceID = '''',
                     res_InvoiceLineID = '''', res_TotalAmount = 0\<rparr>
      | Some e \<Rightarrow>
          if ev_evidence_hash e \<noteq> req_EvidenceHash r
          then Inr \<lparr>res_Outcome = OutcomeConflictingEvidence, res_EvidenceID = ev_evidence_id e,
                    res_InvoiceLineID = '''', res_TotalAmount = 0\<rparr>
          else (case find_original_line l (ev_evidence_id e) of
                  None \<Rightarrow> Inl ErrNoRows
                | Some i \<Rightarrow> Inr \<lparr>res_Outcome = OutcomeDuplicate, res_EvidenceID = ev_evidence_id e,
                             res_InvoiceLineID = il_invoice_line_id i,
                             res_TotalAmount = word_of_int (il_total_amount i)\<rparr>))"

definition evidence_of :: "string \<Rightarrow> string \<Rightarrow> AcceptRequest \<Rightarrow> evidence_row" where
  "evidence_of evidenceID w r =
     \<lparr>ev_evidence_id = evidenceID, ev_provider_id = req_ProviderID r, ev_workload_id = w,
      ev_lease_id = req_LeaseID r, ev_sequence = int64_of (req_Sequence r),
      ev_period_start = req_PeriodStart r, ev_period_end = req_PeriodEnd r,
      ev_schema_version = int32_of (req_SchemaVersion r),
      ev_cpu_core_seconds = int64_of (req_CPUCoreSeconds r),
      ev_ram_mb_seconds = int64_of (req_RAMMBSeconds r),
      ev_storage_gb_seconds = int64_of (req_StorageGBSeconds r),
      ev_network_egress_mb = int64_of (req_NetworkEgressMB r),
      ev_network_ingress_mb = int64_of (req_NetworkIngressMB r),
      ev_gpu_seconds = int64_of (req_GPUSeconds r),
      ev_signature = req_Signature r, ev_evidence_hash = req_EvidenceHash r\<rparr>"

definition invoice_of :: "string \<Rightarrow> string \<Rightarrow> string \<Rightarrow> AcceptRequest \<Rightarrow> invoice_row" where
  "invoice_of invoiceLineID evidenceID w r =
     \<lparr>il_invoice_line_id = invoiceLineID, il_evidence_id = evidenceID,
      il_provider_id = req_ProviderID r, il_consumer_id = req_ConsumerID r, il_workload_id = w,
      il_lease_id = req_LeaseID r, il_price_version = int32_of (req_PriceVersion r),
      il_cpu_amount = int64_of (CPUAmount (req_Charge r)),
      il_ram_amount = int64_of (RAMAmount (req_Charge r)),
      il_storage_amount = int64_of (StorageAmount (req_Charge r)),
      il_network_amount = int64_of (NetworkAmount (req_Charge r)),
      il_total_amount = int64_of (TotalAmount (req_Charge r)),
      il_evidence_hash = req_EvidenceHash r, il_supersedes = None\<rparr>"

text \<open>The constraints of \<^verbatim>\<open>metering_evidence\<close> and \<^verbatim>\<open>invoice_lines\<close> in migration 000016.\<close>

definition evidence_insertable :: "ledger \<Rightarrow> evidence_row \<Rightarrow> bool" where
  "evidence_insertable l e \<longleftrightarrow>
     (\<forall>x \<in> set (evidence l). ev_evidence_id x \<noteq> ev_evidence_id e) \<and>
     (\<forall>x \<in> set (evidence l). \<not> (ev_provider_id x = ev_provider_id e \<and>
        ev_workload_id x = ev_workload_id e \<and> ev_sequence x = ev_sequence e)) \<and>
     providers l (ev_provider_id e) \<noteq> None \<and> workloads l (ev_workload_id e) \<noteq> None \<and>
     0 \<le> ev_lease_id e \<and> 0 < ev_sequence e \<and> ev_period_start e \<le> ev_period_end e \<and>
     0 < ev_schema_version e \<and> 0 \<le> ev_cpu_core_seconds e \<and> 0 \<le> ev_ram_mb_seconds e \<and>
     0 \<le> ev_storage_gb_seconds e \<and> 0 \<le> ev_network_egress_mb e \<and> 0 \<le> ev_network_ingress_mb e \<and>
     0 \<le> ev_gpu_seconds e \<and> length (ev_signature e) = 64 \<and> length (ev_evidence_hash e) = 32"

definition invoice_insertable :: "ledger \<Rightarrow> invoice_row \<Rightarrow> bool" where
  "invoice_insertable l i \<longleftrightarrow>
     (\<forall>x \<in> set (invoice_lines l). il_invoice_line_id x \<noteq> il_invoice_line_id i) \<and>
     (\<forall>x \<in> set (invoice_lines l).
        \<not> (il_evidence_id x = il_evidence_id i \<and> il_supersedes x = None \<and> il_supersedes i = None)) \<and>
     (\<exists>e \<in> set (evidence l). ev_evidence_id e = il_evidence_id i) \<and>
     providers l (il_provider_id i) \<noteq> None \<and> workloads l (il_workload_id i) \<noteq> None \<and>
     (case il_consumer_id i of None \<Rightarrow> True | Some u \<Rightarrow> u \<in> set (users l)) \<and>
     0 \<le> il_lease_id i \<and> 0 < il_price_version i \<and> 0 \<le> il_cpu_amount i \<and> 0 \<le> il_ram_amount i \<and>
     0 \<le> il_storage_amount i \<and> 0 \<le> il_network_amount i \<and> 0 \<le> il_total_amount i \<and>
     length (il_evidence_hash i) = 32"

text \<open>The branch of \<^verbatim>\<open>AcceptEvidence\<close> that advances the cursor and inserts both rows.\<close>

definition acceptFresh ::
  "db_call \<Rightarrow> ledger \<Rightarrow> string \<Rightarrow> AcceptRequest \<Rightarrow> (repo_error + MeteringResult) \<times> ledger" where
  "acceptFresh c l w r =
     (let advanced = l\<lparr>cursors := (cursors l)((req_ProviderID r, w) \<mapsto> int64_of (req_Sequence r))\<rparr>;
          e = evidence_of (fresh1 c) w r;
          recorded = advanced\<lparr>evidence := evidence l @ [e]\<rparr>;
          i = invoice_of (fresh2 c) (fresh1 c) w r in
      if \<not> evidence_insertable advanced e then (Inl ErrDatabase, l)
      else if \<not> invoice_insertable recorded i then (Inl ErrDatabase, l)
      else (Inr \<lparr>res_Outcome = OutcomeAccepted, res_EvidenceID = fresh1 c,
                 res_InvoiceLineID = fresh2 c, res_TotalAmount = TotalAmount (req_Charge r)\<rparr>,
            recorded\<lparr>invoice_lines := invoice_lines l @ [i]\<rparr>))"

definition AcceptEvidence ::
  "db_call \<Rightarrow> ledger \<Rightarrow> AcceptRequest \<Rightarrow> (repo_error + MeteringResult) \<times> ledger" where
  "AcceptEvidence c l r =
     (if \<not> checkBigintRange r then (Inl ErrBigintRange, l)
      else if \<not> db_up c then (Inl ErrDatabase, l)
      else case uuid_parse c (req_WorkloadID r) of
        None \<Rightarrow> (Inl ErrDatabase, l)
      | Some w \<Rightarrow>
          let key = (req_ProviderID r, w) in
          if cursors l key = None \<and> (providers l (req_ProviderID r) = None \<or> workloads l w = None)
          then (Inl ErrDatabase, l)
          else
            let lastSequence = (case cursors l key of None \<Rightarrow> 0 | Some n \<Rightarrow> n);
                opened = l\<lparr>cursors := (cursors l)(key \<mapsto> lastSequence)\<rparr> in
            if int64_of (req_Sequence r) \<le> lastSequence
            then (case classifyStaleSequence opened w r of
                    Inl e \<Rightarrow> (Inl e, l)
                  | Inr result \<Rightarrow> (Inr result, opened))
            else acceptFresh c l w r)"

definition RecordRejection ::
  "db_call \<Rightarrow> ledger \<Rightarrow> Rejection \<Rightarrow> (repo_error + unit) \<times> ledger" where
  "RecordRejection c l r =
     (if \<not> db_up c then (Inl ErrDatabase, l)
      else let row = (\<lambda>w. \<lparr>rr_provider_id = rej_ProviderID r, rr_workload_id = w,
                      rr_sequence = map_option int64_of (rej_Sequence r),
                      rr_reason = rej_Reason r, rr_evidence_hash = rej_EvidenceHash r\<rparr>)
           in case rej_WorkloadID r of
                None \<Rightarrow> (Inr (), l\<lparr>rejections := rejections l @ [row None]\<rparr>)
              | Some text \<Rightarrow>
                  (case uuid_parse c text of
                     None \<Rightarrow> (Inl ErrDatabase, l)
                   | Some w \<Rightarrow> (Inr (), l\<lparr>rejections := rejections l @ [row (Some w)]\<rparr>)))"

definition InvoiceLineExists :: "db_call \<Rightarrow> ledger \<Rightarrow> string \<Rightarrow> repo_error + bool" where
  "InvoiceLineExists c l invoiceLineID =
     (if \<not> db_up c then Inl ErrDatabase
      else case uuid_parse c invoiceLineID of
        None \<Rightarrow> Inl ErrDatabase
      | Some i \<Rightarrow> Inr (\<exists>x \<in> set (invoice_lines l). il_invoice_line_id x = i))"

definition InsertDispute ::
  "db_call \<Rightarrow> ledger \<Rightarrow> Dispute \<Rightarrow> (repo_error + Dispute) \<times> ledger" where
  "InsertDispute c l d =
     (if \<not> db_up c then (Inl ErrDatabase, l)
      else case uuid_parse c (InvoiceLineID d) of
        None \<Rightarrow> (Inl ErrDatabase, l)
      | Some i \<Rightarrow>
          let d' = d\<lparr>DisputeID := fresh1 c, RaisedAt := db_now c\<rparr>;
              row = d'\<lparr>InvoiceLineID := i\<rparr> in
          if (\<exists>x \<in> set (disputes l). DisputeID x = DisputeID row) \<or>
             (\<forall>x \<in> set (invoice_lines l). il_invoice_line_id x \<noteq> i) \<or>
             RaisedBy d \<notin> {''payer'', ''provider'', ''operator''} \<or>
             length (Reason d) < 1 \<or> 2000 < length (Reason d)
          then (Inl ErrDatabase, l)
          else (Inr d', l\<lparr>disputes := disputes l @ [row]\<rparr>))"

definition GetDispute :: "db_call \<Rightarrow> ledger \<Rightarrow> string \<Rightarrow> repo_error + Dispute" where
  "GetDispute c l disputeID =
     (if \<not> db_up c then Inl ErrDatabase
      else case uuid_parse c disputeID of
        None \<Rightarrow> Inl ErrDatabase
      | Some i \<Rightarrow> (case find (\<lambda>d. DisputeID d = i) (disputes l) of
                    None \<Rightarrow> Inl ErrNoRows | Some d \<Rightarrow> Inr d))"

definition ListDisputesForInvoiceLine ::
  "db_call \<Rightarrow> ledger \<Rightarrow> string \<Rightarrow> repo_error + Dispute list" where
  "ListDisputesForInvoiceLine c l invoiceLineID =
     (if \<not> db_up c then Inl ErrDatabase
      else case uuid_parse c invoiceLineID of
        None \<Rightarrow> Inl ErrDatabase
      | Some i \<Rightarrow> Inr (sort_key RaisedAt (filter (\<lambda>d. InvoiceLineID d = i) (disputes l))))"

section \<open>The repository interface\<close>

record 's Repository =
  repo_ProviderPublicKey :: "'s \<Rightarrow> string \<Rightarrow> repo_error + bytes"
  repo_Workload :: "'s \<Rightarrow> string \<Rightarrow> repo_error + WorkloadRef"
  repo_AcceptEvidence :: "'s \<Rightarrow> AcceptRequest \<Rightarrow> (repo_error + MeteringResult) \<times> 's"
  repo_RecordRejection :: "'s \<Rightarrow> Rejection \<Rightarrow> (repo_error + unit) \<times> 's"
  repo_InsertDispute :: "'s \<Rightarrow> Dispute \<Rightarrow> (repo_error + Dispute) \<times> 's"
  repo_GetDispute :: "'s \<Rightarrow> string \<Rightarrow> repo_error + Dispute"
  repo_ListDisputesForInvoiceLine :: "'s \<Rightarrow> string \<Rightarrow> repo_error + Dispute list"
  repo_InvoiceLineExists :: "'s \<Rightarrow> string \<Rightarrow> repo_error + bool"

type_synonym submission_key = "string \<times> string \<times> int"

text \<open>
  The contract the service relies on. \<open>billed\<close> is what has been charged for, one entry per
  invoice line with the submission it bills, and \<open>refused\<close> the audit trail of rejections.
\<close>

locale metering_repository =
  fixes repo :: "'s Repository"
    and inv :: "'s \<Rightarrow> bool"
    and billed :: "'s \<Rightarrow> (submission_key \<times> invoice_row) list"
    and refused :: "'s \<Rightarrow> rejection_row list"
  assumes accept_inv: "inv s \<Longrightarrow> repo_AcceptEvidence repo s r = (res, s') \<Longrightarrow> inv s'"
    and accept_error: "repo_AcceptEvidence repo s r = (Inl e, s') \<Longrightarrow> s' = s"
    and accept_refused: "repo_AcceptEvidence repo s r = (res, s') \<Longrightarrow> refused s' = refused s"
    and accept_accepted: "inv s \<Longrightarrow> repo_AcceptEvidence repo s r = (Inr result, s') \<Longrightarrow>
      res_Outcome result = OutcomeAccepted \<Longrightarrow>
      \<exists>p w i. billed s' = billed s @ [((p, w, int64_of (req_Sequence r)), i)] \<and>
        p = req_ProviderID r \<and> il_invoice_line_id i = res_InvoiceLineID result \<and>
        il_total_amount i = int64_of (TotalAmount (req_Charge r)) \<and>
        il_evidence_hash i = req_EvidenceHash r"
    and accept_stale: "repo_AcceptEvidence repo s r = (Inr result, s') \<Longrightarrow>
      res_Outcome result \<noteq> OutcomeAccepted \<Longrightarrow> billed s' = billed s \<and>
      res_Outcome result \<in> {OutcomeDuplicate, OutcomeConflictingEvidence, OutcomeOutOfOrder}"
    and reject_inv: "inv s \<Longrightarrow> repo_RecordRejection repo s j = (rej, s') \<Longrightarrow> inv s'"
    and reject_error: "repo_RecordRejection repo s j = (Inl e, s') \<Longrightarrow> s' = s"
    and reject_ok: "repo_RecordRejection repo s j = (Inr u, s') \<Longrightarrow>
      billed s' = billed s \<and> (\<exists>row. refused s' = refused s @ [row] \<and> rr_reason row = rej_Reason j
        \<and> rr_provider_id row = rej_ProviderID j)"
    and billed_once: "inv s \<Longrightarrow> distinct (map fst (billed s))"
begin

lemma accept_nothing_billed:
  assumes "repo_AcceptEvidence repo s r = (res, s')"
    and "\<And>result. res = Inr result \<Longrightarrow> res_Outcome result \<noteq> OutcomeAccepted"
  shows "billed s' = billed s"
proof (cases res)
  case (Inl e)
  with assms(1) accept_error show ?thesis by blast
next
  case (Inr result)
  with assms accept_stale show ?thesis by blast
qed

end

section \<open>The PostgreSQL repository meets it\<close>

definition evidence_key :: "evidence_row \<Rightarrow> submission_key" where
  "evidence_key e = (ev_provider_id e, ev_workload_id e, ev_sequence e)"

definition billing :: "ledger \<Rightarrow> (submission_key \<times> invoice_row) list" where
  "billing l = zip (map evidence_key (evidence l)) (invoice_lines l)"

definition line_of_evidence :: "evidence_row \<Rightarrow> invoice_row \<Rightarrow> bool" where
  "line_of_evidence e i \<longleftrightarrow>
     il_evidence_id i = ev_evidence_id e \<and> il_provider_id i = ev_provider_id e \<and>
     il_workload_id i = ev_workload_id e \<and> il_lease_id i = ev_lease_id e \<and>
     il_evidence_hash i = ev_evidence_hash e \<and> il_supersedes i = None"

text \<open>
  The invariant of the ledger: submissions and identifiers are unique, evidence and invoice
  lines correspond one to one, and no evidence lies beyond its cursor.
\<close>

definition ledger_inv :: "ledger \<Rightarrow> bool" where
  "ledger_inv l \<longleftrightarrow>
     distinct (map ev_evidence_id (evidence l)) \<and>
     distinct (map evidence_key (evidence l)) \<and>
     distinct (map il_invoice_line_id (invoice_lines l)) \<and>
     list_all2 line_of_evidence (evidence l) (invoice_lines l) \<and>
     (\<forall>e \<in> set (evidence l). \<exists>n. cursors l (ev_provider_id e, ev_workload_id e) = Some n \<and>
        ev_sequence e \<le> n)"

text \<open>The three ways \<^verbatim>\<open>AcceptEvidence\<close> can end.\<close>

lemma AcceptEvidence_cases:
  assumes "AcceptEvidence c l r = (res, l')"
  obtains (failed) e where "res = Inl e" "l' = l"
  | (stale) w n result where "res = Inr result" "uuid_parse c (req_WorkloadID r) = Some w"
      "n = (case cursors l (req_ProviderID r, w) of None \<Rightarrow> 0 | Some m \<Rightarrow> m)"
      "int64_of (req_Sequence r) \<le> n"
      "l' = l\<lparr>cursors := (cursors l)((req_ProviderID r, w) \<mapsto> n)\<rparr>"
      "classifyStaleSequence l' w r = Inr result"
  | (accepted) w e i where "uuid_parse c (req_WorkloadID r) = Some w"
      "e = evidence_of (fresh1 c) w r" "i = invoice_of (fresh2 c) (fresh1 c) w r"
      "\<And>n. cursors l (req_ProviderID r, w) = Some n \<Longrightarrow> n < int64_of (req_Sequence r)"
      "checkBigintRange r"
      "evidence_insertable (l\<lparr>cursors := (cursors l)((req_ProviderID r, w) \<mapsto> int64_of (req_Sequence r))\<rparr>) e"
      "invoice_insertable (l\<lparr>cursors := (cursors l)((req_ProviderID r, w) \<mapsto> int64_of (req_Sequence r)),
         evidence := evidence l @ [e]\<rparr>) i"
      "l' = l\<lparr>cursors := (cursors l)((req_ProviderID r, w) \<mapsto> int64_of (req_Sequence r)),
         evidence := evidence l @ [e], invoice_lines := invoice_lines l @ [i]\<rparr>"
      "res = Inr \<lparr>res_Outcome = OutcomeAccepted, res_EvidenceID = fresh1 c,
         res_InvoiceLineID = fresh2 c, res_TotalAmount = TotalAmount (req_Charge r)\<rparr>"
proof (cases "checkBigintRange r \<and> db_up c \<and> uuid_parse c (req_WorkloadID r) \<noteq> None")
  case False
  then have "\<exists>e. AcceptEvidence c l r = (Inl e, l)"
    by (auto simp: AcceptEvidence_def)
  then show thesis using assms failed by auto
next
  case True
  then obtain w where w: "uuid_parse c (req_WorkloadID r) = Some w" by auto
  define n where "n = (case cursors l (req_ProviderID r, w) of None \<Rightarrow> 0 | Some m \<Rightarrow> m)"
  define opened where "opened = l\<lparr>cursors := (cursors l)((req_ProviderID r, w) \<mapsto> n)\<rparr>"
  let ?fk = "cursors l (req_ProviderID r, w) = None \<and>
    (providers l (req_ProviderID r) = None \<or> workloads l w = None)"
  have eq: "AcceptEvidence c l r =
    (if ?fk then (Inl ErrDatabase, l)
     else if int64_of (req_Sequence r) \<le> n
     then (case classifyStaleSequence opened w r of Inl e \<Rightarrow> (Inl e, l) | Inr result \<Rightarrow> (Inr result, opened))
     else acceptFresh c l w r)"
    unfolding AcceptEvidence_def n_def opened_def using True w by (auto simp: Let_def)
  consider (fk) ?fk | (old) "\<not> ?fk" "int64_of (req_Sequence r) \<le> n"
    | (new) "\<not> ?fk" "\<not> int64_of (req_Sequence r) \<le> n" by argo
  then show thesis
  proof cases
    case fk
    with eq have "AcceptEvidence c l r = (Inl ErrDatabase, l)" by simp
    with assms show thesis using failed [of ErrDatabase] by simp
  next
    case old
    then have eq': "AcceptEvidence c l r = (case classifyStaleSequence opened w r of
        Inl e \<Rightarrow> (Inl e, l) | Inr result \<Rightarrow> (Inr result, opened))"
      by (simp only: eq if_False if_True)
    show thesis
    proof (cases "classifyStaleSequence opened w r")
      case (Inl e)
      with assms eq' show thesis using failed [of e] by simp
    next
      case (Inr result)
      with assms eq' have "res = Inr result" and "l' = opened" by simp_all
      with Inr old(2) stale [OF _ w n_def] show thesis by (simp add: opened_def)
    qed
  next
    case new
    then have eq': "AcceptEvidence c l r = acceptFresh c l w r"
      by (simp only: eq if_False)
    from new(2) have "\<And>m. cursors l (req_ProviderID r, w) = Some m \<Longrightarrow> m < int64_of (req_Sequence r)"
      by (simp add: n_def)
    note acc = accepted [OF w refl refl this]
    show thesis
    proof (cases "\<exists>x. acceptFresh c l w r = (Inl x, l)")
      case True
      with assms eq' failed show thesis by auto
    next
      case False
      with assms eq' True acc show thesis
        unfolding acceptFresh_def Let_def by (auto split: if_splits)
    qed
  qed
qed

lemma AcceptEvidence_inv:
  assumes inv: "ledger_inv l" and step: "AcceptEvidence c l r = (res, l')"
  shows "ledger_inv l'"
  using step
proof (cases rule: AcceptEvidence_cases)
  case failed
  with inv show ?thesis by simp
next
  case (stale w n result)
  with inv show ?thesis by (fastforce simp: ledger_inv_def)
next
  case (accepted w e i)
  let ?key = "(req_ProviderID r, w)"
  have e: "ev_provider_id e = req_ProviderID r" "ev_workload_id e = w"
      "ev_sequence e = int64_of (req_Sequence r)" "line_of_evidence e i"
    by (simp_all add: accepted(2,3) evidence_of_def invoice_of_def line_of_evidence_def)
  have "distinct (map ev_evidence_id (evidence l @ [e]))" "distinct (map evidence_key (evidence l @ [e]))"
    using inv accepted(6) by (auto simp: ledger_inv_def evidence_insertable_def evidence_key_def)
  moreover have "distinct (map il_invoice_line_id (invoice_lines l @ [i]))"
    using inv accepted(7) by (auto simp: ledger_inv_def invoice_insertable_def)
  moreover have "list_all2 line_of_evidence (evidence l @ [e]) (invoice_lines l @ [i])"
    using inv e(4) by (simp add: ledger_inv_def list_all2_appendI)
  moreover have "\<exists>n. ((cursors l)(?key \<mapsto> int64_of (req_Sequence r))) (ev_provider_id x, ev_workload_id x) = Some n
      \<and> ev_sequence x \<le> n" if "x \<in> set (evidence l @ [e])" for x
    using that inv accepted(4) e by (fastforce simp: ledger_inv_def)
  ultimately show ?thesis by (simp add: ledger_inv_def accepted(8))
qed

datatype repo_op =
  OpProviderPublicKey | OpWorkload | OpAcceptEvidence | OpRecordRejection | OpInsertDispute
  | OpGetDispute | OpListDisputes | OpInvoiceLineExists

definition pg_repository :: "(repo_op \<Rightarrow> db_call) \<Rightarrow> ledger Repository" where
  "pg_repository calls =
     \<lparr>repo_ProviderPublicKey = ProviderPublicKey (calls OpProviderPublicKey),
      repo_Workload = Workload (calls OpWorkload),
      repo_AcceptEvidence = AcceptEvidence (calls OpAcceptEvidence),
      repo_RecordRejection = RecordRejection (calls OpRecordRejection),
      repo_InsertDispute = InsertDispute (calls OpInsertDispute),
      repo_GetDispute = GetDispute (calls OpGetDispute),
      repo_ListDisputesForInvoiceLine = ListDisputesForInvoiceLine (calls OpListDisputes),
      repo_InvoiceLineExists = InvoiceLineExists (calls OpInvoiceLineExists)\<rparr>"

lemma classifyStaleSequence_outcome:
  "classifyStaleSequence l w r = Inr result \<Longrightarrow>
     res_Outcome result \<in> {OutcomeDuplicate, OutcomeConflictingEvidence, OutcomeOutOfOrder}"
  by (auto simp: classifyStaleSequence_def split: option.splits if_splits)

lemma RecordRejection_cases:
  assumes "RecordRejection c l r = (res, l')"
  obtains (failed) "res = Inl ErrDatabase" "l' = l"
  | (recorded) row where "res = Inr ()" "l' = l\<lparr>rejections := rejections l @ [row]\<rparr>"
      "rr_reason row = rej_Reason r" "rr_provider_id row = rej_ProviderID r"
  using assms by (auto simp: RecordRejection_def Let_def split: if_splits option.splits)

lemma ledger_inv_lengths: "ledger_inv l \<Longrightarrow> length (evidence l) = length (invoice_lines l)"
  by (auto simp: ledger_inv_def dest: list_all2_lengthD)

lemma billing_append:
  assumes "ledger_inv l"
  shows "billing (l\<lparr>cursors := cs, evidence := evidence l @ [e], invoice_lines := invoice_lines l @ [i]\<rparr>)
     = billing l @ [(evidence_key e, i)]"
  using ledger_inv_lengths [OF assms] by (simp add: billing_def)

lemma billing_distinct: "ledger_inv l \<Longrightarrow> distinct (map fst (billing l))"
  using ledger_inv_lengths [of l] by (simp add: billing_def) (simp add: ledger_inv_def)

lemma AcceptEvidence_error: "AcceptEvidence c l r = (Inl e, l') \<Longrightarrow> l' = l"
  by (erule AcceptEvidence_cases) auto

lemma AcceptEvidence_rejections: "AcceptEvidence c l r = (res, l') \<Longrightarrow> rejections l' = rejections l"
  by (erule AcceptEvidence_cases) auto

lemma AcceptEvidence_accepted:
  assumes "ledger_inv l" and "AcceptEvidence c l r = (Inr result, l')"
    and "res_Outcome result = OutcomeAccepted"
  shows "\<exists>p w i. billing l' = billing l @ [((p, w, int64_of (req_Sequence r)), i)] \<and>
      p = req_ProviderID r \<and> il_invoice_line_id i = res_InvoiceLineID result \<and>
      il_total_amount i = int64_of (TotalAmount (req_Charge r)) \<and>
      il_evidence_hash i = req_EvidenceHash r"
  using assms(2)
proof (cases rule: AcceptEvidence_cases)
  case (stale w n result')
  with assms(3) classifyStaleSequence_outcome [of l' w r result'] show ?thesis by auto
next
  case (accepted w e i)
  then show ?thesis
    by (simp add: billing_append [OF assms(1)] evidence_key_def evidence_of_def invoice_of_def)
qed simp

lemma AcceptEvidence_stale:
  assumes "AcceptEvidence c l r = (Inr result, l')" and "res_Outcome result \<noteq> OutcomeAccepted"
  shows "billing l' = billing l \<and>
    res_Outcome result \<in> {OutcomeDuplicate, OutcomeConflictingEvidence, OutcomeOutOfOrder}"
  using assms(1)
proof (cases rule: AcceptEvidence_cases)
  case (stale w n result')
  with classifyStaleSequence_outcome [of l' w r result'] show ?thesis by (simp add: billing_def)
qed (use assms(2) in auto)

lemma RecordRejection_inv: "ledger_inv l \<Longrightarrow> RecordRejection c l r = (res, l') \<Longrightarrow> ledger_inv l'"
  by (erule RecordRejection_cases) (auto simp: ledger_inv_def)

lemma RecordRejection_error: "RecordRejection c l r = (Inl e, l') \<Longrightarrow> l' = l"
  by (erule RecordRejection_cases) auto

lemma RecordRejection_ok:
  "RecordRejection c l r = (Inr u, l') \<Longrightarrow>
     billing l' = billing l \<and> (\<exists>row. rejections l' = rejections l @ [row] \<and>
       rr_reason row = rej_Reason r \<and> rr_provider_id row = rej_ProviderID r)"
  by (erule RecordRejection_cases) (auto simp: billing_def)

lemmas pg_laws = AcceptEvidence_inv AcceptEvidence_error AcceptEvidence_rejections
  AcceptEvidence_accepted AcceptEvidence_stale RecordRejection_inv RecordRejection_error
  RecordRejection_ok billing_distinct

lemma pg_repository_select [simp]:
  "repo_AcceptEvidence (pg_repository calls) = AcceptEvidence (calls OpAcceptEvidence)"
  "repo_RecordRejection (pg_repository calls) = RecordRejection (calls OpRecordRejection)"
  "repo_ProviderPublicKey (pg_repository calls) = ProviderPublicKey (calls OpProviderPublicKey)"
  "repo_Workload (pg_repository calls) = Workload (calls OpWorkload)"
  "repo_InsertDispute (pg_repository calls) = InsertDispute (calls OpInsertDispute)"
  "repo_InvoiceLineExists (pg_repository calls) = InvoiceLineExists (calls OpInvoiceLineExists)"
  "repo_ListDisputesForInvoiceLine (pg_repository calls) = ListDisputesForInvoiceLine (calls OpListDisputes)"
  by (simp_all add: pg_repository_def)

interpretation pg: metering_repository "pg_repository calls" ledger_inv billing rejections
  for calls
  by (unfold_locales, unfold pg_repository_select) (blast intro: pg_laws elim: pg_laws [elim_format])+

end
