(* ===== verification/Metering_Service.thy ===== *)
theory Metering_Service
  imports Metering_Ledger Go_Strconv
begin

text \<open>
  \<^verbatim>\<open>control-plane/internal/metering/service.go\<close>: the verification pipeline
  \<^verbatim>\<open>RecordUsage\<close> and the dispute operations, over the repository interface. Times are
  integers: seconds for the Unix times of a summary, nanoseconds for the server clock. The
  free-text detail of a rejection is not modelled.
\<close>

record crypto =
  sha256 :: "bytes \<Rightarrow> bytes"
  ed25519_verify :: "bytes \<Rightarrow> bytes \<Rightarrow> bytes \<Rightarrow> bool"

record GetUsageSummaryResponse =
  resp_Summary :: "MeteringSummary option"
  resp_Signature :: bytes

definition maxMeteringPeriodSeconds :: u64 where
  "maxMeteringPeriodSeconds = 3600"

definition maxMeteringClockSkew :: int where
  "maxMeteringClockSkew = 5 * 60 * 1000000000"

definition knownSchemaVersions :: "u32 \<Rightarrow> bool" where
  "knownSchemaVersions v \<longleftrightarrow> v = 1"

datatype bounds_error =
    WorkloadIdRequired | LeaseIdRequired | SequenceNotPositive | PeriodReversed | PeriodTooLong

definition validateBounds :: "MeteringSummary \<Rightarrow> bounds_error + unit" where
  "validateBounds summary =
     (if WorkloadId summary = '''' then Inl WorkloadIdRequired
      else if LeaseId summary = '''' then Inl LeaseIdRequired
      else if Sequence summary = 0 then Inl SequenceNotPositive
      else if PeriodEnd summary < PeriodStart summary then Inl PeriodReversed
      else if PeriodEnd summary - PeriodStart summary > maxMeteringPeriodSeconds then Inl PeriodTooLong
      else Inr ())"

text \<open>\<^verbatim>\<open>time.Unix(int64(u), 0)\<close> in seconds: Go counts from year 1 in an \<^verbatim>\<open>int64\<close>.\<close>

definition unix_seconds :: "u64 \<Rightarrow> int" where
  "unix_seconds u = i64 (int64_of u + 62135596800) - 62135596800"

definition emptyResult :: "Outcome \<Rightarrow> MeteringResult" where
  "emptyResult o' = \<lparr>res_Outcome = o', res_EvidenceID = '''', res_InvoiceLineID = '''', res_TotalAmount = 0\<rparr>"

definition reject ::
  "'s Repository \<Rightarrow> crypto \<Rightarrow> 's \<Rightarrow> string \<Rightarrow> MeteringSummary option \<Rightarrow> u64 \<Rightarrow> Outcome
     \<Rightarrow> (repo_error + MeteringResult) \<times> 's" where
  "reject repo k s providerID summary sequence outcome =
     (let rejection =
        \<lparr>rej_ProviderID = providerID,
         rej_WorkloadID = map_option WorkloadId summary,
         rej_Sequence = (if summary \<noteq> None \<and> sequence \<noteq> 0 then Some sequence else None),
         rej_Reason = Outcome_String outcome,
         rej_EvidenceHash = map_option (\<lambda>m. evidenceHash (sha256 k) (signedBytes m)) summary\<rparr>
      in case repo_RecordRejection repo s rejection of
           (Inl e, s') \<Rightarrow> (Inl e, s')
         | (Inr _, s') \<Rightarrow> (Inr (emptyResult outcome), s'))"

definition acceptRequestOf ::
  "crypto \<Rightarrow> string \<Rightarrow> MeteringSummary \<Rightarrow> bytes \<Rightarrow> int \<Rightarrow> WorkloadRef \<Rightarrow> Charge \<Rightarrow> AcceptRequest" where
  "acceptRequestOf k providerID summary signature leaseID workload charge =
     \<lparr>req_ProviderID = providerID, req_WorkloadID = WorkloadId summary, req_LeaseID = leaseID,
      req_ConsumerID = ref_ConsumerID workload, req_Sequence = Sequence summary,
      req_PeriodStart = unix_seconds (PeriodStart summary),
      req_PeriodEnd = unix_seconds (PeriodEnd summary),
      req_SchemaVersion = MeteringSchemaVersion summary,
      req_CPUCoreSeconds = CpuCoreSeconds summary, req_RAMMBSeconds = RamMbSeconds summary,
      req_StorageGBSeconds = StorageGbSeconds summary,
      req_NetworkEgressMB = NetworkEgressMb summary, req_NetworkIngressMB = NetworkIngressMb summary,
      req_GPUSeconds = GpuSeconds summary, req_Signature = signature,
      req_EvidenceHash = evidenceHash (sha256 k) (signedBytes summary),
      req_PriceVersion = CurrentPriceVersion, req_Charge = charge\<rparr>"

text \<open>From the loaded workload to the end of \<^verbatim>\<open>RecordUsage\<close>: lease check, pricing, acceptance.\<close>

definition billSummary ::
  "'s Repository \<Rightarrow> crypto \<Rightarrow> 's \<Rightarrow> string \<Rightarrow> MeteringSummary \<Rightarrow> bytes \<Rightarrow> WorkloadRef
     \<Rightarrow> (repo_error + MeteringResult) \<times> 's" where
  "billSummary repo k s providerID summary signature workload =
     (let refuse = reject repo k s providerID (Some summary) (Sequence summary) in
      if ref_ProviderID workload \<noteq> providerID then refuse OutcomeWorkloadProviderMismatch
      else case ParseInt (LeaseId summary) of
        None \<Rightarrow> refuse OutcomeLeaseMismatch
      | Some leaseID \<Rightarrow>
          if leaseID < 0 \<or> leaseID \<noteq> ref_LeaseID workload then refuse OutcomeLeaseMismatch
          else case LookupPriceSchedule CurrentPriceVersion of
            None \<Rightarrow> refuse OutcomeUnknownPriceVersion
          | Some schedule \<Rightarrow>
              (case ComputeCharge schedule (CpuCoreSeconds summary) (RamMbSeconds summary)
                      (StorageGbSeconds summary) (NetworkEgressMb summary) (NetworkIngressMb summary) of
                 Inl _ \<Rightarrow> refuse OutcomeChargeOverflow
               | Inr charge \<Rightarrow>
                   (case repo_AcceptEvidence repo s
                           (acceptRequestOf k providerID summary signature leaseID workload charge) of
                      (Inl e, s') \<Rightarrow> (Inl e, s')
                    | (Inr result, s') \<Rightarrow>
                        if res_Outcome result \<noteq> OutcomeAccepted \<and> res_Outcome result \<noteq> OutcomeDuplicate
                        then (Inr result,
                              snd (repo_RecordRejection repo s'
                                \<lparr>rej_ProviderID = providerID, rej_WorkloadID = Some (WorkloadId summary),
                                 rej_Sequence = Some (Sequence summary),
                                 rej_Reason = Outcome_String (res_Outcome result),
                                 rej_EvidenceHash = Some (evidenceHash (sha256 k) (signedBytes summary))\<rparr>))
                        else (Inr result, s'))))"

definition RecordUsage ::
  "'s Repository \<Rightarrow> crypto \<Rightarrow> int \<Rightarrow> 's \<Rightarrow> string \<Rightarrow> GetUsageSummaryResponse option
     \<Rightarrow> (repo_error + MeteringResult) \<times> 's" where
  "RecordUsage repo k now s providerID response =
     (case Option.bind response resp_Summary of
        None \<Rightarrow> reject repo k s providerID None 0 OutcomeBoundsViolation
      | Some summary \<Rightarrow>
          (let signature = resp_Signature (the response);
               refuse = reject repo k s providerID (Some summary) (Sequence summary);
               periodEnd = unix_seconds (PeriodEnd summary) * 1000000000 in
           case validateBounds summary of
             Inl _ \<Rightarrow> refuse OutcomeBoundsViolation
           | Inr _ \<Rightarrow>
               if \<not> knownSchemaVersions (MeteringSchemaVersion summary)
               then refuse OutcomeUnknownSchemaVersion
               else if periodEnd < now - maxMeteringClockSkew \<or> periodEnd > now + maxMeteringClockSkew
               then refuse OutcomeClockSkew
               else case repo_ProviderPublicKey repo s providerID of
                 Inl e \<Rightarrow> if e = ErrProviderNotFound then refuse OutcomeUnknownProvider else (Inl e, s)
               | Inr publicKey \<Rightarrow>
                   if \<not> verifySignature (ed25519_verify k) publicKey summary signature
                   then refuse OutcomeInvalidSignature
                   else case repo_Workload repo s (WorkloadId summary) of
                     Inl e \<Rightarrow> if e = ErrWorkloadNotFound then refuse OutcomeUnknownWorkload else (Inl e, s)
                   | Inr workload \<Rightarrow> billSummary repo k s providerID summary signature workload))"

definition RaiseDispute ::
  "'s Repository \<Rightarrow> 's \<Rightarrow> string \<Rightarrow> string \<Rightarrow> string \<Rightarrow> (repo_error + Dispute) \<times> 's" where
  "RaiseDispute repo s invoiceLineID raisedBy reason =
     (if raisedBy \<noteq> ''payer'' \<and> raisedBy \<noteq> ''provider'' \<and> raisedBy \<noteq> ''operator''
      then (Inl ErrInvalidDisputeParty, s)
      else if reason = '''' then (Inl ErrEmptyDisputeReason, s)
      else case repo_InvoiceLineExists repo s invoiceLineID of
        Inl e \<Rightarrow> (Inl e, s)
      | Inr found \<Rightarrow>
          if \<not> found then (Inl ErrInvoiceLineNotFound, s)
          else repo_InsertDispute repo s
                 \<lparr>DisputeID = '''', InvoiceLineID = invoiceLineID, RaisedBy = raisedBy, Reason = reason,
                  Status = DisputeStatusOpen, RaisedAt = 0\<rparr>)"

definition ListDisputes :: "'s Repository \<Rightarrow> 's \<Rightarrow> string \<Rightarrow> repo_error + Dispute list" where
  "ListDisputes repo s invoiceLineID = repo_ListDisputesForInvoiceLine repo s invoiceLineID"

section \<open>Branches of the pipeline\<close>

text \<open>What the pipeline has established about a summary by the time its workload is loaded.\<close>

definition verified ::
  "'s Repository \<Rightarrow> crypto \<Rightarrow> int \<Rightarrow> 's \<Rightarrow> string \<Rightarrow> MeteringSummary \<Rightarrow> bytes \<Rightarrow> WorkloadRef \<Rightarrow> bool" where
  "verified repo k now s providerID summary signature workload \<longleftrightarrow>
     validateBounds summary = Inr () \<and> knownSchemaVersions (MeteringSchemaVersion summary) \<and>
     \<bar>unix_seconds (PeriodEnd summary) * 1000000000 - now\<bar> \<le> maxMeteringClockSkew \<and>
     (\<exists>key. repo_ProviderPublicKey repo s providerID = Inr key \<and>
        verifySignature (ed25519_verify k) key summary signature) \<and>
     repo_Workload repo s (WorkloadId summary) = Inr workload"

text \<open>A property holds of the pipeline if it holds of its refusals, errors and billing step.\<close>

lemma RecordUsage_branches:
  assumes refuse: "\<And>q out. out \<noteq> OutcomeAccepted \<Longrightarrow> out \<noteq> OutcomeDuplicate \<Longrightarrow>
      P (reject repo k s providerID (Option.bind response resp_Summary) q out)"
    and fail: "\<And>e. (repo_ProviderPublicKey repo s providerID = Inl e \<and> e \<noteq> ErrProviderNotFound) \<or>
      (\<exists>summary. Option.bind response resp_Summary = Some summary \<and>
         repo_Workload repo s (WorkloadId summary) = Inl e \<and> e \<noteq> ErrWorkloadNotFound) \<Longrightarrow> P (Inl e, s)"
    and bill: "\<And>summary workload. Option.bind response resp_Summary = Some summary \<Longrightarrow>
      verified repo k now s providerID summary (resp_Signature (the response)) workload \<Longrightarrow>
      P (billSummary repo k s providerID summary (resp_Signature (the response)) workload)"
  shows "P (RecordUsage repo k now s providerID response)"
proof (cases "Option.bind response resp_Summary")
  case None
  then show ?thesis using refuse [of OutcomeBoundsViolation 0] by (simp add: RecordUsage_def)
next
  case (Some m)
  note refuse = refuse [unfolded Some]
  show ?thesis
  proof (cases "validateBounds m = Inr () \<and> knownSchemaVersions (MeteringSchemaVersion m) \<and>
      \<bar>unix_seconds (PeriodEnd m) * 1000000000 - now\<bar> \<le> maxMeteringClockSkew")
    case False
    then show ?thesis using Some refuse
      by (cases "validateBounds m") (auto simp: RecordUsage_def Let_def)
  next
    case True
    have eq: "RecordUsage repo k now s providerID response =
      (case repo_ProviderPublicKey repo s providerID of
         Inl e \<Rightarrow> if e = ErrProviderNotFound
                 then reject repo k s providerID (Some m) (Sequence m) OutcomeUnknownProvider else (Inl e, s)
       | Inr key \<Rightarrow> if \<not> verifySignature (ed25519_verify k) key m (resp_Signature (the response))
           then reject repo k s providerID (Some m) (Sequence m) OutcomeInvalidSignature
           else case repo_Workload repo s (WorkloadId m) of
             Inl e \<Rightarrow> if e = ErrWorkloadNotFound
                 then reject repo k s providerID (Some m) (Sequence m) OutcomeUnknownWorkload else (Inl e, s)
           | Inr w \<Rightarrow> billSummary repo k s providerID m (resp_Signature (the response)) w)"
    proof -
      have "\<not> (unix_seconds (PeriodEnd m) * 1000000000 < now - maxMeteringClockSkew \<or>
               unix_seconds (PeriodEnd m) * 1000000000 > now + maxMeteringClockSkew)"
        using True by linarith
      then show ?thesis using Some True by (simp add: RecordUsage_def Let_def)
    qed
    show ?thesis
      unfolding eq using refuse fail bill [OF Some] True Some
      by (auto simp: verified_def split: sum.split)
  qed
qed

text \<open>The request the billing step hands to the repository is priced exactly.\<close>

definition priced_request ::
  "crypto \<Rightarrow> string \<Rightarrow> MeteringSummary \<Rightarrow> bytes \<Rightarrow> WorkloadRef \<Rightarrow> AcceptRequest \<Rightarrow> bool" where
  "priced_request k providerID summary signature workload r \<longleftrightarrow>
     ref_ProviderID workload = providerID \<and>
     ParseInt (LeaseId summary) = Some (ref_LeaseID workload) \<and> 0 \<le> ref_LeaseID workload \<and>
     (\<exists>schedule charge. LookupPriceSchedule CurrentPriceVersion = Some schedule \<and>
        ComputeCharge schedule (CpuCoreSeconds summary) (RamMbSeconds summary) (StorageGbSeconds summary)
          (NetworkEgressMb summary) (NetworkIngressMb summary) = Inr charge \<and>
        r = acceptRequestOf k providerID summary signature (ref_LeaseID workload) workload charge)"

lemma billSummary_branches:
  assumes refuse: "\<And>q out. out \<noteq> OutcomeAccepted \<Longrightarrow> out \<noteq> OutcomeDuplicate \<Longrightarrow>
      P (reject repo k s providerID (Some summary) q out)"
    and fail: "\<And>r e s'. priced_request k providerID summary signature workload r \<Longrightarrow>
      repo_AcceptEvidence repo s r = (Inl e, s') \<Longrightarrow> P (Inl e, s')"
    and settled: "\<And>r result s'. priced_request k providerID summary signature workload r \<Longrightarrow>
      repo_AcceptEvidence repo s r = (Inr result, s') \<Longrightarrow>
      res_Outcome result = OutcomeAccepted \<or> res_Outcome result = OutcomeDuplicate \<Longrightarrow> P (Inr result, s')"
    and stale: "\<And>r result s' j. priced_request k providerID summary signature workload r \<Longrightarrow>
      repo_AcceptEvidence repo s r = (Inr result, s') \<Longrightarrow>
      res_Outcome result \<noteq> OutcomeAccepted \<Longrightarrow> res_Outcome result \<noteq> OutcomeDuplicate \<Longrightarrow>
      rej_Reason j = Outcome_String (res_Outcome result) \<Longrightarrow> rej_ProviderID j = providerID \<Longrightarrow>
      rej_WorkloadID j = Some (req_WorkloadID r) \<Longrightarrow>
      P (Inr result, snd (repo_RecordRejection repo s' j))"
  shows "P (billSummary repo k s providerID summary signature workload)"
proof (cases "ref_ProviderID workload = providerID \<and>
    (\<exists>i \<ge> 0. ParseInt (LeaseId summary) = Some i \<and> i = ref_LeaseID workload)")
  case False
  then show ?thesis using refuse
    by (auto simp: billSummary_def Let_def split: option.split)
next
  case True
  obtain schedule where sch: "LookupPriceSchedule CurrentPriceVersion = Some schedule"
    by (simp add: LookupPriceSchedule_def priceSchedules_def CurrentPriceVersion_def)
  show ?thesis
  proof (cases "ComputeCharge schedule (CpuCoreSeconds summary) (RamMbSeconds summary)
      (StorageGbSeconds summary) (NetworkEgressMb summary) (NetworkIngressMb summary)")
    case (Inl e)
    with True sch refuse show ?thesis by (auto simp: billSummary_def Let_def)
  next
    case (Inr charge)
    let ?r = "acceptRequestOf k providerID summary signature (ref_LeaseID workload) workload charge"
    have priced: "priced_request k providerID summary signature workload ?r"
      using True sch Inr by (auto simp: priced_request_def)
    obtain res s' where acc: "repo_AcceptEvidence repo s ?r = (res, s')" by fastforce
    show ?thesis
    proof (cases res)
      case (Inl e)
      with acc True sch Inr fail [OF priced] show ?thesis
        using \<open>ComputeCharge _ _ _ _ _ _ = Inr charge\<close> by (auto simp: billSummary_def Let_def)
    next
      case (Inr result)
      have "req_WorkloadID ?r = WorkloadId summary" by (simp add: acceptRequestOf_def)
      with Inr acc True sch settled [OF priced, of result s'] stale [OF priced, of result s'] show ?thesis
        using \<open>ComputeCharge _ _ _ _ _ _ = Inr charge\<close> by (auto simp: billSummary_def Let_def)
    qed
  qed
qed

text \<open>The same facts as equations, for a submission known to pass the checks.\<close>

lemma RecordUsage_verified:
  assumes "Option.bind response resp_Summary = Some summary"
    and "verified repo k now s providerID summary (resp_Signature (the response)) workload"
  shows "RecordUsage repo k now s providerID response =
    billSummary repo k s providerID summary (resp_Signature (the response)) workload"
proof -
  from assms(2) have skew: "\<not> (unix_seconds (PeriodEnd summary) * 1000000000 < now - maxMeteringClockSkew \<or>
      unix_seconds (PeriodEnd summary) * 1000000000 > now + maxMeteringClockSkew)"
    by (auto simp: verified_def)
  with assms show ?thesis by (auto simp: RecordUsage_def Let_def verified_def)
qed

lemma billSummary_priced:
  assumes "ref_ProviderID workload = providerID"
    and "ParseInt (LeaseId summary) = Some (ref_LeaseID workload)" and "0 \<le> ref_LeaseID workload"
    and "LookupPriceSchedule CurrentPriceVersion = Some schedule"
    and "ComputeCharge schedule (CpuCoreSeconds summary) (RamMbSeconds summary) (StorageGbSeconds summary)
      (NetworkEgressMb summary) (NetworkIngressMb summary) = Inr charge"
    and "repo_AcceptEvidence repo s
      (acceptRequestOf k providerID summary signature (ref_LeaseID workload) workload charge) = (Inr result, s')"
    and "res_Outcome result = OutcomeAccepted \<or> res_Outcome result = OutcomeDuplicate"
  shows "billSummary repo k s providerID summary signature workload = (Inr result, s')"
  using assms by (auto simp: billSummary_def Let_def)

text \<open>An accepted submission was verified, priced and handed to the repository.\<close>

lemma RecordUsage_accepted:
  assumes "RecordUsage repo k now s providerID response = (Inr result, s')"
    and "res_Outcome result = OutcomeAccepted"
  obtains summary workload r where "Option.bind response resp_Summary = Some summary"
    and "verified repo k now s providerID summary (resp_Signature (the response)) workload"
    and "priced_request k providerID summary (resp_Signature (the response)) workload r"
    and "repo_AcceptEvidence repo s r = (Inr result, s')"
proof -
  let ?Q = "\<lambda>result s'. \<exists>summary workload r. Option.bind response resp_Summary = Some summary \<and>
    verified repo k now s providerID summary (resp_Signature (the response)) workload \<and>
    priced_request k providerID summary (resp_Signature (the response)) workload r \<and>
    repo_AcceptEvidence repo s r = (Inr result, s')"
  let ?P = "\<lambda>x. \<forall>result s'. x = (Inr result, s') \<longrightarrow> res_Outcome result = OutcomeAccepted \<longrightarrow> ?Q result s'"
  have refused: "?P (reject repo k s providerID m q out)" if "out \<noteq> OutcomeAccepted" for m q out
    using that by (auto simp: reject_def emptyResult_def Let_def split: prod.splits sum.splits)
  have "?P (RecordUsage repo k now s providerID response)"
  proof (rule RecordUsage_branches [where P = ?P])
    fix summary workload
    assume "Option.bind response resp_Summary = Some summary"
      and "verified repo k now s providerID summary (resp_Signature (the response)) workload"
    then show "?P (billSummary repo k s providerID summary (resp_Signature (the response)) workload)"
      by (intro billSummary_branches [where P = ?P]) (use refused in blast)+
  qed (use refused in blast)+
  with assms that show thesis by blast
qed

section \<open>What the service guarantees over any conforming repository\<close>

context metering_repository
begin

lemma reject_step:
  assumes "reject repo k s providerID m q out = (res, s')"
  shows "(\<exists>e. res = Inl e \<and> s' = s) \<or>
    (res = Inr (emptyResult out) \<and> billed s' = billed s \<and>
     (\<exists>row. refused s' = refused s @ [row] \<and> rr_reason row = Outcome_String out \<and>
        rr_provider_id row = providerID))"
  using assms unfolding reject_def Let_def
  by (auto split: prod.splits sum.splits dest: reject_error reject_ok)

lemma reject_keeps_inv: "inv s \<Longrightarrow> inv (snd (reject repo k s providerID m q out))"
  by (auto simp: reject_def Let_def split: prod.splits sum.splits dest: reject_inv)

lemma record_rejection_keeps:
  "billed (snd (repo_RecordRejection repo s j)) = billed s \<and>
   (inv s \<longrightarrow> inv (snd (repo_RecordRejection repo s j)))"
proof (cases "repo_RecordRejection repo s j")
  case (Pair r s')
  then show ?thesis by (cases r) (auto dest: reject_error reject_ok reject_inv)
qed

lemma RecordUsage_inv:
  assumes "inv s"
  shows "inv (snd (RecordUsage repo k now s providerID response))"
proof (rule RecordUsage_branches [where P = "\<lambda>x. inv (snd x)"])
  fix summary workload
  show "inv (snd (billSummary repo k s providerID summary (resp_Signature (the response)) workload))"
    by (rule billSummary_branches [where P = "\<lambda>x. inv (snd x)"])
      (use assms accept_inv record_rejection_keeps reject_keeps_inv in auto)
qed (use assms reject_keeps_inv in auto)

text \<open>Either nothing is billed, or one line is, for a verified and exactly priced request.\<close>

definition billed_one ::
  "crypto \<Rightarrow> int \<Rightarrow> 's \<Rightarrow> string \<Rightarrow> GetUsageSummaryResponse option \<Rightarrow>
     (repo_error + MeteringResult) \<times> 's \<Rightarrow> bool" where
  "billed_one k now s providerID response x \<longleftrightarrow>
     (\<exists>summary workload r result w i.
        Option.bind response resp_Summary = Some summary \<and>
        verified repo k now s providerID summary (resp_Signature (the response)) workload \<and>
        priced_request k providerID summary (resp_Signature (the response)) workload r \<and>
        fst x = Inr result \<and> res_Outcome result = OutcomeAccepted \<and>
        billed (snd x) = billed s @ [((providerID, w, int64_of (Sequence summary)), i)] \<and>
        il_invoice_line_id i = res_InvoiceLineID result \<and>
        il_total_amount i = int64_of (TotalAmount (req_Charge r)))"

definition billing_outcome ::
  "crypto \<Rightarrow> int \<Rightarrow> 's \<Rightarrow> string \<Rightarrow> GetUsageSummaryResponse option \<Rightarrow>
     (repo_error + MeteringResult) \<times> 's \<Rightarrow> bool" where
  "billing_outcome k now s providerID response x \<longleftrightarrow>
     ((\<forall>result. fst x = Inr result \<longrightarrow> res_Outcome result \<noteq> OutcomeAccepted) \<and>
      billed (snd x) = billed s) \<or> billed_one k now s providerID response x"

lemma reject_billing_outcome:
  assumes "out \<noteq> OutcomeAccepted"
  shows "billing_outcome k now s providerID response (reject repo k s providerID m q out)"
proof -
  obtain res s' where "reject repo k s providerID m q out = (res, s')" by fastforce
  with reject_step [OF this] assms show ?thesis
    by (auto simp: billing_outcome_def emptyResult_def)
qed

lemma settled_billing_outcome:
  assumes "inv s" and sum: "Option.bind response resp_Summary = Some summary"
    and ver: "verified repo k now s providerID summary (resp_Signature (the response)) workload"
    and priced: "priced_request k providerID summary (resp_Signature (the response)) workload r"
    and acc: "repo_AcceptEvidence repo s r = (Inr result, s')"
  shows "billing_outcome k now s providerID response (Inr result, s')"
proof (cases "res_Outcome result = OutcomeAccepted")
  case True
  have r: "req_ProviderID r = providerID" "req_Sequence r = Sequence summary"
    using priced by (auto simp: priced_request_def acceptRequestOf_def)
  from accept_accepted [OF assms(1) acc True] r
  obtain w i where "billed s' = billed s @ [((providerID, w, int64_of (Sequence summary)), i)]"
    and "il_invoice_line_id i = res_InvoiceLineID result"
    and "il_total_amount i = int64_of (TotalAmount (req_Charge r))" by auto
  then show ?thesis unfolding billing_outcome_def billed_one_def fst_conv snd_conv
    using sum ver priced True by blast
next
  case False
  with accept_stale [OF acc False] show ?thesis by (simp add: billing_outcome_def)
qed

lemma RecordUsage_billing:
  assumes "inv s"
  shows "billing_outcome k now s providerID response (RecordUsage repo k now s providerID response)"
proof (rule RecordUsage_branches)
  fix summary workload
  assume sum: "Option.bind response resp_Summary = Some summary"
    and ver: "verified repo k now s providerID summary (resp_Signature (the response)) workload"
  show "billing_outcome k now s providerID response
      (billSummary repo k s providerID summary (resp_Signature (the response)) workload)"
  proof (rule billSummary_branches)
    fix r e s'
    assume "repo_AcceptEvidence repo s r = (Inl e, s')"
    then have "s' = s" by (rule accept_error)
    then show "billing_outcome k now s providerID response (Inl e, s')"
      by (simp add: billing_outcome_def)
  next
    fix r result s' j
    assume acc: "repo_AcceptEvidence repo s r = (Inr result, s')"
      and out: "res_Outcome result \<noteq> OutcomeAccepted"
    from accept_stale [OF acc out] out record_rejection_keeps
    show "billing_outcome k now s providerID response (Inr result, snd (repo_RecordRejection repo s' j))"
      by (simp add: billing_outcome_def)
  qed (auto intro: reject_billing_outcome settled_billing_outcome [OF assms sum ver])
qed (blast intro: reject_billing_outcome, simp add: billing_outcome_def)

lemma RecordUsage_refusal_recorded:
  assumes "RecordUsage repo k now s providerID response = (Inr result, s')"
    and "res_Outcome result \<notin> {OutcomeAccepted, OutcomeDuplicate, OutcomeConflictingEvidence, OutcomeOutOfOrder}"
  shows "\<exists>row. refused s' = refused s @ [row] \<and> rr_reason row = Outcome_String (res_Outcome result)"
proof -
  let ?P = "\<lambda>x. \<forall>result s'. x = (Inr result, s') \<longrightarrow>
     res_Outcome result \<notin> {OutcomeAccepted, OutcomeDuplicate, OutcomeConflictingEvidence, OutcomeOutOfOrder} \<longrightarrow>
     (\<exists>row. refused s' = refused s @ [row] \<and> rr_reason row = Outcome_String (res_Outcome result))"
  have rej: "?P (reject repo k s providerID m q out)" for m q out
    using reject_step by (fastforce simp: emptyResult_def)
  have "?P (RecordUsage repo k now s providerID response)"
  proof (rule RecordUsage_branches [where P = ?P])
    fix summary workload
    show "?P (billSummary repo k s providerID summary (resp_Signature (the response)) workload)"
      by (rule billSummary_branches [where P = ?P]) (use rej accept_stale in blast)+
  qed (use rej in blast)+
  with assms show ?thesis by blast
qed

end

end
