(* ===== verification/Metering_History.thy ===== *)
theory Metering_History
  imports Metering_Service
begin

text \<open>
  The metering service of \<^verbatim>\<open>control-plane/internal/metering\<close> running over its
  PostgreSQL repository: what holds of the ledger after any history of submissions and
  disputes, with any database failure in between.
\<close>

section \<open>Histories\<close>

text \<open>A history of the metering service: submissions and disputes, each with its own environment.\<close>

datatype metering_event =
    Submission "repo_op \<Rightarrow> db_call" int string "GetUsageSummaryResponse option"
  | DisputeRaised "repo_op \<Rightarrow> db_call" string string string

fun metering_step :: "crypto \<Rightarrow> ledger \<Rightarrow> metering_event \<Rightarrow> ledger" where
  "metering_step k l (Submission calls now p response) =
     snd (RecordUsage (pg_repository calls) k now l p response)"
| "metering_step k l (DisputeRaised calls line raisedBy why) =
     snd (RaiseDispute (pg_repository calls) l line raisedBy why)"

definition metering_run :: "crypto \<Rightarrow> ledger \<Rightarrow> metering_event list \<Rightarrow> ledger" where
  "metering_run k = foldl (metering_step k)"

definition new_ledger ::
  "(string \<Rightarrow> bytes option) \<Rightarrow> (string \<Rightarrow> (string option \<times> int option \<times> string option) option)
     \<Rightarrow> string list \<Rightarrow> ledger" where
  "new_ledger ps ws us = \<lparr>providers = ps, workloads = ws, users = us, cursors = (\<lambda>_. None),
     evidence = [], invoice_lines = [], rejections = [], disputes = []\<rparr>"

lemma InsertDispute_frame:
  "InsertDispute c l d = (res, l') \<Longrightarrow> \<exists>ds. l' = l\<lparr>disputes := disputes l @ ds\<rparr>"
  by (auto simp: InsertDispute_def Let_def split: if_splits option.splits intro: exI [of _ "[]"])

lemma RaiseDispute_frame:
  "\<exists>ds. snd (RaiseDispute (pg_repository calls) l line raisedBy why) = l\<lparr>disputes := disputes l @ ds\<rparr>"
proof -
  have "\<exists>ds. l = l\<lparr>disputes := disputes l @ ds\<rparr>" by (rule exI [of _ "[]"]) simp
  moreover have "\<exists>ds. snd (InsertDispute c l d) = l\<lparr>disputes := disputes l @ ds\<rparr>" for c d
    using InsertDispute_frame [of c l d] by (cases "InsertDispute c l d") auto
  ultimately show ?thesis
    by (auto simp: RaiseDispute_def split: sum.split)
qed

lemma ledger_inv_frame [simp]: "ledger_inv (l\<lparr>disputes := ds\<rparr>) = ledger_inv l"
  by (simp add: ledger_inv_def)

lemma metering_step_inv: "ledger_inv l \<Longrightarrow> ledger_inv (metering_step k l ev)"
proof (cases ev)
  case (DisputeRaised calls line raisedBy why)
  assume "ledger_inv l"
  with RaiseDispute_frame [of calls l line raisedBy why] show ?thesis
    using DisputeRaised by auto
qed (simp add: pg.RecordUsage_inv)

lemma metering_run_inv: "ledger_inv l \<Longrightarrow> ledger_inv (metering_run k l evs)"
  by (induction evs arbitrary: l) (simp_all add: metering_run_def metering_step_inv)

lemma ledger_inv_new [simp]: "ledger_inv (new_ledger ps ws us)"
  by (simp add: ledger_inv_def new_ledger_def)

text \<open>
  C1. At-most-once billing. Whatever submissions and disputes arrive, in whatever order and
  with whatever database failures in between, the ledger bills each submission (provider,
  workload, sequence) at most once, keeps one original invoice line per evidence row, and
  never holds evidence beyond the cursor of its workload.
\<close>

theorem metering_bills_at_most_once:
  "ledger_inv (metering_run k (new_ledger ps ws us) evs) \<and>
   distinct (map fst (billing (metering_run k (new_ledger ps ws us) evs)))"
  using metering_run_inv [OF ledger_inv_new] billing_distinct by blast

text \<open>
  C7. A line is billed only for verified usage. If a submission ends as accepted, then its
  summary passed the bounds, schema and clock-skew checks, its signature verifies under the
  key registered for the provider, the workload belongs to that provider under that lease,
  and exactly one invoice line is added, whose total is the exact charge of the summary. In
  every other case nothing is billed.
\<close>

theorem RecordUsage_bills_verified_usage:
  assumes "ledger_inv l"
    and "RecordUsage (pg_repository calls) k now l providerID response = (res, l')"
  shows "case res of
     Inr result \<Rightarrow>
       if res_Outcome result = OutcomeAccepted
       then \<exists>summary workload w i schedule.
          Option.bind response resp_Summary = Some summary \<and>
          verified (pg_repository calls) k now l providerID summary (resp_Signature (the response)) workload \<and>
          ref_ProviderID workload = providerID \<and>
          ParseInt (LeaseId summary) = Some (ref_LeaseID workload) \<and>
          LookupPriceSchedule CurrentPriceVersion = Some schedule \<and>
          billing l' = billing l @ [((providerID, w, int64_of (Sequence summary)), i)] \<and>
          il_invoice_line_id i = res_InvoiceLineID result \<and>
          (\<exists>total. il_total_amount i = int64_of total \<and>
             unat total = exact_total schedule (CpuCoreSeconds summary) (RamMbSeconds summary)
               (StorageGbSeconds summary) (NetworkEgressMb summary) (NetworkIngressMb summary))
       else billing l' = billing l
   | Inl e \<Rightarrow> billing l' = billing l"
proof -
  have outcome: "pg.billing_outcome calls k now l providerID response (res, l')"
    using pg.RecordUsage_billing [OF assms(1)] assms(2) by metis
  show ?thesis
  proof (cases "\<exists>result. res = Inr result \<and> res_Outcome result = OutcomeAccepted")
    case False
    with outcome show ?thesis
      by (cases res) (auto simp: pg.billing_outcome_def pg.billed_one_def)
  next
    case True
    then obtain result where res: "res = Inr result" "res_Outcome result = OutcomeAccepted" by blast
    with outcome have "pg.billed_one calls k now l providerID response (res, l')"
      by (auto simp: pg.billing_outcome_def)
    with res show ?thesis
      unfolding pg.billed_one_def priced_request_def
      using ComputeCharge_Inr_exact
      by (simp add: acceptRequestOf_def charge_is_exact_def) (metis AcceptRequest.select_convs(18))
  qed
qed

definition sample_calls :: "string \<Rightarrow> string \<Rightarrow> repo_op \<Rightarrow> db_call" where
  "sample_calls a b op = \<lparr>uuid_parse = Some, fresh1 = a, fresh2 = b, db_now = 0, db_gap = 0, db_up = True,
     db_abort = False\<rparr>"

definition sample_crypto :: crypto where
  "sample_crypto = \<lparr>sha256 = (\<lambda>b. take 32 (b @ replicate 32 0)),
     ed25519_verify = (\<lambda>key msg sig. take 8 sig = take 8 key)\<rparr>"

definition sample_ledger :: ledger where
  "sample_ledger = new_ledger [''p1'' \<mapsto> replicate 32 1] [''w1'' \<mapsto> (Some ''p1'', Some 7, None)] []"

definition sample_response :: "GetUsageSummaryResponse option" where
  "sample_response = Some \<lparr>resp_Summary = Some sample_summary, resp_Signature = replicate 64 1\<rparr>"

definition sample_run :: "(repo_error + MeteringResult) \<times> ledger" where
  "sample_run = RecordUsage (pg_repository (sample_calls ''e1'' ''i1'')) sample_crypto 160000000000
     sample_ledger ''p1'' sample_response"

lemmas sample_simps = sample_run_def sample_calls_def sample_crypto_def sample_ledger_def
  sample_response_def sample_summary_def new_ledger_def

lemma sample_verified:
  "verified (pg_repository (sample_calls a b)) sample_crypto 160000000000 sample_ledger ''p1''
     sample_summary (resp_Signature (the sample_response)) \<lparr>ref_ProviderID = ''p1'', ref_LeaseID = 7, ref_ConsumerID = None\<rparr>"
  by (simp add: verified_def sample_simps validateBounds_def knownSchemaVersions_def unix_seconds_def
      maxMeteringClockSkew_def maxMeteringPeriodSeconds_def int64_of_def i64_def ProviderPublicKey_def
      Workload_def verifySignature_def)

definition sample_evidence :: evidence_row where
  "sample_evidence = \<lparr>ev_evidence_id = ''e1'', ev_provider_id = ''p1'', ev_workload_id = ''w1'',
     ev_lease_id = 7, ev_sequence = 3, ev_period_start = 100, ev_period_end = 160,
     ev_schema_version = 1, ev_cpu_core_seconds = 60, ev_ram_mb_seconds = 30720,
     ev_storage_gb_seconds = 600, ev_network_egress_mb = 5, ev_network_ingress_mb = 2,
     ev_gpu_seconds = 0, ev_signature = replicate 64 1,
     ev_evidence_hash = sha256 sample_crypto (signedBytes sample_summary)\<rparr>"

definition sample_invoice :: invoice_row where
  "sample_invoice = \<lparr>il_invoice_line_id = ''i1'', il_evidence_id = ''e1'', il_provider_id = ''p1'',
     il_consumer_id = None, il_workload_id = ''w1'', il_lease_id = 7, il_price_version = 1,
     il_cpu_amount = 60, il_ram_amount = 30720, il_storage_amount = 600, il_network_amount = 7,
     il_total_amount = 31387, il_evidence_hash = sha256 sample_crypto (signedBytes sample_summary),
     il_supersedes = None\<rparr>"

lemma sample_charge:
  "ComputeCharge \<lparr>Version = 1, CPUCoreSecond = 1, RAMMBSecond = 1, StorageGBSecond = 1, NetworkMB = 1\<rparr>
     60 30720 600 5 2 =
   Inr \<lparr>CPUAmount = 60, RAMAmount = 30720, StorageAmount = 600, NetworkAmount = 7, TotalAmount = 31387\<rparr>"
  by (simp add: ComputeCharge_def checked_steps)

definition sample_outcome :: "(repo_error + MeteringResult) \<times> ledger" where
  "sample_outcome = (Inr \<lparr>res_Outcome = OutcomeAccepted, res_EvidenceID = ''e1'',
      res_InvoiceLineID = ''i1'', res_TotalAmount = 31387\<rparr>,
    sample_ledger\<lparr>cursors := [(''p1'', ''w1'') \<mapsto> 3], evidence := [sample_evidence],
      invoice_lines := [sample_invoice]\<rparr>)"

lemma sample_run_eq: "sample_run = sample_outcome"
proof -
  let ?w = "\<lparr>ref_ProviderID = ''p1'', ref_LeaseID = 7, ref_ConsumerID = None\<rparr>"
  let ?charge = "\<lparr>CPUAmount = 60, RAMAmount = 30720, StorageAmount = 600, NetworkAmount = 7, TotalAmount = 31387\<rparr>"
  have "AcceptEvidence (sample_calls ''e1'' ''i1'' OpAcceptEvidence) sample_ledger
      (acceptRequestOf sample_crypto ''p1'' sample_summary (replicate 64 1) 7 ?w ?charge)
     = sample_outcome"
    by (simp add: sample_outcome_def AcceptEvidence_def acceptFresh_def acceptRequestOf_def checkBigintRange_def
      evidence_of_def invoice_of_def int64_of_def int32_of_def evidence_insertable_def invoice_insertable_def
      sample_evidence_def sample_invoice_def evidenceHash_def CurrentPriceVersion_def Let_def unix_seconds_def i64_def sample_simps)
  then have "billSummary (pg_repository (sample_calls ''e1'' ''i1'')) sample_crypto sample_ledger ''p1''
      sample_summary (replicate 64 1) ?w = sample_outcome"
    unfolding sample_outcome_def
    by (intro billSummary_priced [where schedule = "\<lparr>Version = 1, CPUCoreSecond = 1, RAMMBSecond = 1,
        StorageGBSecond = 1, NetworkMB = 1\<rparr>" and charge = ?charge]) (simp_all add: sample_summary_def ParseInt_def ParseUint_def is_digit_def
      CurrentPriceVersion_def LookupPriceSchedule_def priceSchedules_def sample_charge)
  then show ?thesis
    using RecordUsage_verified [OF _ sample_verified]
    by (simp add: sample_run_def sample_response_def)
qed

lemma ledger_inv_sample [simp]: "ledger_inv sample_ledger"
  by (simp add: sample_ledger_def)

theorem RecordUsage_bills_verified_usage_witness:
  "\<exists>w i. billing (snd sample_outcome) = [((''p1'', w, 3), i)] \<and> il_invoice_line_id i = ''i1'' \<and>
     (\<exists>total. il_total_amount i = int64_of total \<and> unat total = 31387)"
proof -
  have "RecordUsage (pg_repository (sample_calls ''e1'' ''i1'')) sample_crypto 160000000000
     sample_ledger ''p1'' sample_response = (fst sample_outcome, snd sample_outcome)"
    using sample_run_eq by (simp add: sample_run_def)
  from RecordUsage_bills_verified_usage [OF ledger_inv_sample this] show ?thesis
    by (auto simp: sample_outcome_def sample_response_def exact_total_def exact_network_def
        LookupPriceSchedule_def priceSchedules_def CurrentPriceVersion_def int64_of_def
        sample_ledger_def new_ledger_def billing_def sample_summary_def)
qed

section \<open>Reproducible invoices\<close>

text \<open>
  A line is reproducible if the amounts stored in it are what its price version gives for the
  quantities stored in its evidence, over unbounded integers.
\<close>

definition line_reproducible :: "evidence_row \<Rightarrow> invoice_row \<Rightarrow> bool" where
  "line_reproducible e i \<longleftrightarrow>
     (case LookupPriceSchedule (word_of_int (il_price_version i)) of
        None \<Rightarrow> False
      | Some p \<Rightarrow>
          il_cpu_amount i = ev_cpu_core_seconds e * uint (CPUCoreSecond p) \<and>
          il_ram_amount i = ev_ram_mb_seconds e * uint (RAMMBSecond p) \<and>
          il_storage_amount i = ev_storage_gb_seconds e * uint (StorageGBSecond p) \<and>
          il_network_amount i =
            (ev_network_egress_mb e + ev_network_ingress_mb e) * uint (NetworkMB p) \<and>
          il_total_amount i =
            il_cpu_amount i + il_ram_amount i + il_storage_amount i + il_network_amount i)"

definition ledger_reproducible :: "ledger \<Rightarrow> bool" where
  "ledger_reproducible l \<longleftrightarrow> list_all2 line_reproducible (evidence l) (invoice_lines l)"

lemma int64_of_small:
  assumes "\<not> x > 9223372036854775807"
  shows "int64_of x = int (unat x)"
proof -
  have "uint x \<le> 9223372036854775807" using assms by (simp add: word_less_def)
  moreover have "- (2 ^ 63) \<le> uint x" by (rule order_trans [OF _ uint_ge_0]) simp
  ultimately have "signed_take_bit 63 (uint x) = uint x"
    by (intro signed_take_bit_int_eq_self) (assumption, simp)
  then show ?thesis by (simp add: int64_of_def sint_uint)
qed

lemma priced_line_reproducible:
  assumes "priced_request k providerID summary signature workload r" and "checkBigintRange r"
  shows "line_reproducible (evidence_of a w r) (invoice_of b a w r)"
proof -
  obtain p c where p: "LookupPriceSchedule CurrentPriceVersion = Some p"
    and c: "ComputeCharge p (CpuCoreSeconds summary) (RamMbSeconds summary) (StorageGbSeconds summary)
        (NetworkEgressMb summary) (NetworkIngressMb summary) = Inr c"
    and r: "r = acceptRequestOf k providerID summary signature (ref_LeaseID workload) workload c"
    using assms(1) by (auto simp: priced_request_def)
  have "word_of_int (il_price_version (invoice_of b a w r)) = CurrentPriceVersion"
    by (simp add: r acceptRequestOf_def invoice_of_def int32_of_def)
  moreover have "\<not> v > 9223372036854775807" if "v \<in> {CpuCoreSeconds summary, RamMbSeconds summary,
      StorageGbSeconds summary, NetworkEgressMb summary, NetworkIngressMb summary,
      CPUAmount c, RAMAmount c, StorageAmount c, NetworkAmount c, TotalAmount c}" for v
    using assms(2) that by (auto simp: r acceptRequestOf_def checkBigintRange_def)
  ultimately show ?thesis
    using p ComputeCharge_Inr_exact [OF c] by (simp add: line_reproducible_def evidence_of_def invoice_of_def r acceptRequestOf_def
        int64_of_small charge_is_exact_def exact_total_def exact_network_def)
qed

lemma AcceptEvidence_reproducible:
  assumes "ledger_reproducible l" and "AcceptEvidence c l r = (res, l')"
    and "priced_request k providerID summary signature workload r"
  shows "ledger_reproducible l'"
  using assms(2)
proof (cases rule: AcceptEvidence_cases)
  case (accepted w e i)
  have "line_reproducible e i"
    unfolding accepted(2,3) by (rule priced_line_reproducible [OF assms(3) accepted(5)])
  with assms(1) accepted(8) show ?thesis
    by (simp add: ledger_reproducible_def list_all2_appendI)
qed (use assms(1) in \<open>simp_all add: ledger_reproducible_def\<close>)

lemma RecordRejection_frame:
  "\<exists>rs. snd (RecordRejection c l j) = l\<lparr>rejections := rejections l @ rs\<rparr>"
proof -
  obtain res l' where eq: "RecordRejection c l j = (res, l')" by fastforce
  then show ?thesis
    by (cases rule: RecordRejection_cases) (auto simp: eq intro: exI [of _ "[]"])
qed

lemma snd_result_case:
  "snd (case x of (Inl e, s') \<Rightarrow> (Inl e, s') | (Inr u, s') \<Rightarrow> (Inr (f u), s')) = snd x"
  by (simp split: prod.split sum.split)

lemma reject_frame:
  "\<exists>rs. snd (reject (pg_repository calls) k l p m q out) = l\<lparr>rejections := rejections l @ rs\<rparr>"
  unfolding reject_def Let_def pg_repository_select snd_result_case by (rule RecordRejection_frame)

text \<open>What a submission does to the ledger: one acceptance step, then only audit rows.\<close>

lemma RecordUsage_frame:
  assumes "snd (RecordUsage (pg_repository calls) k now l p response) = l'"
  shows "\<exists>l1 rs. l' = l1\<lparr>rejections := rejections l1 @ rs\<rparr> \<and>
    (l1 = l \<or> (\<exists>summary signature workload r res.
       priced_request k p summary signature workload r \<and>
       AcceptEvidence (calls OpAcceptEvidence) l r = (res, l1)))"
    (is "?Q l'")
proof -
  have refused: "?Q (snd (reject (pg_repository calls) k l p m q out))" for m q out
    using reject_frame by blast
  have same: "?Q l" by (rule exI [of _ l], rule exI [of _ "[]"]) simp
  have accepted: "?Q l1" if "priced_request k p summary signature workload r"
    "AcceptEvidence (calls OpAcceptEvidence) l r = (res, l1)" for summary signature workload r res l1
    by (rule exI [of _ l1], rule exI [of _ "[]"]) (use that in auto)
  have stale: "?Q (snd (RecordRejection c l1 j))" if "priced_request k p summary signature workload r"
    "AcceptEvidence (calls OpAcceptEvidence) l r = (res, l1)" for summary signature workload r res l1 c j
    using RecordRejection_frame [of c l1 j] that by blast
  have "?Q (snd (RecordUsage (pg_repository calls) k now l p response))"
  proof (rule RecordUsage_branches [where P = "\<lambda>x. ?Q (snd x)"])
    fix summary workload
    show "?Q (snd (billSummary (pg_repository calls) k l p summary (resp_Signature (the response)) workload))"
    proof (rule billSummary_branches [where P = "\<lambda>x. ?Q (snd x)"])
      fix r e s'
      assume "repo_AcceptEvidence (pg_repository calls) l r = (Inl e, s')"
      then have "s' = l" by (simp add: AcceptEvidence_error)
      with same show "?Q (snd (Inl e :: repo_error + MeteringResult, s'))" by (simp only: snd_conv)
    next
      fix r result s' j
      assume "priced_request k p summary (resp_Signature (the response)) workload r"
        and "repo_AcceptEvidence (pg_repository calls) l r = (Inr result, s')"
      then show "?Q (snd (Inr result :: repo_error + MeteringResult, snd (repo_RecordRejection (pg_repository calls) s' j)))"
        unfolding snd_conv pg_repository_select by (rule stale)
    next
      fix r result s'
      assume "priced_request k p summary (resp_Signature (the response)) workload r"
        and "repo_AcceptEvidence (pg_repository calls) l r = (Inr result, s')"
      then show "?Q (snd (Inr result :: repo_error + MeteringResult, s'))"
        unfolding snd_conv pg_repository_select by (rule accepted)
    qed (rule refused)
  qed (rule refused, unfold snd_conv, rule same)
  with assms show ?thesis by simp
qed

lemma ledger_reproducible_audit [simp]:
  "ledger_reproducible (l\<lparr>rejections := rs\<rparr>) = ledger_reproducible l"
  "ledger_reproducible (l\<lparr>disputes := ds\<rparr>) = ledger_reproducible l"
  by (simp_all add: ledger_reproducible_def)

lemma metering_step_reproducible:
  assumes "ledger_reproducible l"
  shows "ledger_reproducible (metering_step k l ev)"
proof (cases ev)
  case (DisputeRaised calls line raisedBy why)
  with assms RaiseDispute_frame [of calls l line raisedBy why] show ?thesis by auto
next
  case (Submission calls now p response)
  from RecordUsage_frame [OF refl, of calls k now l p response] assms Submission show ?thesis
    by (auto dest: AcceptEvidence_reproducible)
qed

text \<open>
  C10. Every invoice can be reproduced. After any history, each invoice line stands against
  one evidence row, carries the evidence's provider, workload, lease and hash, and its stored
  amounts and total are exactly what the price version stored in it gives for the quantities
  stored in that evidence, with no wrap-around on the way to the database.
\<close>

theorem invoices_reproducible:
  "list_all2 (\<lambda>e i. line_of_evidence e i \<and> line_reproducible e i)
     (evidence (metering_run k (new_ledger ps ws us) evs))
     (invoice_lines (metering_run k (new_ledger ps ws us) evs))"
proof -
  have "ledger_reproducible l \<Longrightarrow> ledger_reproducible (metering_run k l evs)" for l
    by (induction evs arbitrary: l) (simp_all add: metering_run_def metering_step_reproducible)
  then have "ledger_reproducible (metering_run k (new_ledger ps ws us) evs)"
    by (simp add: ledger_reproducible_def new_ledger_def)
  moreover have "ledger_inv (metering_run k (new_ledger ps ws us) evs)"
    by (rule metering_run_inv [OF ledger_inv_new])
  ultimately show ?thesis
    by (auto simp: ledger_inv_def ledger_reproducible_def list_all2_conv_all_nth)
qed

section \<open>Audit history\<close>

definition advances :: "('a \<Rightarrow> int option) \<Rightarrow> ('a \<Rightarrow> int option) \<Rightarrow> bool" where
  "advances cs cs' \<longleftrightarrow> (\<forall>key n. cs key = Some n \<longrightarrow> (\<exists>m \<ge> n. cs' key = Some m))"

lemma advances_refl [simp]: "advances cs cs"
  by (simp add: advances_def)

lemma advances_trans: "advances cs cs1 \<Longrightarrow> advances cs1 cs2 \<Longrightarrow> advances cs cs2"
  unfolding advances_def by (meson order_trans)

definition ledger_extends :: "ledger \<Rightarrow> ledger \<Rightarrow> bool" where
  "ledger_extends l l' \<longleftrightarrow>
     prefix (evidence l) (evidence l') \<and> prefix (invoice_lines l) (invoice_lines l') \<and>
     prefix (rejections l) (rejections l') \<and> prefix (disputes l) (disputes l') \<and>
     providers l' = providers l \<and> workloads l' = workloads l \<and> users l' = users l \<and>
     advances (cursors l) (cursors l')"

lemma ledger_extends_refl [simp]: "ledger_extends l l"
  by (simp add: ledger_extends_def)

lemma ledger_extends_trans: "ledger_extends l l1 \<Longrightarrow> ledger_extends l1 l2 \<Longrightarrow> ledger_extends l l2"
  unfolding ledger_extends_def by (auto intro: prefix_order.trans advances_trans)

lemma ledger_extends_audit:
  "ledger_extends l (l\<lparr>rejections := rejections l @ rs\<rparr>)"
  "ledger_extends l (l\<lparr>disputes := disputes l @ ds\<rparr>)"
  by (simp_all add: ledger_extends_def)

lemma AcceptEvidence_extends: "AcceptEvidence c l r = (res, l') \<Longrightarrow> ledger_extends l l'"
  by (erule AcceptEvidence_cases)
    (auto simp: ledger_extends_def advances_def intro: less_imp_le)

lemma metering_step_extends: "ledger_extends l (metering_step k l ev)"
proof (cases ev)
  case (DisputeRaised calls line raisedBy why)
  with RaiseDispute_frame [of calls l line raisedBy why] show ?thesis
    by (metis ledger_extends_audit(2) metering_step.simps(2))
next
  case (Submission calls now p response)
  from RecordUsage_frame [OF refl, of calls k now l p response] obtain l1 rs where
    "metering_step k l ev = l1\<lparr>rejections := rejections l1 @ rs\<rparr>" and "ledger_extends l l1"
    using Submission AcceptEvidence_extends by (metis ledger_extends_refl metering_step.simps(1))
  then show ?thesis using ledger_extends_audit(1) ledger_extends_trans by metis
qed

text \<open>
  C14. The audit history is append-only. Along any history no evidence row, invoice line,
  rejection or dispute is ever changed, removed or reordered: each table only grows at its
  end. The sequence cursor of a provider and workload never moves backwards, and the
  provider, workload and user registries are not touched.
\<close>

theorem metering_append_only: "ledger_extends l (metering_run k l evs)"
proof (induction evs arbitrary: l)
  case Nil
  then show ?case by (simp add: metering_run_def)
next
  case (Cons ev evs)
  have "metering_run k l (ev # evs) = metering_run k (metering_step k l ev) evs"
    by (simp add: metering_run_def)
  with Cons [of "metering_step k l ev"] metering_step_extends show ?case
    using ledger_extends_trans by metis
qed

section \<open>Retries\<close>

lemma find_append_new: "(\<And>x. x \<in> set xs \<Longrightarrow> \<not> P x) \<Longrightarrow> P y \<Longrightarrow> find P (xs @ [y]) = Some y"
  by (induction xs) auto

lemma AcceptEvidence_retry:
  assumes inv: "ledger_inv l" and acc: "AcceptEvidence c l r = (Inr result, l')"
    and out: "res_Outcome result = OutcomeAccepted"
    and up: "db_up c'" and parse: "uuid_parse c' = uuid_parse c"
  shows "AcceptEvidence c' l' r = (Inr (result\<lparr>res_Outcome := OutcomeDuplicate\<rparr>), l')"
  using acc
proof (cases rule: AcceptEvidence_cases)
  case (stale w n result')
  with out classifyStaleSequence_outcome [of l' w r result'] show ?thesis by auto
next
  case (accepted w e i)
  let ?key = "(req_ProviderID r, w)"
  have "find_evidence l' (req_ProviderID r) w (int64_of (req_Sequence r)) = Some e"
    using accepted(6) unfolding find_evidence_def accepted(8)
    by (simp, intro find_append_new) (auto simp: evidence_insertable_def accepted(2) evidence_of_def)
  moreover have "find_original_line l' (fresh1 c) = Some i"
    using accepted(7) unfolding find_original_line_def accepted(8)
    by (simp, intro find_append_new) (auto simp: invoice_insertable_def accepted(3) invoice_of_def)
  ultimately have "classifyStaleSequence l' w r = Inr (result\<lparr>res_Outcome := OutcomeDuplicate\<rparr>)"
    using accepted(9) by (simp add: classifyStaleSequence_def accepted(2,3) evidence_of_def invoice_of_def
        int64_of_def)
  moreover have "cursors l' ?key = Some (int64_of (req_Sequence r))"
    and "l'\<lparr>cursors := (cursors l')(?key \<mapsto> int64_of (req_Sequence r))\<rparr> = l'"
    by (simp_all add: accepted(8))
  ultimately show ?thesis
    using accepted(1,5) up parse by (simp add: AcceptEvidence_def Let_def)
qed (use out in simp)

text \<open>
  C11. Resubmitting is idempotent. If a submission was accepted, the same response submitted
  again on the resulting ledger, with the database reachable and the clock still within the
  skew, is reported as a duplicate with the very same evidence id, invoice line id and total,
  and leaves the ledger exactly as it was.
\<close>

theorem RecordUsage_retry_is_duplicate:
  assumes inv: "ledger_inv l"
    and first: "RecordUsage (pg_repository calls) k now l providerID response = (Inr result, l')"
    and out: "res_Outcome result = OutcomeAccepted"
    and up: "\<And>op. db_up (calls' op)" and parse: "\<And>op. uuid_parse (calls' op) = uuid_parse (calls op)"
    and clock: "\<And>summary. Option.bind response resp_Summary = Some summary \<Longrightarrow>
      \<bar>unix_seconds (PeriodEnd summary) * 1000000000 - now'\<bar> \<le> maxMeteringClockSkew"
  shows "RecordUsage (pg_repository calls') k now' l' providerID response =
    (Inr (result\<lparr>res_Outcome := OutcomeDuplicate\<rparr>), l')"
proof -
  from first out obtain summary workload r where sum: "Option.bind response resp_Summary = Some summary"
    and ver: "verified (pg_repository calls) k now l providerID summary (resp_Signature (the response)) workload"
    and priced: "priced_request k providerID summary (resp_Signature (the response)) workload r"
    and acc: "AcceptEvidence (calls OpAcceptEvidence) l r = (Inr result, l')"
    by (rule RecordUsage_accepted) simp
  have "providers l' = providers l" and "workloads l' = workloads l"
    using AcceptEvidence_extends [OF acc] by (auto simp: ledger_extends_def)
  with ver sum clock up parse have "verified (pg_repository calls') k now' l' providerID summary
      (resp_Signature (the response)) workload"
    by (auto simp: verified_def ProviderPublicKey_def Workload_def split: if_splits cong: option.case_cong)
  note eq = RecordUsage_verified [OF sum this]
  have "AcceptEvidence (calls' OpAcceptEvidence) l' r = (Inr (result\<lparr>res_Outcome := OutcomeDuplicate\<rparr>), l')"
    by (rule AcceptEvidence_retry [OF inv acc out up parse])
  with priced show ?thesis
    unfolding eq priced_request_def by (auto intro!: billSummary_priced)
qed

theorem RecordUsage_retry_is_duplicate_witness:
  "RecordUsage (pg_repository (sample_calls ''e2'' ''i2'')) sample_crypto 161000000000 (snd sample_outcome)
     ''p1'' sample_response =
   (Inr \<lparr>res_Outcome = OutcomeDuplicate, res_EvidenceID = ''e1'', res_InvoiceLineID = ''i1'',
      res_TotalAmount = 31387\<rparr>, snd sample_outcome)"
proof -
  let ?result = "\<lparr>res_Outcome = OutcomeAccepted, res_EvidenceID = ''e1'', res_InvoiceLineID = ''i1'',
    res_TotalAmount = 31387\<rparr>"
  have "RecordUsage (pg_repository (sample_calls ''e1'' ''i1'')) sample_crypto 160000000000
     sample_ledger ''p1'' sample_response = (Inr ?result, snd sample_outcome)"
    using sample_run_eq by (simp add: sample_run_def sample_outcome_def)
  from RecordUsage_retry_is_duplicate [OF ledger_inv_sample this, of "sample_calls ''e2'' ''i2''" 161000000000]
  show ?thesis
    by (simp add: sample_calls_def sample_response_def sample_summary_def unix_seconds_def int64_of_def
        i64_def maxMeteringClockSkew_def)
qed

end
