(* ===== verification/Metering_Audit.thy ===== *)
theory Metering_Audit
  imports Metering_History
begin

text \<open>
  The audit trail of \<^verbatim>\<open>control-plane/internal/metering\<close>: which submissions leave a
  rejection row, and the dispute operations over PostgreSQL.
\<close>

section \<open>Rejections\<close>

text \<open>
  A figure that does not fit a \<^verbatim>\<open>bigint\<close> column. Every price is 1, so the total is
  the sum of the five priced quantities.
\<close>

definition beyond_bigint :: "MeteringSummary \<Rightarrow> bool" where
  "beyond_bigint m \<longleftrightarrow> 2 ^ 63 \<le> unat (Sequence m) \<or> 2 ^ 63 \<le> unat (GpuSeconds m) \<or>
     2 ^ 63 \<le> unat (CpuCoreSeconds m) + unat (RamMbSeconds m) + unat (StorageGbSeconds m) +
       unat (NetworkEgressMb m) + unat (NetworkIngressMb m)"

text \<open>
  What a submission leaves in the audit trail: nothing when it is accepted or a duplicate,
  exactly one row and no bill when it is refused. The only error is a figure that does not fit.
\<close>

definition refusal_recorded ::
  "(string \<Rightarrow> string option) \<Rightarrow> ledger \<Rightarrow> string \<Rightarrow> GetUsageSummaryResponse option \<Rightarrow>
     (repo_error + MeteringResult) \<times> ledger \<Rightarrow> bool" where
  "refusal_recorded parse l providerID response x \<longleftrightarrow>
     (case x of
        (Inr result, l') \<Rightarrow>
          if res_Outcome result \<in> {OutcomeAccepted, OutcomeDuplicate} then rejections l' = rejections l
          else billing l' = billing l \<and>
            (\<exists>row. rejections l' = rejections l @ [row] \<and> rr_provider_id row = providerID \<and>
               rr_workload_id row = Option.bind (Option.bind response resp_Summary) (\<lambda>m. parse (WorkloadId m)) \<and>
               rr_reason row = Outcome_String (res_Outcome result))
      | (Inl e, l') \<Rightarrow> e = ErrBigintRange \<and> l' = l \<and>
          (\<exists>m. Option.bind response resp_Summary = Some m \<and> beyond_bigint m))"

text \<open>What the property assumes of the database, of the fresh identifiers and of the hash.\<close>

definition healthy_calls :: "(repo_op \<Rightarrow> db_call) \<Rightarrow> (string \<Rightarrow> string option) \<Rightarrow> bool" where
  "healthy_calls calls parse \<longleftrightarrow> (\<forall>op. db_up (calls op) \<and> uuid_parse (calls op) = parse)"

definition fresh_ids :: "db_call \<Rightarrow> ledger \<Rightarrow> bool" where
  "fresh_ids c l \<longleftrightarrow> (\<forall>e \<in> set (evidence l). ev_evidence_id e \<noteq> fresh1 c) \<and>
     (\<forall>i \<in> set (invoice_lines l). il_invoice_line_id i \<noteq> fresh2 c)"

definition owners_exist :: "ledger \<Rightarrow> bool" where
  "owners_exist l \<longleftrightarrow> (\<forall>w p i u. workloads l w = Some (p, i, Some u) \<longrightarrow> u \<in> set (users l))"

lemma reject_refusal_recorded:
  assumes "healthy_calls calls parse" and "out \<noteq> OutcomeAccepted" and "out \<noteq> OutcomeDuplicate"
    and "\<And>m. Option.bind response resp_Summary = Some m \<Longrightarrow> parse (WorkloadId m) \<noteq> None"
  shows "refusal_recorded parse l providerID response
    (reject (pg_repository calls) k l providerID (Option.bind response resp_Summary) q out)"
  using assms
  by (cases "Option.bind response resp_Summary")
    (auto simp: refusal_recorded_def reject_def RecordRejection_def healthy_calls_def emptyResult_def
      billing_def Let_def)

lemma stale_refusal_recorded:
  assumes acc: "AcceptEvidence (calls OpAcceptEvidence) l r = (Inr result, l')"
    and out: "res_Outcome result \<noteq> OutcomeAccepted" "res_Outcome result \<noteq> OutcomeDuplicate"
    and j: "rej_Reason j = Outcome_String (res_Outcome result)" "rej_ProviderID j = providerID"
      "rej_WorkloadID j = Some (req_WorkloadID r)"
    and calls: "healthy_calls calls parse"
    and m: "Option.bind response resp_Summary = Some m" "req_WorkloadID r = WorkloadId m"
      "parse (WorkloadId m) \<noteq> None"
  shows "refusal_recorded parse l providerID response
    (Inr result, snd (RecordRejection (calls OpRecordRejection) l' j))"
proof -
  have "billing l' = billing l" "rejections l' = rejections l"
    using AcceptEvidence_stale [OF acc out(1)] AcceptEvidence_rejections [OF acc] by simp_all
  with out j calls m show ?thesis
    by (auto simp: refusal_recorded_def RecordRejection_def healthy_calls_def billing_def Let_def)
qed

lemma u64_above: "x > (9223372036854775807 :: u64) \<longleftrightarrow> 2 ^ 63 \<le> unat x"
  by (simp add: word_less_nat_alt) arith

lemma priced_range:
  assumes "priced_request k providerID m signature workload r"
  shows "checkBigintRange r \<longleftrightarrow> \<not> beyond_bigint m"
proof -
  obtain p c where p: "LookupPriceSchedule CurrentPriceVersion = Some p"
    and c: "ComputeCharge p (CpuCoreSeconds m) (RamMbSeconds m) (StorageGbSeconds m)
        (NetworkEgressMb m) (NetworkIngressMb m) = Inr c"
    and r: "r = acceptRequestOf k providerID m signature (ref_LeaseID workload) workload c"
    using assms by (auto simp: priced_request_def)
  have "p = \<lparr>Version = 1, CPUCoreSecond = 1, RAMMBSecond = 1, StorageGBSecond = 1, NetworkMB = 1\<rparr>"
    using p by (simp add: LookupPriceSchedule_def priceSchedules_def CurrentPriceVersion_def)
  with ComputeCharge_Inr_exact [OF c] have "unat (CPUAmount c) = unat (CpuCoreSeconds m)"
    "unat (RAMAmount c) = unat (RamMbSeconds m)" "unat (StorageAmount c) = unat (StorageGbSeconds m)"
    "unat (NetworkAmount c) = unat (NetworkEgressMb m) + unat (NetworkIngressMb m)"
    "unat (TotalAmount c) = unat (CpuCoreSeconds m) + unat (RamMbSeconds m) + unat (StorageGbSeconds m) +
       (unat (NetworkEgressMb m) + unat (NetworkIngressMb m))"
    by (simp_all add: charge_is_exact_def exact_total_def exact_network_def)
  then show ?thesis
    unfolding checkBigintRange_def beyond_bigint_def u64_above by (auto simp: r acceptRequestOf_def)
qed

lemma int64_of_uint: "int64_of x = (if uint x < 2 ^ 63 then uint x else uint x - 2 ^ 64)"
proof -
  have "0 \<le> uint x" "uint x < 2 ^ 64" using unsigned_less [of x, where ?'a = int] by simp_all
  moreover have "int64_of x = i64 (uint x)"
    by (simp add: int64_of_def sint_uint signed_take_bit_eq_take_bit_shift take_bit_eq_mod i64_def)
  moreover have "in_i64 (uint x)" if "uint x < 2 ^ 63"
    using that uint_ge_0 [of x] unfolding in_i64_def by linarith
  ultimately show ?thesis using i64_sub [of "uint x"] i64_id [of "uint x"] by simp
qed

lemma unix_seconds_uint:
  "unix_seconds x = (if uint x < 9223371974719179008 then uint x else uint x - 2 ^ 64)"
proof -
  have x: "0 \<le> uint x" "uint x < 2 ^ 64" using unsigned_less [of x, where ?'a = int] by simp_all
  show ?thesis
  proof (cases "uint x < 9223371974719179008 \<or> 2 ^ 63 \<le> uint x")
    case True
    then have "in_i64 (int64_of x + 62135596800)" using x by (auto simp: int64_of_uint in_i64_def)
    with True x show ?thesis by (auto simp: unix_seconds_def i64_id int64_of_uint)
  next
    case False
    then have "i64 (int64_of x + 62135596800) = int64_of x + 62135596800 - 2 ^ 64"
      using x by (intro i64_sub) (auto simp: int64_of_uint)
    with False x show ?thesis by (auto simp: unix_seconds_def int64_of_uint)
  qed
qed

lemma unix_seconds_mono:
  assumes "a \<le> b" and "- 300 \<le> unix_seconds b" and "b - a \<le> 3600"
  shows "unix_seconds a \<le> unix_seconds b"
proof -
  have le: "uint a \<le> uint b" using assms(1) by (simp add: word_le_def)
  then have "uint b - uint a \<le> 3600" using assms(3) by (simp add: word_le_def uint_sub_if')
  with le assms(2) show ?thesis by (auto simp: unix_seconds_uint split: if_splits)
qed

lemma list_all2_mem1: "list_all2 P xs ys \<Longrightarrow> x \<in> set xs \<Longrightarrow> \<exists>y \<in> set ys. P x y"
  by (induction rule: list_all2_induct) auto

lemma list_all2_mem2: "list_all2 P xs ys \<Longrightarrow> y \<in> set ys \<Longrightarrow> \<exists>x \<in> set xs. P x y"
  by (induction rule: list_all2_induct) auto

text \<open>A stored submission is found again together with its line.\<close>

lemma classifyStaleSequence_total:
  assumes "ledger_inv l" and "evidence l' = evidence l" and "invoice_lines l' = invoice_lines l"
  shows "\<exists>result. classifyStaleSequence l' w r = Inr result"
proof (cases "find_evidence l' (req_ProviderID r) w (int64_of (req_Sequence r))")
  case (Some e)
  then have "e \<in> set (evidence l)" using assms(2) by (auto simp: find_evidence_def dest: find_SomeD)
  moreover have "list_all2 line_of_evidence (evidence l) (invoice_lines l)" using assms(1) by (simp add: ledger_inv_def)
  ultimately obtain i where "i \<in> set (invoice_lines l')" "line_of_evidence e i"
    using assms(3) by (auto dest: list_all2_mem1)
  then have "find_original_line l' (ev_evidence_id e) \<noteq> None"
    by (auto simp: find_original_line_def find_None_iff line_of_evidence_def)
  with Some show ?thesis by (auto simp: classifyStaleSequence_def)
qed (simp add: classifyStaleSequence_def)

lemma acceptFresh_total:
  assumes inv: "ledger_inv l" and fresh: "fresh_ids c l" and owners: "owners_exist l"
    and prov: "providers l providerID \<noteq> None"
    and work: "workloads l w = Some (p, i, u)" "ref_ConsumerID workload = u"
    and seq: "\<And>n. cursors l (providerID, w) = Some n \<Longrightarrow> n < int64_of (Sequence m)"
    and m: "Sequence m \<noteq> 0" "MeteringSchemaVersion m = 1" "unix_seconds (PeriodStart m) \<le> unix_seconds (PeriodEnd m)"
    and sig: "length signature = 64" and hash: "\<And>x. length (sha256 k x) = 32"
    and priced: "priced_request k providerID m signature workload r" and range: "checkBigintRange r"
  shows "\<exists>result l'. acceptFresh c l w r = (Inr result, l')"
proof -
  obtain charge where r: "r = acceptRequestOf k providerID m signature (ref_LeaseID workload) workload charge"
    and lease: "0 \<le> ref_LeaseID workload" using priced by (auto simp: priced_request_def)
  have small: "int64_of v = int (unat v)" if "v \<in> {Sequence m, CpuCoreSeconds m, RamMbSeconds m, StorageGbSeconds m,
      NetworkEgressMb m, NetworkIngressMb m, GpuSeconds m, CPUAmount charge, RAMAmount charge, StorageAmount charge,
      NetworkAmount charge, TotalAmount charge}" for v
    using range that by (intro int64_of_small) (auto simp: checkBigintRange_def r acceptRequestOf_def)
  have pos: "0 < int64_of (Sequence m)" using m(1) unat_gt_0 [of "Sequence m"] small [of "Sequence m"] by (simp del: of_nat_unat)
  have keys: "\<not> (ev_provider_id x = providerID \<and> ev_workload_id x = w \<and> ev_sequence x = int64_of (Sequence m))"
    if "x \<in> set (evidence l)" for x
    using inv that seq by (force simp: ledger_inv_def)
  have lines: "il_evidence_id x \<noteq> fresh1 c" if "x \<in> set (invoice_lines l)" for x
  proof -
    have "list_all2 line_of_evidence (evidence l) (invoice_lines l)" using inv by (simp add: ledger_inv_def)
    with that obtain e where "e \<in> set (evidence l)" "line_of_evidence e x"
      by (auto dest: list_all2_mem2)
    with fresh show ?thesis by (auto simp: fresh_ids_def line_of_evidence_def)
  qed
  have user: "\<forall>x. ref_ConsumerID workload = Some x \<longrightarrow> x \<in> set (users l)"
    using owners work by (auto simp: owners_exist_def)
  have "int32_of 1 = 1" by (simp add: int32_of_def)
  with fresh prov work lease m sig hash pos keys lines user show ?thesis
    by (auto simp: acceptFresh_def Let_def evidence_insertable_def invoice_insertable_def evidence_of_def invoice_of_def
      r acceptRequestOf_def small fresh_ids_def evidenceHash_def CurrentPriceVersion_def split: option.split)
qed

lemma AcceptEvidence_total:
  assumes calls: "healthy_calls calls parse" and inv: "ledger_inv l"
    and fresh: "fresh_ids (calls OpAcceptEvidence) l" and owners: "owners_exist l"
    and hash: "\<And>x. length (sha256 k x) = 32" and now: "0 \<le> now"
    and ver: "verified (pg_repository calls) k now l providerID m signature workload"
    and priced: "priced_request k providerID m signature workload r"
    and acc: "AcceptEvidence (calls OpAcceptEvidence) l r = (Inl e, l')"
  shows "e = ErrBigintRange \<and> l' = l \<and> beyond_bigint m"
proof (cases "checkBigintRange r")
  case False
  with acc priced_range [OF priced] show ?thesis by (auto simp: AcceptEvidence_def)
next
  case True
  have r: "req_ProviderID r = providerID" "req_WorkloadID r = WorkloadId m" "req_Sequence r = Sequence m"
    using priced by (auto simp: priced_request_def acceptRequestOf_def)
  from ver calls obtain w p i u where w: "parse (WorkloadId m) = Some w" "workloads l w = Some (p, i, u)"
    "ref_ConsumerID workload = u" and prov: "providers l providerID \<noteq> None" and sig: "length signature = 64"
    by (auto simp: verified_def healthy_calls_def Workload_def ProviderPublicKey_def verifySignature_def
      split: if_splits option.splits)
  have bounds: "Sequence m \<noteq> 0" "MeteringSchemaVersion m = 1" "PeriodStart m \<le> PeriodEnd m"
    "PeriodEnd m - PeriodStart m \<le> 3600"
    using ver by (auto simp: verified_def validateBounds_def knownSchemaVersions_def maxMeteringPeriodSeconds_def
      split: if_splits)
  have "- 300 \<le> unix_seconds (PeriodEnd m)"
    using ver now by (auto simp: verified_def maxMeteringClockSkew_def)
  then have period: "unix_seconds (PeriodStart m) \<le> unix_seconds (PeriodEnd m)"
    using bounds(3,4) by (intro unix_seconds_mono)
  let ?n = "case cursors l (providerID, w) of None \<Rightarrow> 0 | Some n \<Rightarrow> n"
  have eq: "AcceptEvidence (calls OpAcceptEvidence) l r =
    (if int64_of (Sequence m) \<le> ?n
     then (case classifyStaleSequence (l\<lparr>cursors := (cursors l)((providerID, w) \<mapsto> ?n)\<rparr>) w r of
             Inl e \<Rightarrow> (Inl e, l) | Inr result \<Rightarrow> (Inr result, l\<lparr>cursors := (cursors l)((providerID, w) \<mapsto> ?n)\<rparr>))
     else acceptFresh (calls OpAcceptEvidence) l w r)"
    using True calls w prov by (auto simp: AcceptEvidence_def Let_def healthy_calls_def r)
  obtain result where "classifyStaleSequence (l\<lparr>cursors := (cursors l)((providerID, w) \<mapsto> ?n)\<rparr>) w r = Inr result"
    using classifyStaleSequence_total [OF inv, of "l\<lparr>cursors := (cursors l)((providerID, w) \<mapsto> ?n)\<rparr>" w r] by auto
  moreover have "\<exists>result l'. acceptFresh (calls OpAcceptEvidence) l w r = (Inr result, l')"
    if "\<not> int64_of (Sequence m) \<le> ?n"
    by (rule acceptFresh_total [OF inv fresh owners prov w(2,3) _ bounds(1,2) period sig hash priced True])
      (use that in simp)
  ultimately show ?thesis using acc unfolding eq by (auto split: if_splits)
qed

text \<open>
  C15. No submission is silently dropped. Let every call reach the database, the ledger be in a
  state the program can produce, the fresh identifiers be unused and the clock be past 1970, and
  let the workload id of the summary, if there is one, be a UUID. Then a submission that is
  refused appends exactly one rejection row, with the provider, the workload and the
  machine-readable reason of its outcome, and bills nothing; an accepted or duplicate one appends
  none; and the call fails in one case only, a verified submission with a figure beyond
  \<open>2 ^ 63\<close>, which leaves the ledger untouched and unrecorded.
\<close>

theorem RecordUsage_refusals_recorded:
  assumes calls: "healthy_calls calls parse" and inv: "ledger_inv l"
    and fresh: "fresh_ids (calls OpAcceptEvidence) l" and owners: "owners_exist l"
    and hash: "\<And>x. length (sha256 k x) = 32" and now: "0 \<le> now"
    and id: "\<And>m. Option.bind response resp_Summary = Some m \<Longrightarrow> parse (WorkloadId m) \<noteq> None"
  shows "refusal_recorded parse l providerID response (RecordUsage (pg_repository calls) k now l providerID response)"
proof (rule RecordUsage_branches)
  fix q out
  assume "out \<noteq> OutcomeAccepted" and "out \<noteq> OutcomeDuplicate"
  then show "refusal_recorded parse l providerID response
      (reject (pg_repository calls) k l providerID (Option.bind response resp_Summary) q out)"
    by (rule reject_refusal_recorded [OF calls _ _ id])
next
  fix e
  assume "(repo_ProviderPublicKey (pg_repository calls) l providerID = Inl e \<and> e \<noteq> ErrProviderNotFound) \<or>
    (\<exists>m. Option.bind response resp_Summary = Some m \<and>
       repo_Workload (pg_repository calls) l (WorkloadId m) = Inl e \<and> e \<noteq> ErrWorkloadNotFound)"
  then have False
    using calls id by (fastforce simp: ProviderPublicKey_def Workload_def healthy_calls_def split: option.splits)
  then show "refusal_recorded parse l providerID response (Inl e, l)" ..
next
  fix m workload
  assume m: "Option.bind response resp_Summary = Some m"
    and ver: "verified (pg_repository calls) k now l providerID m (resp_Signature (the response)) workload"
  show "refusal_recorded parse l providerID response
    (billSummary (pg_repository calls) k l providerID m (resp_Signature (the response)) workload)"
  proof (rule billSummary_branches)
    fix q out
    assume "out \<noteq> OutcomeAccepted" and "out \<noteq> OutcomeDuplicate"
    then show "refusal_recorded parse l providerID response
        (reject (pg_repository calls) k l providerID (Some m) q out)"
      using reject_refusal_recorded [OF calls _ _ id] m by metis
  next
    fix r e l'
    assume "priced_request k providerID m (resp_Signature (the response)) workload r"
      and "repo_AcceptEvidence (pg_repository calls) l r = (Inl e, l')"
    then show "refusal_recorded parse l providerID response (Inl e, l')"
      using AcceptEvidence_total [OF calls inv fresh owners hash now ver] m
      by (auto simp: refusal_recorded_def)
  next
    fix r result l' and j :: Rejection
    assume priced: "priced_request k providerID m (resp_Signature (the response)) workload r"
      and st: "repo_AcceptEvidence (pg_repository calls) l r = (Inr result, l')"
        "res_Outcome result \<noteq> OutcomeAccepted" "res_Outcome result \<noteq> OutcomeDuplicate"
        "rej_Reason j = Outcome_String (res_Outcome result)" "rej_ProviderID j = providerID"
        "rej_WorkloadID j = Some (req_WorkloadID r)"
    have "req_WorkloadID r = WorkloadId m"
      using priced by (auto simp: priced_request_def acceptRequestOf_def)
    from stale_refusal_recorded [OF st(1) [unfolded pg_repository_select] st(2-) calls m this id [OF m]]
    show "refusal_recorded parse l providerID response
        (Inr result, snd (repo_RecordRejection (pg_repository calls) l' j))" by simp
  next
    fix r result l'
    assume "repo_AcceptEvidence (pg_repository calls) l r = (Inr result, l')"
      and "res_Outcome result = OutcomeAccepted \<or> res_Outcome result = OutcomeDuplicate"
    then show "refusal_recorded parse l providerID response (Inr result, l')"
      by (auto simp: refusal_recorded_def dest: AcceptEvidence_rejections)
  qed
qed

theorem RecordUsage_refusals_recorded_witness:
  "\<exists>row. rejections (snd (RecordUsage (pg_repository (sample_calls ''e1'' ''i1'')) sample_crypto 160000000000
      sample_ledger ''p2'' sample_response)) = [row] \<and> rr_provider_id row = ''p2'' \<and>
    rr_workload_id row = Some ''w1'' \<and> rr_reason row = ''unknown_provider''"
proof -
  let ?x = "RecordUsage (pg_repository (sample_calls ''e1'' ''i1'')) sample_crypto 160000000000
      sample_ledger ''p2'' sample_response"
  have "refusal_recorded Some sample_ledger ''p2'' sample_response ?x"
    by (rule RecordUsage_refusals_recorded [OF _ ledger_inv_sample])
      (simp_all add: healthy_calls_def fresh_ids_def owners_exist_def sample_simps)
  moreover have "fst ?x = Inr (emptyResult OutcomeUnknownProvider)"
    by (simp add: RecordUsage_def Let_def sample_simps validateBounds_def maxMeteringPeriodSeconds_def
        knownSchemaVersions_def maxMeteringClockSkew_def unix_seconds_def int64_of_def i64_def
        ProviderPublicKey_def reject_def RecordRejection_def)
  ultimately show ?thesis
    by (cases ?x) (auto simp: refusal_recorded_def emptyResult_def sample_simps)
qed

text \<open>
  The exception to the above. A submission without a workload id is a bounds violation,
  but its rejection row cannot be stored, because the empty text is not a UUID: the call
  fails with a database error and the ledger keeps no trace of the submission.
\<close>

theorem RecordUsage_empty_workload_unrecorded:
  assumes "Option.bind response resp_Summary = Some summary" and "WorkloadId summary = ''''"
    and "uuid_parse (calls OpRecordRejection) '''' = None"
  shows "RecordUsage (pg_repository calls) k now l providerID response = (Inl ErrDatabase, l)"
  using assms
  by (simp add: RecordUsage_def Let_def validateBounds_def reject_def RecordRejection_def)

definition strict_calls :: "repo_op \<Rightarrow> db_call" where
  "strict_calls op = (sample_calls ''e1'' ''i1'' op)\<lparr>uuid_parse := (\<lambda>t. if t = '''' then None else Some t)\<rparr>"

theorem RecordUsage_empty_workload_unrecorded_witness:
  "RecordUsage (pg_repository strict_calls) sample_crypto 160000000000 sample_ledger ''p1''
     (Some \<lparr>resp_Summary = Some (sample_summary\<lparr>WorkloadId := ''''\<rparr>), resp_Signature = []\<rparr>)
   = (Inl ErrDatabase, sample_ledger)"
  by (rule RecordUsage_empty_workload_unrecorded [where summary = "sample_summary\<lparr>WorkloadId := ''''\<rparr>"])
    (simp_all add: strict_calls_def)

section \<open>Disputes\<close>

lemma RaiseDispute_ok:
  assumes "RaiseDispute (pg_repository calls) l line raisedBy why = (Inr d, l')"
  obtains i where "uuid_parse (calls OpInsertDispute) line = Some i"
    and "d = \<lparr>DisputeID = fresh1 (calls OpInsertDispute), InvoiceLineID = line, RaisedBy = raisedBy,
      Reason = why, Status = DisputeStatusOpen, RaisedAt = db_now (calls OpInsertDispute)\<rparr>"
    and "l' = l\<lparr>disputes := disputes l @ [d\<lparr>InvoiceLineID := i\<rparr>]\<rparr>"
    and "\<exists>x \<in> set (invoice_lines l). il_invoice_line_id x = i"
    and "raisedBy \<in> {''payer'', ''provider'', ''operator''}" and "0 < length why" and "length why \<le> 2000"
    and "\<forall>x \<in> set (disputes l). DisputeID x \<noteq> DisputeID d"
  using assms
  by (auto simp: RaiseDispute_def InsertDispute_def Let_def split: if_splits sum.splits option.splits)

text \<open>
  A raised dispute is on record. When \<^verbatim>\<open>RaiseDispute\<close> succeeds, the disputed line
  exists, the party and the reason are valid, and the dispute is stored open under the line's
  canonical id: it can be read back by its own id and it appears in the list of the line's
  disputes, which is ordered by the time they were raised.
\<close>

theorem RaiseDispute_roundtrip:
  assumes raised: "RaiseDispute (pg_repository calls) l line raisedBy why = (Inr d, l')"
    and up: "\<And>op. db_up (calls' op)"
    and parse: "\<And>op. uuid_parse (calls' op) line = uuid_parse (calls OpInsertDispute) line"
    and own: "\<And>op. uuid_parse (calls' op) (DisputeID d) = Some (DisputeID d)"
  shows "raisedBy \<in> {''payer'', ''provider'', ''operator''} \<and> why \<noteq> '''' \<and> Status d = DisputeStatusOpen \<and>
    (\<exists>i ds. uuid_parse (calls OpInsertDispute) line = Some i \<and>
       (\<exists>x \<in> set (invoice_lines l). il_invoice_line_id x = i) \<and>
       GetDispute (calls' OpGetDispute) l' (DisputeID d) = Inr (d\<lparr>InvoiceLineID := i\<rparr>) \<and>
       ListDisputes (pg_repository calls') l' line = Inr ds \<and>
       d\<lparr>InvoiceLineID := i\<rparr> \<in> set ds \<and> sorted (map RaisedAt ds))"
proof -
  from raised obtain i where i: "uuid_parse (calls OpInsertDispute) line = Some i"
    and d: "d = \<lparr>DisputeID = fresh1 (calls OpInsertDispute), InvoiceLineID = line, RaisedBy = raisedBy,
      Reason = why, Status = DisputeStatusOpen, RaisedAt = db_now (calls OpInsertDispute)\<rparr>"
    and l': "l' = l\<lparr>disputes := disputes l @ [d\<lparr>InvoiceLineID := i\<rparr>]\<rparr>"
    and line: "\<exists>x \<in> set (invoice_lines l). il_invoice_line_id x = i"
    and party: "raisedBy \<in> {''payer'', ''provider'', ''operator''}" "0 < length why"
    and fresh: "\<forall>x \<in> set (disputes l). DisputeID x \<noteq> DisputeID d"
    by (rule RaiseDispute_ok)
  have "find (\<lambda>x. DisputeID x = DisputeID d) (disputes l @ [d\<lparr>InvoiceLineID := i\<rparr>])
      = Some (d\<lparr>InvoiceLineID := i\<rparr>)"
    by (rule find_append_new) (use fresh in auto)
  then have get: "GetDispute (calls' OpGetDispute) l' (DisputeID d) = Inr (d\<lparr>InvoiceLineID := i\<rparr>)"
    using up own by (simp add: GetDispute_def l')
  have list: "ListDisputes (pg_repository calls') l' line =
      Inr (sort_key RaisedAt (filter (\<lambda>x. InvoiceLineID x = i) (disputes l')))"
    using up parse i by (simp add: ListDisputes_def ListDisputesForInvoiceLine_def)
  have mem: "d\<lparr>InvoiceLineID := i\<rparr> \<in> set (sort_key RaisedAt (filter (\<lambda>x. InvoiceLineID x = i) (disputes l')))"
    by (simp add: l')
  have "Status d = DisputeStatusOpen" and "why \<noteq> ''''" using party(2) by (auto simp: d)
  with get list mem i line party(1) show ?thesis using sorted_sort_key by blast
qed

definition dispute_calls :: "repo_op \<Rightarrow> db_call" where
  "dispute_calls = sample_calls ''d1'' ''''"

theorem RaiseDispute_roundtrip_witness:
  "\<exists>d. fst (RaiseDispute (pg_repository dispute_calls) (snd sample_outcome) ''i1'' ''payer'' ''late'') = Inr d \<and>
     (\<exists>ds. ListDisputes (pg_repository dispute_calls)
        (snd (RaiseDispute (pg_repository dispute_calls) (snd sample_outcome) ''i1'' ''payer'' ''late'')) ''i1''
        = Inr ds \<and> d\<lparr>InvoiceLineID := ''i1''\<rparr> \<in> set ds)"
proof -
  let ?d = "\<lparr>DisputeID = ''d1'', InvoiceLineID = ''i1'', RaisedBy = ''payer'', Reason = ''late'',
    Status = DisputeStatusOpen, RaisedAt = 0\<rparr>"
  let ?l = "(snd sample_outcome)\<lparr>disputes := [?d]\<rparr>"
  have run: "RaiseDispute (pg_repository dispute_calls) (snd sample_outcome) ''i1'' ''payer'' ''late'' = (Inr ?d, ?l)"
    by (simp add: RaiseDispute_def InvoiceLineExists_def InsertDispute_def dispute_calls_def sample_calls_def
        sample_outcome_def sample_invoice_def sample_ledger_def new_ledger_def Let_def)
  from RaiseDispute_roundtrip [OF run, of dispute_calls] show ?thesis
    unfolding run by (auto simp: dispute_calls_def sample_calls_def)
qed

end
