(* ===== verification/Go_Float.thy ===== *)
theory Go_Float
  imports Prelude
begin

text \<open>
  The IEEE 754 arithmetic the Go sources use: \<^verbatim>\<open>float32\<close> core counts, multiplied and
  rounded to integer millicores. A finite value is a dyadic \<open>Fin m e\<close> standing for
  \<open>m * 2 ^ e\<close>; every operation computes exactly and then rounds to nearest, ties to even,
  in the precision of its type. The sign of zero is not kept, since no source divides by a
  float or prints one. What the language leaves to the implementation is a parameter: whether
  a product and a sum are fused, and the result of converting a value that does not fit.
\<close>

datatype gofloat = NaN | Inf bool | Fin int int

record float_format =
  precision :: nat
  min_exp :: int
  max_exp :: int

definition f32 :: float_format where
  "f32 = \<lparr>precision = 24, min_exp = - 149, max_exp = 127\<rparr>"

definition f64 :: float_format where
  "f64 = \<lparr>precision = 53, min_exp = - 1074, max_exp = 1023\<rparr>"

record platform =
  fuses_multiply_add :: bool
  int64_overflow :: "gofloat \<Rightarrow> int"
  uint32_overflow :: "gofloat \<Rightarrow> u32"

fun bitlen :: "nat \<Rightarrow> nat" where
  "bitlen n = (if n = 0 then 0 else 1 + bitlen (n div 2))"

declare bitlen.simps [simp del]

lemma bitlen_eval: "bitlen 0 = 0" "0 < n \<Longrightarrow> bitlen n = Suc (bitlen (n div 2))"
  by (subst bitlen.simps, simp)+

definition shift_half_even :: "int \<Rightarrow> nat \<Rightarrow> int" where
  "shift_half_even m s =
     (if s = 0 then m
      else let q = m div 2 ^ s; r = m mod 2 ^ s; half = 2 ^ (s - 1) in
           if r < half then q else if half < r then q + 1 else if even q then q else q + 1)"

definition fround :: "float_format \<Rightarrow> int \<Rightarrow> int \<Rightarrow> gofloat" where
  "fround F m e =
     (let s = nat (max (int (bitlen (nat \<bar>m\<bar>)) - int (precision F)) (min_exp F - e));
          q = shift_half_even m s; e' = e + int s in
      if q \<noteq> 0 \<and> int (bitlen (nat \<bar>q\<bar>)) + e' > max_exp F + 1 then Inf (q < 0) else Fin q e')"

definition exact_add :: "int \<Rightarrow> int \<Rightarrow> int \<Rightarrow> int \<Rightarrow> int \<times> int" where
  "exact_add m e n d =
     (let k = min e d in (m * 2 ^ nat (e - k) + n * 2 ^ nat (d - k), k))"

fun fmul :: "float_format \<Rightarrow> gofloat \<Rightarrow> gofloat \<Rightarrow> gofloat" where
  "fmul F (Fin m e) (Fin n d) = fround F (m * n) (e + d)"
| "fmul F (Inf s) (Fin n d) = (if n = 0 then NaN else Inf (s \<noteq> (n < 0)))"
| "fmul F (Fin m e) (Inf s) = (if m = 0 then NaN else Inf (s \<noteq> (m < 0)))"
| "fmul F (Inf s) (Inf t) = Inf (s \<noteq> t)"
| "fmul F _ _ = NaN"

fun fadd :: "float_format \<Rightarrow> gofloat \<Rightarrow> gofloat \<Rightarrow> gofloat" where
  "fadd F (Fin m e) (Fin n d) = (case exact_add m e n d of (x, k) \<Rightarrow> fround F x k)"
| "fadd F (Inf s) (Fin n d) = Inf s"
| "fadd F (Fin m e) (Inf s) = Inf s"
| "fadd F (Inf s) (Inf t) = (if s = t then Inf s else NaN)"
| "fadd F _ _ = NaN"

text \<open>\<open>x * y + z\<close>: rounded after the product and after the sum, or only once where fused.\<close>

definition fmul_add :: "platform \<Rightarrow> float_format \<Rightarrow> gofloat \<Rightarrow> gofloat \<Rightarrow> gofloat \<Rightarrow> gofloat" where
  "fmul_add pf F x y z =
     (case (x, y, z) of
        (Fin m e, Fin n d, Fin k c) \<Rightarrow>
          if fuses_multiply_add pf
          then (case exact_add (m * n) (e + d) k c of (v, w) \<Rightarrow> fround F v w)
          else fadd F (fmul F x y) z
      | _ \<Rightarrow> fadd F (fmul F x y) z)"

text \<open>Comparison with zero and truncation to an integer.\<close>

fun fneg :: "gofloat \<Rightarrow> bool" where
  "fneg (Fin m e) = (m < 0)"
| "fneg (Inf s) = s"
| "fneg NaN = False"

fun fpos :: "gofloat \<Rightarrow> bool" where
  "fpos (Fin m e) = (m > 0)"
| "fpos (Inf s) = (\<not> s)"
| "fpos NaN = False"

fun ftrunc :: "gofloat \<Rightarrow> int option" where
  "ftrunc (Fin m e) = Some (if 0 \<le> e then m * 2 ^ nat e else go_div m (2 ^ nat (- e)))"
| "ftrunc _ = None"

definition to_int64 :: "platform \<Rightarrow> gofloat \<Rightarrow> int" where
  "to_int64 pf x =
     (case ftrunc x of Some i \<Rightarrow> if in_i64 i then i else i64 (int64_overflow pf x)
      | None \<Rightarrow> i64 (int64_overflow pf x))"

definition to_uint32 :: "platform \<Rightarrow> gofloat \<Rightarrow> u32" where
  "to_uint32 pf x =
     (case ftrunc x of Some i \<Rightarrow> if 0 \<le> i \<and> i < 2 ^ 32 then word_of_int i else uint32_overflow pf x
      | None \<Rightarrow> uint32_overflow pf x)"

section \<open>Rounding is exact where the value fits\<close>

lemma bitlen_le: "n < 2 ^ p \<Longrightarrow> bitlen n \<le> p"
proof (induction p arbitrary: n)
  case 0
  then show ?case by (simp add: bitlen.simps)
next
  case (Suc p)
  from Suc.prems have "n div 2 < 2 ^ p" by simp
  with Suc.IH show ?case by (subst bitlen.simps) auto
qed

definition representable :: "float_format \<Rightarrow> int \<Rightarrow> int \<Rightarrow> bool" where
  "representable F m e \<longleftrightarrow> \<bar>m\<bar> < 2 ^ precision F \<and> min_exp F \<le> e \<and>
     int (precision F) + e \<le> max_exp F + 1"

lemma fround_representable [simp]:
  assumes "representable F m e"
  shows "fround F m e = Fin m e"
proof -
  have "nat \<bar>m\<bar> < 2 ^ precision F"
    using assms by (simp add: representable_def nat_less_iff)
  then have len: "bitlen (nat \<bar>m\<bar>) \<le> precision F" by (rule bitlen_le)
  then have "nat (max (int (bitlen (nat \<bar>m\<bar>)) - int (precision F)) (min_exp F - e)) = 0"
    using assms by (simp add: representable_def)
  with len assms show ?thesis
    by (simp add: fround_def shift_half_even_def representable_def)
qed

end
