(* ===== verification/Go_Sort.thy ===== *)
theory Go_Sort
  imports Prelude
begin

text \<open>
  Go's \<^verbatim>\<open>sort.Slice\<close>: the insertion sort the standard library runs on short slices,
  and the contract that holds of every length whatever algorithm is used. The result is a
  permutation in which no later element is less than an earlier one; where the comparison
  tells any two elements apart, there is only one such permutation.
\<close>

fun sift :: "('a \<Rightarrow> 'a \<Rightarrow> bool) \<Rightarrow> 'a \<Rightarrow> 'a list \<Rightarrow> 'a list" where
  "sift before x [] = [x]"
| "sift before x (y # ys) = (if before x y then y # sift before x ys else x # y # ys)"

text \<open>The sorted part is kept reversed, so the new element sifts down from its end.\<close>

definition sortSlice :: "('a \<Rightarrow> 'a \<Rightarrow> bool) \<Rightarrow> 'a list \<Rightarrow> 'a list" where
  "sortSlice before xs = rev (foldl (\<lambda>acc x. sift before x acc) [] xs)"

lemma mset_sift [simp]: "mset (sift before x ys) = add_mset x (mset ys)"
  by (induction ys) auto

lemma mset_sortSlice [simp]: "mset (sortSlice before xs) = mset xs"
proof -
  have "mset (foldl (\<lambda>acc x. sift before x acc) ys xs) = mset ys + mset xs" for ys
    by (induction xs arbitrary: ys) auto
  then show ?thesis by (simp add: sortSlice_def)
qed

lemma set_sortSlice [simp]: "set (sortSlice before xs) = set xs"
  by (metis mset_sortSlice set_mset_mset)

lemma length_sortSlice [simp]: "length (sortSlice before xs) = length xs"
  by (metis mset_sortSlice size_mset)

definition in_order :: "('a \<Rightarrow> 'a \<Rightarrow> bool) \<Rightarrow> 'a list \<Rightarrow> bool" where
  "in_order before xs \<longleftrightarrow> sorted_wrt (\<lambda>a b. \<not> before b a) xs"

text \<open>What \<^verbatim>\<open>sort.Slice\<close> asks of its comparison: a strict weak order.\<close>

locale slice_order =
  fixes before :: "'a \<Rightarrow> 'a \<Rightarrow> bool"
  assumes asym: "before a b \<Longrightarrow> \<not> before b a"
    and neg_trans: "\<not> before b a \<Longrightarrow> \<not> before c b \<Longrightarrow> \<not> before c a"
begin

lemma sift_in_order:
  "sorted_wrt (\<lambda>a b. \<not> before a b) ys \<Longrightarrow> sorted_wrt (\<lambda>a b. \<not> before a b) (sift before x ys)"
proof (induction ys)
  case (Cons y ys)
  have down: "\<not> before x z" if "\<not> before x y" "z \<in> set ys" for z
    using neg_trans [of y z x] that Cons.prems by auto
  have "set (sift before x ys) = insert x (set ys)"
    by (metis mset_sift set_mset_add_mset_insert set_mset_mset)
  with Cons show ?case using down by (auto dest: asym)
qed simp

lemma sortSlice_in_order: "in_order before (sortSlice before xs)"
proof -
  have "sorted_wrt (\<lambda>a b. \<not> before a b) ys \<Longrightarrow>
      sorted_wrt (\<lambda>a b. \<not> before a b) (foldl (\<lambda>acc x. sift before x acc) ys xs)" for ys
    by (induction xs arbitrary: ys) (auto simp: sift_in_order)
  then show ?thesis by (simp add: in_order_def sortSlice_def sorted_wrt_rev)
qed

text \<open>Two arrangements of the same elements, none of which the order confuses, are equal.\<close>

lemma in_order_unique:
  assumes "in_order before xs" and "in_order before ys" and "mset xs = mset ys"
    and "\<And>a b. a \<in> set xs \<Longrightarrow> b \<in> set xs \<Longrightarrow> a \<noteq> b \<Longrightarrow> before a b \<or> before b a"
  shows "xs = ys"
  using assms
proof (induction xs arbitrary: ys)
  case (Cons x xs)
  then obtain y ys' where ys: "ys = y # ys'" by (cases ys) auto
  have sets: "set (x # xs) = set (y # ys')" using Cons.prems(3) ys by (metis set_mset_mset)
  have "x = y"
  proof (rule ccontr)
    assume "x \<noteq> y"
    then have "y \<in> set xs" and "x \<in> set ys'" using sets by auto
    then have "\<not> before y x" and "\<not> before x y"
      using Cons.prems(1,2) ys by (auto simp: in_order_def)
    with Cons.prems(4) [of x y] \<open>x \<noteq> y\<close> \<open>y \<in> set xs\<close> show False by auto
  qed
  moreover have "xs = ys'"
    using Cons.prems \<open>x = y\<close> ys by (intro Cons.IH) (auto simp: in_order_def)
  ultimately show ?case using ys by simp
qed simp

lemma sortSlice_unique:
  assumes "in_order before ys" and "mset ys = mset xs"
    and "\<And>a b. a \<in> set xs \<Longrightarrow> b \<in> set xs \<Longrightarrow> a \<noteq> b \<Longrightarrow> before a b \<or> before b a"
  shows "ys = sortSlice before xs"
  using in_order_unique [OF sortSlice_in_order assms(1)] assms(2,3) by simp

end

end
