(* ===== verification/Scheduler.thy ===== *)
theory Scheduler
  imports Go_Float Go_Sort
begin

text \<open>
  \<^verbatim>\<open>control-plane/internal/scheduler/rank.go\<close>: the deterministic provider ranking.
  Basis points are 32-bit words and memory, storage and bandwidth figures are \<^verbatim>\<open>int64\<close>,
  both with Go's wrap-around; core counts are \<^verbatim>\<open>float32\<close>. The division by a zero
  \<^verbatim>\<open>MaxReputationScore\<close>, which panics in Go, is the error \<open>DivideByZero\<close>.
\<close>

record ReputationVector =
  Compute :: u32
  Storage :: u32
  Network :: u32
  Availability :: u32
  Reliability :: u32

record ProfileWeights =
  ResourceBps :: u32
  ReputationBps :: u32
  ComputeBps :: u32
  StorageBps :: u32
  NetworkBps :: u32
  AvailabilityBps :: u32
  ReliabilityBps :: u32

datatype WorkloadProfile =
    PROFILE_UNSPECIFIED | COMPUTE_INTENSIVE | MEMORY_INTENSIVE | STORAGE_INTENSIVE | LATENCY_SENSITIVE
  | PROFILE_OTHER int

fun DefaultProfileWeights :: "WorkloadProfile \<Rightarrow> ProfileWeights option" where
  "DefaultProfileWeights COMPUTE_INTENSIVE = Some \<lparr>ResourceBps = 6000, ReputationBps = 4000,
     ComputeBps = 5000, StorageBps = 500, NetworkBps = 500, AvailabilityBps = 3000, ReliabilityBps = 1000\<rparr>"
| "DefaultProfileWeights MEMORY_INTENSIVE = Some \<lparr>ResourceBps = 6000, ReputationBps = 4000,
     ComputeBps = 2000, StorageBps = 1000, NetworkBps = 500, AvailabilityBps = 3500, ReliabilityBps = 3000\<rparr>"
| "DefaultProfileWeights STORAGE_INTENSIVE = Some \<lparr>ResourceBps = 6000, ReputationBps = 4000,
     ComputeBps = 500, StorageBps = 5000, NetworkBps = 500, AvailabilityBps = 3000, ReliabilityBps = 1000\<rparr>"
| "DefaultProfileWeights LATENCY_SENSITIVE = Some \<lparr>ResourceBps = 5000, ReputationBps = 5000,
     ComputeBps = 1000, StorageBps = 500, NetworkBps = 5000, AvailabilityBps = 2500, ReliabilityBps = 1000\<rparr>"
| "DefaultProfileWeights _ = None"

definition WireGuardOverheadBytes :: int where "WireGuardOverheadBytes = 60"
definition DefaultOverlayMTUBytes :: int where "DefaultOverlayMTUBytes = 1500"
definition DefaultMaxReputationScore :: u32 where "DefaultMaxReputationScore = 1000"
definition DefaultDefaultReputationScore :: u32 where "DefaultDefaultReputationScore = 500"

definition fallbackWeights :: ProfileWeights where
  "fallbackWeights = \<lparr>ResourceBps = 5000, ReputationBps = 5000,
     ComputeBps = 2000, StorageBps = 2000, NetworkBps = 2000, AvailabilityBps = 2500, ReliabilityBps = 1500\<rparr>"

record Candidate =
  cand_ProviderID :: string
  AgentEndpoint :: string
  CPUAvailableCores :: gofloat
  CPUTotalCores :: gofloat
  RAMAvailableMB :: int
  RAMTotalMB :: int
  StorageAvailableGB :: int
  StorageTotalGB :: int
  IngressTotalMbps :: int
  EgressTotalMbps :: int
  Reputation :: ReputationVector
  HasReputation :: bool
  Zone :: string
  VirtualizationCapable :: bool

record Score =
  ProviderID :: string
  TotalBps :: u32
  ResourceFitBps :: u32
  ScoreReputationBps :: u32

record Exclusion =
  excl_ProviderID :: string
  excl_Reason :: string

record Decision =
  Selected :: "Score option"
  Ranked :: "Score list"
  Excluded :: "Exclusion list"

record Ranker =
  Weights :: "WorkloadProfile \<Rightarrow> ProfileWeights option"
  MaxReputationScore :: u32
  DefaultReputationScore :: u32
  WireGuardOverlayEnabled :: bool

record BandwidthRequirement =
  IngressMbps :: int
  EgressMbps :: int

record ResourceRequirements =
  Cpu :: gofloat
  RamMb :: int
  StorageGb :: int
  GpuCount :: int
  Bandwidth :: "BandwidthRequirement option"

record WorkloadConstraints =
  MinReputation :: gofloat
  RequiredZone :: string
  RequiresVm :: bool

definition NewRanker :: "u32 \<Rightarrow> u32 \<Rightarrow> Ranker" where
  "NewRanker maxReputationScore defaultReputationScore =
     \<lparr>Weights = DefaultProfileWeights, MaxReputationScore = maxReputationScore,
      DefaultReputationScore = defaultReputationScore, WireGuardOverlayEnabled = False\<rparr>"

definition SetWireGuardOverlayEnabled :: "Ranker \<Rightarrow> bool \<Rightarrow> Ranker" where
  "SetWireGuardOverlayEnabled r enabled = r\<lparr>WireGuardOverlayEnabled := enabled\<rparr>"

section \<open>Scoring\<close>

definition weightedReputationBps :: "ProfileWeights \<Rightarrow> ReputationVector \<Rightarrow> u32 \<Rightarrow> u32" where
  "weightedReputationBps weights vector maxScore =
     (if maxScore = 0 then 0
      else let total =
             ucast (ComputeBps weights) * ucast (Compute vector) +
             ucast (StorageBps weights) * ucast (Storage vector) +
             ucast (NetworkBps weights) * ucast (Network vector) +
             ucast (AvailabilityBps weights) * ucast (Availability vector) +
             ucast (ReliabilityBps weights) * ucast (Reliability vector) :: u64
           in ucast (total div ucast maxScore))"

definition globalBps :: "ReputationVector \<Rightarrow> u32 \<Rightarrow> u32" where
  "globalBps vector maxScore =
     (if maxScore = 0 then 0
      else let average = (ucast (Compute vector) + ucast (Storage vector) + ucast (Network vector)
                + ucast (Availability vector) + ucast (Reliability vector)) div 5 :: u64
           in ucast (average * 10000 div ucast maxScore))"

definition fitBps :: "int \<Rightarrow> int \<Rightarrow> u32 \<times> bool" where
  "fitBps available required =
     (if required \<le> 0 then (10000, True)
      else if available < required then (0, False)
      else let ratio = go_div (i64 (available * 10000)) required;
               ratio = (if ratio > 10000 then 10000 else ratio)
           in (word_of_int ratio, True))"

definition WireGuardEffectiveMbps :: "int \<Rightarrow> int" where
  "WireGuardEffectiveMbps totalMbps =
     (if totalMbps \<le> 0 then totalMbps
      else go_div (i64 (totalMbps * (DefaultOverlayMTUBytes - WireGuardOverheadBytes)))
             DefaultOverlayMTUBytes)"

definition cpuMillicores :: "platform \<Rightarrow> gofloat \<Rightarrow> int" where
  "cpuMillicores pf cores =
     (if fneg cores then 0
      else to_int64 pf (fmul_add pf f32 cores (Fin 1000 0) (Fin 1 (- 1))))"

definition ReasonZoneMismatch :: string where
  "ReasonZoneMismatch = ''zone mismatch''"

definition ReasonVmIncapable :: string where
  "ReasonVmIncapable = ''provider is not virtualization-capable''"

datatype score_result = Scored Score | ExcludedFor string | DivideByZero

text \<open>The bandwidth part of \<^verbatim>\<open>scoreOne\<close>: the fit and the number of terms averaged.\<close>

definition bandwidthFit ::
  "Ranker \<Rightarrow> ResourceRequirements \<Rightarrow> Candidate \<Rightarrow> string + (u32 \<times> u32)" where
  "bandwidthFit r requirements candidate =
     (case Bandwidth requirements of
        None \<Rightarrow> Inr (0, 3)
      | Some bandwidth \<Rightarrow>
          if \<not> (IngressMbps bandwidth > 0 \<or> EgressMbps bandwidth > 0) then Inr (0, 3)
          else
            let effective = (if WireGuardOverlayEnabled r then WireGuardEffectiveMbps else (\<lambda>x. x));
                (ingressFitBps, ingressOk) = fitBps (effective (IngressTotalMbps candidate)) (IngressMbps bandwidth);
                (egressFitBps, egressOk) = fitBps (effective (EgressTotalMbps candidate)) (EgressMbps bandwidth) in
            if \<not> ingressOk then Inl ''insufficient ingress bandwidth''
            else if \<not> egressOk then Inl ''insufficient egress bandwidth''
            else Inr ((ingressFitBps + egressFitBps) div 2, 3 + 1))"

definition effectiveReputation :: "Ranker \<Rightarrow> Candidate \<Rightarrow> ReputationVector" where
  "effectiveReputation r candidate =
     (if HasReputation candidate then Reputation candidate
      else \<lparr>Compute = DefaultReputationScore r, Storage = DefaultReputationScore r,
            Network = DefaultReputationScore r, Availability = DefaultReputationScore r,
            Reliability = DefaultReputationScore r\<rparr>)"

text \<open>The constraint checks of \<^verbatim>\<open>scoreOne\<close>: a reason to exclude, or a panic.\<close>

definition constraintCheck ::
  "platform \<Rightarrow> Ranker \<Rightarrow> WorkloadConstraints option \<Rightarrow> Candidate \<Rightarrow> ReputationVector \<Rightarrow> score_result option" where
  "constraintCheck pf r constraints candidate reputation =
     (case constraints of
        None \<Rightarrow> None
      | Some c \<Rightarrow>
          if RequiredZone c \<noteq> '''' \<and> Zone candidate \<noteq> RequiredZone c
          then Some (ExcludedFor ReasonZoneMismatch)
          else if RequiresVm c \<and> \<not> VirtualizationCapable candidate
          then Some (ExcludedFor ReasonVmIncapable)
          else if fpos (MinReputation c)
          then (if MaxReputationScore r = 0 then Some DivideByZero
                else if globalBps reputation (MaxReputationScore r)
                          < to_uint32 pf (MinReputation c) * 10000 div MaxReputationScore r
                then Some (ExcludedFor ''below workload's minimum reputation constraint'')
                else None)
          else None)"

definition scoreOne ::
  "platform \<Rightarrow> Ranker \<Rightarrow> ProfileWeights \<Rightarrow> ResourceRequirements option \<Rightarrow> WorkloadConstraints option
     \<Rightarrow> Candidate \<Rightarrow> score_result" where
  "scoreOne pf r weights requirements constraints candidate =
     (if AgentEndpoint candidate = '''' then ExcludedFor ''no advertised agent endpoint''
      else case requirements of
        None \<Rightarrow> ExcludedFor ''workload has no resource requirements''
      | Some q \<Rightarrow>
          let (cpuFitBps, cpuOk) = fitBps (cpuMillicores pf (CPUAvailableCores candidate)) (cpuMillicores pf (Cpu q));
              (ramFitBps, ramOk) = fitBps (RAMAvailableMB candidate) (RamMb q);
              (storageFitBps, storageOk) = fitBps (StorageAvailableGB candidate) (StorageGb q) in
          if \<not> cpuOk then ExcludedFor ''insufficient CPU''
          else if \<not> ramOk then ExcludedFor ''insufficient RAM''
          else if \<not> storageOk then ExcludedFor ''insufficient storage''
          else (case bandwidthFit r q candidate of
                  Inl why \<Rightarrow> ExcludedFor why
                | Inr (bandwidthFitBps, resourceFitCount) \<Rightarrow>
                    let resourceFitBps = (cpuFitBps + ramFitBps + storageFitBps + bandwidthFitBps) div resourceFitCount;
                        reputation = effectiveReputation r candidate;
                        reputationBps = weightedReputationBps weights reputation (MaxReputationScore r) in
                    (case constraintCheck pf r constraints candidate reputation of
                       Some out \<Rightarrow> out
                     | None \<Rightarrow>
                         Scored \<lparr>ProviderID = cand_ProviderID candidate,
                           TotalBps = (resourceFitBps * ResourceBps weights + reputationBps * ReputationBps weights) div 10000,
                           ResourceFitBps = resourceFitBps, ScoreReputationBps = reputationBps\<rparr>)))"

section \<open>Ranking\<close>

definition score_before :: "Score \<Rightarrow> Score \<Rightarrow> bool" where
  "score_before a b \<longleftrightarrow>
     (if TotalBps a \<noteq> TotalBps b then TotalBps a > TotalBps b else ProviderID a < ProviderID b)"

fun rankLoop ::
  "(Candidate \<Rightarrow> score_result) \<Rightarrow> Candidate list \<Rightarrow> Score list \<times> Exclusion list
     \<Rightarrow> (Score list \<times> Exclusion list) option" where
  "rankLoop score [] acc = Some acc"
| "rankLoop score (c # cs) (ranked, excluded) =
     (case score c of
        DivideByZero \<Rightarrow> None
      | ExcludedFor why \<Rightarrow>
          rankLoop score cs (ranked, excluded @ [\<lparr>excl_ProviderID = cand_ProviderID c, excl_Reason = why\<rparr>])
      | Scored s \<Rightarrow> rankLoop score cs (ranked @ [s], excluded))"

definition Rank ::
  "platform \<Rightarrow> Ranker \<Rightarrow> WorkloadProfile \<Rightarrow> ResourceRequirements option \<Rightarrow> WorkloadConstraints option
     \<Rightarrow> Candidate list \<Rightarrow> Decision option" where
  "Rank pf r profile requirements constraints candidates =
     (let weights = (case Weights r profile of None \<Rightarrow> fallbackWeights | Some w \<Rightarrow> w) in
      case rankLoop (scoreOne pf r weights requirements constraints) candidates ([], []) of
        None \<Rightarrow> None
      | Some (scores, excluded) \<Rightarrow>
          let ranked = sortSlice score_before scores in
          Some \<lparr>Selected = (case ranked of [] \<Rightarrow> None | s # _ \<Rightarrow> Some s),
                Ranked = ranked, Excluded = excluded\<rparr>)"

end
