(* ===== verification/Ranking.thy ===== *)
theory Ranking
  imports Scheduler
begin

text \<open>
  What the ranking of \<^verbatim>\<open>control-plane/internal/scheduler/rank.go\<close> guarantees: exactly
  the eligible candidates are ranked, best first; the result does not depend on the order of
  the candidates or on the sorting algorithm; scores stay within basis points while the
  advertised figures are sane, and what happens when they are not.
\<close>

section \<open>The loop\<close>

definition scored_by :: "(Candidate \<Rightarrow> score_result) \<Rightarrow> Candidate \<Rightarrow> Score list" where
  "scored_by score c = (case score c of Scored s \<Rightarrow> [s] | _ \<Rightarrow> [])"

definition excluded_by :: "(Candidate \<Rightarrow> score_result) \<Rightarrow> Candidate \<Rightarrow> Exclusion list" where
  "excluded_by score c =
     (case score c of ExcludedFor why \<Rightarrow> [\<lparr>excl_ProviderID = cand_ProviderID c, excl_Reason = why\<rparr>] | _ \<Rightarrow> [])"

lemma rankLoop_eq:
  "rankLoop score cs (a, b) =
     (if \<exists>c \<in> set cs. score c = DivideByZero then None
      else Some (a @ concat (map (scored_by score) cs), b @ concat (map (excluded_by score) cs)))"
  by (induction cs arbitrary: a b) (auto simp: scored_by_def excluded_by_def split: score_result.split)

lemma Rank_eq:
  "Rank pf r profile requirements constraints cs =
     (let score = scoreOne pf r (case Weights r profile of None \<Rightarrow> fallbackWeights | Some w \<Rightarrow> w)
                    requirements constraints;
          ranked = sortSlice score_before (concat (map (scored_by score) cs)) in
      if \<exists>c \<in> set cs. score c = DivideByZero then None
      else Some \<lparr>Selected = (case ranked of [] \<Rightarrow> None | s # _ \<Rightarrow> Some s), Ranked = ranked,
             Excluded = concat (map (excluded_by score) cs)\<rparr>)"
  by (simp add: Rank_def Let_def rankLoop_eq)

interpretation rk: slice_order score_before
proof
  fix a b c :: Score
  show "score_before a b \<Longrightarrow> \<not> score_before b a"
    by (auto simp: score_before_def split: if_splits)
  show "\<not> score_before b a \<Longrightarrow> \<not> score_before c b \<Longrightarrow> \<not> score_before c a"
    by (auto simp: score_before_def split: if_splits)
qed

section \<open>Eligibility\<close>

definition covers :: "int \<Rightarrow> int \<Rightarrow> bool" where
  "covers available required \<longleftrightarrow> required \<le> 0 \<or> required \<le> available"

text \<open>What the checks of \<^verbatim>\<open>scoreOne\<close> let through, in the code's own arithmetic.\<close>

definition bandwidth_accepted :: "Ranker \<Rightarrow> ResourceRequirements \<Rightarrow> Candidate \<Rightarrow> bool" where
  "bandwidth_accepted r q c \<longleftrightarrow>
     (case Bandwidth q of
        None \<Rightarrow> True
      | Some b \<Rightarrow>
          (let effective = (if WireGuardOverlayEnabled r then WireGuardEffectiveMbps else (\<lambda>x. x)) in
           covers (effective (IngressTotalMbps c)) (IngressMbps b) \<and>
           covers (effective (EgressTotalMbps c)) (EgressMbps b)))"

definition accepted ::
  "platform \<Rightarrow> Ranker \<Rightarrow> ResourceRequirements option \<Rightarrow> WorkloadConstraints option \<Rightarrow> Candidate \<Rightarrow> bool" where
  "accepted pf r requirements constraints c \<longleftrightarrow>
     AgentEndpoint c \<noteq> '''' \<and>
     (case requirements of
        None \<Rightarrow> False
      | Some q \<Rightarrow>
          covers (cpuMillicores pf (CPUAvailableCores c)) (cpuMillicores pf (Cpu q)) \<and>
          covers (RAMAvailableMB c) (RamMb q) \<and> covers (StorageAvailableGB c) (StorageGb q) \<and>
          bandwidth_accepted r q c) \<and>
     constraintCheck pf r constraints c (effectiveReputation r c) = None"

text \<open>
  What a workload asks of a provider, over the integers: 1440 parts in 1500 of the declared
  bandwidth where traffic goes through the overlay, and a mean of the five reputation
  dimensions of at least the whole points demanded, both on the scale of the on-chain vector.
\<close>

definition overlay_mbps :: "bool \<Rightarrow> int \<Rightarrow> int" where
  "overlay_mbps overlay x = (if overlay \<and> 0 < x then x * 1440 div 1500 else x)"

definition bandwidth_covered :: "Ranker \<Rightarrow> ResourceRequirements \<Rightarrow> Candidate \<Rightarrow> bool" where
  "bandwidth_covered r q c \<longleftrightarrow>
     (case Bandwidth q of
        None \<Rightarrow> True
      | Some b \<Rightarrow>
          covers (overlay_mbps (WireGuardOverlayEnabled r) (IngressTotalMbps c)) (IngressMbps b) \<and>
          covers (overlay_mbps (WireGuardOverlayEnabled r) (EgressTotalMbps c)) (EgressMbps b))"

definition reputation_points :: "ReputationVector \<Rightarrow> nat" where
  "reputation_points v = unat (Compute v) + unat (Storage v) + unat (Network v) + unat (Availability v) + unat (Reliability v)"

definition reputation_floor_met :: "gofloat \<Rightarrow> ReputationVector \<Rightarrow> bool" where
  "reputation_floor_met minimum v \<longleftrightarrow>
     (fpos minimum \<longrightarrow>
        (case ftrunc minimum of None \<Rightarrow> False | Some points \<Rightarrow> 5 * points \<le> int (reputation_points v)))"

definition constraints_met :: "Ranker \<Rightarrow> WorkloadConstraints option \<Rightarrow> Candidate \<Rightarrow> bool" where
  "constraints_met r constraints c \<longleftrightarrow>
     (case constraints of
        None \<Rightarrow> True
      | Some k \<Rightarrow>
          (RequiredZone k = '''' \<or> Zone c = RequiredZone k) \<and>
          (\<not> RequiresVm k \<or> VirtualizationCapable c) \<and>
          reputation_floor_met (MinReputation k) (effectiveReputation r c))"

definition eligible ::
  "platform \<Rightarrow> Ranker \<Rightarrow> ResourceRequirements option \<Rightarrow> WorkloadConstraints option \<Rightarrow> Candidate \<Rightarrow> bool" where
  "eligible pf r requirements constraints c \<longleftrightarrow>
     AgentEndpoint c \<noteq> '''' \<and>
     (case requirements of
        None \<Rightarrow> False
      | Some q \<Rightarrow>
          covers (cpuMillicores pf (CPUAvailableCores c)) (cpuMillicores pf (Cpu q)) \<and>
          covers (RAMAvailableMB c) (RamMb q) \<and> covers (StorageAvailableGB c) (StorageGb q) \<and>
          bandwidth_covered r q c) \<and>
     constraints_met r constraints c"

text \<open>The ranges in which the code's 32- and 64-bit arithmetic is the arithmetic of the integers.\<close>

definition bandwidth_in_range :: "Candidate \<Rightarrow> bool" where
  "bandwidth_in_range c \<longleftrightarrow> IngressTotalMbps c \<le> 6405119470038038 \<and> EgressTotalMbps c \<le> 6405119470038038"

definition floor_in_range :: "WorkloadConstraints option \<Rightarrow> bool" where
  "floor_in_range constraints \<longleftrightarrow>
     (case constraints of
        None \<Rightarrow> True
      | Some k \<Rightarrow> fpos (MinReputation k) \<longrightarrow>
          (case ftrunc (MinReputation k) of None \<Rightarrow> False | Some points \<Rightarrow> points * 10000 < 2 ^ 32))"

definition on_scale :: "u32 \<Rightarrow> ReputationVector \<Rightarrow> bool" where
  "on_scale m v \<longleftrightarrow> (\<forall>x \<in> set [Compute, Storage, Network, Availability, Reliability]. x v \<le> m)"

lemma fitBps_ok: "snd (fitBps available required) = covers available required"
  by (auto simp: fitBps_def covers_def Let_def)

lemma bandwidthFit_ok: "(\<exists>x. bandwidthFit r q c = Inr x) \<longleftrightarrow> bandwidth_accepted r q c"
proof (cases "Bandwidth q")
  case (Some b)
  define eff where "eff = (if WireGuardOverlayEnabled r then WireGuardEffectiveMbps else (\<lambda>x. x))"
  obtain i iok where i: "fitBps (eff (IngressTotalMbps c)) (IngressMbps b) = (i, iok)" by fastforce
  obtain e eok where e: "fitBps (eff (EgressTotalMbps c)) (EgressMbps b) = (e, eok)" by fastforce
  have "iok = covers (eff (IngressTotalMbps c)) (IngressMbps b)"
    and "eok = covers (eff (EgressTotalMbps c)) (EgressMbps b)"
    using fitBps_ok i e by (metis snd_conv)+
  moreover have "bandwidthFit r q c =
      (if \<not> (IngressMbps b > 0 \<or> EgressMbps b > 0) then Inr (0, 3)
       else if \<not> iok then Inl ''insufficient ingress bandwidth''
       else if \<not> eok then Inl ''insufficient egress bandwidth'' else Inr ((i + e) div 2, 3 + 1))"
    unfolding bandwidthFit_def Some eff_def [symmetric] option.case Let_def i e prod.case by (rule refl)
  moreover have "bandwidth_accepted r q c \<longleftrightarrow>
      covers (eff (IngressTotalMbps c)) (IngressMbps b) \<and> covers (eff (EgressTotalMbps c)) (EgressMbps b)"
    by (simp add: bandwidth_accepted_def Some eff_def)
  ultimately show ?thesis by (auto simp: covers_def)
qed (simp add: bandwidthFit_def bandwidth_accepted_def)

lemma constraintCheck_ok:
  "MaxReputationScore r \<noteq> 0 \<Longrightarrow>
     constraintCheck pf r k c (effectiveReputation r c) \<noteq> Some DivideByZero \<and>
     (\<forall>s. constraintCheck pf r k c (effectiveReputation r c) \<noteq> Some (Scored s))"
  by (auto simp: constraintCheck_def split: option.split)

lemma scoreOne_accepted:
  assumes "MaxReputationScore r \<noteq> 0"
  shows "case scoreOne pf r w requirements constraints c of
      Scored s \<Rightarrow> accepted pf r requirements constraints c \<and> ProviderID s = cand_ProviderID c
    | ExcludedFor why \<Rightarrow> \<not> accepted pf r requirements constraints c
    | DivideByZero \<Rightarrow> False"
proof (cases "AgentEndpoint c = '''' \<or> requirements = None")
  case True
  then show ?thesis by (auto simp: scoreOne_def accepted_def)
next
  case False
  then obtain q where q: "requirements = Some q" by auto
  obtain f1 ok1 where 1: "fitBps (cpuMillicores pf (CPUAvailableCores c)) (cpuMillicores pf (Cpu q)) = (f1, ok1)"
    by fastforce
  obtain f2 ok2 where 2: "fitBps (RAMAvailableMB c) (RamMb q) = (f2, ok2)" by fastforce
  obtain f3 ok3 where 3: "fitBps (StorageAvailableGB c) (StorageGb q) = (f3, ok3)" by fastforce
  have ok: "ok1 = covers (cpuMillicores pf (CPUAvailableCores c)) (cpuMillicores pf (Cpu q))"
    "ok2 = covers (RAMAvailableMB c) (RamMb q)" "ok3 = covers (StorageAvailableGB c) (StorageGb q)"
    using fitBps_ok 1 2 3 by (metis snd_conv)+
  show ?thesis
  proof (cases "bandwidthFit r q c")
    case (Inl why)
    with bandwidthFit_ok [of r q c] have "\<not> bandwidth_accepted r q c" by auto
    with Inl False q 1 2 3 show ?thesis by (simp add: scoreOne_def accepted_def)
  next
    case (Inr x)
    with bandwidthFit_ok [of r q c] have "bandwidth_accepted r q c" by auto
    with Inr False q 1 2 3 ok constraintCheck_ok [OF assms, of pf constraints c] show ?thesis
      by (auto simp: scoreOne_def accepted_def Let_def split: prod.split option.split score_result.split)
  qed
qed

lemma scored_ids:
  assumes "MaxReputationScore r \<noteq> 0"
    and score_def: "score = scoreOne pf r w requirements constraints"
  shows "map ProviderID (concat (map (scored_by score) cs))
      = map cand_ProviderID (filter (accepted pf r requirements constraints) cs)"
    and "map excl_ProviderID (concat (map (excluded_by score) cs))
      = map cand_ProviderID (filter (\<lambda>c. \<not> accepted pf r requirements constraints c) cs)"
    and "\<not> (\<exists>c \<in> set cs. score c = DivideByZero)"
proof (induction cs)
  case (Cons c cs)
  from scoreOne_accepted [OF assms(1), of pf requirements constraints c w, folded score_def]
  show "map ProviderID (concat (map (scored_by score) (c # cs)))
      = map cand_ProviderID (filter (accepted pf r requirements constraints) (c # cs))"
    and "map excl_ProviderID (concat (map (excluded_by score) (c # cs)))
      = map cand_ProviderID (filter (\<lambda>c. \<not> accepted pf r requirements constraints c) (c # cs))"
    and "\<not> (\<exists>c \<in> set (c # cs). score c = DivideByZero)"
    using Cons by (auto simp: scored_by_def [of score c] excluded_by_def [of score c] split: score_result.splits)
qed simp_all

lemma globalBps_exact:
  assumes "m \<noteq> 0" and "on_scale m v"
  shows "unat (globalBps v m) = reputation_points v div 5 * 10000 div unat m"
proof -
  have m: "0 < unat m" "unat m < 2 ^ 32" using assms(1) unat_u32_less [of m] by (simp_all add: unat_gt_0)
  have le: "unat (Compute v) \<le> unat m" "unat (Storage v) \<le> unat m" "unat (Network v) \<le> unat m"
    "unat (Availability v) \<le> unat m" "unat (Reliability v) \<le> unat m"
    using assms(2) by (simp_all add: on_scale_def word_le_nat_alt)
  let ?t = "ucast (Compute v) + ucast (Storage v) + ucast (Network v) + ucast (Availability v)
    + ucast (Reliability v) :: u64"
  have t: "unat ?t = reputation_points v"
    using le m(2) unfolding reputation_points_def by (simp add: unat_add_u64)
  have avg: "reputation_points v div 5 \<le> unat m" using le by (simp add: reputation_points_def)
  then have "unat (?t div 5 * 10000) = reputation_points v div 5 * 10000"
    using m(2) t by (subst unat_mult_u64) (simp_all add: unat_div)
  moreover have "reputation_points v div 5 * 10000 div unat m \<le> 10000"
    using div_le_mono [OF mult_le_mono1 [OF avg], of 10000 "unat m"] m(1) by simp
  ultimately show ?thesis using assms(1) by (simp add: globalBps_def unat_ucast_u32 unat_div)
qed

lemma div_scale_le_iff:
  fixes a t m :: nat
  assumes "0 < m" and "m \<le> n"
  shows "t * n div m \<le> a * n div m \<longleftrightarrow> t \<le> a"
proof
  assume le: "t * n div m \<le> a * n div m"
  show "t \<le> a"
  proof (rule ccontr)
    assume "\<not> t \<le> a"
    then have "a * n + m \<le> t * n" using assms(2) mult_le_mono1 [of "Suc a" t n] by simp
    then have "(a * n + m) div m \<le> t * n div m" by (rule div_le_mono)
    with le assms(1) show False by simp
  qed
qed (simp add: div_le_mono)

lemma ftrunc_nonneg: "fpos x \<Longrightarrow> ftrunc x = Some i \<Longrightarrow> 0 \<le> i"
  by (cases x) (auto simp: go_div_def pos_imp_zdiv_nonneg_iff split: if_splits)

lemma constraintCheck_exact:
  assumes "MaxReputationScore r \<noteq> 0" and "MaxReputationScore r \<le> 10000"
    and "on_scale (MaxReputationScore r) (effectiveReputation r c)" and "floor_in_range k"
  shows "constraintCheck pf r k c (effectiveReputation r c) = None \<longleftrightarrow> constraints_met r k c"
proof (cases "\<exists>x. k = Some x \<and> fpos (MinReputation x)")
  case True
  then obtain x i where x: "k = Some x" "fpos (MinReputation x)" "ftrunc (MinReputation x) = Some i" "i * 10000 < 2 ^ 32"
    using assms(4) by (auto simp: floor_in_range_def split: option.splits)
  have i: "0 \<le> i" using x by (auto dest: ftrunc_nonneg)
  define n where "n = nat i"
  have n: "i = int n" "n * 10000 < 2 ^ 32" using i x(4) by (auto simp: n_def nat_less_iff)
  let ?v = "effectiveReputation r c" and ?m = "MaxReputationScore r"
  have m: "0 < unat ?m" "unat ?m \<le> 10000" using assms(1,2) by (simp_all add: unat_gt_0 word_le_nat_alt)
  have u: "to_uint32 pf (MinReputation x) = word_of_int i" using x i by (simp add: to_uint32_def)
  have "unat (to_uint32 pf (MinReputation x)) = n"
    using n unfolding u by (simp add: unsigned_of_nat take_bit_nat_eq_self)
  then have "unat (to_uint32 pf (MinReputation x) * 10000 div ?m) = n * 10000 div unat ?m"
    using n(2) by (simp add: unat_div unat_mult_u32)
  then have "\<not> globalBps ?v ?m < to_uint32 pf (MinReputation x) * 10000 div ?m \<longleftrightarrow> n \<le> reputation_points ?v div 5"
    unfolding word_less_nat_alt not_less globalBps_exact [OF assms(1,3)] by (simp add: div_scale_le_iff [OF m])
  also have "\<dots> \<longleftrightarrow> reputation_floor_met (MinReputation x) ?v"
    using x(2,3) n(1) by (auto simp: reputation_floor_met_def)
  finally show ?thesis using x assms(1) by (auto simp: constraintCheck_def constraints_met_def)
next
  case False
  then show ?thesis
    by (auto simp: constraintCheck_def constraints_met_def reputation_floor_met_def split: option.split)
qed

lemma overlay_mbps_exact:
  assumes "x \<le> 6405119470038038"
  shows "(if o' then WireGuardEffectiveMbps else (\<lambda>x. x)) x = overlay_mbps o' x"
proof (cases "x \<le> 0")
  case False
  have "in_i64 (x * 1440)" using assms False by (auto simp: in_i64_def)
  then show ?thesis using False
    by (simp add: overlay_mbps_def WireGuardEffectiveMbps_def DefaultOverlayMTUBytes_def WireGuardOverheadBytes_def go_arith)
qed (simp add: overlay_mbps_def WireGuardEffectiveMbps_def)

lemma accepted_eligible:
  assumes "MaxReputationScore r \<noteq> 0" and "MaxReputationScore r \<le> 10000" and "floor_in_range constraints"
    and "bandwidth_in_range c" and "on_scale (MaxReputationScore r) (effectiveReputation r c)"
  shows "accepted pf r requirements constraints c \<longleftrightarrow> eligible pf r requirements constraints c"
proof -
  have "bandwidth_accepted r q c \<longleftrightarrow> bandwidth_covered r q c" for q
    using assms(4) unfolding bandwidth_accepted_def bandwidth_covered_def bandwidth_in_range_def Let_def
    by (auto simp only: overlay_mbps_exact split: option.split)
  then show ?thesis
    using constraintCheck_exact [OF assms(1,2,5,3)] by (auto simp: accepted_def eligible_def split: option.split)
qed

lemma Rank_exactly_accepted:
  assumes "MaxReputationScore r \<noteq> 0"
  shows "\<exists>d. Rank pf r profile requirements constraints cs = Some d \<and>
    mset (map ProviderID (Ranked d)) =
      mset (map cand_ProviderID (filter (accepted pf r requirements constraints) cs)) \<and>
    map excl_ProviderID (Excluded d) =
      map cand_ProviderID (filter (\<lambda>c. \<not> accepted pf r requirements constraints c) cs) \<and>
    in_order score_before (Ranked d) \<and>
    Selected d = (case Ranked d of [] \<Rightarrow> None | s # _ \<Rightarrow> Some s)"
proof -
  define score where "score = scoreOne pf r (case Weights r profile of None \<Rightarrow> fallbackWeights | Some w \<Rightarrow> w)
    requirements constraints"
  note ids = scored_ids [OF assms score_def, of cs]
  have "mset (map ProviderID (sortSlice score_before (concat (map (scored_by score) cs))))
      = mset (map ProviderID (concat (map (scored_by score) cs)))"
    by (simp only: mset_map mset_sortSlice)
  with ids rk.sortSlice_in_order show ?thesis
    unfolding Rank_eq Let_def score_def [symmetric] by simp
qed

text \<open>
  C16. Exactly the eligible candidates are ranked. Let the score scale be positive and at most
  10000, the reputations lie on it, the declared bandwidths be at most 6405119470038038 Mbit/s
  and the reputation a workload demands, in whole points, be below 429497, so that the code's
  32- and 64-bit products do not wrap. Then the ranking does not panic; the ranked providers are
  exactly those with an endpoint whose free CPU (in rounded millicores), memory, storage and
  bandwidth (less the overlay's share) cover the request, which are in the required zone and can
  run virtual machines where asked, and whose mean reputation reaches the points demanded; every
  other candidate is excluded, in input order; the ranking is sorted by score and then by id, and
  the selected provider is its head.
\<close>

theorem Rank_exactly_eligible:
  assumes "MaxReputationScore r \<noteq> 0" and "MaxReputationScore r \<le> 10000" and "floor_in_range constraints"
    and "\<forall>c \<in> set cs. bandwidth_in_range c \<and> on_scale (MaxReputationScore r) (effectiveReputation r c)"
  shows "\<exists>d. Rank pf r profile requirements constraints cs = Some d \<and>
    mset (map ProviderID (Ranked d)) =
      mset (map cand_ProviderID (filter (eligible pf r requirements constraints) cs)) \<and>
    map excl_ProviderID (Excluded d) =
      map cand_ProviderID (filter (\<lambda>c. \<not> eligible pf r requirements constraints c) cs) \<and>
    in_order score_before (Ranked d) \<and>
    Selected d = (case Ranked d of [] \<Rightarrow> None | s # _ \<Rightarrow> Some s)"
proof -
  have "filter (accepted pf r requirements constraints) cs = filter (eligible pf r requirements constraints) cs"
    and "filter (\<lambda>c. \<not> accepted pf r requirements constraints c) cs
      = filter (\<lambda>c. \<not> eligible pf r requirements constraints c) cs"
    using accepted_eligible [OF assms(1-3)] assms(4) by (auto intro: filter_cong)
  with Rank_exactly_accepted [OF assms(1)] show ?thesis by metis
qed

section \<open>Determinism\<close>

lemma mset_concat_map: "mset cs = mset cs' \<Longrightarrow> mset (concat (map f cs)) = mset (concat (map f cs'))"
  by (simp add: mset_concat) (metis mset_map sum_mset_sum_list)

lemma scores_distinguished:
  assumes "distinct (map ProviderID xs)" and "a \<in> set xs" and "b \<in> set xs" and "a \<noteq> b"
  shows "score_before a b \<or> score_before b a"
proof -
  have "ProviderID a \<noteq> ProviderID b" using assms by (auto simp: distinct_map inj_on_def)
  then show ?thesis by (auto simp: score_before_def neq_iff)
qed

lemma distinct_scored_ids:
  assumes "MaxReputationScore r \<noteq> 0" and "distinct (map cand_ProviderID cs)"
  shows "distinct (map ProviderID (concat (map (scored_by (scoreOne pf r w requirements constraints)) cs)))"
  unfolding scored_ids(1) [OF assms(1) refl] using assms(2) by (simp add: distinct_map_filter)

text \<open>
  C17. The ranking is deterministic. For candidates with distinct provider ids, presenting
  them in any other order gives the same ranked list, the same selected provider and the same
  exclusions; and any other way of sorting the scores into order gives this very list, so the
  decision does not depend on the sorting algorithm either.
\<close>

theorem Rank_deterministic:
  assumes "MaxReputationScore r \<noteq> 0" and "distinct (map cand_ProviderID cs)" and "mset cs' = mset cs"
    and "Rank pf r profile requirements constraints cs = Some d"
  shows "(\<exists>d'. Rank pf r profile requirements constraints cs' = Some d' \<and> Ranked d' = Ranked d \<and>
      Selected d' = Selected d \<and> mset (Excluded d') = mset (Excluded d)) \<and>
    (\<forall>ys. in_order score_before ys \<and> mset ys = mset (Ranked d) \<longrightarrow> ys = Ranked d)"
proof -
  define score where "score = scoreOne pf r (case Weights r profile of None \<Rightarrow> fallbackWeights | Some w \<Rightarrow> w)
    requirements constraints"
  define scores where "scores = concat (map (scored_by score) cs)"
  define scores' where "scores' = concat (map (scored_by score) cs')"
  have perm: "mset scores' = mset scores" and sets: "set cs' = set cs"
    and ex: "mset (concat (map (excluded_by score) cs')) = mset (concat (map (excluded_by score) cs))"
    using mset_concat_map [OF assms(3)] mset_eq_setD [OF assms(3)] by (auto simp: scores_def scores'_def)
  have dist: "distinct (map ProviderID scores)"
    unfolding scores_def score_def by (rule distinct_scored_ids [OF assms(1,2)])
  have d: "Ranked d = sortSlice score_before scores"
    "Selected d = (case sortSlice score_before scores of [] \<Rightarrow> None | s # _ \<Rightarrow> Some s)"
    "Excluded d = concat (map (excluded_by score) cs)" "\<not> (\<exists>c \<in> set cs. score c = DivideByZero)"
    using assms(4) unfolding Rank_eq Let_def score_def [symmetric] scores_def [symmetric]
    by (auto split: if_splits)
  have "sortSlice score_before scores' = sortSlice score_before scores"
    by (rule rk.sortSlice_unique [OF rk.sortSlice_in_order]) (use perm scores_distinguished [OF dist] in simp_all)
  then have "\<exists>d'. Rank pf r profile requirements constraints cs' = Some d' \<and> Ranked d' = Ranked d \<and>
      Selected d' = Selected d \<and> mset (Excluded d') = mset (Excluded d)"
    unfolding Rank_eq Let_def score_def [symmetric] scores'_def [symmetric] sets
    using d ex by simp
  moreover have "ys = Ranked d" if "in_order score_before ys" "mset ys = mset (Ranked d)" for ys
    unfolding d(1) by (rule rk.sortSlice_unique [OF that(1)])
      (use that(2) d(1) scores_distinguished [OF dist] in simp_all)
  ultimately show ?thesis by blast
qed

section \<open>Bounds\<close>

text \<open>The largest figure whose product with 10000 does not leave an \<^verbatim>\<open>int64\<close>.\<close>

definition max_figure :: int where
  "max_figure = 922337203685477"

definition sane_candidate :: "platform \<Rightarrow> Ranker \<Rightarrow> Candidate \<Rightarrow> bool" where
  "sane_candidate pf r c \<longleftrightarrow>
     cpuMillicores pf (CPUAvailableCores c) \<le> max_figure \<and> RAMAvailableMB c \<le> max_figure \<and>
     StorageAvailableGB c \<le> max_figure \<and> IngressTotalMbps c \<le> max_figure \<and> EgressTotalMbps c \<le> max_figure \<and>
     (\<forall>x \<in> set [Compute, Storage, Network, Availability, Reliability].
        x (effectiveReputation r c) \<le> MaxReputationScore r)"

lemma fitBps_sane:
  assumes "available \<le> max_figure"
  shows "fitBps available required = (if covers available required then (10000, True) else (0, False))"
proof (cases "required \<le> 0 \<or> available < required")
  case True
  then show ?thesis by (auto simp: fitBps_def covers_def)
next
  case False
  then have pos: "0 < required" "required \<le> available" by auto
  then have "in_i64 (available * 10000)"
    using assms by (auto simp: in_i64_def max_figure_def)
  moreover have "10000 \<le> available * 10000 div required"
    using zdiv_mono1 [of "required * 10000" "available * 10000" required] pos by simp
  ultimately have "go_div (i64 (available * 10000)) required = available * 10000 div required"
    and "10000 \<le> go_div (i64 (available * 10000)) required"
    using pos by (simp_all add: go_arith)
  then show ?thesis using pos by (auto simp: fitBps_def covers_def Let_def)
qed

text \<open>
  WireGuard accounting is the exact fraction of the declared bandwidth that survives
  encapsulation, 1440 parts in 1500 rounded down, for every figure whose product stays within
  an \<^verbatim>\<open>int64\<close>; it never exceeds the declared figure and is monotone in it.
\<close>

theorem WireGuardEffectiveMbps_exact:
  assumes "0 \<le> a" and "a \<le> b" and "b \<le> 6405119470038038"
  shows "WireGuardEffectiveMbps b = b * 1440 div 1500 \<and> 0 \<le> WireGuardEffectiveMbps b \<and>
    WireGuardEffectiveMbps b \<le> b \<and> WireGuardEffectiveMbps a \<le> WireGuardEffectiveMbps b"
proof -
  have eq: "WireGuardEffectiveMbps x = x * 1440 div 1500" if "0 \<le> x" "x \<le> 6405119470038038" for x
  proof (cases "x = 0")
    case False
    have "in_i64 (x * 1440)" using that by (auto simp: in_i64_def)
    with False that show ?thesis
      by (simp add: WireGuardEffectiveMbps_def DefaultOverlayMTUBytes_def WireGuardOverheadBytes_def go_arith)
  qed (simp add: WireGuardEffectiveMbps_def)
  have "a * 1440 div 1500 \<le> b * 1440 div 1500" using assms by (intro zdiv_mono1) auto
  then show ?thesis using assms by (auto simp: eq)
qed

theorem WireGuardEffectiveMbps_exact_witness:
  "WireGuardEffectiveMbps 1000 = 960 \<and> WireGuardEffectiveMbps 999 \<le> WireGuardEffectiveMbps 1000"
  using WireGuardEffectiveMbps_exact [of 999 1000] by simp

lemma effective_sane:
  assumes "x \<le> max_figure"
  shows "(if o' then WireGuardEffectiveMbps else (\<lambda>x. x)) x \<le> max_figure"
proof (cases "x \<le> 0")
  case False
  have "in_i64 (x * 1440)" using assms False by (auto simp: in_i64_def max_figure_def)
  moreover have "24 * x div 25 \<le> x" using False by linarith
  ultimately show ?thesis using assms False
    by (simp add: WireGuardEffectiveMbps_def DefaultOverlayMTUBytes_def WireGuardOverheadBytes_def go_arith)
qed (use assms in \<open>simp add: WireGuardEffectiveMbps_def\<close>)

lemma bandwidthFit_sane:
  assumes "IngressTotalMbps c \<le> max_figure" and "EgressTotalMbps c \<le> max_figure"
    and "bandwidthFit r q c = Inr x"
  shows "x = (0, 3) \<or> x = (10000, 4)"
proof (cases "Bandwidth q")
  case (Some b)
  note fits = fitBps_sane [OF effective_sane [OF assms(1), of "WireGuardOverlayEnabled r"]]
    fitBps_sane [OF effective_sane [OF assms(2), of "WireGuardOverlayEnabled r"]]
  from assms(3) show ?thesis
    unfolding bandwidthFit_def Some option.case Let_def fits by (auto split: if_splits)
qed (use assms(3) in \<open>simp add: bandwidthFit_def\<close>)

definition weights_ok :: "ProfileWeights \<Rightarrow> bool" where
  "weights_ok w \<longleftrightarrow> unat (ResourceBps w) + unat (ReputationBps w) = 10000 \<and>
     unat (ComputeBps w) + unat (StorageBps w) + unat (NetworkBps w) + unat (AvailabilityBps w)
       + unat (ReliabilityBps w) = 10000"

lemma default_weights_ok:
  "weights_ok (case DefaultProfileWeights profile of None \<Rightarrow> fallbackWeights | Some w \<Rightarrow> w)"
  by (cases profile) (simp_all add: weights_ok_def fallbackWeights_def)

text \<open>The weighted sum of the vector, over unbounded naturals.\<close>

definition weighted_sum :: "ProfileWeights \<Rightarrow> ReputationVector \<Rightarrow> nat" where
  "weighted_sum w v =
     unat (ComputeBps w) * unat (Compute v) + unat (StorageBps w) * unat (Storage v)
       + unat (NetworkBps w) * unat (Network v) + unat (AvailabilityBps w) * unat (Availability v)
       + unat (ReliabilityBps w) * unat (Reliability v)"

lemma weighted_sum_le:
  assumes "weights_ok w" and "\<forall>x \<in> set [Compute, Storage, Network, Availability, Reliability]. x v \<le> m"
  shows "weighted_sum w v \<le> 10000 * unat m"
proof -
  have "unat (Compute v) \<le> unat m" "unat (Storage v) \<le> unat m" "unat (Network v) \<le> unat m"
    "unat (Availability v) \<le> unat m" "unat (Reliability v) \<le> unat m"
    using assms(2) by (simp_all add: word_le_nat_alt)
  then have "weighted_sum w v \<le> unat (ComputeBps w) * unat m + unat (StorageBps w) * unat m
      + unat (NetworkBps w) * unat m + unat (AvailabilityBps w) * unat m + unat (ReliabilityBps w) * unat m"
    unfolding weighted_sum_def by (intro add_mono mult_le_mono2)
  also have "\<dots> = 10000 * unat m"
    using assms(1) by (simp add: weights_ok_def distrib_right [symmetric])
  finally show ?thesis .
qed

lemma weightedReputationBps_exact:
  assumes "weights_ok w" and "m \<noteq> 0"
    and "\<forall>x \<in> set [Compute, Storage, Network, Availability, Reliability]. x v \<le> m"
  shows "unat (weightedReputationBps w v m) = weighted_sum w v div unat m"
    and "unat (weightedReputationBps w v m) \<le> 10000"
proof -
  have m: "0 < unat m" using assms(2) by (simp add: unat_gt_0)
  have bound: "weighted_sum w v < 2 ^ 64"
    using weighted_sum_le [OF assms(1,3)] unat_u32_less [of m] by simp
  let ?t = "ucast (ComputeBps w) * ucast (Compute v) + ucast (StorageBps w) * ucast (Storage v) +
     ucast (NetworkBps w) * ucast (Network v) + ucast (AvailabilityBps w) * ucast (Availability v) +
     ucast (ReliabilityBps w) * ucast (Reliability v) :: u64"
  have t: "unat ?t = weighted_sum w v"
    using bound unfolding weighted_sum_def by (simp add: unat_add_u64 unat_mult_u64)
  have le: "weighted_sum w v div unat m \<le> 10000"
    using div_le_mono [OF weighted_sum_le [OF assms(1,3)], of "unat m"] m by simp
  have "unat (?t div ucast m) = weighted_sum w v div unat m"
    by (simp add: unat_div t)
  then show "unat (weightedReputationBps w v m) = weighted_sum w v div unat m"
    and "unat (weightedReputationBps w v m) \<le> 10000"
    using le assms(2) by (simp_all add: weightedReputationBps_def unat_ucast_u32)
qed

lemma scoreOne_bounded:
  assumes "MaxReputationScore r \<noteq> 0" and "weights_ok w" and "sane_candidate pf r c"
    and "scoreOne pf r w requirements constraints c = Scored s"
  shows "ResourceFitBps s = 10000 \<and>
    unat (ScoreReputationBps s) = weighted_sum w (effectiveReputation r c) div unat (MaxReputationScore r) \<and>
    unat (ScoreReputationBps s) \<le> 10000 \<and>
    unat (TotalBps s) = unat (ResourceBps w) + unat (ScoreReputationBps s) * unat (ReputationBps w) div 10000 \<and>
    unat (TotalBps s) \<le> 10000"
proof -
  let ?rep = "weightedReputationBps w (effectiveReputation r c) (MaxReputationScore r)"
  have rep: "unat ?rep = weighted_sum w (effectiveReputation r c) div unat (MaxReputationScore r)"
    "unat ?rep \<le> 10000"
    using assms(1-3) by (auto intro!: weightedReputationBps_exact simp: sane_candidate_def)
  obtain q x where q: "requirements = Some q" and x: "bandwidthFit r q c = Inr x"
    using assms(4) by (auto simp: scoreOne_def Let_def split: if_splits option.splits prod.splits sum.splits)
  have "x = (0, 3) \<or> x = (10000, 4)"
    using assms(3) bandwidthFit_sane [OF _ _ x] by (simp add: sane_candidate_def)
  then have "s = \<lparr>ProviderID = cand_ProviderID c, TotalBps = (10000 * ResourceBps w + ?rep * ReputationBps w) div 10000,
      ResourceFitBps = 10000, ScoreReputationBps = ?rep\<rparr>"
    using assms(3,4) x unfolding q
    by (auto simp: scoreOne_def sane_candidate_def fitBps_sane Let_def constraintCheck_def
        split: if_splits option.splits)
  moreover have sum: "unat (ResourceBps w) + unat (ReputationBps w) = 10000"
    using assms(2) by (simp add: weights_ok_def)
  moreover have le: "unat ?rep * unat (ReputationBps w) \<le> 10000 * unat (ReputationBps w)"
    using rep(2) by simp
  moreover have fits: "10000 * unat (ResourceBps w) + unat ?rep * unat (ReputationBps w) < 4294967296"
    using sum le by linarith
  moreover have "unat (10000 * ResourceBps w) = 10000 * unat (ResourceBps w)"
    using sum by (subst unat_mult_u32) simp_all
  moreover have "unat (?rep * ReputationBps w) = unat ?rep * unat (ReputationBps w)"
    by (rule unat_mult_u32) (use fits in simp)
  moreover have "unat (10000 * ResourceBps w + ?rep * ReputationBps w)
      = 10000 * unat (ResourceBps w) + unat ?rep * unat (ReputationBps w)"
    using calculation fits by (subst unat_add_u32) simp_all
  moreover have "unat ?rep * unat (ReputationBps w) div 10000 \<le> unat (ReputationBps w)"
    using div_le_mono [OF le, of 10000] by simp
  ultimately show ?thesis using rep by (simp add: unat_div)
qed

lemma Ranked_scored:
  assumes "Rank pf r profile requirements constraints cs = Some d" and "s \<in> set (Ranked d)"
  obtains c where "c \<in> set cs"
    and "scoreOne pf r (case Weights r profile of None \<Rightarrow> fallbackWeights | Some w \<Rightarrow> w) requirements constraints c
      = Scored s"
  using assms by (auto simp: Rank_eq Let_def scored_by_def split: if_splits score_result.splits)

text \<open>
  C18. Scores stay within basis points. When every advertised figure is sane (its product
  with 10000 fits an \<^verbatim>\<open>int64\<close>) and reputations lie on the score scale, no 32-bit
  operation wraps: the reputation part is the exact weighted mean, the total is exact and at
  most 10000, and the resource-fit part of every ranked provider is 10000. The order of the
  ranking is therefore decided by reputation and provider id alone.
\<close>

theorem Rank_scores_bounded:
  assumes "MaxReputationScore r \<noteq> 0" and "Weights r = DefaultProfileWeights"
    and "\<forall>c \<in> set cs. sane_candidate pf r c"
    and "w = (case DefaultProfileWeights profile of None \<Rightarrow> fallbackWeights | Some w \<Rightarrow> w)"
    and "Rank pf r profile requirements constraints cs = Some d" and "s \<in> set (Ranked d)"
  shows "\<exists>c \<in> set cs. cand_ProviderID c = ProviderID s \<and>
    ResourceFitBps s = 10000 \<and>
    unat (ScoreReputationBps s) = weighted_sum w (effectiveReputation r c) div unat (MaxReputationScore r) \<and>
    unat (ScoreReputationBps s) \<le> 10000 \<and>
    unat (TotalBps s) = unat (ResourceBps w) + unat (ScoreReputationBps s) * unat (ReputationBps w) div 10000 \<and>
    unat (TotalBps s) \<le> 10000"
proof -
  from assms(5,6) obtain c where c: "c \<in> set cs"
    and s: "scoreOne pf r w requirements constraints c = Scored s"
    unfolding assms(4) assms(2) [symmetric] by (rule Ranked_scored)
  have "weights_ok w" unfolding assms(4) by (rule default_weights_ok)
  from scoreOne_bounded [OF assms(1) this _ s] scoreOne_accepted [OF assms(1), of pf requirements constraints c w]
  show ?thesis using assms(3) c s by auto
qed

end
