(* ===== verification/Ranking_Cases.thy ===== *)
theory Ranking_Cases
  imports Ranking
begin

text \<open>
  Concrete rankings of \<^verbatim>\<open>control-plane/internal/scheduler/rank.go\<close>: the properties of
  the previous theory at sample candidates, and the inputs at which the 32- and 64-bit
  arithmetic and the floating-point conversion of the source leave their intended range.
\<close>

section \<open>Concrete rankings\<close>

definition sample_platform :: platform where
  "sample_platform = \<lparr>fuses_multiply_add = False, int64_overflow = (\<lambda>_. - 9223372036854775808),
     uint32_overflow = (\<lambda>_. 0)\<rparr>"

definition uniform_reputation :: "u32 \<Rightarrow> ReputationVector" where
  "uniform_reputation x = \<lparr>Compute = x, Storage = x, Network = x, Availability = x, Reliability = x\<rparr>"

definition sample_candidate :: "string \<Rightarrow> int \<Rightarrow> u32 \<Rightarrow> Candidate" where
  "sample_candidate pid ram rep = \<lparr>cand_ProviderID = pid, AgentEndpoint = ''10.0.0.1:7443'',
     CPUAvailableCores = Fin 4 0, CPUTotalCores = Fin 8 0, RAMAvailableMB = ram, RAMTotalMB = ram,
     StorageAvailableGB = 100, StorageTotalGB = 100, IngressTotalMbps = 0, EgressTotalMbps = 0,
     Reputation = uniform_reputation rep, HasReputation = True, Zone = '''', VirtualizationCapable = False\<rparr>"

definition sample_requirements :: ResourceRequirements where
  "sample_requirements = \<lparr>Cpu = Fin 1 0, RamMb = 1024, StorageGb = 10, GpuCount = 0, Bandwidth = None\<rparr>"

definition sample_ranker :: Ranker where
  "sample_ranker = NewRanker DefaultMaxReputationScore DefaultDefaultReputationScore"

lemma sample_ranker_simps [simp]:
  "MaxReputationScore sample_ranker = 1000" "Weights sample_ranker = DefaultProfileWeights"
  by (simp_all add: sample_ranker_def NewRanker_def DefaultMaxReputationScore_def)

lemma representable_f32 [simp]:
  "representable f32 m e \<longleftrightarrow> \<bar>m\<bar> < 16777216 \<and> - 149 \<le> e \<and> e \<le> 104"
  by (auto simp: representable_def f32_def)

text \<open>Whole core counts convert exactly on every platform, fused or not.\<close>

lemma cpuMillicores_whole:
  assumes "0 \<le> n" and "n \<le> 8388"
  shows "cpuMillicores pf (Fin n 0) = 1000 * n"
proof -
  have "fmul_add pf f32 (Fin n 0) (Fin 1000 0) (Fin 1 (- 1)) = Fin (n * 1000 * 2 + 1) (- 1)"
    using assms by (simp add: fmul_add_def exact_add_def)
  moreover have "(n * 1000 * 2 + 1) div 2 = 1000 * n" by simp
  ultimately show ?thesis
    using assms by (simp add: cpuMillicores_def to_int64_def in_i64_def go_arith)
qed

lemma sample_candidate_scored:
  assumes "1024 \<le> ram" and "ram \<le> max_figure"
  shows "scoreOne pf sample_ranker \<lparr>ResourceBps = 6000, ReputationBps = 4000, ComputeBps = 5000,
       StorageBps = 500, NetworkBps = 500, AvailabilityBps = 3000, ReliabilityBps = 1000\<rparr>
       (Some sample_requirements) None (sample_candidate pid ram rep) =
     Scored \<lparr>ProviderID = pid,
       TotalBps = (60000000 + 4000 * weightedReputationBps \<lparr>ResourceBps = 6000, ReputationBps = 4000,
         ComputeBps = 5000, StorageBps = 500, NetworkBps = 500, AvailabilityBps = 3000, ReliabilityBps = 1000\<rparr>
         (uniform_reputation rep) 1000) div 10000,
       ResourceFitBps = 10000,
       ScoreReputationBps = weightedReputationBps \<lparr>ResourceBps = 6000, ReputationBps = 4000,
         ComputeBps = 5000, StorageBps = 500, NetworkBps = 500, AvailabilityBps = 3000, ReliabilityBps = 1000\<rparr>
         (uniform_reputation rep) 1000\<rparr>"
  using assms
  by (simp add: scoreOne_def sample_candidate_def sample_requirements_def fitBps_sane covers_def
      cpuMillicores_whole max_figure_def bandwidthFit_def constraintCheck_def effectiveReputation_def
      Let_def mult.commute)

definition sample_constraints :: WorkloadConstraints where
  "sample_constraints = \<lparr>MinReputation = Fin 600 0, RequiredZone = '''', RequiresVm = False\<rparr>"

theorem Rank_exactly_eligible_witness:
  "\<exists>d. Rank sample_platform sample_ranker COMPUTE_INTENSIVE (Some sample_requirements) (Some sample_constraints)
      [sample_candidate ''p2'' 4096 700, sample_candidate ''p1'' 512 900, sample_candidate ''p3'' 4096 500] = Some d \<and>
    map excl_ProviderID (Excluded d) = [''p1'', ''p3''] \<and> map ProviderID (Ranked d) = [''p2'']"
proof -
  let ?cs = "[sample_candidate ''p2'' 4096 700, sample_candidate ''p1'' 512 900, sample_candidate ''p3'' 4096 500]"
  let ?e = "eligible sample_platform sample_ranker (Some sample_requirements) (Some sample_constraints)"
  let ?rank = "Rank sample_platform sample_ranker COMPUTE_INTENSIVE (Some sample_requirements) (Some sample_constraints) ?cs"
  have e: "?e (sample_candidate pid ram rep) \<longleftrightarrow> 1024 \<le> ram \<and> 600 \<le> uint rep" for pid ram rep
    by (auto simp: eligible_def sample_candidate_def sample_requirements_def sample_constraints_def covers_def
        cpuMillicores_whole bandwidth_covered_def constraints_met_def reputation_floor_met_def
        reputation_points_def effectiveReputation_def uniform_reputation_def)
  have range: "floor_in_range (Some sample_constraints)"
    by (simp add: floor_in_range_def sample_constraints_def)
  have scale: "\<forall>c \<in> set ?cs. bandwidth_in_range c \<and>
      on_scale (MaxReputationScore sample_ranker) (effectiveReputation sample_ranker c)"
    by (simp add: bandwidth_in_range_def on_scale_def sample_candidate_def effectiveReputation_def uniform_reputation_def)
  obtain d where d: "?rank = Some d"
    and ids: "mset (map ProviderID (Ranked d)) = mset (map cand_ProviderID (filter ?e ?cs))"
    and ex: "map excl_ProviderID (Excluded d) = map cand_ProviderID (filter (\<lambda>c. \<not> ?e c) ?cs)"
    using Rank_exactly_eligible [OF _ _ range scale, of sample_platform COMPUTE_INTENSIVE "Some sample_requirements"]
    by auto
  from ids have "mset (map ProviderID (Ranked d)) = {#''p2''#}" by (simp add: e) (simp add: sample_candidate_def)
  moreover have "map excl_ProviderID (Excluded d) = [''p1'', ''p3'']"
    using ex by (simp add: e) (simp add: sample_candidate_def)
  ultimately show ?thesis using d by (metis mset_single_iff)
qed

theorem Rank_deterministic_witness:
  "\<exists>d d'. Rank sample_platform sample_ranker COMPUTE_INTENSIVE (Some sample_requirements) None
      [sample_candidate ''p1'' 4096 500, sample_candidate ''p2'' 4096 500] = Some d \<and>
    Rank sample_platform sample_ranker COMPUTE_INTENSIVE (Some sample_requirements) None
      [sample_candidate ''p2'' 4096 500, sample_candidate ''p1'' 4096 500] = Some d' \<and>
    Ranked d' = Ranked d \<and> Selected d' = Selected d"
proof -
  let ?rank = "Rank sample_platform sample_ranker COMPUTE_INTENSIVE (Some sample_requirements) None"
  let ?a = "sample_candidate ''p1'' 4096 500" and ?b = "sample_candidate ''p2'' 4096 500"
  have "\<exists>d. ?rank [?a, ?b] = Some d"
    by (simp add: Rank_eq Let_def sample_candidate_scored max_figure_def)
  then obtain d where d: "?rank [?a, ?b] = Some d" ..
  have "distinct (map cand_ProviderID [?a, ?b])" by (simp add: sample_candidate_def)
  from Rank_deterministic [OF _ this _ d, of "[?b, ?a]"] d show ?thesis by auto
qed

lemma sane_sample:
  "1024 \<le> ram \<Longrightarrow> ram \<le> max_figure \<Longrightarrow> rep \<le> 1000 \<Longrightarrow> sane_candidate pf sample_ranker (sample_candidate pid ram rep)"
  by (simp add: sane_candidate_def sample_candidate_def cpuMillicores_whole max_figure_def
      effectiveReputation_def uniform_reputation_def)

theorem Rank_scores_bounded_witness:
  "\<exists>d s. Rank sample_platform sample_ranker COMPUTE_INTENSIVE (Some sample_requirements) None
      [sample_candidate ''p1'' 4096 500] = Some d \<and> Ranked d = [s] \<and>
    ResourceFitBps s = 10000 \<and> unat (TotalBps s) \<le> 10000"
proof -
  let ?rank = "Rank sample_platform sample_ranker COMPUTE_INTENSIVE (Some sample_requirements) None
    [sample_candidate ''p1'' 4096 500]"
  have "\<exists>d s. ?rank = Some d \<and> Ranked d = [s]"
    by (simp add: Rank_eq Let_def sample_candidate_scored max_figure_def scored_by_def sortSlice_def)
  then obtain d s where d: "?rank = Some d" "Ranked d = [s]" by blast
  have "\<forall>c \<in> set [sample_candidate ''p1'' 4096 500]. sane_candidate sample_platform sample_ranker c"
    by (simp add: sane_sample max_figure_def)
  from Rank_scores_bounded [OF _ _ this refl d(1), of s] d show ?thesis by auto
qed

section \<open>Figures that are not sane\<close>

definition boastful :: Candidate where
  "boastful = sample_candidate ''boastful'' 1844673967784158 0"

lemma boastful_scored:
  "scoreOne pf sample_ranker \<lparr>ResourceBps = 6000, ReputationBps = 4000, ComputeBps = 5000,
     StorageBps = 500, NetworkBps = 500, AvailabilityBps = 3000, ReliabilityBps = 1000\<rparr>
     (Some sample_requirements) None boastful =
   Scored \<lparr>ProviderID = ''boastful'', TotalBps = 429495, ResourceFitBps = 715826, ScoreReputationBps = 0\<rparr>"
  by (simp add: scoreOne_def boastful_def sample_candidate_def sample_requirements_def fitBps_def i64_def
      go_div_def cpuMillicores_whole bandwidthFit_def constraintCheck_def effectiveReputation_def
      uniform_reputation_def weightedReputationBps_def Let_def)

text \<open>
  C19. An absurd memory figure wins every placement. The memory figure of a heartbeat has no
  upper bound, and for this one the product in \<^verbatim>\<open>fitBps\<close> wraps: the provider, with a
  proven reputation of zero, scores 429495 on the scale of 10000 and is selected against any
  set of sane competitors, however good.
\<close>

theorem Rank_overflow_wins:
  assumes "boastful \<in> set cs" and "\<forall>c \<in> set cs. c = boastful \<or> sane_candidate pf sample_ranker c"
  shows "\<exists>d s. Rank pf sample_ranker COMPUTE_INTENSIVE (Some sample_requirements) None cs = Some d \<and>
    Selected d = Some s \<and> ProviderID s = ''boastful'' \<and> TotalBps s = 429495"
proof -
  let ?rank = "Rank pf sample_ranker COMPUTE_INTENSIVE (Some sample_requirements) None cs"
  let ?w = "\<lparr>ResourceBps = 6000, ReputationBps = 4000, ComputeBps = 5000,
     StorageBps = 500, NetworkBps = 500, AvailabilityBps = 3000, ReliabilityBps = 1000\<rparr> :: ProfileWeights"
  let ?s = "\<lparr>ProviderID = ''boastful'', TotalBps = 429495, ResourceFitBps = 715826, ScoreReputationBps = 0\<rparr>"
  have nz: "MaxReputationScore sample_ranker \<noteq> 0" and w: "weights_ok ?w" by (simp_all add: weights_ok_def)
  have ok: "\<not> (\<exists>c \<in> set cs. scoreOne pf sample_ranker ?w (Some sample_requirements) None c = DivideByZero)"
    by (rule scored_ids(3) [OF nz refl])
  then obtain d where d: "?rank = Some d" and ranked: "Ranked d = sortSlice score_before (concat (map
      (scored_by (scoreOne pf sample_ranker ?w (Some sample_requirements) None)) cs))"
    and sel: "Selected d = (case Ranked d of [] \<Rightarrow> None | s # _ \<Rightarrow> Some s)"
    by (simp add: Rank_eq Let_def)
  have mem: "?s \<in> set (Ranked d)"
    using assms(1) by (auto simp: ranked scored_by_def boastful_scored intro!: bexI [of _ boastful])
  then obtain h t where ht: "Ranked d = h # t" by (cases "Ranked d") auto
  have "h \<in> set (Ranked d)" by (simp add: ht)
  with d obtain c where c: "c \<in> set cs" "scoreOne pf sample_ranker ?w (Some sample_requirements) None c = Scored h"
    by (rule Ranked_scored) simp
  have "in_order score_before (h # t)" unfolding ht [symmetric] ranked by (rule rk.sortSlice_in_order)
  with mem ht have "h = ?s \<or> \<not> score_before ?s h" by (auto simp: in_order_def)
  then have "h = ?s \<or> 429495 \<le> unat (TotalBps h)"
    by (auto simp: score_before_def word_less_nat_alt split: if_splits)
  moreover have "c = boastful \<or> unat (TotalBps h) \<le> 10000"
    using scoreOne_bounded [OF nz w _ c(2)] assms(2) c(1) by blast
  moreover have "c = boastful \<Longrightarrow> h = ?s" using c(2) boastful_scored by simp
  ultimately have "h = ?s" by auto
  with d sel ht show ?thesis by auto
qed

theorem Rank_overflow_wins_witness:
  "\<exists>d s. Rank sample_platform sample_ranker COMPUTE_INTENSIVE (Some sample_requirements) None
      [sample_candidate ''honest'' 65536 1000, boastful] = Some d \<and>
    Selected d = Some s \<and> ProviderID s = ''boastful'' \<and> TotalBps s = 429495"
  by (rule Rank_overflow_wins) (simp_all add: sane_sample max_figure_def)

text \<open>
  The reputation floor wraps. On the scale of 1000 a workload that demands a reputation
  of 429497, which nobody can have, is offered to a provider whose reputation is 1, while a
  demand of 1000 excludes that provider: the threshold is computed in 32 bits and wraps.
  This is the first demand outside \<open>floor_in_range\<close>.
\<close>

theorem min_reputation_wraps:
  "constraintCheck pf sample_ranker (Some \<lparr>MinReputation = Fin 1000 0, RequiredZone = '''', RequiresVm = False\<rparr>)
     (sample_candidate pid ram 1) (effectiveReputation sample_ranker (sample_candidate pid ram 1)) =
     Some (ExcludedFor ''below workload's minimum reputation constraint'') \<and>
   constraintCheck pf sample_ranker (Some \<lparr>MinReputation = Fin 429497 0, RequiredZone = '''', RequiresVm = False\<rparr>)
     (sample_candidate pid ram 1) (effectiveReputation sample_ranker (sample_candidate pid ram 1)) = None \<and>
   \<not> reputation_floor_met (Fin 429497 0) (effectiveReputation sample_ranker (sample_candidate pid ram 1))"
  by (simp add: reputation_floor_met_def reputation_points_def constraintCheck_def to_uint32_def effectiveReputation_def sample_candidate_def
      uniform_reputation_def globalBps_def)

lemma fround_ties:
  "fround f32 134221000 (- 5) = Fin 8388812 (- 1)" "fround f32 134221016 (- 5) = Fin 8388814 (- 1)"
  by (simp_all add: fround_def f32_def bitlen_eval shift_half_even_def Let_def)

text \<open>
  The core conversion is not the same on any machine. Whole core counts up to 8388
  convert exactly everywhere, but 4194.40625 cores are 4194406 millicores where the product
  and the sum are rounded separately and 4194407 where the compiler fuses them.
\<close>

theorem cpuMillicores_platform_dependent:
  "(\<forall>pf n. 0 \<le> n \<and> n \<le> 8388 \<longrightarrow> cpuMillicores pf (Fin n 0) = 1000 * n) \<and>
   cpuMillicores \<lparr>fuses_multiply_add = False, int64_overflow = f, uint32_overflow = g\<rparr> (Fin 134221 (- 5)) = 4194406 \<and>
   cpuMillicores \<lparr>fuses_multiply_add = True, int64_overflow = f, uint32_overflow = g\<rparr> (Fin 134221 (- 5)) = 4194407"
proof (intro conjI allI impI)
  fix pf and n :: int
  assume "0 \<le> n \<and> n \<le> 8388"
  then show "cpuMillicores pf (Fin n 0) = 1000 * n" by (simp add: cpuMillicores_whole)
qed (simp_all add: cpuMillicores_def fmul_add_def exact_add_def fround_ties to_int64_def in_i64_def go_div_def)

theorem cpuMillicores_platform_dependent_witness:
  "cpuMillicores sample_platform (Fin 16 0) = 16000 \<and>
   cpuMillicores (sample_platform\<lparr>fuses_multiply_add := True\<rparr>) (Fin 134221 (- 5)) \<noteq>
   cpuMillicores sample_platform (Fin 134221 (- 5))"
  using cpuMillicores_platform_dependent [of "\<lambda>_. - 9223372036854775808" "\<lambda>_. 0"]
  by (simp add: sample_platform_def)

end
