(* ===== verification/Workload_Store.thy ===== *)
theory Workload_Store
  imports Go_Strconv
begin

text \<open>
  \<^verbatim>\<open>control-plane/internal/workloadapi/postgres.go\<close>: the workload table and every
  query on it, with the constraints of migrations 000004 to 000019. The table is a list of
  rows; each statement or transaction is one step. The five reserved amounts of a workload and
  the five ceilings of a provider are one record, \<open>ProviderCapacity\<close>. The texts of
  \<^verbatim>\<open>last_error\<close> are not kept.
\<close>

datatype workload_state =
    REQUESTED | SCHEDULING | LEASE_PENDING | LEASED | DEPLOYING | RUNNING
  | STOPPING | STOPPED | COMPLETED | FAILED

record ProviderCapacity =
  CPUMillicores :: int
  RAMMB :: int
  StorageGB :: int
  cap_IngressMbps :: int
  cap_EgressMbps :: int

record WorkloadItem =
  wl_WorkloadID :: string
  wl_RequestID :: string
  wl_Image :: string
  wl_State :: workload_state
  wl_VmImageSha256 :: string
  wl_OwnerID :: string
  wl_ProjectID :: string
  wl_StopRequestID :: string
  wl_RequestHash :: "byte list"
  wl_ResourceHash :: "byte list"
  wl_Definition :: "byte list"
  wl_ProviderID :: string
  wl_LeaseID :: string
  wl_ContainerID :: string
  wl_ErrorCode :: string
  wl_CreatedAt :: int
  wl_UpdatedAt :: int
  wl_WorkerID :: string
  wl_WorkerLeaseUntil :: "int option"
  wl_Version :: int
  wl_AttemptCount :: int
  wl_Reserved :: ProviderCapacity

record workload_row =
  w_workload_id :: string
  w_request_id :: string
  w_owner_id :: "string option"
  w_project_id :: "string option"
  w_request_hash :: "byte list"
  w_definition :: "byte list"
  w_image :: string
  w_vm_image_sha256 :: "string option"
  w_state :: workload_state
  w_provider_id :: "string option"
  w_lease_id :: "int option"
  w_resource_hash :: "byte list option"
  w_container_id :: "string option"
  w_attempt_count :: int
  w_next_attempt_at :: "int option"
  w_worker_id :: "string option"
  w_worker_lease_until :: "int option"
  w_error_code :: "string option"
  w_version :: int
  w_created_at :: int
  w_updated_at :: int
  w_stop_request_id :: "string option"
  w_stop_requested_at :: "int option"
  w_reserved :: ProviderCapacity

record workload_store =
  ws_rows :: "workload_row list"
  ws_lease_seq :: int
  ws_providers :: "string list"
  ws_users :: "string list"
  ws_projects :: "string list"

datatype workload_error =
    ErrNotFound | ErrConflict | ErrCapacityExceeded | ErrInvalidArgument | ErrStore

type_synonym 'a wresult = "(workload_error + 'a) \<times> workload_store"

section \<open>Rows\<close>

lemma pred_option_iff [simp]: "pred_option P x \<longleftrightarrow> (\<forall>y. x = Some y \<longrightarrow> P y)"
  by (cases x) simp_all

definition text_or_empty :: "string option \<Rightarrow> string" where
  "text_or_empty t = (case t of None \<Rightarrow> '''' | Some x \<Rightarrow> x)"

definition nullableID :: "string \<Rightarrow> string option" where
  "nullableID i = (if i = '''' then None else Some i)"

definition scanWorkload :: "workload_row \<Rightarrow> workload_error + WorkloadItem" where
  "scanWorkload row =
     (if length (w_request_hash row) \<noteq> 32 then Inl ErrStore
      else if \<not> pred_option (\<lambda>h. h = [] \<or> length h = 32) (w_resource_hash row) then Inl ErrStore
      else Inr \<lparr>wl_WorkloadID = w_workload_id row, wl_RequestID = w_request_id row,
        wl_Image = w_image row, wl_State = w_state row,
        wl_VmImageSha256 = text_or_empty (w_vm_image_sha256 row),
        wl_OwnerID = text_or_empty (w_owner_id row), wl_ProjectID = text_or_empty (w_project_id row),
        wl_StopRequestID = text_or_empty (w_stop_request_id row),
        wl_RequestHash = w_request_hash row,
        wl_ResourceHash = (case w_resource_hash row of None \<Rightarrow> replicate 32 0
                           | Some h \<Rightarrow> if h = [] then replicate 32 0 else h),
        wl_Definition = w_definition row, wl_ProviderID = text_or_empty (w_provider_id row),
        wl_LeaseID = (case w_lease_id row of None \<Rightarrow> '''' | Some i \<Rightarrow> show_nat (nat i)),
        wl_ContainerID = text_or_empty (w_container_id row),
        wl_ErrorCode = text_or_empty (w_error_code row),
        wl_CreatedAt = w_created_at row, wl_UpdatedAt = w_updated_at row,
        wl_WorkerID = text_or_empty (w_worker_id row), wl_WorkerLeaseUntil = w_worker_lease_until row,
        wl_Version = w_version row, wl_AttemptCount = w_attempt_count row,
        wl_Reserved = w_reserved row\<rparr>)"

definition selectWhere :: "(workload_row \<Rightarrow> bool) \<Rightarrow> workload_store \<Rightarrow> workload_error + WorkloadItem" where
  "selectWhere p s =
     (case find p (ws_rows s) of None \<Rightarrow> Inl ErrNotFound | Some row \<Rightarrow> scanWorkload row)"

text \<open>The row constraints of migrations 000004, 000006, 000008 and 000010.\<close>

definition amounts_ok :: "ProviderCapacity \<Rightarrow> bool" where
  "amounts_ok a \<longleftrightarrow> 0 \<le> CPUMillicores a \<and> CPUMillicores a < 2 ^ 31 \<and> 0 \<le> RAMMB a \<and> RAMMB a < 2 ^ 63 \<and>
     0 \<le> StorageGB a \<and> StorageGB a < 2 ^ 63 \<and> 0 \<le> cap_IngressMbps a \<and> cap_IngressMbps a < 2 ^ 63 \<and>
     0 \<le> cap_EgressMbps a \<and> cap_EgressMbps a < 2 ^ 63"

definition row_ok :: "workload_row \<Rightarrow> bool" where
  "row_ok row \<longleftrightarrow>
     length (w_request_hash row) = 32 \<and> 0 \<le> w_attempt_count row \<and> 0 < w_version row \<and>
     pred_option (\<lambda>i. 0 \<le> i) (w_lease_id row) \<and>
     pred_option (\<lambda>h. length h = 32) (w_resource_hash row) \<and>
     (w_state row \<in> {LEASE_PENDING, LEASED, DEPLOYING, RUNNING, COMPLETED} \<longrightarrow> w_provider_id row \<noteq> None) \<and>
     (w_state row \<in> {LEASED, DEPLOYING, RUNNING, COMPLETED} \<longrightarrow> w_lease_id row \<noteq> None) \<and>
     (w_state row \<in> {RUNNING, COMPLETED} \<longrightarrow> w_container_id row \<noteq> None) \<and>
     amounts_ok (w_reserved row)"

section \<open>Tenant operations\<close>

definition row_of :: "string \<Rightarrow> string \<Rightarrow> string \<Rightarrow> string option \<Rightarrow> WorkloadItem \<Rightarrow> workload_row" where
  "row_of wid rid oid pid w =
     \<lparr>w_workload_id = wid, w_request_id = rid, w_owner_id = Some oid, w_project_id = pid,
      w_request_hash = wl_RequestHash w, w_definition = wl_Definition w, w_image = wl_Image w,
      w_vm_image_sha256 = nullableID (wl_VmImageSha256 w), w_state = wl_State w,
      w_provider_id = None, w_lease_id = None, w_resource_hash = None, w_container_id = None,
      w_attempt_count = 0, w_next_attempt_at = None, w_worker_id = None, w_worker_lease_until = None,
      w_error_code = None, w_version = 1, w_created_at = wl_CreatedAt w, w_updated_at = wl_UpdatedAt w,
      w_stop_request_id = None, w_stop_requested_at = None, w_reserved = wl_Reserved w\<rparr>"

definition byRequestID :: "db_call \<Rightarrow> workload_store \<Rightarrow> string \<Rightarrow> workload_error + WorkloadItem" where
  "byRequestID c s requestID =
     (case uuid_parse c requestID of
        None \<Rightarrow> Inl ErrStore
      | Some rid \<Rightarrow> selectWhere (\<lambda>row. w_request_id row = rid) s)"

definition replayed :: "WorkloadItem \<Rightarrow> WorkloadItem \<Rightarrow> bool" where
  "replayed stored candidate \<longleftrightarrow>
     wl_RequestHash stored = wl_RequestHash candidate \<and> wl_WorkloadID stored = wl_WorkloadID candidate \<and>
     wl_OwnerID stored = wl_OwnerID candidate \<and> wl_ProjectID stored = wl_ProjectID candidate \<and>
     wl_Definition stored = wl_Definition candidate \<and> wl_Image stored = wl_Image candidate \<and>
     wl_VmImageSha256 stored = wl_VmImageSha256 candidate"

definition CreateOrGet :: "db_call \<Rightarrow> workload_store \<Rightarrow> WorkloadItem \<Rightarrow> WorkloadItem wresult" where
  "CreateOrGet c s candidate =
     (if \<not> db_up c then (Inl ErrStore, s)
      else case (uuid_parse c (wl_WorkloadID candidate), uuid_parse c (wl_RequestID candidate),
                 uuid_parse c (wl_OwnerID candidate)) of
        (Some wid, Some rid, Some oid) \<Rightarrow>
          (let pid = (case nullableID (wl_ProjectID candidate) of None \<Rightarrow> Some None
                      | Some p \<Rightarrow> map_option Some (uuid_parse c p)) in
           case pid of
             None \<Rightarrow> (Inl ErrStore, s)
           | Some pid \<Rightarrow>
               let row = row_of wid rid oid pid candidate in
               if \<not> row_ok row then (Inl ErrStore, s)
               else if \<exists>x \<in> set (ws_rows s). w_workload_id x = wid \<or> w_request_id x = rid
               then (case byRequestID c s (wl_RequestID candidate) of
                       Inl e \<Rightarrow> (Inl (if e = ErrNotFound then ErrConflict else e), s)
                     | Inr stored \<Rightarrow>
                         if \<not> replayed stored candidate then (Inl ErrConflict, s) else (Inr stored, s))
               else if oid \<notin> set (ws_users s) \<or> \<not> pred_option (\<lambda>p. p \<in> set (ws_projects s)) pid
               then (Inl ErrStore, s)
               else (Inr candidate, s\<lparr>ws_rows := ws_rows s @ [row]\<rparr>))
      | _ \<Rightarrow> (Inl ErrStore, s))"

definition GetScoped ::
  "(workload_row \<Rightarrow> string option) \<Rightarrow> db_call \<Rightarrow> workload_store \<Rightarrow> string \<Rightarrow> string \<Rightarrow> workload_error + WorkloadItem" where
  "GetScoped scope c s workloadID scopeID =
     (if \<not> db_up c then Inl ErrStore
      else case (uuid_parse c workloadID, uuid_parse c scopeID) of
        (Some wid, Some sid) \<Rightarrow> selectWhere (\<lambda>row. w_workload_id row = wid \<and> scope row = Some sid) s
      | _ \<Rightarrow> Inl ErrStore)"

definition Get :: "db_call \<Rightarrow> workload_store \<Rightarrow> string \<Rightarrow> string \<Rightarrow> workload_error + WorkloadItem" where
  "Get = GetScoped w_owner_id"

definition GetByProject :: "db_call \<Rightarrow> workload_store \<Rightarrow> string \<Rightarrow> string \<Rightarrow> workload_error + WorkloadItem" where
  "GetByProject = GetScoped w_project_id"

fun scanAll :: "workload_row list \<Rightarrow> workload_error + WorkloadItem list" where
  "scanAll [] = Inr []"
| "scanAll (row # rows) = andThen (scanWorkload row) (\<lambda>w. andThen (scanAll rows) (\<lambda>ws. Inr (w # ws)))"

definition ListByProject :: "db_call \<Rightarrow> workload_store \<Rightarrow> string \<Rightarrow> workload_error + WorkloadItem list" where
  "ListByProject c s projectID =
     (if \<not> db_up c then Inl ErrStore
      else case uuid_parse c projectID of
        None \<Rightarrow> Inl ErrStore
      | Some pid \<Rightarrow> scanAll (rev (sort_key w_created_at (filter (\<lambda>row. w_project_id row = Some pid) (ws_rows s)))))"

definition stop_target :: "workload_state \<Rightarrow> workload_state" where
  "stop_target st = (if st \<in> {STOPPED, COMPLETED, FAILED} then st else STOPPING)"

text \<open>\<^verbatim>\<open>RequestStop\<close> and \<^verbatim>\<open>RequestStopByProject\<close> differ only in the scoping column.\<close>

definition RequestStopScoped ::
  "(workload_row \<Rightarrow> string option) \<Rightarrow> db_call \<Rightarrow> workload_store \<Rightarrow> string \<Rightarrow> string \<Rightarrow> string \<Rightarrow> int
     \<Rightarrow> WorkloadItem wresult" where
  "RequestStopScoped scope c s workloadID requestID scopeID now =
     (case GetScoped scope c s workloadID scopeID of
        Inl e \<Rightarrow> (Inl e, s)
      | Inr stored \<Rightarrow>
          if wl_StopRequestID stored \<noteq> '''' \<and> wl_StopRequestID stored \<noteq> requestID then (Inl ErrConflict, s)
          else if wl_StopRequestID stored = ''''
          then (case uuid_parse c requestID of
                  None \<Rightarrow> (Inl ErrStore, s)
                | Some rid \<Rightarrow>
                    let state = stop_target (wl_State stored);
                        guard = (\<lambda>row. w_workload_id row = wl_WorkloadID stored \<and> w_stop_request_id row = None);
                        change = (\<lambda>row. row\<lparr>w_stop_request_id := Some rid, w_stop_requested_at := Some now,
                          w_state := state, w_version := w_version row + 1, w_updated_at := now,
                          w_next_attempt_at := None, w_error_code := None, w_worker_id := None,
                          w_worker_lease_until := None\<rparr>) in
                    if \<exists>row \<in> set (ws_rows s). w_stop_request_id row = Some rid then (Inl ErrConflict, s)
                    else if rows_affected guard (ws_rows s) \<noteq> 1 then (Inl ErrConflict, s)
                    else (Inr (stored\<lparr>wl_State := state, wl_StopRequestID := requestID, wl_UpdatedAt := now\<rparr>),
                          s\<lparr>ws_rows := update_where guard change (ws_rows s)\<rparr>))
          else (Inr stored, s))"

definition RequestStop ::
  "db_call \<Rightarrow> workload_store \<Rightarrow> string \<Rightarrow> string \<Rightarrow> string \<Rightarrow> int \<Rightarrow> WorkloadItem wresult" where
  "RequestStop = RequestStopScoped w_owner_id"

definition RequestStopByProject ::
  "db_call \<Rightarrow> workload_store \<Rightarrow> string \<Rightarrow> string \<Rightarrow> string \<Rightarrow> int \<Rightarrow> WorkloadItem wresult" where
  "RequestStopByProject = RequestStopScoped w_project_id"

section \<open>Worker operations\<close>

abbreviation claimable_states :: "workload_state set" where
  "claimable_states \<equiv> {REQUESTED, SCHEDULING, LEASE_PENDING, LEASED, DEPLOYING, STOPPING}"

abbreviation open_states :: "workload_state set" where
  "open_states \<equiv> {LEASE_PENDING, LEASED, DEPLOYING, RUNNING}"

definition claimable :: "db_call \<Rightarrow> workload_row \<Rightarrow> bool" where
  "claimable c row \<longleftrightarrow>
     w_state row \<in> claimable_states \<and>
     pred_option (\<lambda>t. t \<le> db_now c) (w_next_attempt_at row) \<and>
     pred_option (\<lambda>t. t \<le> db_now c) (w_worker_lease_until row)"

text \<open>\<open>locked\<close> tells which rows concurrent transactions hold, which \<^verbatim>\<open>SKIP LOCKED\<close> passes over.\<close>

definition ClaimNext ::
  "db_call \<Rightarrow> (string \<Rightarrow> bool) \<Rightarrow> workload_store \<Rightarrow> string \<Rightarrow> int \<Rightarrow> WorkloadItem wresult" where
  "ClaimNext c locked s workerID lease =
     (if workerID = '''' \<or> lease \<le> 0 then (Inl ErrInvalidArgument, s)
      else if \<not> db_up c then (Inl ErrStore, s)
      else case sort_key w_created_at (filter (\<lambda>row. claimable c row \<and> \<not> locked (w_workload_id row)) (ws_rows s)) of
        [] \<Rightarrow> (Inl ErrNotFound, s)
      | row # _ \<Rightarrow>
          let change = (\<lambda>row. row\<lparr>w_worker_id := Some workerID,
                 w_worker_lease_until := Some (db_now c + lease), w_version := w_version row + 1\<rparr>) in
          (scanWorkload (change row),
           s\<lparr>ws_rows := update_where (\<lambda>x. w_workload_id x = w_workload_id row) change (ws_rows s)\<rparr>))"

text \<open>The optimistic lock of every worker update: the claim is still held and unchanged.\<close>

definition held :: "db_call \<Rightarrow> WorkloadItem \<Rightarrow> workload_row \<Rightarrow> bool" where
  "held c item row \<longleftrightarrow>
     w_workload_id row = wl_WorkloadID item \<and> w_version row = wl_Version item \<and>
     w_worker_id row = Some (wl_WorkerID item) \<and>
     \<not> pred_option (\<lambda>t. t \<le> db_now c) (w_worker_lease_until row)"

definition release :: "db_call \<Rightarrow> workload_row \<Rightarrow> workload_row" where
  "release c row = row\<lparr>w_version := w_version row + 1, w_updated_at := db_now c,
     w_worker_id := None, w_worker_lease_until := None\<rparr>"

definition clear_errors :: "workload_row \<Rightarrow> workload_row" where
  "clear_errors row = row\<lparr>w_next_attempt_at := None, w_error_code := None\<rparr>"

definition guardedUpdate ::
  "db_call \<Rightarrow> workload_store \<Rightarrow> (workload_row \<Rightarrow> bool) \<Rightarrow> (workload_row \<Rightarrow> workload_row) \<Rightarrow> unit wresult" where
  "guardedUpdate c s guard change =
     (if \<not> db_up c then (Inl ErrStore, s)
      else (if rows_affected guard (ws_rows s) \<noteq> 1 then Inl ErrConflict else Inr (),
            s\<lparr>ws_rows := update_where guard change (ws_rows s)\<rparr>))"

definition MarkDeploying :: "db_call \<Rightarrow> workload_store \<Rightarrow> WorkloadItem \<Rightarrow> nat \<Rightarrow> unit wresult" where
  "MarkDeploying c s item leaseID =
     guardedUpdate c s
       (\<lambda>row. held c item row \<and> w_state row = LEASED \<and> w_lease_id row = Some (int leaseID))
       (\<lambda>row. (release c row)\<lparr>w_state := DEPLOYING\<rparr>)"

definition MarkRunning :: "db_call \<Rightarrow> workload_store \<Rightarrow> WorkloadItem \<Rightarrow> string \<Rightarrow> unit wresult" where
  "MarkRunning c s item containerID =
     (if containerID = '''' then (Inl ErrInvalidArgument, s)
      else guardedUpdate c s
        (\<lambda>row. held c item row \<and> w_state row = DEPLOYING)
        (\<lambda>row. (clear_errors (release c row))\<lparr>w_state := RUNNING, w_container_id := Some containerID\<rparr>))"

definition MarkStopped :: "db_call \<Rightarrow> workload_store \<Rightarrow> WorkloadItem \<Rightarrow> nat \<Rightarrow> unit wresult" where
  "MarkStopped c s item leaseID =
     guardedUpdate c s
       (\<lambda>row. held c item row \<and> w_state row = STOPPING \<and> w_lease_id row = Some (int leaseID))
       (\<lambda>row. (clear_errors (release c row))\<lparr>w_state := STOPPED\<rparr>)"

definition reconciled :: "db_call \<Rightarrow> workload_state \<Rightarrow> string \<Rightarrow> string \<Rightarrow> workload_row \<Rightarrow> workload_row" where
  "reconciled c toState containerID errorCode row =
     (release c row)\<lparr>w_state := toState, w_next_attempt_at := None,
       w_container_id := (if errorCode \<noteq> '''' \<or> containerID = '''' then w_container_id row else Some containerID),
       w_error_code := (if errorCode \<noteq> '''' then Some errorCode else None)\<rparr>"

definition ReconcileFromAgent ::
  "db_call \<Rightarrow> workload_store \<Rightarrow> string \<Rightarrow> string \<Rightarrow> workload_state list \<Rightarrow> workload_state \<Rightarrow> string \<Rightarrow> string
     \<Rightarrow> bool wresult" where
  "ReconcileFromAgent c s workloadID providerID fromStates toState containerID errorCode =
     (if workloadID = '''' \<or> providerID = '''' \<or> fromStates = [] then (Inl ErrInvalidArgument, s)
      else if \<not> db_up c then (Inl ErrStore, s)
      else case uuid_parse c workloadID of
        None \<Rightarrow> (Inl ErrStore, s)
      | Some wid \<Rightarrow>
          let guard = (\<lambda>row. w_workload_id row = wid \<and> w_provider_id row = Some providerID \<and>
                 w_state row \<in> set fromStates);
              change = reconciled c toState containerID errorCode in
          if \<exists>row \<in> set (ws_rows s). guard row \<and> \<not> row_ok (change row) then (Inl ErrStore, s)
          else (Inr (rows_affected guard (ws_rows s) = 1),
                s\<lparr>ws_rows := update_where guard change (ws_rows s)\<rparr>))"

definition BeginScheduling :: "db_call \<Rightarrow> workload_store \<Rightarrow> WorkloadItem \<Rightarrow> unit wresult" where
  "BeginScheduling c s item =
     guardedUpdate c s (\<lambda>row. held c item row \<and> w_state row = REQUESTED)
       (\<lambda>row. (release c row)\<lparr>w_state := SCHEDULING, w_error_code := None\<rparr>)"

definition amount_fields :: "(ProviderCapacity \<Rightarrow> int) list" where
  "amount_fields = [CPUMillicores, RAMMB, StorageGB, cap_IngressMbps, cap_EgressMbps]"

definition reserved_total :: "(ProviderCapacity \<Rightarrow> int) \<Rightarrow> string \<Rightarrow> workload_row list \<Rightarrow> int" where
  "reserved_total f providerID rows =
     (\<Sum>row \<leftarrow> filter (\<lambda>row. w_provider_id row = Some providerID \<and> w_state row \<in> open_states) rows.
        f (w_reserved row))"

definition ProviderReservedTotals ::
  "db_call \<Rightarrow> workload_store \<Rightarrow> string \<Rightarrow> workload_error + int list" where
  "ProviderReservedTotals c s providerID =
     (if \<not> db_up c \<or> (\<exists>f \<in> set amount_fields. \<not> in_i64 (reserved_total f providerID (ws_rows s))) then Inl ErrStore
      else Inr (map (\<lambda>f. reserved_total f providerID (ws_rows s)) amount_fields))"

definition AssignLease ::
  "db_call \<Rightarrow> workload_store \<Rightarrow> WorkloadItem \<Rightarrow> string \<Rightarrow> byte list \<Rightarrow> ProviderCapacity \<Rightarrow> int wresult" where
  "AssignLease c s item providerID resourceHash capacity =
     (case ProviderReservedTotals c s providerID of
        Inl e \<Rightarrow> (Inl e, s)
      | Inr totals \<Rightarrow>
          if db_abort c then (Inl ErrConflict, s)
          else if \<exists>f \<in> set amount_fields.
                    i64 (reserved_total f providerID (ws_rows s) + f (wl_Reserved item)) > f capacity
          then (Inl ErrCapacityExceeded, s)
          else
            let guard = (\<lambda>row. held c item row \<and> w_state row = SCHEDULING);
                leaseID = ws_lease_seq s + int (db_gap c);
                change = (\<lambda>row. (release c row)\<lparr>w_state := LEASE_PENDING, w_provider_id := Some providerID,
                  w_lease_id := Some leaseID, w_resource_hash := Some resourceHash\<rparr>) in
            if rows_affected guard (ws_rows s) = 0 then (Inl ErrConflict, s)
            else if providerID \<notin> set (ws_providers s) then (Inl ErrStore, s)
            else (Inr leaseID,
                  s\<lparr>ws_rows := update_where guard change (ws_rows s), ws_lease_seq := leaseID + 1\<rparr>))"

definition MarkLeased :: "db_call \<Rightarrow> workload_store \<Rightarrow> WorkloadItem \<Rightarrow> nat \<Rightarrow> unit wresult" where
  "MarkLeased c s item leaseID =
     guardedUpdate c s
       (\<lambda>row. held c item row \<and> w_state row = LEASE_PENDING \<and> w_lease_id row = Some (int leaseID))
       (\<lambda>row. (clear_errors (release c row))\<lparr>w_state := LEASED\<rparr>)"

definition RetryLater ::
  "db_call \<Rightarrow> workload_store \<Rightarrow> WorkloadItem \<Rightarrow> string \<Rightarrow> int \<Rightarrow> unit wresult" where
  "RetryLater c s item code delay =
     guardedUpdate c s (\<lambda>row. held c item row \<and> w_state row \<in> claimable_states)
       (\<lambda>row. (release c row)\<lparr>w_attempt_count := w_attempt_count row + 1,
          w_next_attempt_at := Some (db_now c + delay), w_error_code := Some code\<rparr>)"

definition MarkFailed :: "db_call \<Rightarrow> workload_store \<Rightarrow> WorkloadItem \<Rightarrow> string \<Rightarrow> unit wresult" where
  "MarkFailed c s item code =
     guardedUpdate c s (\<lambda>row. held c item row \<and> w_state row \<in> claimable_states)
       (\<lambda>row. (release c row)\<lparr>w_state := FAILED, w_attempt_count := w_attempt_count row + 1,
          w_next_attempt_at := None, w_error_code := Some code\<rparr>)"

section \<open>Reading rows\<close>

lemma scanWorkload_Inr:
  assumes "scanWorkload row = Inr w"
  shows "wl_WorkloadID w = w_workload_id row" "wl_State w = w_state row" "wl_Version w = w_version row"
    "wl_Reserved w = w_reserved row" "wl_OwnerID w = text_or_empty (w_owner_id row)"
    "wl_StopRequestID w = text_or_empty (w_stop_request_id row)" "wl_AttemptCount w = w_attempt_count row"
    "wl_WorkerID w = text_or_empty (w_worker_id row)"
    "wl_LeaseID w = (case w_lease_id row of None \<Rightarrow> '''' | Some i \<Rightarrow> show_nat (nat i))"
  using assms by (auto simp: scanWorkload_def split: if_splits)

lemma scanWorkload_ok: "row_ok row \<Longrightarrow> \<exists>w. scanWorkload row = Inr w"
  by (auto simp: scanWorkload_def row_ok_def)

lemma selectWhere_Inr:
  assumes "selectWhere p s = Inr w"
  obtains row where "row \<in> set (ws_rows s)" "p row" "scanWorkload row = Inr w"
  using assms by (auto simp: selectWhere_def dest: find_SomeD split: option.splits)

lemma GetScoped_Inr:
  assumes "GetScoped scope c s workloadID scopeID = Inr w"
  obtains row wid sid where "row \<in> set (ws_rows s)" "scanWorkload row = Inr w"
    "uuid_parse c workloadID = Some wid" "uuid_parse c scopeID = Some sid"
    "w_workload_id row = wid" "scope row = Some sid"
  using assms by (auto simp: GetScoped_def elim: selectWhere_Inr split: if_splits option.splits)

section \<open>Heartbeat reconciliation\<close>

datatype AgentWorkloadPhase =
    PHASE_UNSPECIFIED | PHASE_PROVISIONING | PHASE_STARTING | PHASE_RUNNING | PHASE_STOPPING
  | PHASE_STOPPED | PHASE_FAILED | PHASE_LOST

record WorkloadStatusSummary =
  st_WorkloadId :: string
  st_Phase :: AgentWorkloadPhase
  st_ContainerId :: string

fun reconciliationTransition :: "AgentWorkloadPhase \<Rightarrow> (workload_state list \<times> workload_state \<times> string) option" where
  "reconciliationTransition PHASE_RUNNING = Some ([DEPLOYING], RUNNING, '''')"
| "reconciliationTransition PHASE_FAILED = Some ([DEPLOYING, RUNNING], FAILED, ''AGENT_REPORTED_FAILED'')"
| "reconciliationTransition PHASE_LOST = Some ([DEPLOYING, RUNNING], FAILED, ''AGENT_REPORTED_LOST'')"
| "reconciliationTransition PHASE_STOPPED = Some ([RUNNING, DEPLOYING, STOPPING], STOPPED, '''')"
| "reconciliationTransition _ = None"

text \<open>The entries of one heartbeat, each with the database call it makes; the first error is kept.\<close>

fun ReconcileWorkloadStatus ::
  "workload_store \<Rightarrow> string \<Rightarrow> (db_call \<times> WorkloadStatusSummary option) list \<Rightarrow> workload_error option
     \<Rightarrow> workload_error option \<times> workload_store" where
  "ReconcileWorkloadStatus s providerID [] firstErr = (firstErr, s)"
| "ReconcileWorkloadStatus s providerID ((c, None) # rest) firstErr =
     ReconcileWorkloadStatus s providerID rest firstErr"
| "ReconcileWorkloadStatus s providerID ((c, Some entry) # rest) firstErr =
     (case reconciliationTransition (st_Phase entry) of
        None \<Rightarrow> ReconcileWorkloadStatus s providerID rest firstErr
      | Some (fromStates, toState, errorCode) \<Rightarrow>
          (case ReconcileFromAgent c s (st_WorkloadId entry) providerID fromStates toState
                  (st_ContainerId entry) errorCode of
             (Inl e, s') \<Rightarrow>
               ReconcileWorkloadStatus s' providerID rest (case firstErr of None \<Rightarrow> Some e | Some x \<Rightarrow> Some x)
           | (Inr _, s') \<Rightarrow> ReconcileWorkloadStatus s' providerID rest firstErr))"

end
