(* ===== verification/Workload_Lifecycle.thy ===== *)
theory Workload_Lifecycle
  imports Workload_Store
begin

text \<open>
  The life cycle of a workload row. \<open>edge\<close> is the state machine the queries of
  \<^verbatim>\<open>control-plane/internal/workloadapi/postgres.go\<close> implement, \<open>row_step\<close> what one
  query may do to one row, and \<open>store_step\<close> one query of any caller, so that the theorems
  hold of every interleaving of tenants, workers and heartbeats.
\<close>

section \<open>The state machine\<close>

inductive edge :: "workload_state \<Rightarrow> workload_state \<Rightarrow> bool" where
  begin_scheduling: "edge REQUESTED SCHEDULING"
| assign: "edge SCHEDULING LEASE_PENDING"
| leased: "edge LEASE_PENDING LEASED"
| deploy: "edge LEASED DEPLOYING"
| run: "edge DEPLOYING RUNNING"
| lost: "st \<in> {DEPLOYING, RUNNING} \<Longrightarrow> edge st FAILED"
| stopped: "st \<in> {RUNNING, DEPLOYING, STOPPING} \<Longrightarrow> edge st STOPPED"
| give_up: "st \<in> claimable_states \<Longrightarrow> edge st FAILED"
| stop: "st \<notin> {STOPPED, COMPLETED, FAILED} \<Longrightarrow> edge st STOPPING"

inductive_cases edge_to_open [elim]: "edge st LEASE_PENDING" "edge st LEASED" "edge st DEPLOYING" "edge st RUNNING"

inductive_simps edge_from_terminal [simp]: "edge STOPPED st" "edge COMPLETED st" "edge FAILED st"

abbreviation terminal_states :: "workload_state set" where
  "terminal_states \<equiv> {STOPPED, COMPLETED, FAILED}"

text \<open>Columns no query ever changes.\<close>

definition same_request :: "workload_row \<Rightarrow> workload_row \<Rightarrow> bool" where
  "same_request r r' \<longleftrightarrow>
     w_workload_id r' = w_workload_id r \<and> w_request_id r' = w_request_id r \<and> w_owner_id r' = w_owner_id r \<and>
     w_project_id r' = w_project_id r \<and> w_request_hash r' = w_request_hash r \<and>
     w_definition r' = w_definition r \<and> w_image r' = w_image r \<and>
     w_vm_image_sha256 r' = w_vm_image_sha256 r \<and> w_created_at r' = w_created_at r \<and>
     w_reserved r' = w_reserved r"

definition row_step :: "workload_row \<Rightarrow> workload_row \<Rightarrow> bool" where
  "row_step r r' \<longleftrightarrow>
     same_request r r' \<and> w_version r' = w_version r + 1 \<and>
     (w_state r' = w_state r \<or> edge (w_state r) (w_state r')) \<and>
     w_provider_id r' = w_provider_id r \<and> w_lease_id r' = w_lease_id r \<and>
     (w_state r' \<in> open_states \<longrightarrow> w_state r \<in> open_states) \<and>
     w_attempt_count r' \<in> {w_attempt_count r, w_attempt_count r + 1} \<and>
     w_stop_request_id r' = (if w_stop_request_id r = None then w_stop_request_id r' else w_stop_request_id r) \<and>
     (row_ok r \<longrightarrow> row_ok r')"

definition assign_step :: "string \<Rightarrow> int \<Rightarrow> workload_row \<Rightarrow> workload_row \<Rightarrow> bool" where
  "assign_step providerID leaseID r r' \<longleftrightarrow>
     same_request r r' \<and> w_version r' = w_version r + 1 \<and>
     w_state r = SCHEDULING \<and> w_state r' = LEASE_PENDING \<and>
     w_provider_id r' = Some providerID \<and> w_lease_id r' = Some leaseID \<and>
     w_attempt_count r' = w_attempt_count r \<and> w_stop_request_id r' = w_stop_request_id r \<and> (row_ok r \<longrightarrow> row_ok r')"

definition rows_step :: "workload_row list \<Rightarrow> workload_row list \<Rightarrow> bool" where
  "rows_step = list_all2 (\<lambda>r r'. r' = r \<or> row_step r r')"

lemma rows_step_refl [simp]: "rows_step rows rows"
  by (simp add: rows_step_def list_all2_same)

lemma rows_step_update:
  assumes "\<And>r. r \<in> set rows \<Longrightarrow> guard r \<Longrightarrow> row_step r (change r)"
  shows "rows_step rows (update_where guard change rows)"
  using assms unfolding rows_step_def update_where_def
  by (auto simp: list_all2_conv_all_nth)

definition table_step :: "workload_store \<Rightarrow> workload_store \<Rightarrow> bool" where
  "table_step s s' \<longleftrightarrow> rows_step (ws_rows s) (ws_rows s') \<and> s' = s\<lparr>ws_rows := ws_rows s'\<rparr>"

lemma table_step_refl [simp]: "table_step s s"
  by (simp add: table_step_def)

lemma table_step_update:
  "(\<And>r. r \<in> set (ws_rows s) \<Longrightarrow> guard r \<Longrightarrow> row_step r (change r)) \<Longrightarrow>
     table_step s (s\<lparr>ws_rows := update_where guard change (ws_rows s)\<rparr>)"
  by (simp add: table_step_def rows_step_update)

lemma row_step_simps [simp]:
  "w_workload_id (release c r) = w_workload_id r" "w_state (release c r) = w_state r"
  "w_version (release c r) = w_version r + 1" "w_lease_id (release c r) = w_lease_id r"
  "w_provider_id (release c r) = w_provider_id r"
  by (simp_all add: release_def)

lemmas row_defs = row_step_def same_request_def release_def clear_errors_def row_ok_def

section \<open>Every query is a step of the table\<close>

lemma guardedUpdate_step:
  assumes "guardedUpdate c s guard change = (res, s')"
    and "\<And>r. guard r \<Longrightarrow> row_step r (change r)"
  shows "table_step s s'"
  using assms by (auto simp: guardedUpdate_def table_step_update split: if_splits)

text \<open>The worker's updates and what each does to its row.\<close>

lemma worker_updates_step:
  "BeginScheduling c s item = (res, s') \<Longrightarrow> table_step s s'"
  "MarkLeased c s item leaseID = (res, s') \<Longrightarrow> table_step s s'"
  "MarkDeploying c s item leaseID = (res, s') \<Longrightarrow> table_step s s'"
  "MarkStopped c s item leaseID = (res, s') \<Longrightarrow> table_step s s'"
  "RetryLater c s item code delay = (res, s') \<Longrightarrow> table_step s s'"
  "MarkFailed c s item code = (res, s') \<Longrightarrow> table_step s s'"
  unfolding BeginScheduling_def MarkLeased_def MarkDeploying_def MarkStopped_def RetryLater_def MarkFailed_def
  by (erule guardedUpdate_step, (auto simp: row_defs intro: edge.intros)[1])+

lemma MarkRunning_step:
  "MarkRunning c s item containerID = (res, s') \<Longrightarrow>
     table_step s s'"
  unfolding MarkRunning_def
  by (simp split: if_splits, erule guardedUpdate_step) (auto simp: row_defs intro: edge.intros)

text \<open>The other updates, by the row they find and what they make of it.\<close>

lemma ClaimNext_cases:
  assumes "ClaimNext c locked s workerID lease = (res, s')"
  obtains (unchanged) e where "res = Inl e" "s' = s"
  | (claimed) row where "row \<in> set (ws_rows s)" "claimable c row"
      "res = scanWorkload (row\<lparr>w_worker_id := Some workerID, w_worker_lease_until := Some (db_now c + lease),
         w_version := w_version row + 1\<rparr>)"
      "s' = s\<lparr>ws_rows := update_where (\<lambda>x. w_workload_id x = w_workload_id row)
         (\<lambda>x. x\<lparr>w_worker_id := Some workerID, w_worker_lease_until := Some (db_now c + lease),
            w_version := w_version x + 1\<rparr>) (ws_rows s)\<rparr>"
proof -
  let ?rows = "sort_key w_created_at (filter (\<lambda>row. claimable c row \<and> \<not> locked (w_workload_id row)) (ws_rows s))"
  show thesis
  proof (cases ?rows)
    case (Cons row rest)
    then have "row \<in> set ?rows" by simp
    then have "row \<in> set (ws_rows s)" "claimable c row" by simp_all
    with Cons assms claimed [of row] unchanged show thesis
      by (auto simp: ClaimNext_def Let_def split: if_splits)
  qed (use assms unchanged in \<open>auto simp: ClaimNext_def split: if_splits\<close>)
qed

lemma ClaimNext_step:
  assumes "ClaimNext c locked s workerID lease = (res, s')"
  shows "table_step s s'"
  using assms
proof (cases rule: ClaimNext_cases)
  case (claimed row)
  then show ?thesis by (simp add: table_step_update row_defs)
qed simp

definition stopping :: "string \<Rightarrow> int \<Rightarrow> workload_row \<Rightarrow> workload_row" where
  "stopping rid now r = r\<lparr>w_stop_request_id := Some rid, w_stop_requested_at := Some now,
     w_state := stop_target (w_state r), w_version := w_version r + 1, w_updated_at := now,
     w_next_attempt_at := None, w_error_code := None, w_worker_id := None, w_worker_lease_until := None\<rparr>"

lemma RequestStopScoped_cases:
  assumes "RequestStopScoped scope c s workloadID requestID scopeID now = (res, s')"
    and "distinct (map w_workload_id (ws_rows s))"
  obtains (unchanged) "s' = s"
  | (stopped) row rid where "row \<in> set (ws_rows s)" "w_stop_request_id row = None"
      "ws_rows s' = map (\<lambda>r. if r = row then stopping rid now row else r) (ws_rows s)"
      "s' = s\<lparr>ws_rows := ws_rows s'\<rparr>"
proof (cases "\<exists>stored rid. GetScoped scope c s workloadID scopeID = Inr stored \<and> wl_StopRequestID stored = '''' \<and>
    uuid_parse c requestID = Some rid \<and> s' \<noteq> s")
  case False
  with assms(1) have "s' = s"
    by (auto simp: RequestStopScoped_def Let_def split: if_splits sum.splits option.splits)
  then show thesis by (rule unchanged)
next
  case True
  then obtain stored rid where st: "GetScoped scope c s workloadID scopeID = Inr stored"
    "wl_StopRequestID stored = ''''" "uuid_parse c requestID = Some rid" "s' \<noteq> s" by blast
  then obtain row where row: "row \<in> set (ws_rows s)" "scanWorkload row = Inr stored"
    by (blast elim: GetScoped_Inr)
  note ids = scanWorkload_Inr [OF row(2)]
  let ?guard = "\<lambda>r. w_workload_id r = wl_WorkloadID stored \<and> w_stop_request_id r = None"
  let ?change = "\<lambda>r. r\<lparr>w_stop_request_id := Some rid, w_stop_requested_at := Some now,
    w_state := stop_target (wl_State stored), w_version := w_version r + 1, w_updated_at := now,
    w_next_attempt_at := None, w_error_code := None, w_worker_id := None, w_worker_lease_until := None\<rparr>"
  have s': "s' = s\<lparr>ws_rows := update_where ?guard ?change (ws_rows s)\<rparr>"
    using assms(1) st by (auto simp: RequestStopScoped_def Let_def split: if_splits)
  have only: "r = row" if "r \<in> set (ws_rows s)" "w_workload_id r = wl_WorkloadID stored" for r
    using assms(2) that row(1) ids(1) by (auto simp: distinct_map inj_on_def)
  show thesis
  proof (cases "w_stop_request_id row = None")
    case True
    then have "ws_rows s' = map (\<lambda>r. if r = row then stopping rid now row else r) (ws_rows s)"
      using only ids(1,2) by (auto simp: s' update_where_def stopping_def)
    moreover have "s' = s\<lparr>ws_rows := ws_rows s'\<rparr>" unfolding s' by simp
    ultimately show thesis by (rule stopped [OF row(1) True])
  next
    case False
    have "\<forall>r \<in> set (ws_rows s). \<not> ?guard r"
    proof (intro ballI notI)
      fix r assume "r \<in> set (ws_rows s)" and g: "?guard r"
      with only have "r = row" by simp
      with g False show False by simp
    qed
    from update_where_none [OF this] have "s' = s" unfolding s' by simp
    with st(4) show thesis by simp
  qed
qed

lemma stopping_step: "w_stop_request_id r = None \<Longrightarrow> row_step r (stopping rid now r)"
  by (auto simp: row_defs stopping_def stop_target_def intro: edge.intros)

lemma RequestStopScoped_step:
  assumes "RequestStopScoped scope c s workloadID requestID scopeID now = (res, s')"
    and "distinct (map w_workload_id (ws_rows s))"
  shows "table_step s s'"
  using assms
proof (cases rule: RequestStopScoped_cases)
  case (stopped row rid)
  have "rows_step (ws_rows s) (map (\<lambda>r. if r = row then stopping rid now row else r) (ws_rows s))"
    using stopping_step [OF stopped(2)] by (auto simp: rows_step_def list_all2_conv_all_nth)
  with stopped(3,4) show ?thesis by (simp add: table_step_def)
qed simp

lemma ReconcileFromAgent_cases:
  assumes "ReconcileFromAgent c s workloadID providerID fromStates toState containerID errorCode = (res, s')"
  obtains (unchanged) "s' = s"
  | (applied) wid where "s' = s\<lparr>ws_rows := update_where (\<lambda>row. w_workload_id row = wid \<and>
        w_provider_id row = Some providerID \<and> w_state row \<in> set fromStates)
        (reconciled c toState containerID errorCode) (ws_rows s)\<rparr>"
      "\<forall>row \<in> set (ws_rows s). w_workload_id row = wid \<and> w_provider_id row = Some providerID \<and>
        w_state row \<in> set fromStates \<longrightarrow> row_ok (reconciled c toState containerID errorCode row)"
  using assms by (auto simp: ReconcileFromAgent_def Let_def split: if_splits option.splits)

lemma ReconcileFromAgent_step:
  assumes "ReconcileFromAgent c s workloadID providerID fromStates toState containerID errorCode = (res, s')"
    and "reconciliationTransition phase = Some (fromStates, toState, errorCode)"
  shows "table_step s s'"
  using assms(1)
proof (cases rule: ReconcileFromAgent_cases)
  case (applied wid)
  let ?change = "reconciled c toState containerID errorCode"
  have edges: "edge st toState \<and> (toState \<in> open_states \<longrightarrow> st \<in> open_states)" if "st \<in> set fromStates" for st
    using assms(2) that by (cases phase) (auto intro: edge.intros)
  show ?thesis unfolding applied(1)
  proof (rule table_step_update)
    fix r
    assume "r \<in> set (ws_rows s)" and g: "w_workload_id r = wid \<and> w_provider_id r = Some providerID \<and>
      w_state r \<in> set fromStates"
    with applied(2) have "row_ok (?change r)" by blast
    then show "row_step r (?change r)"
      unfolding row_step_def using g edges [of "w_state r"]
      by (simp add: same_request_def release_def reconciled_def)
  qed
qed simp


section \<open>Invariants\<close>

definition lease_inv :: "workload_store \<Rightarrow> bool" where
  "lease_inv s \<longleftrightarrow>
     (\<forall>r \<in> set (ws_rows s). \<forall>i. w_lease_id r = Some i \<longrightarrow> i < ws_lease_seq s) \<and>
     (\<forall>r \<in> set (ws_rows s). \<forall>r' \<in> set (ws_rows s). \<forall>i.
        w_lease_id r = Some i \<and> w_lease_id r' = Some i \<longrightarrow> w_workload_id r = w_workload_id r')"

definition store_inv :: "workload_store \<Rightarrow> bool" where
  "store_inv s \<longleftrightarrow>
     distinct (map w_workload_id (ws_rows s)) \<and> distinct (map w_request_id (ws_rows s)) \<and>
     (\<forall>r \<in> set (ws_rows s). row_ok r) \<and> 0 < ws_lease_seq s \<and> lease_inv s"

lemma row_stepD:
  assumes "row_step r r'"
  shows "w_workload_id r' = w_workload_id r" "w_request_id r' = w_request_id r" "w_lease_id r' = w_lease_id r"
    "row_ok r \<Longrightarrow> row_ok r'" "w_reserved r' = w_reserved r" "w_provider_id r' = w_provider_id r"
    "w_version r' = w_version r + 1" "w_state r' \<in> open_states \<Longrightarrow> w_state r \<in> open_states" "same_request r r'"
    "w_state r' = w_state r \<or> edge (w_state r) (w_state r')"
    "w_stop_request_id r \<noteq> None \<Longrightarrow> w_stop_request_id r' = w_stop_request_id r"
  using assms unfolding row_step_def same_request_def by (blast, blast, blast, blast, blast, blast, blast, blast, blast, blast, presburger)

lemma rows_step_elem:
  assumes "rows_step rows rows'" and "r' \<in> set rows'"
  obtains r where "r \<in> set rows" "r' = r \<or> row_step r r'"
proof -
  from assms(2) obtain i where i: "i < length rows'" "r' = rows' ! i" by (auto simp: in_set_conv_nth)
  with assms(1) have "i < length rows" and "r' = rows ! i \<or> row_step (rows ! i) r'"
    by (auto simp: rows_step_def list_all2_conv_all_nth)
  then show thesis using that [of "rows ! i"] nth_mem by blast
qed

lemma rows_step_keys:
  assumes "rows_step rows rows'"
  shows "map w_workload_id rows' = map w_workload_id rows" "map w_request_id rows' = map w_request_id rows"
    "map w_lease_id rows' = map w_lease_id rows"
  using assms unfolding rows_step_def
  by (induction rule: list_all2_induct) (auto dest: row_stepD(1-3))

lemma table_step_inv:
  assumes "store_inv s" and "table_step s s'"
  shows "store_inv s'"
proof -
  have rows: "rows_step (ws_rows s) (ws_rows s')" using assms(2) by (simp add: table_step_def)
  have seq: "ws_lease_seq s' = ws_lease_seq s"
    using assms(2) by (cases s, cases s') (simp add: table_step_def)
  have old: "\<forall>r \<in> set (ws_rows s). row_ok r" "lease_inv s" using assms(1) by (simp_all add: store_inv_def)
  have step: "\<exists>r \<in> set (ws_rows s). w_workload_id r' = w_workload_id r \<and> w_lease_id r' = w_lease_id r \<and>
      (row_ok r \<longrightarrow> row_ok r')" if "r' \<in> set (ws_rows s')" for r'
    using that by (rule rows_step_elem [OF rows]) (auto dest: row_stepD(1,3,4))
  have "\<forall>r \<in> set (ws_rows s'). row_ok r" using step old(1) by blast
  moreover have "lease_inv s'"
    unfolding lease_inv_def seq
  proof (intro conjI ballI allI impI)
    fix r i assume "r \<in> set (ws_rows s')" "w_lease_id r = Some i"
    with step [of r] old(2) show "i < ws_lease_seq s" by (auto simp: lease_inv_def)
  next
    fix r r' i
    assume a: "r \<in> set (ws_rows s')" "r' \<in> set (ws_rows s')" "w_lease_id r = Some i \<and> w_lease_id r' = Some i"
    from step [OF a(1)] obtain q where q: "q \<in> set (ws_rows s)" "w_workload_id r = w_workload_id q"
      "w_lease_id r = w_lease_id q" by blast
    from step [OF a(2)] obtain q' where q': "q' \<in> set (ws_rows s)" "w_workload_id r' = w_workload_id q'"
      "w_lease_id r' = w_lease_id q'" by blast
    have "w_lease_id q = Some i" "w_lease_id q' = Some i" using q(3) q'(3) a(3) by simp_all
    with q(1) q'(1) old(2) have "w_workload_id q = w_workload_id q'" unfolding lease_inv_def by blast
    then show "w_workload_id r = w_workload_id r'" using q(2) q'(2) by simp
  qed
  ultimately show ?thesis
    using assms(1) rows_step_keys [OF rows] by (simp add: store_inv_def seq)
qed

lemma AssignLease_cases:
  assumes "AssignLease c s item providerID resourceHash capacity = (res, s')"
  obtains (failed) e where "res = Inl e" "s' = s"
  | (assigned) leaseID where "res = Inr leaseID" "leaseID = ws_lease_seq s + int (db_gap c)"
      "s' = s\<lparr>ws_rows := update_where (\<lambda>row. held c item row \<and> w_state row = SCHEDULING)
         (\<lambda>row. (release c row)\<lparr>w_state := LEASE_PENDING, w_provider_id := Some providerID,
            w_lease_id := Some leaseID, w_resource_hash := Some resourceHash\<rparr>) (ws_rows s),
         ws_lease_seq := leaseID + 1\<rparr>"
      "\<forall>f \<in> set amount_fields. i64 (reserved_total f providerID (ws_rows s) + f (wl_Reserved item)) \<le> f capacity"
      "\<forall>f \<in> set amount_fields. in_i64 (reserved_total f providerID (ws_rows s))"
      "providerID \<in> set (ws_providers s)"
      "\<exists>row \<in> set (ws_rows s). held c item row \<and> w_state row = SCHEDULING"
proof -
  show thesis
  proof (cases res)
    case (Inl e)
    with assms have "s' = s" by (simp add: AssignLease_def Let_def split: sum.splits if_splits)
    with Inl show thesis by (rule failed)
  next
    case (Inr leaseID)
    note step = assms [unfolded Inr AssignLease_def Let_def]
    show thesis
    proof (rule assigned [OF Inr])
      show "leaseID = ws_lease_seq s + int (db_gap c)" using step by (simp split: sum.splits if_splits)
      with step show "s' = s\<lparr>ws_rows := update_where (\<lambda>row. held c item row \<and> w_state row = SCHEDULING)
         (\<lambda>row. (release c row)\<lparr>w_state := LEASE_PENDING, w_provider_id := Some providerID,
            w_lease_id := Some leaseID, w_resource_hash := Some resourceHash\<rparr>) (ws_rows s),
         ws_lease_seq := leaseID + 1\<rparr>" by (simp split: sum.splits if_splits)
      show "providerID \<in> set (ws_providers s)" using step by (simp split: sum.splits if_splits)
      show "\<exists>row \<in> set (ws_rows s). held c item row \<and> w_state row = SCHEDULING"
        using step by (simp add: rows_affected_0 split: sum.splits if_splits)
      show "\<forall>f \<in> set amount_fields. in_i64 (reserved_total f providerID (ws_rows s))"
        using step by (simp add: ProviderReservedTotals_def split: sum.splits if_splits)
      show "\<forall>f \<in> set amount_fields. i64 (reserved_total f providerID (ws_rows s) + f (wl_Reserved item)) \<le> f capacity"
        using step by (simp add: not_less split: sum.splits if_splits)
    qed
  qed
qed

lemma held_unique:
  assumes "distinct (map w_workload_id rows)" and "r \<in> set rows" and "r' \<in> set rows"
    and "held c item r" and "held c item r'"
  shows "r' = r"
  using assms by (auto simp: held_def distinct_map inj_on_def)

lemma assigned_row_step:
  assumes "w_state r = SCHEDULING" and "length resourceHash = 32" and "0 \<le> leaseID"
  shows "assign_step providerID leaseID r ((release c r)\<lparr>w_state := LEASE_PENDING,
    w_provider_id := Some providerID, w_lease_id := Some leaseID, w_resource_hash := Some resourceHash\<rparr>)"
  using assms by (simp add: assign_step_def same_request_def release_def row_ok_def)

lemma lease_unique:
  "lease_inv s \<Longrightarrow> r \<in> set (ws_rows s) \<Longrightarrow> r' \<in> set (ws_rows s) \<Longrightarrow> w_lease_id r = Some i \<Longrightarrow>
     w_lease_id r' = Some i \<Longrightarrow> w_workload_id r = w_workload_id r'"
  unfolding lease_inv_def by blast

lemma AssignLease_inv:
  assumes inv: "store_inv s" and step: "AssignLease c s item providerID resourceHash capacity = (res, s')"
    and hash: "length resourceHash = 32"
  shows "store_inv s'"
  using step
proof (cases rule: AssignLease_cases)
  case (assigned leaseID)
  let ?guard = "\<lambda>row. held c item row \<and> w_state row = SCHEDULING"
  let ?change = "\<lambda>row. (release c row)\<lparr>w_state := LEASE_PENDING, w_provider_id := Some providerID,
    w_lease_id := Some leaseID, w_resource_hash := Some resourceHash\<rparr>"
  let ?rows = "update_where ?guard ?change (ws_rows s)"
  have dist: "distinct (map w_workload_id (ws_rows s))" and pos: "0 < leaseID"
    and old: "\<And>r i. r \<in> set (ws_rows s) \<Longrightarrow> w_lease_id r = Some i \<Longrightarrow> i < leaseID"
    using inv assigned(2) by (fastforce simp: store_inv_def lease_inv_def)+
  have ids: "map w_workload_id ?rows = map w_workload_id (ws_rows s)"
    "map w_request_id ?rows = map w_request_id (ws_rows s)"
    by (simp_all add: map_update_where release_def)
  have ok: "row_ok r'" if "r' \<in> set ?rows" for r'
    using that
  proof (cases rule: set_update_whereE)
    case (updated r)
    with assigned_row_step [of r resourceHash leaseID providerID c] hash pos inv show ?thesis
      by (simp add: assign_step_def store_inv_def)
  qed (use inv in \<open>auto simp: store_inv_def\<close>)
  have lease: "r' \<in> set (ws_rows s) \<or> w_lease_id r' = Some leaseID \<and> w_workload_id r' = wl_WorkloadID item"
    if "r' \<in> set ?rows" for r'
    using that by (cases rule: set_update_whereE) (auto simp: release_def held_def)
  have less: "i < leaseID + 1" if "r \<in> set ?rows" "w_lease_id r = Some i" for r i
    using lease [OF that(1)] that(2) old by fastforce
  have uniq: "w_workload_id r1 = w_workload_id r2"
    if "r1 \<in> set ?rows" "r2 \<in> set ?rows" "w_lease_id r1 = Some i" "w_lease_id r2 = Some i" for r1 r2 i
  proof (cases "i = leaseID")
    case True
    with old that(3,4) have "r1 \<notin> set (ws_rows s)" "r2 \<notin> set (ws_rows s)" by blast+
    with lease [OF that(1)] lease [OF that(2)] show ?thesis by simp
  next
    case False
    with lease [OF that(1)] lease [OF that(2)] that(3,4) have "r1 \<in> set (ws_rows s)" "r2 \<in> set (ws_rows s)"
      by simp_all
    then show ?thesis using lease_unique [of s r1 r2 i] inv that(3,4) by (simp add: store_inv_def)
  qed
  have s': "ws_rows s' = ?rows" "ws_lease_seq s' = leaseID + 1" by (simp_all add: assigned(3))
  have "lease_inv s'"
    unfolding lease_inv_def s'
  proof (intro conjI ballI allI impI)
    fix r i assume "r \<in> set ?rows" "w_lease_id r = Some i"
    then show "i < leaseID + 1" by (rule less)
  next
    fix r1 r2 i assume "r1 \<in> set ?rows" "r2 \<in> set ?rows" "w_lease_id r1 = Some i \<and> w_lease_id r2 = Some i"
    then show "w_workload_id r1 = w_workload_id r2" using uniq [of r1 r2 i] by blast
  qed
  moreover have "\<forall>r \<in> set (ws_rows s'). row_ok r" unfolding s' using ok by blast
  moreover have "0 < ws_lease_seq s'" unfolding s' using pos by simp
  moreover have "distinct (map w_workload_id (ws_rows s'))" "distinct (map w_request_id (ws_rows s'))"
    unfolding s' ids using inv by (simp_all add: store_inv_def)
  ultimately show ?thesis by (simp add: store_inv_def)
qed (use inv in simp)

lemma CreateOrGet_cases:
  assumes "CreateOrGet c s candidate = (res, s')"
  obtains (same) "s' = s"
  | (created) wid rid oid pid where "res = Inr candidate"
      "s' = s\<lparr>ws_rows := ws_rows s @ [row_of wid rid oid pid candidate]\<rparr>"
      "row_ok (row_of wid rid oid pid candidate)"
      "\<forall>x \<in> set (ws_rows s). w_workload_id x \<noteq> wid \<and> w_request_id x \<noteq> rid"
      "uuid_parse c (wl_WorkloadID candidate) = Some wid" "uuid_parse c (wl_RequestID candidate) = Some rid"
      "uuid_parse c (wl_OwnerID candidate) = Some oid" "oid \<in> set (ws_users s)"
      "(case pid of None \<Rightarrow> wl_ProjectID candidate = '''' | Some p \<Rightarrow> uuid_parse c (wl_ProjectID candidate) = Some p)"
  using assms
  by (auto simp: CreateOrGet_def Let_def nullableID_def split: if_splits option.splits sum.splits)

lemma CreateOrGet_inv:
  assumes "store_inv s" and "CreateOrGet c s candidate = (res, s')"
  shows "store_inv s'"
  using assms(2)
proof (cases rule: CreateOrGet_cases)
  case (created wid rid oid pid)
  have "w_workload_id (row_of wid rid oid pid candidate) = wid"
    "w_request_id (row_of wid rid oid pid candidate) = rid" "w_lease_id (row_of wid rid oid pid candidate) = None"
    by (simp_all add: row_of_def)
  with assms(1) created show ?thesis by (auto simp: store_inv_def lease_inv_def)
qed (use assms(1) in simp)

end
