(* ===== verification/Workload_System.thy ===== *)
theory Workload_System
  imports Workload_Lifecycle
begin

text \<open>
  All callers of the workload table at once: tenants, workers and heartbeats interleave freely,
  one query at a time. A worker only acts on an item \<^verbatim>\<open>ClaimNext\<close> has returned to it
  at some time, however stale. The ceiling given to \<^verbatim>\<open>AssignLease\<close> is rebuilt from
  the provider's last heartbeat at each call and may be different every time; \<open>cap\<close> is only
  an upper bound of what each provider declares during the run.
\<close>

type_synonym workload_system = "workload_store \<times> WorkloadItem set"

definition capacity_le :: "ProviderCapacity \<Rightarrow> ProviderCapacity \<Rightarrow> bool" where
  "capacity_le a b \<longleftrightarrow> (\<forall>f \<in> set amount_fields. f a \<le> f b)"

lemma capacity_le_refl [simp]: "capacity_le a a"
  by (simp add: capacity_le_def)

inductive system_step :: "(string \<Rightarrow> ProviderCapacity) \<Rightarrow> workload_system \<Rightarrow> workload_system \<Rightarrow> bool" for cap where
  create: "CreateOrGet c s candidate = (res, s') \<Longrightarrow> wl_State candidate = REQUESTED \<Longrightarrow>
     system_step cap (s, C) (s', C)"
| stop: "RequestStopScoped scope c s workloadID requestID scopeID now = (res, s') \<Longrightarrow>
     system_step cap (s, C) (s', C)"
| claim: "ClaimNext c locked s workerID lease = (Inr item, s') \<Longrightarrow> system_step cap (s, C) (s', insert item C)"
| no_claim: "ClaimNext c locked s workerID lease = (Inl e, s') \<Longrightarrow> system_step cap (s, C) (s', C)"
| begin_scheduling: "item \<in> C \<Longrightarrow> BeginScheduling c s item = (res, s') \<Longrightarrow> system_step cap (s, C) (s', C)"
| assign: "item \<in> C \<Longrightarrow> length resourceHash = 32 \<Longrightarrow> capacity_le capacity (cap providerID) \<Longrightarrow>
     AssignLease c s item providerID resourceHash capacity = (res', s') \<Longrightarrow>
     system_step cap (s, C) (s', C)"
| leased: "item \<in> C \<Longrightarrow> MarkLeased c s item leaseID = (res, s') \<Longrightarrow> system_step cap (s, C) (s', C)"
| deploying: "item \<in> C \<Longrightarrow> MarkDeploying c s item leaseID = (res, s') \<Longrightarrow> system_step cap (s, C) (s', C)"
| running: "item \<in> C \<Longrightarrow> MarkRunning c s item containerID = (res, s') \<Longrightarrow> system_step cap (s, C) (s', C)"
| stopped: "item \<in> C \<Longrightarrow> MarkStopped c s item leaseID = (res, s') \<Longrightarrow> system_step cap (s, C) (s', C)"
| retry: "item \<in> C \<Longrightarrow> RetryLater c s item code delay = (res, s') \<Longrightarrow> system_step cap (s, C) (s', C)"
| failed: "item \<in> C \<Longrightarrow> MarkFailed c s item code = (res, s') \<Longrightarrow> system_step cap (s, C) (s', C)"
| reconcile: "reconciliationTransition phase = Some (fromStates, toState, errorCode) \<Longrightarrow>
     ReconcileFromAgent c s workloadID providerID fromStates toState containerID errorCode = (res'', s') \<Longrightarrow>
     system_step cap (s, C) (s', C)"

abbreviation system_run :: "(string \<Rightarrow> ProviderCapacity) \<Rightarrow> workload_system \<Rightarrow> workload_system \<Rightarrow> bool" where
  "system_run cap \<equiv> (system_step cap)\<^sup>*\<^sup>*"

text \<open>Four kinds of step: the table changes by \<open>row_step\<close>, an item is claimed, a row is
  created, a lease is assigned.\<close>

lemma system_step_cases:
  assumes "system_step cap \<sigma> \<sigma>'" and "store_inv (fst \<sigma>)"
  obtains (table) "table_step (fst \<sigma>) (fst \<sigma>')" "snd \<sigma>' = snd \<sigma>"
  | (claimed) c locked workerID lease item where "ClaimNext c locked (fst \<sigma>) workerID lease = (Inr item, fst \<sigma>')"
      "snd \<sigma>' = insert item (snd \<sigma>)" "table_step (fst \<sigma>) (fst \<sigma>')"
  | (created) c candidate res where "CreateOrGet c (fst \<sigma>) candidate = (res, fst \<sigma>')"
      "wl_State candidate = REQUESTED" "snd \<sigma>' = snd \<sigma>"
  | (assigned) c item providerID resourceHash capacity res where "item \<in> snd \<sigma>" "length resourceHash = 32"
      "AssignLease c (fst \<sigma>) item providerID resourceHash capacity = (res, fst \<sigma>')" "snd \<sigma>' = snd \<sigma>"
      "capacity_le capacity (cap providerID)"
  using assms(1)
proof cases
  case (stop scope c s workloadID requestID scopeID now res s' C)
  with assms(2) RequestStopScoped_step [OF stop(3)] show thesis
    by (intro table) (simp_all add: store_inv_def)
next
  case (claim c locked s workerID lease item s' C)
  with ClaimNext_step [OF claim(3)] show thesis by (intro claimed) simp_all
next
  case (no_claim c locked s workerID lease e s' C)
  with ClaimNext_step [OF no_claim(3)] show thesis by (intro table) simp_all
next
  case (assign item C resourceHash capacity providerID c s res' s')
  then show thesis by (intro assigned) simp_all
next
  case (create c s candidate res s' C)
  then show thesis by (intro created) simp_all
next
  case (reconcile phase fromStates toState errorCode c s workloadID providerID containerID res'' s' C)
  with ReconcileFromAgent_step [OF reconcile(4,3)] show thesis by (intro table) simp_all
qed (auto intro!: table dest: worker_updates_step MarkRunning_step)

lemma system_step_inv:
  assumes "system_step cap \<sigma> \<sigma>'" and "store_inv (fst \<sigma>)"
  shows "store_inv (fst \<sigma>')"
  using assms
proof (cases rule: system_step_cases)
  case table
  with assms(2) show ?thesis by (blast intro: table_step_inv)
next
  case claimed
  with assms(2) show ?thesis by (blast intro: table_step_inv)
next
  case created
  with assms(2) show ?thesis by (blast intro: CreateOrGet_inv)
next
  case assigned
  with assms(2) show ?thesis by (blast intro: AssignLease_inv)
qed

lemma system_run_inv:
  assumes "system_run cap \<sigma> \<sigma>'" and "store_inv (fst \<sigma>)"
  shows "store_inv (fst \<sigma>')"
  using assms by (induction rule: rtranclp_induct) (auto intro: system_step_inv)

definition new_store :: "workload_store \<Rightarrow> bool" where
  "new_store s \<longleftrightarrow> ws_rows s = [] \<and> ws_lease_seq s = 1"

lemma new_store_inv: "new_store s \<Longrightarrow> store_inv s"
  by (simp add: new_store_def store_inv_def lease_inv_def)

section \<open>Capacity\<close>

lemma amounts_nonneg: "row_ok r \<Longrightarrow> f \<in> set amount_fields \<Longrightarrow> 0 \<le> f (w_reserved r)"
  by (auto simp: row_ok_def amounts_ok_def amount_fields_def)

lemma reserved_total_Cons [simp]:
  "reserved_total f p (r # rows) =
     (if w_provider_id r = Some p \<and> w_state r \<in> open_states then f (w_reserved r) else 0) + reserved_total f p rows"
  unfolding reserved_total_def by auto

lemma reserved_total_append [simp]:
  "reserved_total f p (rows @ rows') = reserved_total f p rows + reserved_total f p rows'"
  by (simp add: reserved_total_def)

lemma reserved_total_Nil [simp]: "reserved_total f p [] = 0"
  by (simp add: reserved_total_def)

lemma if_int_mono: "(A' \<Longrightarrow> A) \<Longrightarrow> (0::int) \<le> x \<Longrightarrow> (if A' then x else 0) \<le> (if A then x else 0)"
  by simp

lemma reserved_total_step:
  assumes "rows_step rows rows'" and "\<forall>r \<in> set rows. row_ok r" and "f \<in> set amount_fields"
  shows "reserved_total f p rows' \<le> reserved_total f p rows"
  using assms(1,2) unfolding rows_step_def
proof (induction rule: list_all2_induct)
  case (Cons r rows r' rows')
  have "(if w_provider_id r' = Some p \<and> w_state r' \<in> open_states then f (w_reserved r') else 0) \<le>
      (if w_provider_id r = Some p \<and> w_state r \<in> open_states then f (w_reserved r) else 0)"
  proof (cases "r' = r")
    case False
    with Cons(1) have "row_step r r'" by simp
    note st = row_stepD [OF this]
    show ?thesis unfolding st(5,6)
      using st(8) amounts_nonneg [of r f] Cons.prems assms(3) by (intro if_int_mono) simp_all
  qed (simp only: order_refl)
  moreover have "reserved_total f p rows' \<le> reserved_total f p rows" using Cons by simp
  ultimately show ?case unfolding reserved_total_Cons by (rule add_mono)
qed simp

lemma reserved_total_assigned:
  assumes "distinct (map w_workload_id rows)" and "r \<in> set rows" and "guard r" and "w_state r \<notin> open_states"
    and "\<And>x. guard x \<Longrightarrow> w_workload_id x = k"
    and "w_provider_id (change r) = Some q" and "w_state (change r) = LEASE_PENDING" and "w_reserved (change r) = w_reserved r"
  shows "reserved_total f p (update_where guard change rows) =
    reserved_total f p rows + (if p = q then f (w_reserved r) else 0)"
proof -
  from split_list [OF assms(2)] obtain xs ys where rows: "rows = xs @ r # ys" by blast
  have other: "\<not> guard x" if "x \<in> set xs \<union> set ys" for x
  proof
    assume "guard x"
    with assms(5) [OF assms(3)] assms(5) [of x] have "w_workload_id x = w_workload_id r" by simp
    with assms(1) that show False unfolding rows by (auto simp: image_iff)
  qed
  have "update_where guard change xs = xs" "update_where guard change ys = ys"
    using other by (auto intro: update_where_none)
  then have "update_where guard change rows = xs @ change r # ys"
    using assms(3) unfolding rows by (simp add: update_where_def)
  with assms(4,6-8) show ?thesis unfolding rows by simp
qed

definition claims_inv :: "workload_system \<Rightarrow> bool" where
  "claims_inv \<sigma> \<longleftrightarrow> (\<forall>item \<in> snd \<sigma>. \<exists>r \<in> set (ws_rows (fst \<sigma>)).
     w_workload_id r = wl_WorkloadID item \<and> w_reserved r = wl_Reserved item)"

lemma rows_step_mem:
  assumes "rows_step rows rows'" and "r \<in> set rows"
  obtains r' where "r' \<in> set rows'" "r' = r \<or> row_step r r'"
proof -
  from assms(2) obtain i where i: "i < length rows" "r = rows ! i" by (auto simp: in_set_conv_nth)
  with assms(1) have "i < length rows'" and "rows' ! i = r \<or> row_step r (rows' ! i)"
    by (auto simp: rows_step_def list_all2_conv_all_nth)
  then show thesis using that [of "rows' ! i"] nth_mem by blast
qed

text \<open>What happens to one row in one step.\<close>

lemma system_step_row:
  assumes "system_step cap \<sigma> \<sigma>'" and "store_inv (fst \<sigma>)" and "r \<in> set (ws_rows (fst \<sigma>))"
  obtains r' where "r' \<in> set (ws_rows (fst \<sigma>'))" "r' = r \<or> row_step r r' \<or> (\<exists>p i. assign_step p i r r')"
  using assms(1,2)
proof (cases rule: system_step_cases)
  case table
  then show thesis using rows_step_mem [OF _ assms(3)] that by (metis table_step_def)
next
  case claimed
  then show thesis using rows_step_mem [OF _ assms(3)] that by (metis table_step_def)
next
  case (created c candidate res)
  from created(1) show thesis
    by (cases rule: CreateOrGet_cases) (use assms(3) that [of r] in simp_all)
next
  case (assigned c item providerID resourceHash capacity res)
  from assigned(3) show thesis
  proof (cases rule: AssignLease_cases)
    case (assigned leaseID)
    show thesis
    proof (cases "held c item r \<and> w_state r = SCHEDULING")
      case True
      let ?r = "(release c r)\<lparr>w_state := LEASE_PENDING, w_provider_id := Some providerID,
        w_lease_id := Some leaseID, w_resource_hash := Some resourceHash\<rparr>"
      have "0 \<le> leaseID" using assigned(2) assms(2) by (simp add: store_inv_def)
      then have "assign_step providerID leaseID r ?r"
        using assigned_row_step True \<open>length resourceHash = 32\<close> by blast
      moreover have "?r \<in> set (ws_rows (fst \<sigma>'))"
        using assms(3) True by (auto simp: assigned(3) update_where_def)
      ultimately show thesis using that by blast
    next
      case False
      then have "r \<in> set (ws_rows (fst \<sigma>'))"
        using assms(3) by (auto simp: assigned(3) update_where_def image_iff)
      then show thesis using that by blast
    qed
  qed (use assms(3) that [of r] in simp_all)
qed

lemma system_step_request:
  assumes "system_step cap \<sigma> \<sigma>'" and "store_inv (fst \<sigma>)" and "r \<in> set (ws_rows (fst \<sigma>))"
  obtains r' where "r' \<in> set (ws_rows (fst \<sigma>'))" "same_request r r'"
  using system_step_row [OF assms]
  by (metis assign_step_def row_stepD(9) same_request_def)

lemma ClaimNext_Inr:
  assumes "ClaimNext c locked s workerID lease = (Inr item, s')"
  obtains row where "row \<in> set (ws_rows s)" "claimable c row"
    "wl_WorkloadID item = w_workload_id row" "wl_Reserved item = w_reserved row"
    "wl_Version item = w_version row + 1" "wl_State item = w_state row" "wl_WorkerID item = workerID"
proof -
  let ?rows = "sort_key w_created_at (filter (\<lambda>row. claimable c row \<and> \<not> locked (w_workload_id row)) (ws_rows s))"
  from assms obtain row rest where rows: "?rows = row # rest"
    and scan: "scanWorkload (row\<lparr>w_worker_id := Some workerID, w_worker_lease_until := Some (db_now c + lease),
      w_version := w_version row + 1\<rparr>) = Inr item"
    by (auto simp: ClaimNext_def Let_def split: if_splits list.splits)
  have "row \<in> set ?rows" unfolding rows by simp
  then have "row \<in> set (ws_rows s)" "claimable c row" by simp_all
  with that [of row] scanWorkload_Inr [OF scan] show thesis by (simp add: text_or_empty_def)
qed

lemma claims_inv_step:
  assumes "system_step cap \<sigma> \<sigma>'" and "store_inv (fst \<sigma>)" and "claims_inv \<sigma>"
  shows "claims_inv \<sigma>'"
proof -
  have kept: "\<exists>r' \<in> set (ws_rows (fst \<sigma>')). w_workload_id r' = k \<and> w_reserved r' = a"
    if "r \<in> set (ws_rows (fst \<sigma>))" "w_workload_id r = k" "w_reserved r = a" for r k a
    using system_step_request [OF assms(1,2) that(1)] that(2,3) by (metis same_request_def)
  have old: "\<exists>r' \<in> set (ws_rows (fst \<sigma>')). w_workload_id r' = wl_WorkloadID item \<and> w_reserved r' = wl_Reserved item"
    if "item \<in> snd \<sigma>" for item
    using assms(3) that kept unfolding claims_inv_def by blast
  show ?thesis
    using assms(1,2)
  proof (cases rule: system_step_cases)
    case (claimed c locked workerID lease item)
    from claimed(1) obtain row where row: "row \<in> set (ws_rows (fst \<sigma>))" "wl_WorkloadID item = w_workload_id row"
      "wl_Reserved item = w_reserved row" by (rule ClaimNext_Inr)
    from kept [OF row(1)] row(2,3) have
      "\<exists>r' \<in> set (ws_rows (fst \<sigma>')). w_workload_id r' = wl_WorkloadID item \<and> w_reserved r' = wl_Reserved item" by simp
    with old show ?thesis unfolding claims_inv_def claimed(2) by blast
  qed (use old in \<open>simp_all add: claims_inv_def\<close>)
qed

text \<open>Amounts small enough that no sum of two of them leaves \<^verbatim>\<open>int64\<close>.\<close>

definition amounts_below :: "int \<Rightarrow> ProviderCapacity \<Rightarrow> bool" where
  "amounts_below m a \<longleftrightarrow> (\<forall>f \<in> set amount_fields. f a < m)"

definition capacity_inv :: "(string \<Rightarrow> ProviderCapacity) \<Rightarrow> workload_store \<Rightarrow> bool" where
  "capacity_inv cap s \<longleftrightarrow> (\<forall>p. \<forall>f \<in> set amount_fields. reserved_total f p (ws_rows s) \<le> f (cap p))"

lemma reserved_total_nonneg:
  assumes "\<forall>r \<in> set rows. row_ok r" and "f \<in> set amount_fields"
  shows "0 \<le> reserved_total f p rows"
  using assms(1) unfolding reserved_total_def
  by (intro sum_list_nonneg) (auto intro: amounts_nonneg [OF _ assms(2)])

lemma AssignLease_capacity:
  assumes inv: "store_inv s" "capacity_inv cap s" and claim: "claims_inv (s, C)" "item \<in> C"
    and small: "\<forall>r \<in> set (ws_rows s). amounts_below (2 ^ 62) (w_reserved r)" "\<forall>p. amounts_below (2 ^ 62) (cap p)"
    and step: "AssignLease c s item providerID resourceHash capacity = (res, s')"
    and ceiling: "capacity_le capacity (cap providerID)"
  shows "capacity_inv cap s'"
  using step
proof (cases rule: AssignLease_cases)
  case (assigned leaseID)
  from assigned(7) obtain row where row: "row \<in> set (ws_rows s)" "held c item row" "w_state row = SCHEDULING" by blast
  have dist: "distinct (map w_workload_id (ws_rows s))" and ok: "\<forall>r \<in> set (ws_rows s). row_ok r"
    using inv(1) by (simp_all add: store_inv_def)
  from claim obtain row' where "row' \<in> set (ws_rows s)" "w_workload_id row' = wl_WorkloadID item"
    "w_reserved row' = wl_Reserved item" by (auto simp: claims_inv_def)
  moreover from this(1,2) row dist have "row' = row" by (auto simp: held_def distinct_map inj_on_def)
  ultimately have res: "wl_Reserved item = w_reserved row" by simp
  have s': "ws_rows s' = update_where (\<lambda>row. held c item row \<and> w_state row = SCHEDULING)
     (\<lambda>row. (release c row)\<lparr>w_state := LEASE_PENDING, w_provider_id := Some providerID,
        w_lease_id := Some leaseID, w_resource_hash := Some resourceHash\<rparr>) (ws_rows s)"
    by (simp add: assigned(3))
  show ?thesis
    unfolding capacity_inv_def
  proof (intro allI ballI)
    fix p f assume f: "f \<in> set amount_fields"
    let ?t = "reserved_total f p (ws_rows s)"
    have new: "reserved_total f p (ws_rows s') = ?t + (if p = providerID then f (w_reserved row) else 0)"
      unfolding s'
      by (rule reserved_total_assigned [OF dist row(1)]) (use row in \<open>auto simp: held_def release_def\<close>)
    have le: "?t \<le> f (cap p)" using inv(2) f by (simp add: capacity_inv_def)
    show "reserved_total f p (ws_rows s') \<le> f (cap p)"
    proof (cases "p = providerID")
      case True
      have "0 \<le> ?t" "0 \<le> f (w_reserved row)"
        using reserved_total_nonneg [OF ok f] amounts_nonneg [OF _ f] ok row(1) by simp_all
      moreover have "f (w_reserved row) < 2 ^ 62" "f (cap p) < 2 ^ 62"
        using small row(1) f by (auto simp: amounts_below_def)
      ultimately have "i64 (?t + f (w_reserved row)) = ?t + f (w_reserved row)"
        using le by (intro i64_id) (simp add: in_i64_def)
      moreover have "i64 (?t + f (w_reserved row)) \<le> f capacity"
        using bspec [OF assigned(4) f] unfolding res True .
      moreover have "f capacity \<le> f (cap p)" using ceiling f True by (simp add: capacity_le_def)
      ultimately show ?thesis unfolding new using True by simp
    qed (use le new in simp)
  qed
qed (use inv in simp)

lemma capacity_step:
  assumes step: "system_step cap \<sigma> \<sigma>'" and inv: "store_inv (fst \<sigma>)" "claims_inv \<sigma>" "capacity_inv cap (fst \<sigma>)"
    and small: "\<forall>r \<in> set (ws_rows (fst \<sigma>)). amounts_below (2 ^ 62) (w_reserved r)" "\<forall>p. amounts_below (2 ^ 62) (cap p)"
  shows "capacity_inv cap (fst \<sigma>')"
proof -
  have by_table: "capacity_inv cap (fst \<sigma>')" if "table_step (fst \<sigma>) (fst \<sigma>')"
    unfolding capacity_inv_def
  proof (intro allI ballI)
    fix p f assume f: "f \<in> set amount_fields"
    have "reserved_total f p (ws_rows (fst \<sigma>')) \<le> reserved_total f p (ws_rows (fst \<sigma>))"
      using that inv(1) f by (intro reserved_total_step) (simp_all add: table_step_def store_inv_def)
    then show "reserved_total f p (ws_rows (fst \<sigma>')) \<le> f (cap p)"
      using inv(3) f unfolding capacity_inv_def by (blast intro: order_trans)
  qed
  from step inv(1) show ?thesis
  proof (cases rule: system_step_cases)
    case (created c candidate res)
    from created(1) show ?thesis
    proof (cases rule: CreateOrGet_cases)
      case (created wid rid oid pid)
      have "w_provider_id (row_of wid rid oid pid candidate) = None" by (simp add: row_of_def)
      with inv(3) show ?thesis by (simp add: created(2) capacity_inv_def)
    qed (use inv(3) in simp)
  next
    case (assigned c item providerID resourceHash capacity res)
    show ?thesis
      using AssignLease_capacity [OF inv(1,3) _ assigned(1) small assigned(3,5)] inv(2) by simp
  qed (use by_table in blast)+
qed

lemma small_before:
  assumes "system_step cap \<sigma> \<sigma>'" and "store_inv (fst \<sigma>)"
    and "\<forall>r \<in> set (ws_rows (fst \<sigma>')). amounts_below m (w_reserved r)"
  shows "\<forall>r \<in> set (ws_rows (fst \<sigma>)). amounts_below m (w_reserved r)"
proof
  fix r assume "r \<in> set (ws_rows (fst \<sigma>))"
  from system_step_request [OF assms(1,2) this] assms(3) show "amounts_below m (w_reserved r)"
    by (metis same_request_def)
qed

lemma capacity_run:
  assumes "system_run cap \<sigma> \<sigma>'" and "store_inv (fst \<sigma>)" "claims_inv \<sigma>" "capacity_inv cap (fst \<sigma>)"
    and "\<forall>p. amounts_below (2 ^ 62) (cap p)"
    and "\<forall>r \<in> set (ws_rows (fst \<sigma>')). amounts_below (2 ^ 62) (w_reserved r)"
  shows "claims_inv \<sigma>' \<and> capacity_inv cap (fst \<sigma>')"
  using assms(1,6)
proof (induction rule: rtranclp_induct)
  case (step \<sigma>1 \<sigma>2)
  have inv: "store_inv (fst \<sigma>1)" using step(1) assms(2) by (rule system_run_inv)
  note small = small_before [OF step(2) inv step(4)]
  with step(3) have "claims_inv \<sigma>1" "capacity_inv cap (fst \<sigma>1)" by simp_all
  with claims_inv_step [OF step(2) inv] capacity_step [OF step(2) inv _ _ small assms(5)] show ?case by simp
qed (use assms in simp)

section \<open>One row over a whole run\<close>

lemma edge_no_return:
  assumes "edge\<^sup>*\<^sup>* st st'" and "st \<in> terminal_states"
  shows "st' = st"
  using assms by (induction rule: rtranclp_induct) auto

text \<open>What may be relied on of a row once it has been seen: the request never changes, the version
  only grows, the state moves along edges, and a placement once made is kept.\<close>

definition row_later :: "workload_row \<Rightarrow> workload_row \<Rightarrow> bool" where
  "row_later r r' \<longleftrightarrow> same_request r r' \<and> w_version r \<le> w_version r' \<and> edge\<^sup>*\<^sup>* (w_state r) (w_state r') \<and>
     (w_version r' = w_version r \<longrightarrow> r' = r) \<and>
     (w_state r \<notin> {REQUESTED, SCHEDULING} \<longrightarrow> w_lease_id r' = w_lease_id r \<and> w_provider_id r' = w_provider_id r) \<and>
     (w_stop_request_id r \<noteq> None \<longrightarrow> w_stop_request_id r' = w_stop_request_id r)"

lemma edges_past_scheduling:
  assumes "edge\<^sup>*\<^sup>* st st'" and "st \<notin> {REQUESTED, SCHEDULING}"
  shows "st' \<notin> {REQUESTED, SCHEDULING}"
  using assms by (induction rule: rtranclp_induct) (auto elim: edge.cases)

lemma row_later_refl: "row_later r r"
  by (simp add: row_later_def same_request_def)

lemma row_later_row_step: "row_step r r' \<Longrightarrow> row_later r r'"
  unfolding row_later_def by (auto dest: row_stepD(3,6,7,9,10,11))

lemma row_later_assign_step: "assign_step p i r r' \<Longrightarrow> row_later r r'"
  by (auto simp: row_later_def assign_step_def intro: edge.assign)

lemma row_later_trans:
  assumes "row_later r r'" and "row_later r' r''"
  shows "row_later r r''"
proof -
  have "same_request r r''" using assms by (simp add: row_later_def same_request_def)
  moreover have "edge\<^sup>*\<^sup>* (w_state r) (w_state r'')"
    using assms unfolding row_later_def by (blast intro: rtranclp_trans)
  moreover have "w_version r \<le> w_version r''" using assms unfolding row_later_def by linarith
  moreover have "r'' = r" if "w_version r'' = w_version r"
  proof -
    have "w_version r' = w_version r" "w_version r'' = w_version r'"
      using assms that by (simp_all add: row_later_def)
    then show ?thesis using assms by (simp add: row_later_def)
  qed
  moreover have "w_lease_id r'' = w_lease_id r \<and> w_provider_id r'' = w_provider_id r"
    if "w_state r \<notin> {REQUESTED, SCHEDULING}"
    using edges_past_scheduling [of "w_state r" "w_state r'"] assms that by (simp add: row_later_def)
  moreover have "w_stop_request_id r'' = w_stop_request_id r" if "w_stop_request_id r \<noteq> None"
    using assms that by (simp add: row_later_def)
  ultimately show ?thesis by (simp add: row_later_def)
qed

lemma system_run_row:
  assumes "system_run cap \<sigma> \<sigma>'" and "store_inv (fst \<sigma>)" and "r \<in> set (ws_rows (fst \<sigma>))"
  shows "\<exists>r' \<in> set (ws_rows (fst \<sigma>')). row_later r r'"
  using assms(1)
proof (induction rule: rtranclp_induct)
  case (step \<sigma>1 \<sigma>2)
  then obtain r1 where r1: "r1 \<in> set (ws_rows (fst \<sigma>1))" "row_later r r1" by blast
  have "store_inv (fst \<sigma>1)" using step(1) assms(2) by (rule system_run_inv)
  from system_step_row [OF step(2) this r1(1)] obtain r2 where r2: "r2 \<in> set (ws_rows (fst \<sigma>2))"
    "r2 = r1 \<or> row_step r1 r2 \<or> (\<exists>p i. assign_step p i r1 r2)" .
  then have "row_later r1 r2" by (auto intro: row_later_refl row_later_row_step row_later_assign_step)
  with r1(2) r2(1) show ?case by (blast intro: row_later_trans)
qed (use assms(3) row_later_refl in blast)

end
