(* ===== verification/Workload_Properties.thy ===== *)
theory Workload_Properties
  imports Workload_System
begin

text \<open>
  What the workload table promises under every interleaving of its callers, with a worked
  run that shows the hypotheses can hold.
\<close>

section \<open>Helpers\<close>

lemma distinct_key_eq:
  "distinct (map k rows) \<Longrightarrow> r \<in> set rows \<Longrightarrow> r' \<in> set rows \<Longrightarrow> k r = k r' \<Longrightarrow> r' = r"
  by (auto simp: distinct_map inj_on_def)

lemma find_unique:
  assumes "distinct (map k rows)" and "r \<in> set rows" and "k r = x"
  shows "find (\<lambda>r. k r = x) rows = Some r"
  using assms by (induction rows) (auto simp: image_iff)

lemma distinct_map_filter:
  assumes "distinct (map k rows)"
    and "\<And>r r' i. r \<in> set rows \<Longrightarrow> r' \<in> set rows \<Longrightarrow> g r = Some i \<Longrightarrow> g r' = Some i \<Longrightarrow> k r = k r'"
  shows "distinct (List.map_filter g rows)"
proof -
  have "r = r'" if "r \<in> set rows" "r' \<in> set rows" "g r = Some i" "g r' = Some i" for r r' i
    using distinct_key_eq [OF assms(1) that(2,1)] assms(2) [OF that(2,1,4,3)] .
  then have "inj_on (\<lambda>x. the (g x)) (set (filter (\<lambda>x. g x \<noteq> None) rows))"
    by (auto simp: inj_on_def)
  then show ?thesis using assms(1) by (simp add: List.map_filter_def distinct_map comp_def)
qed

lemma amounts_okD: "amounts_ok a \<Longrightarrow> f \<in> set amount_fields \<Longrightarrow> 0 \<le> f a \<and> f a < 2 ^ 63"
  by (auto simp: amounts_ok_def amount_fields_def)

lemma guardedUpdate_none:
  assumes "\<forall>r \<in> set (ws_rows s). \<not> guard r"
  shows "snd (guardedUpdate c s guard change) = s \<and> fst (guardedUpdate c s guard change) \<in> {Inl ErrConflict, Inl ErrStore}"
  using assms rows_affected_0 [of guard "ws_rows s"] by (simp add: guardedUpdate_def update_where_none)

lemma text_or_empty_nullableID [simp]: "text_or_empty (nullableID x) = x"
  by (simp add: text_or_empty_def nullableID_def)

text \<open>An item's row after any run is the row claimed, untouched, or the claim is lost.\<close>

lemma claim_lost:
  assumes "store_inv s" and "row \<in> set (ws_rows s)" and "system_run cap (s, C) (s', C')"
    and "w_workload_id row = wl_WorkloadID item" and "wl_Version item = w_version row"
    and "row \<notin> set (ws_rows s')" and "r \<in> set (ws_rows s')"
  shows "\<not> held c item r"
proof
  assume held: "held c item r"
  from system_run_row [OF assms(3), of row] assms(1,2) obtain r' where r': "r' \<in> set (ws_rows s')" "row_later row r'"
    by auto
  have "distinct (map w_workload_id (ws_rows s'))"
    using system_run_inv [OF assms(3)] assms(1) by (simp add: store_inv_def)
  moreover have "w_workload_id r = w_workload_id r'"
    using held r'(2) assms(4) by (simp add: held_def row_later_def same_request_def)
  ultimately have "r' = r" using assms(7) r'(1) by (blast intro: distinct_key_eq)
  with held r'(2) assms(5) have "r = row" by (simp add: held_def row_later_def)
  with assms(6,7) show False by simp
qed

definition canonical :: "db_call \<Rightarrow> string \<Rightarrow> bool" where
  "canonical c x \<longleftrightarrow> uuid_parse c x = Some x"

definition canonical_request :: "db_call \<Rightarrow> WorkloadItem \<Rightarrow> bool" where
  "canonical_request c w \<longleftrightarrow> canonical c (wl_WorkloadID w) \<and> canonical c (wl_RequestID w) \<and>
     canonical c (wl_OwnerID w) \<and> (wl_ProjectID w = '''' \<or> canonical c (wl_ProjectID w))"

definition stored_as :: "WorkloadItem \<Rightarrow> workload_row \<Rightarrow> bool" where
  "stored_as w row \<longleftrightarrow> w_request_id row = wl_RequestID w \<and> (\<exists>x. scanWorkload row = Inr x \<and> replayed x w)"

lemma stored_as_later:
  assumes "stored_as w row" and "row_later row row'" and "row_ok row'"
  shows "stored_as w row'"
proof -
  from scanWorkload_ok [OF assms(3)] obtain x where "scanWorkload row' = Inr x" by blast
  with assms(1,2) show ?thesis
    by (auto simp: stored_as_def row_later_def same_request_def replayed_def scanWorkload_def split: if_splits)
qed

lemma CreateOrGet_stored:
  assumes "store_inv s" and "CreateOrGet c s w = (Inr x, s')" and "canonical_request c w"
  shows "(\<exists>row \<in> set (ws_rows s'). stored_as w row) \<and>
    row_ok (row_of (wl_WorkloadID w) (wl_RequestID w) (wl_OwnerID w) (nullableID (wl_ProjectID w)) w) \<and>
    wl_WorkloadID x = wl_WorkloadID w"
proof -
  let ?row = "row_of (wl_WorkloadID w) (wl_RequestID w) (wl_OwnerID w) (nullableID (wl_ProjectID w)) w"
  have up: "db_up c" and ok: "row_ok ?row"
    using assms(2,3) by (auto simp: CreateOrGet_def canonical_request_def canonical_def Let_def nullableID_def
      split: if_splits option.splits)
  show ?thesis
  proof (cases "\<exists>r \<in> set (ws_rows s). w_workload_id r = wl_WorkloadID w \<or> w_request_id r = wl_RequestID w")
    case True
    with assms(2,3) up ok obtain stored where st: "byRequestID c s (wl_RequestID w) = Inr stored"
      "replayed stored w" "s' = s" "x = stored"
      by (auto simp: CreateOrGet_def canonical_request_def canonical_def Let_def nullableID_def
        split: if_splits sum.splits)
    from st(1) assms(3) obtain row where "row \<in> set (ws_rows s)" "w_request_id row = wl_RequestID w"
      "scanWorkload row = Inr stored"
      by (auto simp: byRequestID_def canonical_request_def canonical_def elim: selectWhere_Inr)
    with st ok show ?thesis by (auto simp: stored_as_def replayed_def)
  next
    case False
    with assms(2,3) up ok have s': "s' = s\<lparr>ws_rows := ws_rows s @ [?row]\<rparr>" "x = w"
      by (auto simp: CreateOrGet_def canonical_request_def canonical_def Let_def nullableID_def
        split: if_splits)
    from scanWorkload_ok [OF ok] obtain y where y: "scanWorkload ?row = Inr y" by blast
    then have "replayed y w"
      by (auto simp: scanWorkload_def row_of_def replayed_def text_or_empty_def nullableID_def split: if_splits)
    with y ok s' show ?thesis by (auto simp: stored_as_def row_of_def)
  qed
qed
section \<open>Properties\<close>

text \<open>
  C3. Suppose every reservation in the table and every ceiling is below \<open>2 ^ 62\<close>, a bound
  the code does not check and without which the sum \<^verbatim>\<open>AssignLease\<close> compares can
  wrap, and let \<open>cap p\<close> bound every ceiling provider \<open>p\<close> declares during the run; the
  ceilings themselves may change from one assignment to the next. Then, whatever tenants, workers
  and heartbeats do and in whatever order, the amounts reserved on a provider by workloads that
  are pending, leased, deploying or running never exceed that bound, in any of the five
  dimensions.
\<close>

theorem capacity_never_overcommitted:
  assumes "new_store s" and "system_run cap (s, {}) (s', C)"
    and "\<forall>p. amounts_ok (cap p) \<and> amounts_below (2 ^ 62) (cap p)"
    and "\<forall>r \<in> set (ws_rows s'). amounts_below (2 ^ 62) (w_reserved r)"
    and "f \<in> set amount_fields"
  shows "reserved_total f p (ws_rows s') \<le> f (cap p)"
proof -
  have "0 \<le> f (cap p)" if "f \<in> set amount_fields" for f p
    using assms(3) that by (auto simp: amounts_ok_def amount_fields_def)
  then have "capacity_inv cap s" using assms(1) by (simp add: capacity_inv_def new_store_def)
  with capacity_run [OF assms(2)] assms new_store_inv [OF assms(1)] have "capacity_inv cap s'"
    by (simp add: claims_inv_def)
  with assms(5) show ?thesis by (simp add: capacity_inv_def)
qed

text \<open>
  C20. In every reachable state of the table workload ids and request ids are unique, every row
  satisfies the table's constraints (a placed workload has a provider, a leased one a lease, a
  running one a container), and no two workloads share a lease id.
\<close>

theorem workload_rows_well_formed:
  assumes "new_store s" and "system_run cap (s, {}) (s', C)"
  shows "distinct (map w_workload_id (ws_rows s')) \<and> distinct (map w_request_id (ws_rows s')) \<and>
    list_all row_ok (ws_rows s') \<and> distinct (List.map_filter w_lease_id (ws_rows s'))"
proof -
  have inv: "store_inv s'" using system_run_inv [OF assms(2)] new_store_inv [OF assms(1)] by simp
  have "distinct (List.map_filter w_lease_id (ws_rows s'))"
  proof (rule distinct_map_filter)
    show "distinct (map w_workload_id (ws_rows s'))" using inv by (simp add: store_inv_def)
    show "w_workload_id r = w_workload_id r'"
      if "r \<in> set (ws_rows s')" "r' \<in> set (ws_rows s')" "w_lease_id r = Some i" "w_lease_id r' = Some i" for r r' i
      using lease_unique [OF _ that] inv by (simp add: store_inv_def)
  qed
  with inv show ?thesis by (simp add: store_inv_def list_all_iff)
qed

text \<open>
  C21. From any well-formed state, every row survives every later run with the same tenant,
  project, image, definition and reservation; its state moves only along the edges of the state
  machine, its version never falls, and a workload that is stopped, completed or failed keeps
  its state, provider and lease for ever.
\<close>

theorem workload_never_goes_back:
  assumes "store_inv s" and "system_run cap (s, C) (s', C')" and "r \<in> set (ws_rows s)"
  shows "\<exists>r' \<in> set (ws_rows s'). same_request r r' \<and> w_version r \<le> w_version r' \<and>
    edge\<^sup>*\<^sup>* (w_state r) (w_state r') \<and>
    (w_state r \<in> terminal_states \<longrightarrow>
       w_state r' = w_state r \<and> w_provider_id r' = w_provider_id r \<and> w_lease_id r' = w_lease_id r)"
proof -
  from system_run_row [OF assms(2), of r] assms(1,3) obtain r' where "r' \<in> set (ws_rows s')" "row_later r r'"
    by auto
  moreover from this have "w_state r' = w_state r" if "w_state r \<in> terminal_states"
    using that by (auto simp: row_later_def dest: edge_no_return)
  ultimately show ?thesis by (auto simp: row_later_def)
qed

text \<open>
  C22. The optimistic lock: once a claimed row has been changed by anyone, or claimed again after
  the claim expired, every update the first worker still attempts is refused and changes nothing.
\<close>

theorem stale_claim_conflicts:
  assumes "store_inv s" and "row \<in> set (ws_rows s)" and "w_workload_id row = wl_WorkloadID item"
    and "w_version row = wl_Version item"
    and "system_run cap (s, C) (s', C')" and "row \<notin> set (ws_rows s')"
    and "(res, s'') \<in> {BeginScheduling c s' item, MarkLeased c s' item leaseID, MarkDeploying c s' item leaseID,
      MarkRunning c s' item containerID, MarkStopped c s' item leaseID, RetryLater c s' item code delay,
      MarkFailed c s' item code}"
  shows "s'' = s' \<and> (\<exists>e. res = Inl e) \<and>
    (\<exists>e. AssignLease c s' item providerID resourceHash capacity = (Inl e, s'))"
proof -
  have lost: "\<not> held c item r" if "r \<in> set (ws_rows s')" for r
    using claim_lost [OF assms(1,2,5,3) _ assms(6) that] assms(4) by simp
  have none: "s'' = s' \<and> (\<exists>e. res = Inl e)"
    if "(res, s'') = guardedUpdate c s' (\<lambda>r. held c item r \<and> g r) change" for g change
    using guardedUpdate_none [of s' "\<lambda>r. held c item r \<and> g r" c change] lost
    unfolding that [symmetric] by auto
  have assign: "\<exists>e. AssignLease c s' item providerID resourceHash capacity = (Inl e, s')"
  proof (cases "AssignLease c s' item providerID resourceHash capacity")
    case (Pair a b)
    then show ?thesis
    proof (cases rule: AssignLease_cases)
      case (assigned leaseID)
      from assigned(7) lost show ?thesis by blast
    qed (use Pair in simp)
  qed
  have "s'' = s' \<and> (\<exists>e. res = Inl e)"
    using assms(7) none
    by (auto simp: BeginScheduling_def MarkLeased_def MarkDeploying_def MarkRunning_def MarkStopped_def
      RetryLater_def MarkFailed_def split: if_splits)
  with assign show ?thesis by blast
qed


lemma GetScoped_found:
  assumes "distinct (map w_workload_id (ws_rows s))" and "row \<in> set (ws_rows s)" and "row_ok row"
    and "uuid_parse c workloadID = Some (w_workload_id row)" and "uuid_parse c scopeID = Some sid"
    and "scope row = Some sid" and "db_up c"
  obtains x where "GetScoped scope c s workloadID scopeID = Inr x" "scanWorkload row = Inr x"
proof -
  have "find (\<lambda>r. w_workload_id r = w_workload_id row \<and> scope r = Some sid) rows = Some row"
    if "distinct (map w_workload_id rows)" "row \<in> set rows" for rows
    using that assms(6) by (induction rows) (auto simp: image_iff)
  with scanWorkload_ok [OF assms(3)] assms that show thesis
    by (auto simp: GetScoped_def selectWhere_def)
qed

lemma RequestStop_recorded:
  assumes "store_inv s" and "RequestStop c s workloadID requestID ownerID now = (Inr x, s1)"
    and "canonical c requestID"
  shows "\<exists>row1 \<in> set (ws_rows s1). \<exists>oid. uuid_parse c workloadID = Some (w_workload_id row1) \<and>
    uuid_parse c ownerID = Some oid \<and> w_owner_id row1 = Some oid \<and> w_stop_request_id row1 = Some requestID \<and>
    w_workload_id row1 = wl_WorkloadID x"
proof -
  obtain stored where get: "GetScoped w_owner_id c s workloadID ownerID = Inr stored"
    and wid: "wl_WorkloadID x = wl_WorkloadID stored"
    using assms(2) by (auto simp: RequestStop_def RequestStopScoped_def Let_def
      split: sum.splits if_splits option.splits)
  from get obtain row oid where row: "row \<in> set (ws_rows s)" "scanWorkload row = Inr stored"
    "uuid_parse c workloadID = Some (w_workload_id row)" "uuid_parse c ownerID = Some oid" "w_owner_id row = Some oid"
    by (auto elim: GetScoped_Inr)
  have dist: "distinct (map w_workload_id (ws_rows s))" using assms(1) by (simp add: store_inv_def)
  note scan = scanWorkload_Inr [OF row(2)]
  have "\<exists>row1 \<in> set (ws_rows s1). w_workload_id row1 = w_workload_id row \<and> w_owner_id row1 = Some oid \<and>
      w_stop_request_id row1 = Some requestID"
  proof (cases "wl_StopRequestID stored = ''''")
    case False
    then have "s1 = s" "wl_StopRequestID stored = requestID"
      using assms(2) get by (auto simp: RequestStop_def RequestStopScoped_def Let_def split: if_splits)
    with False row scan(6) show ?thesis
      by (auto simp: text_or_empty_def split: option.splits)
  next
    case True
    let ?guard = "\<lambda>row. w_workload_id row = wl_WorkloadID stored \<and> w_stop_request_id row = None"
    obtain change where change: "s1 = s\<lparr>ws_rows := update_where ?guard change (ws_rows s)\<rparr>"
      "\<And>r. w_workload_id (change r) = w_workload_id r" "\<And>r. w_owner_id (change r) = w_owner_id r"
      "\<And>r. w_stop_request_id (change r) = Some requestID" "rows_affected ?guard (ws_rows s) = 1"
      using assms(2,3) get True
      by (auto simp: RequestStop_def RequestStopScoped_def Let_def canonical_def split: if_splits)
    from change(5) obtain r where r: "r \<in> set (ws_rows s)" "?guard r"
      using rows_affected_0 [of ?guard "ws_rows s"] by auto
    then have "r = row" using distinct_key_eq [OF dist row(1) r(1)] scan(1) by simp
    with r row(5) change(2-4) have "change row \<in> set (ws_rows s1)"
      unfolding change(1) by (auto simp: update_where_def)
    with change(2-4) row(5) show ?thesis by metis
  qed
  with row scan(1) wid show ?thesis by metis
qed

text \<open>
  C26. Stopping is idempotent for ever: once a stop whose request id is a non-empty canonical UUID
  has been accepted, the same stop request at any later time at which the database is reachable is
  answered with the stored workload and changes nothing, and a stop with another request id is
  refused as a conflict.
\<close>

theorem RequestStop_retry:
  assumes "store_inv s" and "RequestStop c s workloadID requestID ownerID now = (Inr x, s1)"
    and "canonical c requestID" and "requestID \<noteq> ''''"
    and "system_run cap (s1, C) (s2, C')"
    and "uuid_parse c' = uuid_parse c" and "db_up c'"
  shows "(\<exists>y. RequestStop c' s2 workloadID requestID ownerID now' = (Inr y, s2) \<and> wl_WorkloadID y = wl_WorkloadID x) \<and>
    (requestID2 = requestID \<or> RequestStop c' s2 workloadID requestID2 ownerID now' = (Inl ErrConflict, s2))"
proof -
  have dist: "distinct (map w_workload_id (ws_rows s))" using assms(1) by (simp add: store_inv_def)
  have inv1: "store_inv s1"
    using table_step_inv [OF assms(1) RequestStopScoped_step [OF _ dist]] assms(2)
    by (simp add: RequestStop_def)
  from RequestStop_recorded [OF assms(1-3)] obtain row1 oid where row1: "row1 \<in> set (ws_rows s1)"
    "uuid_parse c workloadID = Some (w_workload_id row1)" "uuid_parse c ownerID = Some oid" "w_owner_id row1 = Some oid"
    "w_stop_request_id row1 = Some requestID" "w_workload_id row1 = wl_WorkloadID x" by blast
  from system_run_row [OF assms(5), of row1] inv1 row1(1) obtain row2 where
    row2: "row2 \<in> set (ws_rows s2)" "row_later row1 row2" by auto
  have inv2: "store_inv s2" using system_run_inv [OF assms(5)] inv1 by simp
  have ids: "w_workload_id row2 = w_workload_id row1" "w_owner_id row2 = Some oid" "w_stop_request_id row2 = Some requestID"
    using row2(2) row1(4,5) by (simp_all add: row_later_def same_request_def)
  obtain y where y: "GetScoped w_owner_id c' s2 workloadID ownerID = Inr y" "scanWorkload row2 = Inr y"
  proof (rule GetScoped_found [where row = row2 and scope = w_owner_id and c = c' and s = s2
      and workloadID = workloadID and scopeID = ownerID and sid = oid])
    show "distinct (map w_workload_id (ws_rows s2))" "row_ok row2" using inv2 row2(1) by (simp_all add: store_inv_def)
  qed (use row2(1) ids row1(2,3) assms(6,7) in simp_all)
  have "wl_StopRequestID y = requestID" "wl_WorkloadID y = wl_WorkloadID x"
    using scanWorkload_Inr [OF y(2)] ids row1(6) by (simp_all add: text_or_empty_def)
  then show ?thesis using y(1) assms(4) by (simp add: RequestStop_def RequestStopScoped_def)
qed

text \<open>
  C24. Tenants cannot see or touch each other's workloads: where no row of that id belongs to the
  caller, reading and stopping answer exactly as they do for an empty table,
  and the table is not changed.
\<close>

theorem workload_tenant_isolation:
  assumes "uuid_parse c workloadID = Some wid" and "uuid_parse c ownerID = Some oid"
    and "\<forall>r \<in> set (ws_rows s). w_workload_id r \<noteq> wid \<or> w_owner_id r \<noteq> Some oid"
  shows "Get c s workloadID ownerID = Get c (s\<lparr>ws_rows := []\<rparr>) workloadID ownerID \<and>
    RequestStop c s workloadID requestID ownerID now =
      (fst (RequestStop c (s\<lparr>ws_rows := []\<rparr>) workloadID requestID ownerID now), s)"
proof -
  have "selectWhere (\<lambda>r. w_workload_id r = wid \<and> w_owner_id r = Some oid) s = Inl ErrNotFound"
    using assms(3) by (auto simp: selectWhere_def find_None_iff split: option.splits dest: find_SomeD)
  then have "GetScoped w_owner_id c s workloadID ownerID = GetScoped w_owner_id c (s\<lparr>ws_rows := []\<rparr>) workloadID ownerID"
    "isl (GetScoped w_owner_id c s workloadID ownerID)"
    using assms(1,2) by (simp_all add: GetScoped_def selectWhere_def)
  then show ?thesis
    by (auto simp: Get_def RequestStop_def RequestStopScoped_def isl_def)
qed

text \<open>
  C25. The bound on the amounts above is needed: \<^verbatim>\<open>AssignLease\<close> adds in
  \<^verbatim>\<open>int64\<close>, so a claimed request that takes the sum to \<open>2 ^ 63\<close> or more, up to the
  largest single reservation the table holds, is granted a lease whatever the ceiling.
\<close>

theorem AssignLease_wraps:
  assumes "store_inv s" and "db_up c" and "\<not> db_abort c" and "providerID \<in> set (ws_providers s)"
    and "row \<in> set (ws_rows s)" and "held c item row" and "w_state row = SCHEDULING"
    and "wl_Reserved item = w_reserved row" and "amounts_ok capacity"
    and "\<forall>f \<in> set amount_fields. in_i64 (reserved_total f providerID (ws_rows s)) \<and>
      (reserved_total f providerID (ws_rows s) + f (wl_Reserved item) \<le> f capacity \<or>
       2 ^ 63 \<le> reserved_total f providerID (ws_rows s) + f (wl_Reserved item))"
  shows "fst (AssignLease c s item providerID resourceHash capacity) = Inr (ws_lease_seq s + int (db_gap c))"
proof -
  have ok: "row_ok row" "\<forall>r \<in> set (ws_rows s). row_ok r" using assms(1,5) by (simp_all add: store_inv_def)
  have fits: "i64 (reserved_total f providerID (ws_rows s) + f (wl_Reserved item)) \<le> f capacity"
    if f: "f \<in> set amount_fields" for f
  proof -
    let ?t = "reserved_total f providerID (ws_rows s)" and ?a = "f (wl_Reserved item)"
    have t: "0 \<le> ?t" "?t < 2 ^ 63"
      using reserved_total_nonneg [OF ok(2) f] bspec [OF assms(10) f] by (simp_all add: in_i64_def)
    have a: "0 \<le> ?a" "?a < 2 ^ 63" and cap: "0 \<le> f capacity" "f capacity < 2 ^ 63"
      using amounts_okD [OF _ f, of "w_reserved row"] amounts_okD [OF assms(9) f] ok(1)
      by (simp_all add: assms(8) row_ok_def)
    show ?thesis
    proof (cases "?t + ?a < 2 ^ 63")
      case True
      with t a have "i64 (?t + ?a) = ?t + ?a" by (intro i64_id) (simp add: in_i64_def)
      with bspec [OF assms(10) f] True show ?thesis by simp
    next
      case False
      then have "i64 (?t + ?a) = ?t + ?a - 2 ^ 64" using t a by (intro i64_sub) simp_all
      with t(2) a(2) cap(1) show ?thesis by simp
    qed
  qed
  moreover have "rows_affected (\<lambda>row. held c item row \<and> w_state row = SCHEDULING) (ws_rows s) \<noteq> 0"
    using assms(5-7) by (auto simp: rows_affected_0)
  ultimately show ?thesis
    using assms(2-4,10) by (auto simp: AssignLease_def ProviderReservedTotals_def Let_def not_less)
qed

section \<open>A worked run\<close>

definition ex_call :: "int \<Rightarrow> db_call" where
  "ex_call t = \<lparr>uuid_parse = Some, fresh1 = '''', fresh2 = '''', db_now = t, db_gap = 0, db_up = True, db_abort = False\<rparr>"

definition ex_amounts :: "int \<Rightarrow> ProviderCapacity" where
  "ex_amounts ram = \<lparr>CPUMillicores = 500, RAMMB = ram, StorageGB = 1, cap_IngressMbps = 0, cap_EgressMbps = 10\<rparr>"

definition ex_cap :: "string \<Rightarrow> ProviderCapacity" where
  "ex_cap p = \<lparr>CPUMillicores = 4000, RAMMB = 8192, StorageGB = 100, cap_IngressMbps = 100, cap_EgressMbps = 100\<rparr>"

definition ex_request :: "int \<Rightarrow> WorkloadItem" where
  "ex_request ram = \<lparr>wl_WorkloadID = ''w1'', wl_RequestID = ''r1'', wl_Image = ''img'', wl_State = REQUESTED,
     wl_VmImageSha256 = '''', wl_OwnerID = ''u1'', wl_ProjectID = '''', wl_StopRequestID = '''',
     wl_RequestHash = replicate 32 7, wl_ResourceHash = replicate 32 0, wl_Definition = [], wl_ProviderID = '''',
     wl_LeaseID = '''', wl_ContainerID = '''', wl_ErrorCode = '''', wl_CreatedAt = 1, wl_UpdatedAt = 1,
     wl_WorkerID = '''', wl_WorkerLeaseUntil = None, wl_Version = 0, wl_AttemptCount = 0,
     wl_Reserved = ex_amounts ram\<rparr>"

definition ex_store :: workload_store where
  "ex_store = \<lparr>ws_rows = [], ws_lease_seq = 1, ws_providers = [''p1''], ws_users = [''u1''], ws_projects = []\<rparr>"

definition ex_row :: "int \<Rightarrow> workload_state \<Rightarrow> int \<Rightarrow> int \<Rightarrow> string option \<Rightarrow> int option \<Rightarrow> workload_row" where
  "ex_row ram st v upd wk until = (row_of ''w1'' ''r1'' ''u1'' None (ex_request ram))
     \<lparr>w_state := st, w_version := v, w_updated_at := upd, w_worker_id := wk, w_worker_lease_until := until\<rparr>"

definition ex_table :: "workload_row \<Rightarrow> workload_store" where
  "ex_table row = ex_store\<lparr>ws_rows := [row]\<rparr>"

definition ex_item :: "int \<Rightarrow> workload_state \<Rightarrow> int \<Rightarrow> int \<Rightarrow> int \<Rightarrow> WorkloadItem" where
  "ex_item ram st v upd until = (ex_request ram)\<lparr>wl_State := st, wl_Version := v, wl_UpdatedAt := upd,
     wl_WorkerID := ''wk'', wl_WorkerLeaseUntil := Some until\<rparr>"

definition ex_leased :: "int \<Rightarrow> workload_store" where
  "ex_leased ram = (ex_table ((ex_row ram LEASE_PENDING 5 5 None None)\<lparr>w_provider_id := Some ''p1'', w_lease_id := Some 1,
     w_resource_hash := Some (replicate 32 9)\<rparr>))\<lparr>ws_lease_seq := 2\<rparr>"

lemmas ex_defs = ex_call_def ex_amounts_def ex_cap_def ex_request_def ex_store_def ex_row_def ex_table_def ex_item_def
  ex_leased_def row_of_def

lemma ex_new_store: "new_store ex_store"
  by (simp add: new_store_def ex_store_def)

lemma ex_create:
  "0 \<le> ram \<Longrightarrow> ram < 2 ^ 63 \<Longrightarrow>
     CreateOrGet (ex_call 1) ex_store (ex_request ram) = (Inr (ex_request ram), ex_table (ex_row ram REQUESTED 1 1 None None))"
  by (simp add: CreateOrGet_def Let_def nullableID_def row_ok_def amounts_ok_def ex_defs)

lemma ex_claim:
  "st = REQUESTED \<or> st = SCHEDULING \<Longrightarrow>
     ClaimNext (ex_call t) (\<lambda>_. False) (ex_table (ex_row ram st v u None None)) ''wk'' 30 =
       (Inr (ex_item ram st (v + 1) u (t + 30)), ex_table (ex_row ram st (v + 1) u (Some ''wk'') (Some (t + 30))))"
  by (auto simp: ClaimNext_def Let_def claimable_def scanWorkload_def text_or_empty_def nullableID_def ex_defs)

lemma ex_begin:
  "BeginScheduling (ex_call 3) (ex_table (ex_row ram REQUESTED 2 1 (Some ''wk'') (Some 32))) (ex_item ram REQUESTED 2 1 32) =
     (Inr (), ex_table (ex_row ram SCHEDULING 3 3 None None))"
  by (simp add: BeginScheduling_def guardedUpdate_def held_def release_def rows_affected_def ex_defs)

lemma ex_assign:
  "0 \<le> ram \<Longrightarrow> ram \<le> 8192 \<Longrightarrow>
     AssignLease (ex_call 5) (ex_table (ex_row ram SCHEDULING 4 3 (Some ''wk'') (Some 34))) (ex_item ram SCHEDULING 4 3 34)
       ''p1'' (replicate 32 9) (ex_cap ''p1'') = (Inr 1, ex_leased ram)"
  by (simp add: AssignLease_def ProviderReservedTotals_def Let_def amount_fields_def reserved_total_def in_i64_def
    i64_id held_def release_def rows_affected_def ex_defs)

abbreviation ex_row1 :: workload_row where "ex_row1 \<equiv> ex_row 1024 REQUESTED 1 1 None None"

abbreviation ex_row4 :: workload_row where "ex_row4 \<equiv> ex_row 1024 SCHEDULING 4 3 (Some ''wk'') (Some 34)"

abbreviation ex_item2 :: WorkloadItem where "ex_item2 \<equiv> ex_item 1024 REQUESTED 2 1 32"

abbreviation ex_item4 :: WorkloadItem where "ex_item4 \<equiv> ex_item 1024 SCHEDULING 4 3 34"

lemma ex_run1: "system_step ex_cap (ex_store, {}) (ex_table ex_row1, {})"
  by (rule system_step.create [OF ex_create]) (simp_all add: ex_request_def)

lemma ex_run2: "system_run ex_cap (ex_table ex_row1, {}) (ex_table ex_row4, {ex_item4, ex_item2})"
proof -
  have "system_run ex_cap (ex_table ex_row1, {})
      (ex_table (ex_row 1024 REQUESTED 2 1 (Some ''wk'') (Some 32)), {ex_item2})"
    using system_step.claim [OF ex_claim [of REQUESTED 2 1024 1 1]] by auto
  also have "system_step ex_cap (ex_table (ex_row 1024 REQUESTED 2 1 (Some ''wk'') (Some 32)), {ex_item2})
      (ex_table (ex_row 1024 SCHEDULING 3 3 None None), {ex_item2})"
    by (rule system_step.begin_scheduling [OF _ ex_begin]) simp
  also have "system_step ex_cap (ex_table (ex_row 1024 SCHEDULING 3 3 None None), {ex_item2})
      (ex_table ex_row4, {ex_item4, ex_item2})"
    using system_step.claim [OF ex_claim [of SCHEDULING 4 1024 3 3]] by simp
  finally show ?thesis .
qed

lemma ex_run3: "system_step ex_cap (ex_table ex_row4, {ex_item4, ex_item2}) (ex_leased 1024, {ex_item4, ex_item2})"
  by (rule system_step.assign [where cap = ex_cap and providerID = "''p1''", OF _ _ _ ex_assign]) simp_all

lemma ex_run4: "system_run ex_cap (ex_table ex_row4, {ex_item4, ex_item2}) (ex_leased 1024, {ex_item4, ex_item2})"
  by (rule r_into_rtranclp) (rule ex_run3)

lemma ex_run: "system_run ex_cap (ex_store, {}) (ex_leased 1024, {ex_item4, ex_item2})"
  using ex_run1 ex_run2 ex_run3 by (meson converse_rtranclp_into_rtranclp rtranclp.rtrancl_into_rtrancl)

lemma ex_inv4: "store_inv (ex_table ex_row4)"
  using system_run_inv [OF ex_run2] system_step_inv [OF ex_run1] new_store_inv [OF ex_new_store] by simp

theorem capacity_never_overcommitted_witness:
  "reserved_total RAMMB ''p1'' (ws_rows (ex_leased 1024)) = 1024 \<and>
     reserved_total RAMMB ''p1'' (ws_rows (ex_leased 1024)) \<le> RAMMB (ex_cap ''p1'')"
  using capacity_never_overcommitted [OF ex_new_store ex_run, of RAMMB "''p1''"]
  by (simp add: amounts_ok_def amounts_below_def amount_fields_def ex_defs)

theorem workload_rows_well_formed_witness:
  "map w_state (ws_rows (ex_leased 1024)) = [LEASE_PENDING] \<and> list_all row_ok (ws_rows (ex_leased 1024))"
  using workload_rows_well_formed [OF ex_new_store ex_run] by (simp add: ex_leased_def ex_table_def ex_row_def)

theorem workload_never_goes_back_witness:
  "\<exists>r' \<in> set (ws_rows (ex_leased 1024)). same_request ex_row4 r' \<and> edge\<^sup>*\<^sup>* SCHEDULING (w_state r')"
  using workload_never_goes_back [OF ex_inv4 ex_run4, of ex_row4]
  by (auto simp: ex_table_def ex_row_def)

theorem stale_claim_conflicts_witness:
  "snd (MarkFailed (ex_call 6) (ex_leased 1024) ex_item4 ''X'') = ex_leased 1024 \<and>
     \<not> (\<exists>x. fst (MarkFailed (ex_call 6) (ex_leased 1024) ex_item4 ''X'') = Inr x)"
  using stale_claim_conflicts [OF ex_inv4 _ _ _ ex_run4, of ex_row4 ex_item4
    "fst (MarkFailed (ex_call 6) (ex_leased 1024) ex_item4 ''X'')"
    "snd (MarkFailed (ex_call 6) (ex_leased 1024) ex_item4 ''X'')" "ex_call 6" 0 "''''" "''X''" 0]
  by (auto simp: ex_table_def ex_row_def ex_item_def ex_request_def ex_leased_def row_of_def)


theorem workload_tenant_isolation_witness:
  "Get (ex_call 9) (ex_leased 1024) ''w1'' ''u2'' = Get (ex_call 9) ex_store ''w1'' ''u2'' \<and>
     RequestStop (ex_call 9) (ex_leased 1024) ''w1'' ''q'' ''u2'' 9 =
       (fst (RequestStop (ex_call 9) ((ex_leased 1024)\<lparr>ws_rows := []\<rparr>) ''w1'' ''q'' ''u2'' 9), ex_leased 1024)"
  using workload_tenant_isolation [of "ex_call 9" "''w1''" "''w1''" "''u2''" "''u2''" "ex_leased 1024" "''q''" 9]
  by (simp add: ex_defs Get_def GetScoped_def selectWhere_def)

lemma ex_stop:
  "\<exists>x s1. RequestStop (ex_call 6) (ex_table ex_row4) ''w1'' ''q1'' ''u1'' 6 = (Inr x, s1) \<and> wl_WorkloadID x = ''w1''"
  by (simp add: RequestStop_def RequestStopScoped_def GetScoped_def selectWhere_def scanWorkload_def text_or_empty_def
    Let_def rows_affected_def ex_defs nullableID_def)

theorem RequestStop_retry_witness:
  "\<exists>x s1 y. RequestStop (ex_call 6) (ex_table ex_row4) ''w1'' ''q1'' ''u1'' 6 = (Inr x, s1) \<and>
     RequestStop (ex_call 7) s1 ''w1'' ''q1'' ''u1'' 7 = (Inr y, s1) \<and>
     RequestStop (ex_call 7) s1 ''w1'' ''q2'' ''u1'' 7 = (Inl ErrConflict, s1)"
proof -
  from ex_stop obtain x s1 where
    stop: "RequestStop (ex_call 6) (ex_table ex_row4) ''w1'' ''q1'' ''u1'' 6 = (Inr x, s1)" by blast
  from RequestStop_retry [OF ex_inv4 stop, of _ "{}" s1 "{}" "ex_call 7" 7 "''q2''"] stop show ?thesis
    by (auto simp: canonical_def ex_call_def)
qed

definition ex_huge_row :: workload_row where
  "ex_huge_row = (ex_row (2 ^ 63 - 1) SCHEDULING 4 3 (Some ''wk'') (Some 34))\<lparr>w_workload_id := ''w2'', w_request_id := ''r2''\<rparr>"

definition ex_two :: workload_store where
  "ex_two = (ex_leased 1024)\<lparr>ws_rows := ws_rows (ex_leased 1024) @ [ex_huge_row]\<rparr>"

lemma ex_two_inv: "store_inv ex_two"
  by (auto simp: store_inv_def lease_inv_def row_ok_def amounts_ok_def ex_two_def ex_huge_row_def ex_defs)

theorem AssignLease_wraps_witness:
  "fst (AssignLease (ex_call 6) ex_two ((ex_item (2 ^ 63 - 1) SCHEDULING 4 3 34)\<lparr>wl_WorkloadID := ''w2''\<rparr>) ''p1''
     (replicate 32 9) (ex_cap ''p1'')) = Inr 2"
  using AssignLease_wraps [OF ex_two_inv, of "ex_call 6" "''p1''" ex_huge_row
    "(ex_item (2 ^ 63 - 1) SCHEDULING 4 3 34)\<lparr>wl_WorkloadID := ''w2''\<rparr>" "ex_cap ''p1''" "replicate 32 9"]
  by (simp add: ex_two_def ex_huge_row_def held_def amounts_ok_def amount_fields_def reserved_total_def in_i64_def ex_defs)

end
