(* ===== verification/Go_Regexp.thy ===== *)
theory Go_Regexp
  imports Prelude
begin

text \<open>
  The part of Go's \<^verbatim>\<open>regexp\<close> the sources use: anchored patterns built from character
  classes, concatenation, alternation and repetition. \<open>MatchString\<close> runs the pattern by
  derivatives, and \<open>lang\<close> is the language the pattern denotes; the two agree.
\<close>

datatype regexp = Nothing | Epsilon | Class string | Alt regexp regexp | Seq regexp regexp | Star regexp

primrec lang :: "regexp \<Rightarrow> string set" where
  "lang Nothing = {}"
| "lang Epsilon = {[]}"
| "lang (Class cs) = {[c] |c. c \<in> set cs}"
| "lang (Alt r r') = lang r \<union> lang r'"
| "lang (Seq r r') = {s @ s' |s s'. s \<in> lang r \<and> s' \<in> lang r'}"
| "lang (Star r) = {concat ss |ss. set ss \<subseteq> lang r}"

primrec nullable :: "regexp \<Rightarrow> bool" where
  "nullable Nothing = False"
| "nullable Epsilon = True"
| "nullable (Class cs) = False"
| "nullable (Alt r r') = (nullable r \<or> nullable r')"
| "nullable (Seq r r') = (nullable r \<and> nullable r')"
| "nullable (Star r) = True"

primrec deriv :: "char \<Rightarrow> regexp \<Rightarrow> regexp" where
  "deriv c Nothing = Nothing"
| "deriv c Epsilon = Nothing"
| "deriv c (Class cs) = (if c \<in> set cs then Epsilon else Nothing)"
| "deriv c (Alt r r') = Alt (deriv c r) (deriv c r')"
| "deriv c (Seq r r') = (if nullable r then Alt (Seq (deriv c r) r') (deriv c r') else Seq (deriv c r) r')"
| "deriv c (Star r) = Seq (deriv c r) (Star r)"

definition MatchString :: "regexp \<Rightarrow> string \<Rightarrow> bool" where
  "MatchString r s = nullable (fold deriv s r)"

text \<open>The postfix operators \<^verbatim>\<open>?\<close>, \<^verbatim>\<open>+\<close> and \<^verbatim>\<open>{n}\<close>, and a literal text.\<close>

definition Opt :: "regexp \<Rightarrow> regexp" where
  "Opt r = Alt r Epsilon"

definition Plus :: "regexp \<Rightarrow> regexp" where
  "Plus r = Seq r (Star r)"

primrec Times :: "nat \<Rightarrow> regexp \<Rightarrow> regexp" where
  "Times 0 r = Epsilon"
| "Times (Suc n) r = Seq r (Times n r)"

primrec Literal :: "string \<Rightarrow> regexp" where
  "Literal [] = Epsilon"
| "Literal (c # s) = Seq (Class [c]) (Literal s)"

section \<open>The matcher decides the language\<close>

lemma nullable_lang: "nullable r \<longleftrightarrow> [] \<in> lang r"
  by (induction r) (auto intro: exI [of _ "[]"])

lemma Star_Cons:
  "c # s \<in> lang (Star r) \<longleftrightarrow> (\<exists>u v. s = u @ v \<and> c # u \<in> lang r \<and> v \<in> lang (Star r))" (is "_ \<longleftrightarrow> ?split")
proof
  assume "c # s \<in> lang (Star r)"
  then obtain ss where "c # s = concat ss" "set ss \<subseteq> lang r" by auto
  then show ?split
  proof (induction ss)
    case (Cons x ss)
    show ?case
    proof (cases x)
      case Nil
      with Cons show ?thesis by simp
    next
      case (Cons d u)
      with \<open>c # s = concat (x # ss)\<close> \<open>set (x # ss) \<subseteq> lang r\<close> show ?thesis
        by (intro exI [of _ u] exI [of _ "concat ss"]) auto
    qed
  qed simp
next
  assume ?split
  then obtain u ss where "s = u @ concat ss" "c # u \<in> lang r" "set ss \<subseteq> lang r" by auto
  then show "c # s \<in> lang (Star r)" by (auto intro!: exI [of _ "(c # u) # ss"])
qed

lemma Seq_Cons:
  "c # s \<in> lang (Seq r r') \<longleftrightarrow>
     (\<exists>u v. s = u @ v \<and> c # u \<in> lang r \<and> v \<in> lang r') \<or> ([] \<in> lang r \<and> c # s \<in> lang r')"
  by (auto simp: Cons_eq_append_conv)

lemma deriv_lang: "s \<in> lang (deriv c r) \<longleftrightarrow> c # s \<in> lang r"
proof (induction r arbitrary: s)
  case (Seq r r')
  then show ?case unfolding Seq_Cons by (auto simp: nullable_lang)
next
  case (Star r)
  then show ?case unfolding Star_Cons by auto
qed auto

lemma MatchString_lang: "MatchString r s \<longleftrightarrow> s \<in> lang r"
  unfolding MatchString_def
  by (induction s arbitrary: r) (simp_all add: nullable_lang deriv_lang)

section \<open>Languages of the operators\<close>

lemma lang_Seq_Class: "lang (Seq (Class cs) r) = {c # s |c s. c \<in> set cs \<and> s \<in> lang r}"
  by auto (metis append_Cons append_Nil)

lemma lang_Literal [simp]: "lang (Literal s) = {s}"
  by (induction s) (auto simp: lang_Seq_Class simp del: lang.simps(5))

lemma lang_Star_Class: "lang (Star (Class cs)) = {s. set s \<subseteq> set cs}"
proof (intro set_eqI iffI)
  fix s assume "s \<in> {s. set s \<subseteq> set cs}"
  then have "s = concat (map (\<lambda>c. [c]) s)" "set (map (\<lambda>c. [c]) s) \<subseteq> lang (Class cs)"
    by (induction s) auto
  then show "s \<in> lang (Star (Class cs))" unfolding lang.simps(6) by blast
qed fastforce

lemma lang_Times_Class: "lang (Times n (Class cs)) = {s. length s = n \<and> set s \<subseteq> set cs}"
proof (induction n)
  case (Suc n)
  then show ?case by (auto simp: lang_Seq_Class length_Suc_conv simp del: lang.simps(5))
qed auto

lemma lang_Plus_Class: "lang (Plus (Class cs)) = {s. s \<noteq> [] \<and> set s \<subseteq> set cs}"
  unfolding Plus_def lang_Seq_Class lang_Star_Class by (auto simp: neq_Nil_conv)

lemma lang_Opt: "lang (Opt r) = insert [] (lang r)"
  by (auto simp: Opt_def)

end
