(* ===== verification/Workload_Service.thy ===== *)
theory Workload_Service
  imports Workload_Properties Scheduler Byte_Codec Go_Regexp
begin

text \<open>
  \<^verbatim>\<open>control-plane/internal/workloadapi/service.go\<close>: validation of a submission and the
  tenant API over the workload table. The two regular expressions are the source's patterns,
  run by the matcher of \<open>Go_Regexp\<close>. Protobuf encoding, SHA-256 and the UUID parser
  of \<^verbatim>\<open>google/uuid\<close> are the parameters \<open>marshal\<close>, \<open>sha256\<close> and \<open>uuid_ok\<close>.
\<close>

section \<open>Image references\<close>

definition lower_hex :: string where
  "lower_hex = ''abcdef0123456789''"

definition lower_alnum :: string where
  "lower_alnum = ''abcdefghijklmnopqrstuvwxyz0123456789''"

definition name_chars :: string where
  "name_chars = lower_alnum @ ''._/-''"

definition tag_chars :: string where
  "tag_chars = ''ABCDEFGHIJKLMNOPQRSTUVWXYZ'' @ lower_alnum @ ''._-''"

definition digestImage :: regexp where
  "digestImage =
     Seq (Class lower_alnum) (Seq (Star (Class name_chars))
       (Seq (Opt (Seq (Literal '':'') (Plus (Class tag_chars))))
         (Seq (Literal ''@sha256:'') (Times 64 (Class lower_hex)))))"

definition vmImageDigest :: regexp where
  "vmImageDigest = Times 64 (Class lower_hex)"

fun imageMatchesAllowlist :: "string \<Rightarrow> string list \<Rightarrow> bool" where
  "imageMatchesAllowlist img [] = False"
| "imageMatchesAllowlist img (p # allowlist) =
     (if p \<noteq> '''' \<and> prefix p img then True else imageMatchesAllowlist img allowlist)"

section \<open>CPU amounts\<close>

text \<open>\<^verbatim>\<open>math.Round\<close>: to the nearest integer, halves away from zero.\<close>

fun math_Round :: "gofloat \<Rightarrow> gofloat" where
  "math_Round (Fin m e) =
     (if 0 \<le> e then Fin m e else Fin (sgn m * ((\<bar>m\<bar> + 2 ^ (nat (- e) - 1)) div 2 ^ nat (- e))) 0)"
| "math_Round x = x"

definition CPUCoresToMillicores :: "platform \<Rightarrow> gofloat \<Rightarrow> int" where
  "CPUCoresToMillicores pf cores = to_int64 pf (math_Round (fmul f64 cores (Fin 1000 0)))"

section \<open>Submission\<close>

record WorkloadDefinition =
  def_WorkloadId :: string
  Profile :: WorkloadProfile
  Requirements :: "ResourceRequirements option"
  Constraints :: "WorkloadConstraints option"
  DurationSeconds :: int

record SubmitWorkloadRequest =
  RequestId :: string
  Image :: string
  VmImageSha256 :: string
  Definition :: "WorkloadDefinition option"

datatype grpc_error = Unauthenticated | InvalidArgument string | NotFound | AlreadyExists | Internal

record workload_service =
  uuid_ok :: "string \<Rightarrow> bool"
  marshal :: "WorkloadDefinition \<Rightarrow> byte list option"
  sha256 :: "byte list \<Rightarrow> byte list"
  vmImageAllowlist :: "string list"
  svc_platform :: platform

definition requestDomain :: "byte list" where
  "requestDomain = bytes_of ''openinfra-workload-request-v1'' @ [0]"

definition checkImage :: "workload_service \<Rightarrow> SubmitWorkloadRequest \<Rightarrow> WorkloadDefinition \<Rightarrow> string option" where
  "checkImage svc request definition' =
     (if (case Constraints definition' of None \<Rightarrow> False | Some c \<Rightarrow> RequiresVm c)
      then if \<not> prefix ''https://'' (Image request) then Some ''a VM workload's image must be an https:// URL''
           else if \<not> MatchString vmImageDigest (VmImageSha256 request)
           then Some ''vm_image_sha256 must be exactly 64 lowercase hex characters''
           else if \<not> imageMatchesAllowlist (Image request) (vmImageAllowlist svc)
           then Some ''VM image is not in the operator-configured guest-image allowlist''
           else None
      else if \<not> MatchString digestImage (Image request)
      then Some ''image must be an OCI reference pinned by a lowercase sha256 digest''
      else if VmImageSha256 request \<noteq> '''' then Some ''vm_image_sha256 must not be set for a container workload''
      else None)"

definition checkRequirements :: "ResourceRequirements \<Rightarrow> string option" where
  "checkRequirements requirements =
     (if (case Cpu requirements of Fin m e \<Rightarrow> m \<le> 0 | Inf s \<Rightarrow> True | NaN \<Rightarrow> True)
      then Some ''CPU must be finite and positive''
      else if RamMb requirements \<le> 0 \<or> StorageGb requirements < 0 \<or> GpuCount requirements \<noteq> 0
      then Some ''RAM must be positive, storage non-negative, and GPU unsupported in MVP''
      else case Bandwidth requirements of
        None \<Rightarrow> None
      | Some bandwidth \<Rightarrow>
          if IngressMbps bandwidth < 0 \<or> EgressMbps bandwidth < 0
          then Some ''bandwidth ingress/egress must be non-negative'' else None)"

definition validateSubmission ::
  "workload_service \<Rightarrow> SubmitWorkloadRequest option
     \<Rightarrow> string + (SubmitWorkloadRequest \<times> WorkloadDefinition \<times> ResourceRequirements \<times> byte list \<times> byte list)" where
  "validateSubmission svc request' =
     (case request' of
        None \<Rightarrow> Inl ''definition is required''
      | Some request \<Rightarrow>
     (case Definition request of
        None \<Rightarrow> Inl ''definition is required''
      | Some definition' \<Rightarrow>
          if \<not> uuid_ok svc (RequestId request) then Inl ''request_id must be a UUID''
          else if \<not> uuid_ok svc (def_WorkloadId definition') then Inl ''workload_id must be a UUID''
          else case checkImage svc request definition' of
            Some e \<Rightarrow> Inl e
          | None \<Rightarrow>
              if Profile definition' = PROFILE_UNSPECIFIED then Inl ''workload profile is required''
              else case Requirements definition' of
                None \<Rightarrow> Inl ''resource requirements are required''
              | Some requirements \<Rightarrow>
                  (case checkRequirements requirements of
                     Some e \<Rightarrow> Inl e
                   | None \<Rightarrow>
                       if DurationSeconds definition' \<le> 0 \<or> DurationSeconds definition' > 30 * 24 * 60 * 60
                       then Inl ''duration_seconds must be between 1 and 2592000''
                       else case marshal svc definition' of
                         None \<Rightarrow> Inl ''definition cannot be encoded''
                       | Some definitionBytes \<Rightarrow>
                           Inr (request, definition', requirements, definitionBytes,
                             sha256 svc (requestDomain @ definitionBytes @ [0] @ bytes_of (Image request) @ [0] @
                               bytes_of (VmImageSha256 request))))))"

definition repositoryError :: "workload_error \<Rightarrow> grpc_error" where
  "repositoryError e = (if e = ErrNotFound then NotFound else if e = ErrConflict then AlreadyExists else Internal)"

text \<open>The row a validated submission asks for.\<close>

definition submittedWorkload ::
  "workload_service \<Rightarrow> int \<Rightarrow> string \<Rightarrow> string \<Rightarrow> SubmitWorkloadRequest \<Rightarrow> WorkloadDefinition \<Rightarrow> ResourceRequirements
     \<Rightarrow> byte list \<Rightarrow> byte list \<Rightarrow> WorkloadItem" where
  "submittedWorkload svc now ownerID projectID request definition' requirements definitionBytes requestHash =
     \<lparr>wl_WorkloadID = def_WorkloadId definition', wl_RequestID = RequestId request, wl_Image = Image request,
      wl_State = REQUESTED, wl_VmImageSha256 = VmImageSha256 request, wl_OwnerID = ownerID, wl_ProjectID = projectID,
      wl_StopRequestID = '''', wl_RequestHash = requestHash, wl_ResourceHash = replicate 32 0,
      wl_Definition = definitionBytes, wl_ProviderID = '''', wl_LeaseID = '''', wl_ContainerID = '''', wl_ErrorCode = '''',
      wl_CreatedAt = now, wl_UpdatedAt = now, wl_WorkerID = '''', wl_WorkerLeaseUntil = None, wl_Version = 0,
      wl_AttemptCount = 0,
      wl_Reserved = \<lparr>CPUMillicores = CPUCoresToMillicores (svc_platform svc) (Cpu requirements),
        RAMMB = RamMb requirements, StorageGB = StorageGb requirements,
        cap_IngressMbps = (case Bandwidth requirements of None \<Rightarrow> 0 | Some b \<Rightarrow> IngressMbps b),
        cap_EgressMbps = (case Bandwidth requirements of None \<Rightarrow> 0 | Some b \<Rightarrow> EgressMbps b)\<rparr>\<rparr>"

text \<open>\<open>owner\<close> and \<open>project\<close> are what the request context carries.\<close>

definition requireOwner :: "string option \<Rightarrow> grpc_error + string" where
  "requireOwner owner = (case owner of None \<Rightarrow> Inl Unauthenticated | Some i \<Rightarrow> Inr i)"

definition projectIDFromContext :: "string option \<Rightarrow> string" where
  "projectIDFromContext project = (case project of None \<Rightarrow> '''' | Some p \<Rightarrow> p)"

definition SubmitWorkload ::
  "workload_service \<Rightarrow> db_call \<Rightarrow> int \<Rightarrow> workload_store \<Rightarrow> string option \<Rightarrow> string option \<Rightarrow> SubmitWorkloadRequest option
     \<Rightarrow> (grpc_error + string \<times> workload_state \<times> int) \<times> workload_store" where
  "SubmitWorkload svc c now s owner project request' =
     (case requireOwner owner of
        Inl e \<Rightarrow> (Inl e, s)
      | Inr ownerID \<Rightarrow>
          (case validateSubmission svc request' of
             Inl e \<Rightarrow> (Inl (InvalidArgument e), s)
           | Inr (request, definition', requirements, definitionBytes, requestHash) \<Rightarrow>
               (case CreateOrGet c s (submittedWorkload svc now ownerID (projectIDFromContext project) request definition'
                        requirements definitionBytes requestHash) of
                  (Inl e, s') \<Rightarrow> (Inl (repositoryError e), s')
                | (Inr stored, s') \<Rightarrow> (Inr (wl_WorkloadID stored, wl_State stored, wl_CreatedAt stored), s'))))"

record GetWorkloadResponse =
  rsp_WorkloadId :: string
  rsp_State :: workload_state
  rsp_ProviderId :: string
  rsp_LeaseId :: string
  rsp_ContainerId :: string
  rsp_ErrorCode :: string
  rsp_CreatedAt :: int
  rsp_UpdatedAt :: int

definition GetWorkload ::
  "workload_service \<Rightarrow> db_call \<Rightarrow> workload_store \<Rightarrow> string option \<Rightarrow> string option \<Rightarrow> grpc_error + GetWorkloadResponse" where
  "GetWorkload svc c s owner workloadId =
     (case requireOwner owner of
        Inl e \<Rightarrow> Inl e
      | Inr ownerID \<Rightarrow>
          (case workloadId of
             None \<Rightarrow> Inl (InvalidArgument ''request is required'')
           | Some wid \<Rightarrow>
               if \<not> uuid_ok svc wid then Inl (InvalidArgument ''workload_id must be a UUID'')
               else (case Get c s wid ownerID of
                  Inl e \<Rightarrow> Inl (repositoryError e)
                | Inr stored \<Rightarrow> Inr \<lparr>rsp_WorkloadId = wl_WorkloadID stored, rsp_State = wl_State stored,
                    rsp_ProviderId = wl_ProviderID stored, rsp_LeaseId = wl_LeaseID stored,
                    rsp_ContainerId = wl_ContainerID stored, rsp_ErrorCode = wl_ErrorCode stored,
                    rsp_CreatedAt = wl_CreatedAt stored, rsp_UpdatedAt = wl_UpdatedAt stored\<rparr>)))"

definition StopWorkload ::
  "workload_service \<Rightarrow> db_call \<Rightarrow> int \<Rightarrow> workload_store \<Rightarrow> string option \<Rightarrow> (string \<times> string) option
     \<Rightarrow> (grpc_error + string \<times> workload_state \<times> int) \<times> workload_store" where
  "StopWorkload svc c now s owner request =
     (case requireOwner owner of
        Inl e \<Rightarrow> (Inl e, s)
      | Inr ownerID \<Rightarrow>
          (case request of
             None \<Rightarrow> (Inl (InvalidArgument ''request is required''), s)
           | Some (requestId, workloadId) \<Rightarrow>
               if \<not> uuid_ok svc requestId then (Inl (InvalidArgument ''request_id must be a UUID''), s)
               else if \<not> uuid_ok svc workloadId then (Inl (InvalidArgument ''workload_id must be a UUID''), s)
               else (case RequestStop c s workloadId requestId ownerID now of
                  (Inl e, s') \<Rightarrow> (Inl (repositoryError e), s')
                | (Inr stored, s') \<Rightarrow> (Inr (wl_WorkloadID stored, wl_State stored, wl_UpdatedAt stored), s'))))"

section \<open>The language of image references\<close>

definition tag_part :: "string option \<Rightarrow> string" where
  "tag_part tag = (case tag of None \<Rightarrow> '''' | Some t \<Rightarrow> CHR '':'' # t)"

lemma lang_tag:
  "lang (Opt (Seq (Literal '':'') (Plus (Class cs)))) =
     {tag_part tag |tag. pred_option (\<lambda>t. t \<noteq> [] \<and> set t \<subseteq> set cs) tag}"
proof -
  have "lang (Seq (Literal '':'') (Plus (Class cs))) = {CHR '':'' # t |t. t \<noteq> [] \<and> set t \<subseteq> set cs}"
    by (auto simp: lang_Plus_Class)
  then show ?thesis
    unfolding lang_Opt by (auto simp: tag_part_def split: option.splits)
qed

text \<open>
  The pattern accepts the OCI references pinned by digest: a lower-case name, an optional tag,
  and \<^verbatim>\<open>@sha256:\<close> followed by 64 lower-case hexadecimal digits.
\<close>

lemma digestImage_language:
  "MatchString digestImage s \<longleftrightarrow>
     (\<exists>c name tag hex. s = c # name @ tag_part tag @ ''@sha256:'' @ hex \<and> c \<in> set lower_alnum \<and>
        set name \<subseteq> set name_chars \<and> pred_option (\<lambda>t. t \<noteq> [] \<and> set t \<subseteq> set tag_chars) tag \<and>
        length hex = 64 \<and> set hex \<subseteq> set lower_hex)"
  unfolding MatchString_lang digestImage_def lang_Seq_Class
  unfolding lang.simps(5) lang_Star_Class lang_tag lang_Times_Class lang_Literal mem_Collect_eq singleton_iff
  by blast

section \<open>CPU amounts are exact\<close>

lemma half_up_div:
  fixes a d :: int
  assumes "0 < k" and "d = 2 ^ k"
  shows "(a + 2 ^ (k - 1)) div d = (2 * a + d) div (2 * d)"
proof -
  have "2 * 2 ^ (k - 1) = d" using assms by (metis Suc_pred' power_Suc)
  then have eq: "2 * a + d = 2 * (a + 2 ^ (k - 1))" by simp
  show ?thesis unfolding eq by (rule div_mult_mult1 [symmetric]) simp
qed

text \<open>
  C27. A positive core count in \<^verbatim>\<open>float32\<close> becomes the nearest whole number of millicores,
  halves rounded up, with no error from the floating-point product: for \<open>m / 2 ^ k\<close> cores it is
  \<open>\<lfloor>(2000 m + 2 ^ k) / 2 ^ (k + 1)\<rfloor>\<close>.
\<close>

theorem CPUCoresToMillicores_exact:
  assumes "0 < m" and "m < 2 ^ 24" and "0 < k" and "k \<le> 149"
  shows "CPUCoresToMillicores pf (Fin m (- int k)) = (2000 * m + 2 ^ k) div 2 ^ (k + 1)"
proof -
  have rep: "representable f64 (m * 1000) (- int k)"
    using assms by (simp add: representable_def f64_def)
  let ?r = "(m * 1000 + 2 ^ (k - 1)) div 2 ^ k"
  have r: "?r = (2000 * m + 2 ^ k) div 2 ^ (k + 1)"
    using half_up_div [OF assms(3) refl, of "m * 1000"] by (simp add: mult.commute)
  have "0 \<le> ?r" using assms by (simp add: pos_imp_zdiv_nonneg_iff)
  have "?r \<le> m * 1000 + 1"
  proof -
    have "m * 1000 * 1 \<le> m * 1000 * 2 ^ k" using assms by (intro mult_left_mono) simp_all
    moreover have "(2::int) ^ (k - 1) \<le> 1 * 2 ^ k" by (simp add: power_increasing)
    ultimately have "m * 1000 * 1 + 2 ^ (k - 1) \<le> (m * 1000 + 1) * 2 ^ k"
      unfolding distrib_right by (rule add_mono)
    then have "?r \<le> ((m * 1000 + 1) * 2 ^ k) div 2 ^ k" by (intro zdiv_mono1) simp_all
    also have "\<dots> = m * 1000 + 1" by simp
    finally show ?thesis .
  qed
  then have "in_i64 ?r" using \<open>0 \<le> ?r\<close> assms(2) by (simp add: in_i64_def)
  moreover have "CPUCoresToMillicores pf (Fin m (- int k)) = to_int64 pf (Fin ?r 0)"
    using assms rep by (simp add: CPUCoresToMillicores_def)
  ultimately show ?thesis using r by (simp add: to_int64_def)
qed

theorem CPUCoresToMillicores_exact_witness:
  "\<forall>pf. CPUCoresToMillicores pf (Fin 13421773 (- 27)) = 100"
  using CPUCoresToMillicores_exact [of 13421773 27] by simp

section \<open>Submitting and reading back\<close>

lemma validateSubmission_Inr:
  assumes "validateSubmission svc (Some request) = Inr (request', d, requirements, bytes, hash)"
  shows "request' = request" "Definition request = Some d" "uuid_ok svc (def_WorkloadId d)"
    "Requirements d = Some requirements"
  using assms by (auto simp: validateSubmission_def split: option.splits if_splits)

lemma stored_row_ids:
  "stored_as w row \<Longrightarrow> w_workload_id row = wl_WorkloadID w \<and> text_or_empty (w_owner_id row) = wl_OwnerID w"
  by (auto simp: stored_as_def replayed_def dest: scanWorkload_Inr)

text \<open>
  C28. What a tenant submits it can read back: after an accepted submission, and after the same
  submission repeated, the owner's \<^verbatim>\<open>GetWorkload\<close> finds the workload under the id, and
  every other tenant is told it does not exist.
\<close>

theorem SubmitWorkload_roundtrip:
  assumes "store_inv s"
    and "SubmitWorkload svc c now s (Some owner) project (Some request) = (Inr (wid, st, t), s')"
    and "canonical c wid" and "canonical c (RequestId request)" and "canonical c owner" and "owner \<noteq> ''''"
    and "project = None \<or> canonical c (the project)"
    and "uuid_parse c' = uuid_parse c" and "db_up c'" and "canonical c other" and "other \<noteq> owner"
  shows "(\<exists>rsp. GetWorkload svc c' s' (Some owner) (Some wid) = Inr rsp \<and> rsp_WorkloadId rsp = wid) \<and>
    GetWorkload svc c' s' (Some other) (Some wid) = Inl NotFound"
proof -
  obtain r d req bytes hash stored where val: "validateSubmission svc (Some request) = Inr (r, d, req, bytes, hash)"
    and create: "CreateOrGet c s (submittedWorkload svc now owner (projectIDFromContext project) r d req bytes hash) =
      (Inr stored, s')" and wid: "wid = wl_WorkloadID stored"
    using assms(2) by (auto simp: SubmitWorkload_def requireOwner_def split: sum.splits prod.splits)
  let ?w = "submittedWorkload svc now owner (projectIDFromContext project) r d req bytes hash"
  note v = validateSubmission_Inr [OF val]
  have id: "wl_WorkloadID ?w = wid \<and> wl_OwnerID ?w = owner"
  proof -
    have "stored = ?w \<or> replayed stored ?w"
      using create by (auto simp: CreateOrGet_def Let_def split: if_splits option.splits sum.splits)
    then have "wl_WorkloadID stored = wl_WorkloadID ?w" by (auto simp: replayed_def)
    then show ?thesis by (simp add: wid submittedWorkload_def)
  qed
  have "canonical_request c ?w"
    using assms(3-7) id v(1)
    by (cases project) (auto simp: canonical_request_def submittedWorkload_def projectIDFromContext_def)
  from CreateOrGet_stored [OF assms(1) create this] obtain row where row: "row \<in> set (ws_rows s')" "stored_as ?w row"
    by blast
  have ids: "w_workload_id row = wid" "w_owner_id row = Some owner"
    using stored_row_ids [OF row(2)] id assms(6) by (auto simp: text_or_empty_def split: option.splits)
  have inv: "store_inv s'" using assms(1) create by (rule CreateOrGet_inv)
  have ok: "uuid_ok svc wid" using v(3) id by (simp add: submittedWorkload_def)
  obtain x where x: "GetScoped w_owner_id c' s' wid owner = Inr x" "scanWorkload row = Inr x"
  proof (rule GetScoped_found [where row = row and scope = w_owner_id and c = c' and s = s' and workloadID = wid
      and scopeID = owner and sid = owner])
    show "distinct (map w_workload_id (ws_rows s'))" "row_ok row" using inv row(1) by (simp_all add: store_inv_def)
  qed (use row(1) ids assms(3,5,8,9) in \<open>simp_all add: canonical_def\<close>)
  have "w_workload_id r \<noteq> wid \<or> w_owner_id r \<noteq> Some other" if "r \<in> set (ws_rows s')" for r
    using distinct_key_eq [of w_workload_id "ws_rows s'" row r] inv row(1) that ids assms(11)
    by (auto simp: store_inv_def)
  then have "selectWhere (\<lambda>r. w_workload_id r = wid \<and> w_owner_id r = Some other) s' = Inl ErrNotFound"
    by (auto simp: selectWhere_def split: option.splits dest: find_SomeD)
  then have "GetScoped w_owner_id c' s' wid other = Inl ErrNotFound"
    using assms(3,8-10) by (simp add: GetScoped_def canonical_def)
  with x ok scanWorkload_Inr(1) [OF x(2)] ids show ?thesis
    by (simp add: GetWorkload_def requireOwner_def Get_def repositoryError_def)
qed

definition ex_service :: workload_service where
  "ex_service = \<lparr>uuid_ok = (\<lambda>_. True), marshal = (\<lambda>_. Some [1]), sha256 = (\<lambda>_. replicate 32 7), vmImageAllowlist = [],
     svc_platform = \<lparr>fuses_multiply_add = False, int64_overflow = (\<lambda>_. 0), uint32_overflow = (\<lambda>_. 0)\<rparr>\<rparr>"

definition ex_submission :: SubmitWorkloadRequest where
  "ex_submission = \<lparr>RequestId = ''r1'', Image = ''a@sha256:'' @ replicate 64 CHR ''0'', VmImageSha256 = '''',
     Definition = Some \<lparr>def_WorkloadId = ''w1'', Profile = COMPUTE_INTENSIVE,
       Requirements = Some \<lparr>Cpu = Fin 1 (- 1), RamMb = 1024, StorageGb = 1, GpuCount = 0, Bandwidth = None\<rparr>,
       Constraints = None, DurationSeconds = 3600\<rparr>\<rparr>"

lemma ex_submission_image: "MatchString digestImage (Image ex_submission)"
  unfolding digestImage_language
  by (rule exI [of _ "CHR ''a''"], rule exI [of _ "[]"], rule exI [of _ None], rule exI [of _ "replicate 64 CHR ''0''"])
    (simp add: ex_submission_def tag_part_def lower_alnum_def lower_hex_def)

lemma ex_cpu: "CPUCoresToMillicores (svc_platform ex_service) (Fin 1 (- 1)) = 500"
  by code_simp

lemma ex_submitted:
  "\<exists>s'. SubmitWorkload ex_service (ex_call 1) 1 ex_store (Some ''u1'') None (Some ex_submission) =
     (Inr (''w1'', REQUESTED, 1), s')"
  using ex_submission_image ex_cpu
  by (simp add: SubmitWorkload_def requireOwner_def validateSubmission_def checkImage_def checkRequirements_def
    ex_submission_def ex_service_def submittedWorkload_def projectIDFromContext_def CreateOrGet_def nullableID_def
    ex_call_def ex_store_def row_of_def row_ok_def amounts_ok_def Let_def)

theorem SubmitWorkload_roundtrip_witness:
  "\<exists>s' rsp. SubmitWorkload ex_service (ex_call 1) 1 ex_store (Some ''u1'') None (Some ex_submission) =
       (Inr (''w1'', REQUESTED, 1), s') \<and>
     GetWorkload ex_service (ex_call 2) s' (Some ''u1'') (Some ''w1'') = Inr rsp \<and>
     GetWorkload ex_service (ex_call 2) s' (Some ''u2'') (Some ''w1'') = Inl NotFound"
proof -
  from ex_submitted obtain s' where
    sub: "SubmitWorkload ex_service (ex_call 1) 1 ex_store (Some ''u1'') None (Some ex_submission) =
      (Inr (''w1'', REQUESTED, 1), s')" by blast
  from SubmitWorkload_roundtrip [OF new_store_inv [OF ex_new_store] sub, of "ex_call 2" "''u2''"] sub
  show ?thesis by (auto simp: canonical_def ex_call_def)
qed

end
