(* ===== verification/Workload_Refinement.thy ===== *)
theory Workload_Refinement
  imports Workload_Properties
begin

text \<open>
  The abstract specification of the workload table, a map from workload ids to states, and the
  simulation that shows the table with all its callers implements it.
\<close>

type_synonym lifecycles = "string \<rightharpoonup> workload_state"

inductive lifecycle :: "workload_state option \<Rightarrow> workload_state option \<Rightarrow> bool" where
  idle: "lifecycle st st"
| submitted: "lifecycle None (Some REQUESTED)"
| moved: "edge st st' \<Longrightarrow> lifecycle (Some st) (Some st')"

text \<open>One step of the specification touches one workload: it is submitted, or it moves along
  one edge.\<close>

inductive spec_step :: "lifecycles \<Rightarrow> lifecycles \<Rightarrow> bool" where
  stutter: "spec_step m m"
| submit: "m w = None \<Longrightarrow> spec_step m (m(w \<mapsto> REQUESTED))"
| move: "m w = Some st \<Longrightarrow> edge st st' \<Longrightarrow> spec_step m (m(w \<mapsto> st'))"

definition states_of :: "workload_store \<Rightarrow> lifecycles" where
  "states_of s = map_of (map (\<lambda>r. (w_workload_id r, w_state r)) (ws_rows s))"

lemma states_of_Some:
  assumes "distinct (map w_workload_id (ws_rows s))"
  shows "states_of s w = Some st \<longleftrightarrow> (\<exists>r \<in> set (ws_rows s). w_workload_id r = w \<and> w_state r = st)"
proof -
  have "distinct (map fst (map (\<lambda>r. (w_workload_id r, w_state r)) (ws_rows s)))"
    using assms by (simp add: comp_def)
  then show ?thesis unfolding states_of_def by (auto simp: map_of_eq_Some_iff)
qed

lemma system_step_origin:
  assumes "system_step cap \<sigma> \<sigma>'" and "store_inv (fst \<sigma>)" and "r' \<in> set (ws_rows (fst \<sigma>'))"
  shows "(\<exists>r \<in> set (ws_rows (fst \<sigma>)). w_workload_id r = w_workload_id r') \<or> w_state r' = REQUESTED"
  using assms(1,2)
proof (cases rule: system_step_cases)
  case table
  then show ?thesis
    using rows_step_elem [OF _ assms(3)] by (metis table_step_def row_stepD(1))
next
  case claimed
  then show ?thesis
    using rows_step_elem [OF _ assms(3)] by (metis table_step_def row_stepD(1))
next
  case (created c candidate res)
  from created(1) show ?thesis
    by (cases rule: CreateOrGet_cases) (use created(2) assms(3) in \<open>auto simp: row_of_def\<close>)
next
  case (assigned c item providerID resourceHash capacity res)
  from assigned(3) show ?thesis
  proof (cases rule: AssignLease_cases)
    case (assigned leaseID)
    from assms(3) show ?thesis
      unfolding assigned(3) by (auto simp: update_where_def release_def)
  qed (use assms(3) in auto)
qed

lemma step_lifecycle:
  assumes "system_step cap \<sigma> \<sigma>'" and "store_inv (fst \<sigma>)"
  shows "\<forall>w. lifecycle (states_of (fst \<sigma>) w) (states_of (fst \<sigma>') w)"
proof
  fix w
  have inv: "distinct (map w_workload_id (ws_rows (fst \<sigma>)))" "distinct (map w_workload_id (ws_rows (fst \<sigma>')))"
    using assms(2) system_step_inv [OF assms] by (simp_all add: store_inv_def)
  show "lifecycle (states_of (fst \<sigma>) w) (states_of (fst \<sigma>') w)"
  proof (cases "states_of (fst \<sigma>) w")
    case None
    have "st = REQUESTED" if "states_of (fst \<sigma>') w = Some st" for st
    proof -
      from that inv(2) obtain r' where r': "r' \<in> set (ws_rows (fst \<sigma>'))" "w_workload_id r' = w" "w_state r' = st"
        by (auto simp: states_of_Some)
      have "\<forall>r \<in> set (ws_rows (fst \<sigma>)). w_workload_id r \<noteq> w"
        using None states_of_Some [OF inv(1), of w] by auto
      with system_step_origin [OF assms r'(1)] r' show ?thesis by auto
    qed
    then show ?thesis using None by (cases "states_of (fst \<sigma>') w") (auto intro: lifecycle.intros)
  next
    case (Some st)
    with inv(1) obtain r where r: "r \<in> set (ws_rows (fst \<sigma>))" "w_workload_id r = w" "w_state r = st"
      by (auto simp: states_of_Some)
    from system_step_row [OF assms r(1)] obtain r' where r': "r' \<in> set (ws_rows (fst \<sigma>'))"
      "r' = r \<or> row_step r r' \<or> (\<exists>p i. assign_step p i r r')" .
    then have "w_workload_id r' = w" "w_state r' = st \<or> edge st (w_state r')"
      using r by (auto simp: assign_step_def same_request_def dest: row_stepD(1,10) intro: edge.assign)
    with r'(1) inv(2) have "\<exists>st'. states_of (fst \<sigma>') w = Some st' \<and> (st' = st \<or> edge st st')"
      by (metis states_of_Some)
    with Some show ?thesis by (auto intro: lifecycle.intros)
  qed
qed

text \<open>A query changes the rows of one workload only.\<close>

definition only_workload :: "string \<Rightarrow> workload_row list \<Rightarrow> workload_row list \<Rightarrow> bool" where
  "only_workload k rows rows' \<longleftrightarrow> (\<forall>r. w_workload_id r \<noteq> k \<longrightarrow> (r \<in> set rows' \<longleftrightarrow> r \<in> set rows))"

lemma only_workload_refl [simp]: "only_workload k rows rows"
  by (simp add: only_workload_def)

lemma only_workload_update:
  assumes "\<And>r. guard r \<Longrightarrow> w_workload_id r = k" and "\<And>r. w_workload_id (change r) = w_workload_id r"
  shows "only_workload k rows (update_where guard change rows)"
  using assms by (auto simp: only_workload_def update_where_def image_iff split: if_splits)

lemma guardedUpdate_only:
  assumes "guardedUpdate c s (\<lambda>r. held c item r \<and> g r) change = (res, s')"
    and "\<And>r. w_workload_id (change r) = w_workload_id r"
  shows "only_workload (wl_WorkloadID item) (ws_rows s) (ws_rows s')"
  using assms by (auto simp: guardedUpdate_def held_def split: if_splits intro!: only_workload_update)

lemma worker_updates_only:
  "BeginScheduling c s item = (res, s') \<Longrightarrow> only_workload (wl_WorkloadID item) (ws_rows s) (ws_rows s')"
  "MarkLeased c s item leaseID = (res, s') \<Longrightarrow> only_workload (wl_WorkloadID item) (ws_rows s) (ws_rows s')"
  "MarkDeploying c s item leaseID = (res, s') \<Longrightarrow> only_workload (wl_WorkloadID item) (ws_rows s) (ws_rows s')"
  "MarkRunning c s item containerID = (res, s') \<Longrightarrow> only_workload (wl_WorkloadID item) (ws_rows s) (ws_rows s')"
  "MarkStopped c s item leaseID = (res, s') \<Longrightarrow> only_workload (wl_WorkloadID item) (ws_rows s) (ws_rows s')"
  "RetryLater c s item code delay = (res, s') \<Longrightarrow> only_workload (wl_WorkloadID item) (ws_rows s) (ws_rows s')"
  "MarkFailed c s item code = (res, s') \<Longrightarrow> only_workload (wl_WorkloadID item) (ws_rows s) (ws_rows s')"
  unfolding BeginScheduling_def MarkLeased_def MarkDeploying_def MarkRunning_def MarkStopped_def
    RetryLater_def MarkFailed_def
  by (auto split: if_splits elim!: guardedUpdate_only simp: release_def clear_errors_def)

lemma ClaimNext_only:
  assumes "ClaimNext c locked s workerID lease = (res, s')"
  shows "\<exists>k. only_workload k (ws_rows s) (ws_rows s')"
  using assms
proof (cases rule: ClaimNext_cases)
  case (claimed row)
  then show ?thesis by (auto intro!: exI [of _ "w_workload_id row"] only_workload_update)
qed auto

lemma RequestStopScoped_only:
  assumes "RequestStopScoped scope c s workloadID requestID scopeID now = (res, s')"
  shows "\<exists>k. only_workload k (ws_rows s) (ws_rows s')"
proof (cases "s' = s")
  case False
  with assms obtain k change where "ws_rows s' = update_where
      (\<lambda>row. w_workload_id row = k \<and> w_stop_request_id row = None) change (ws_rows s)"
    "\<And>r. w_workload_id (change r) = w_workload_id r"
    by (auto simp: RequestStopScoped_def Let_def split: sum.splits if_splits option.splits)
  then show ?thesis by (auto intro!: exI [of _ k] only_workload_update)
qed auto

lemma ReconcileFromAgent_only:
  assumes "ReconcileFromAgent c s workloadID providerID fromStates toState containerID errorCode = (res, s')"
  shows "\<exists>k. only_workload k (ws_rows s) (ws_rows s')"
  using assms
proof (cases rule: ReconcileFromAgent_cases)
  case (applied wid)
  then show ?thesis
    by (auto intro!: exI [of _ wid] only_workload_update simp: reconciled_def release_def)
qed auto

lemma CreateOrGet_only:
  assumes "CreateOrGet c s candidate = (res, s')"
  shows "\<exists>k. only_workload k (ws_rows s) (ws_rows s')"
  using assms
proof (cases rule: CreateOrGet_cases)
  case (created wid rid oid pid)
  then show ?thesis by (auto intro!: exI [of _ wid] simp: only_workload_def row_of_def)
qed auto

lemma AssignLease_only:
  assumes "AssignLease c s item providerID resourceHash capacity = (res, s')"
  shows "only_workload (wl_WorkloadID item) (ws_rows s) (ws_rows s')"
  using assms
  by (cases rule: AssignLease_cases) (auto simp: held_def release_def intro!: only_workload_update)

lemma system_step_only:
  assumes "system_step cap \<sigma> \<sigma>'"
  shows "\<exists>k. only_workload k (ws_rows (fst \<sigma>)) (ws_rows (fst \<sigma>'))"
  using assms
  by cases (auto dest: worker_updates_only AssignLease_only ClaimNext_only RequestStopScoped_only
    ReconcileFromAgent_only CreateOrGet_only)

lemma states_of_only:
  assumes "only_workload k (ws_rows s) (ws_rows s')" and "w \<noteq> k"
    and "distinct (map w_workload_id (ws_rows s))" and "distinct (map w_workload_id (ws_rows s'))"
  shows "states_of s' w = states_of s w"
proof -
  have "states_of s' w = Some st \<longleftrightarrow> states_of s w = Some st" for st
    using assms(1,2) unfolding states_of_Some [OF assms(3)] states_of_Some [OF assms(4)]
    by (auto simp: only_workload_def)
  then show ?thesis by (metis option.exhaust)
qed

lemma spec_stepI:
  assumes "lifecycle (m k) (m' k)" and "\<And>w. w \<noteq> k \<Longrightarrow> m' w = m w"
  shows "spec_step m m'"
proof -
  have m': "m' = m(k := m' k)" using assms(2) by auto
  from assms(1) show ?thesis
  proof cases
    case idle
    then have "m' = m" using m' by (metis fun_upd_triv)
    then show ?thesis by (simp add: spec_step.stutter)
  next
    case submitted
    then show ?thesis using m' spec_step.submit [of m k] by simp
  next
    case (moved st st')
    then show ?thesis using m' spec_step.move [of m k st st'] by simp
  qed
qed

text \<open>
  C8. The workload table implements the life-cycle specification step by step. Read as a map
  from workload ids to states, every query of every caller, at every state a run can reach, is
  one step of the specification: it leaves the map alone, or adds one new workload as
  \<^verbatim>\<open>REQUESTED\<close>, or moves one workload along one edge of the state machine, and
  no query skips a state or touches the state of a second workload.
\<close>

theorem workload_table_refines_lifecycle:
  assumes "store_inv s" and "system_run cap (s, C) \<sigma>" and "system_step cap \<sigma> \<sigma>'"
  shows "spec_step (states_of (fst \<sigma>)) (states_of (fst \<sigma>'))"
proof -
  have inv: "store_inv (fst \<sigma>)" using system_run_inv [OF assms(2)] assms(1) by simp
  then have dist: "distinct (map w_workload_id (ws_rows (fst \<sigma>)))" "distinct (map w_workload_id (ws_rows (fst \<sigma>')))"
    using system_step_inv [OF assms(3)] by (simp_all add: store_inv_def)
  from system_step_only [OF assms(3)] obtain k where
    "only_workload k (ws_rows (fst \<sigma>)) (ws_rows (fst \<sigma>'))" by blast
  then show ?thesis
    using step_lifecycle [OF assms(3) inv] states_of_only dist by (blast intro: spec_stepI)
qed

theorem workload_table_refines_lifecycle_witness:
  "states_of (ex_table ex_row4) = [''w1'' \<mapsto> SCHEDULING] \<and>
     states_of (ex_leased 1024) = [''w1'' \<mapsto> LEASE_PENDING] \<and>
     spec_step (states_of (ex_table ex_row4)) (states_of (ex_leased 1024))"
  using workload_table_refines_lifecycle [OF new_store_inv [OF ex_new_store]
    converse_rtranclp_into_rtranclp [OF ex_run1 ex_run2] ex_run3]
  by (auto simp: states_of_def ex_defs)

end
