(* ===== verification/Agent_Manager.thy ===== *)
theory Agent_Manager
  imports Scheduler Metering_Service "HOL-Library.AList"
begin

text \<open>
  \<^verbatim>\<open>control-plane/internal/agentmanager\<close>: the directory of schedulable providers
  (directory.go), the verified client every Agent call goes through (client.go) and the
  in-memory connection table (manager.go). What the network answers is a parameter: the URL
  parser, the connection, the Agent's replies, the heartbeat payloads kept in Redis.
\<close>

section \<open>The provider directory\<close>

datatype NodeStatus =
    NODE_UNSPECIFIED | NODE_PENDING | NODE_ACTIVE | NODE_OFFLINE | NODE_DRAINING | NODE_MAINTENANCE | NODE_REVOKED

record ResourceCapability =
  CpuTotal :: gofloat
  CpuAvailable :: gofloat
  RamTotalMb :: int
  RamAvailableMb :: int
  StorageTotalGb :: int
  StorageAvailableGb :: int
  cap_Bandwidth :: "BandwidthRequirement option"
  cap_Zone :: string
  cap_VirtualizationCapable :: bool

record RegisteredProvider =
  rp_ProviderID :: string
  rp_PublicKey :: "byte list"
  rp_ProtocolVersion :: string
  rp_AgentVersion :: string
  rp_AgentEndpoint :: string

type_synonym SchedulableProvider = "RegisteredProvider \<times> ResourceCapability"

text \<open>A row of \<^verbatim>\<open>providers\<close>, as far as this package reads it.\<close>

record registry_row =
  reg_provider :: RegisteredProvider
  reg_status :: NodeStatus

datatype directory_error = ErrProviderNotFound | ErrRegistry | ErrHeartbeatRead | ErrHeartbeatDecode | ErrHeartbeatMismatch

definition GetProvider :: "bool \<Rightarrow> registry_row list \<Rightarrow> string \<Rightarrow> directory_error + RegisteredProvider" where
  "GetProvider up rows providerID =
     (if \<not> up then Inl ErrRegistry
      else case find (\<lambda>r. rp_ProviderID (reg_provider r) = providerID) rows of
        None \<Rightarrow> Inl ErrProviderNotFound | Some r \<Rightarrow> Inr (reg_provider r))"

definition ListActive :: "bool \<Rightarrow> registry_row list \<Rightarrow> directory_error + RegisteredProvider list" where
  "ListActive up rows =
     (if \<not> up then Inl ErrRegistry
      else Inr (sort_key rp_ProviderID (map reg_provider (filter (\<lambda>r. reg_status r = NODE_ACTIVE) rows))))"

text \<open>\<open>heartbeat\<close> is the Redis read: the payload while the key lives, \<open>Inl True\<close> when it has
  expired, \<open>Inl False\<close> when the read fails. \<open>decode\<close> gives the provider id and the
  capabilities of a payload.\<close>

type_synonym heartbeat_source = "string \<Rightarrow> bool + byte list"

type_synonym heartbeat_codec = "byte list \<Rightarrow> (string \<times> ResourceCapability option) option"

fun schedulableLoop ::
  "heartbeat_source \<Rightarrow> heartbeat_codec \<Rightarrow> RegisteredProvider list \<Rightarrow> SchedulableProvider list
     \<Rightarrow> directory_error + SchedulableProvider list" where
  "schedulableLoop heartbeat decode [] available = Inr available"
| "schedulableLoop heartbeat decode (provider # ps) available =
     (case heartbeat (rp_ProviderID provider) of
        Inl notFresh \<Rightarrow>
          if notFresh then schedulableLoop heartbeat decode ps available else Inl ErrHeartbeatRead
      | Inr payloadBytes \<Rightarrow>
          (case decode payloadBytes of
             None \<Rightarrow> Inl ErrHeartbeatDecode
           | Some (_, None) \<Rightarrow> Inl ErrHeartbeatMismatch
           | Some (pid, Some capabilities) \<Rightarrow>
               if pid \<noteq> rp_ProviderID provider then Inl ErrHeartbeatMismatch
               else schedulableLoop heartbeat decode ps (available @ [(provider, capabilities)])))"

definition ListSchedulableProviders ::
  "bool \<Rightarrow> registry_row list \<Rightarrow> heartbeat_source \<Rightarrow> heartbeat_codec \<Rightarrow> directory_error + SchedulableProvider list" where
  "ListSchedulableProviders up rows heartbeat decode =
     andThen (ListActive up rows) (\<lambda>ps. schedulableLoop heartbeat decode ps [])"

record NodeIdentity =
  NodeId :: string
  id_ProtocolVersion :: string
  id_AgentVersion :: string
  id_Capabilities :: "ResourceCapability option"
  id_Status :: NodeStatus

definition ListSchedulable ::
  "bool \<Rightarrow> registry_row list \<Rightarrow> heartbeat_source \<Rightarrow> heartbeat_codec \<Rightarrow> directory_error + NodeIdentity list" where
  "ListSchedulable up rows heartbeat decode =
     andThen (ListSchedulableProviders up rows heartbeat decode)
       (\<lambda>detailed. Inr (map (\<lambda>(p, c). \<lparr>NodeId = rp_ProviderID p, id_ProtocolVersion = rp_ProtocolVersion p,
          id_AgentVersion = rp_AgentVersion p, id_Capabilities = Some c, id_Status = NODE_ACTIVE\<rparr>) detailed))"

section \<open>The verified Agent client\<close>

datatype agent_state =
    STATE_UNSPECIFIED | STATE_CREATED | STATE_PENDING | STATE_DEPLOYING | STATE_RUNNING | STATE_STOPPING
  | STATE_COMPLETED | STATE_FAILED

datatype Runtime = RUNTIME_UNSPECIFIED | RUNTIME_CONTAINER | RUNTIME_VM

record ResourceLimits =
  CpuCores :: gofloat
  MemoryMb :: int
  lim_EgressMbps :: int

record VolumeAttachment =
  va_VolumeId :: string
  va_MountPath :: string
  va_ReadOnly :: bool

record SecurityGroupRuleProto =
  pr_Direction :: string
  pr_Protocol :: string
  pr_PortRangeMin :: int
  pr_PortRangeMax :: int
  pr_RemoteIpPrefix :: string

record DeployRequest =
  dr_WorkloadId :: string
  dr_LeaseId :: string
  dr_Image :: string
  dr_Limits :: ResourceLimits
  dr_LeaseEnd :: int
  dr_Runtime :: Runtime
  dr_Vm :: "(string \<times> string) option"
  dr_Volumes :: "VolumeAttachment list"
  dr_SecurityContext :: "SecurityGroupRuleProto list option"

record DeployResponse =
  rsp_Success :: bool
  rsp_Error :: string
  rsp_Container :: string

text \<open>What the Agent behind one endpoint answers; \<open>None\<close> is a transport error, and a status
  call may also answer that the workload is unknown.\<close>

record agent =
  ag_info :: "(string \<times> string) option"
  ag_deploy :: "DeployRequest \<Rightarrow> DeployResponse option"
  ag_stop :: "string \<Rightarrow> (bool \<times> string) option"
  ag_status :: "string \<Rightarrow> bool + agent_state"
  ag_delete_volume :: "string \<Rightarrow> (bool \<times> string) option"
  ag_usage :: "string \<Rightarrow> GetUsageSummaryResponse option"

record network =
  url_parse :: "string \<Rightarrow> (string \<times> string) option"
  dial :: "string \<Rightarrow> agent option"
  net_sha256 :: "byte list \<Rightarrow> byte list"

text \<open>The package \<^verbatim>\<open>encoding/hex\<close>.\<close>

definition hex_digits :: string where "hex_digits = ''0123456789abcdef''"

definition hex_encode :: "byte list \<Rightarrow> string" where
  "hex_encode bs = concat (map (\<lambda>b. [hex_digits ! (unat b div 16), hex_digits ! (unat b mod 16)]) bs)"

definition hex_value :: "char \<Rightarrow> nat option" where
  "hex_value c =
     (let n = of_char c :: nat in
      if 48 \<le> n \<and> n \<le> 57 then Some (n - 48)
      else if 97 \<le> n \<and> n \<le> 102 then Some (n - 87)
      else if 65 \<le> n \<and> n \<le> 70 then Some (n - 55) else None)"

fun hex_decode :: "string \<Rightarrow> byte list option" where
  "hex_decode [] = Some []"
| "hex_decode [c] = None"
| "hex_decode (c # d # cs) =
     (case (hex_value c, hex_value d, hex_decode cs) of
        (Some x, Some y, Some bs) \<Rightarrow> Some (word_of_nat (16 * x + y) # bs) | _ \<Rightarrow> None)"

definition ConnectVerified :: "network \<Rightarrow> RegisteredProvider \<Rightarrow> string + agent" where
  "ConnectVerified net provider =
     (case url_parse net (rp_AgentEndpoint provider) of
        None \<Rightarrow> Inl ''provider has no valid HTTPS Agent endpoint''
      | Some (scheme, host) \<Rightarrow>
          if scheme \<noteq> ''https'' \<or> host = '''' then Inl ''provider has no valid HTTPS Agent endpoint''
          else (case dial net host of
             None \<Rightarrow> Inl ''connect provider Agent''
           | Some client \<Rightarrow>
               (case ag_info client of
                  None \<Rightarrow> Inl ''verify provider Agent identity''
                | Some (nodeId, key) \<Rightarrow>
                    (case hex_decode key of
                       None \<Rightarrow> Inl ''provider Agent returned an invalid public key''
                     | Some publicKey \<Rightarrow>
                         if length publicKey \<noteq> 32 then Inl ''provider Agent returned an invalid public key''
                         else if nodeId \<noteq> rp_ProviderID provider \<or>
                           hex_encode (net_sha256 net publicKey) \<noteq> rp_ProviderID provider \<or>
                           publicKey \<noteq> rp_PublicKey provider
                         then Inl ''provider Agent identity does not match authoritative registration''
                         else Inr client))))"

definition GetRunningWorkload :: "network \<Rightarrow> RegisteredProvider \<Rightarrow> string \<Rightarrow> string + bool" where
  "GetRunningWorkload net provider workloadID =
     andThen (ConnectVerified net provider) (\<lambda>client.
       case ag_status client workloadID of
         Inl notFound \<Rightarrow> if notFound then Inr False else Inl ''reconcile workload status''
       | Inr state \<Rightarrow>
           if state = STATE_RUNNING then Inr True
           else if state \<in> {STATE_CREATED, STATE_PENDING, STATE_DEPLOYING} then Inr False
           else Inl ''Agent workload cannot be reconciled from state'')"

definition DeployAndConfirm :: "network \<Rightarrow> RegisteredProvider \<Rightarrow> DeployRequest \<Rightarrow> string + string" where
  "DeployAndConfirm net provider request =
     andThen (ConnectVerified net provider) (\<lambda>client.
       case ag_deploy client request of
         None \<Rightarrow> Inl ''deploy workload on Agent''
       | Some response \<Rightarrow>
           if \<not> rsp_Success response then Inl (''Agent rejected deployment: '' @ rsp_Error response)
           else if rsp_Container response = '''' then Inl ''Agent reported deployment success without container id''
           else (case ag_status client (dr_WorkloadId request) of
              Inl _ \<Rightarrow> Inl ''confirm workload status''
            | Inr state \<Rightarrow>
                if state \<noteq> STATE_RUNNING then Inl ''Agent workload state is not RUNNING''
                else Inr (rsp_Container response)))"

definition StopAndConfirm :: "network \<Rightarrow> RegisteredProvider \<Rightarrow> string \<Rightarrow> string + unit" where
  "StopAndConfirm net provider workloadID =
     andThen (ConnectVerified net provider) (\<lambda>client.
       case ag_stop client workloadID of
         None \<Rightarrow> Inl ''stop workload on Agent''
       | Some (success, error) \<Rightarrow>
           if \<not> success then Inl (''Agent rejected stop: '' @ error)
           else (case ag_status client workloadID of
              Inl _ \<Rightarrow> Inl ''confirm stopped workload status''
            | Inr state \<Rightarrow>
                if state \<noteq> STATE_COMPLETED then Inl ''Agent workload state is not COMPLETED'' else Inr ()))"

definition client_DeleteVolume :: "network \<Rightarrow> RegisteredProvider \<Rightarrow> string \<Rightarrow> string + unit" where
  "client_DeleteVolume net provider volumeID =
     andThen (ConnectVerified net provider) (\<lambda>client.
       case ag_delete_volume client volumeID of
         None \<Rightarrow> Inl ''delete volume on Agent''
       | Some (success, error) \<Rightarrow>
           if \<not> success then Inl (''Agent rejected volume deletion: '' @ error) else Inr ())"

definition dispatcher_DeleteVolume ::
  "bool \<Rightarrow> registry_row list \<Rightarrow> network \<Rightarrow> string \<Rightarrow> string \<Rightarrow> string + unit" where
  "dispatcher_DeleteVolume up rows net providerID volumeID =
     (case GetProvider up rows providerID of
        Inl _ \<Rightarrow> Inl ''resolve provider for volume deletion''
      | Inr provider \<Rightarrow> client_DeleteVolume net provider volumeID)"

definition FetchUsageSummary :: "network \<Rightarrow> RegisteredProvider \<Rightarrow> string \<Rightarrow> string + GetUsageSummaryResponse" where
  "FetchUsageSummary net provider workloadID =
     andThen (ConnectVerified net provider) (\<lambda>client.
       case ag_usage client workloadID of
         None \<Rightarrow> Inl ''fetch usage summary from Agent''
       | Some response \<Rightarrow>
           if resp_Summary response = None then Inl ''Agent returned a usage summary response with no summary''
           else Inr response)"

section \<open>The connection table\<close>

record NodeConnection =
  conn_LastSeen :: "int option"
  conn_Status :: NodeStatus
  conn_Capabilities :: "ResourceCapability option"

text \<open>The connections in an association list; \<open>None\<close> is the zero time. The order a Go map is
  ranged in is the order of the list.\<close>

type_synonym AgentManager = "(string \<times> NodeConnection) list"

definition heartbeatTimeout :: int where "heartbeatTimeout = 30 * 1000000000"

definition RegisterNode :: "AgentManager \<Rightarrow> string \<Rightarrow> AgentManager" where
  "RegisterNode am nodeID =
     AList.update nodeID \<lparr>conn_LastSeen = None, conn_Status = NODE_PENDING, conn_Capabilities = None\<rparr> am"

definition manager_Deploy :: "AgentManager \<Rightarrow> int \<Rightarrow> string \<Rightarrow> (string \<Rightarrow> bool) \<Rightarrow> string + unit" where
  "manager_Deploy am now nodeID send =
     (case map_of am nodeID of
        None \<Rightarrow> Inl ''node not connected''
      | Some conn \<Rightarrow>
          if conn_Status conn \<noteq> NODE_ACTIVE \<or>
             (case conn_LastSeen conn of None \<Rightarrow> True | Some t \<Rightarrow> now - t > heartbeatTimeout)
          then Inl ''node heartbeat timeout''
          else if send nodeID then Inr () else Inl ''send failed'')"

definition ApplyHeartbeat ::
  "AgentManager \<Rightarrow> int \<Rightarrow> string \<Rightarrow> NodeStatus \<Rightarrow> ResourceCapability option \<Rightarrow> (string + unit) \<times> AgentManager" where
  "ApplyHeartbeat am now nodeID status capability =
     (if map_of am nodeID = None then (Inl ''node not connected'', am)
      else (Inr (), AList.update nodeID \<lparr>conn_LastSeen = Some now, conn_Status = status, conn_Capabilities = capability\<rparr> am))"

definition GetAvailableNodes :: "AgentManager \<Rightarrow> int \<Rightarrow> (string \<times> ResourceCapability option) list" where
  "GetAvailableNodes am now =
     map (\<lambda>(i, conn). (i, conn_Capabilities conn))
       (filter (\<lambda>(i, conn). (case conn_LastSeen conn of None \<Rightarrow> False | Some t \<Rightarrow> now - t < heartbeatTimeout) \<and>
          conn_Status conn = NODE_ACTIVE) am)"

section \<open>The directory lists exactly the live providers\<close>

definition fresh_capabilities :: "heartbeat_source \<Rightarrow> heartbeat_codec \<Rightarrow> string \<Rightarrow> ResourceCapability option" where
  "fresh_capabilities heartbeat decode pid =
     (case heartbeat pid of
        Inl _ \<Rightarrow> None
      | Inr payload \<Rightarrow> (case decode payload of Some (i, Some c) \<Rightarrow> if i = pid then Some c else None | _ \<Rightarrow> None))"

lemma schedulableLoop_Inr:
  "schedulableLoop heartbeat decode ps available = Inr xs \<Longrightarrow>
     xs = available @ List.map_filter (\<lambda>p. map_option (Pair p) (fresh_capabilities heartbeat decode (rp_ProviderID p))) ps \<and>
     (\<forall>p \<in> set ps. heartbeat (rp_ProviderID p) = Inl True \<or>
        fresh_capabilities heartbeat decode (rp_ProviderID p) \<noteq> None)"
proof (induction heartbeat decode ps available rule: schedulableLoop.induct)
  case (2 heartbeat decode provider ps available)
  show ?case
  proof (cases "heartbeat (rp_ProviderID provider)")
    case (Inl notFresh)
    with "2.prems" "2.IH"(1) [OF Inl] show ?thesis
      by (auto simp: fresh_capabilities_def List.map_filter_simps split: if_splits)
  next
    case (Inr payload)
    with "2.prems" obtain c where c: "decode payload = Some (rp_ProviderID provider, Some c)"
      "schedulableLoop heartbeat decode ps (available @ [(provider, c)]) = Inr xs"
      by (auto split: option.splits if_splits)
    with "2.IH"(2) [OF Inr c(1) refl refl] Inr show ?thesis
      by (auto simp: fresh_capabilities_def List.map_filter_simps)
  qed
qed (simp add: List.map_filter_simps)

text \<open>
  C30. When the directory answers, it lists exactly the providers that are durably active and
  whose heartbeat is still in its time to live, each once with the capabilities of its own
  heartbeat, in the order of their ids; an active provider is left out only because its heartbeat
  has expired.
\<close>

theorem ListSchedulableProviders_exact:
  assumes "ListSchedulableProviders up rows heartbeat decode = Inr xs"
  shows "set xs = {(reg_provider r, c) | r c. r \<in> set rows \<and> reg_status r = NODE_ACTIVE \<and>
      fresh_capabilities heartbeat decode (rp_ProviderID (reg_provider r)) = Some c} \<and>
    sorted (map (rp_ProviderID \<circ> fst) xs) \<and>
    list_all (\<lambda>r. reg_status r \<noteq> NODE_ACTIVE \<or> heartbeat (rp_ProviderID (reg_provider r)) = Inl True \<or>
      (reg_provider r, the (fresh_capabilities heartbeat decode (rp_ProviderID (reg_provider r)))) \<in> set xs) rows"
proof -
  let ?active = "sort_key rp_ProviderID (map reg_provider (filter (\<lambda>r. reg_status r = NODE_ACTIVE) rows))"
  let ?f = "\<lambda>p. map_option (Pair p) (fresh_capabilities heartbeat decode (rp_ProviderID p))"
  have "schedulableLoop heartbeat decode ?active [] = Inr xs"
    using assms by (simp add: ListSchedulableProviders_def ListActive_def split: if_splits)
  from schedulableLoop_Inr [OF this] have xs: "xs = List.map_filter ?f ?active" and
    all: "\<forall>p \<in> set ?active. heartbeat (rp_ProviderID p) = Inl True \<or>
      fresh_capabilities heartbeat decode (rp_ProviderID p) \<noteq> None" by simp_all
  have mem: "set xs = {(reg_provider r, c) | r c. r \<in> set rows \<and> reg_status r = NODE_ACTIVE \<and>
      fresh_capabilities heartbeat decode (rp_ProviderID (reg_provider r)) = Some c}"
    unfolding xs by (auto simp: List.map_filter_def image_iff) force
  have "sorted (map (rp_ProviderID \<circ> fst) (List.map_filter ?f ps))" if "sorted (map rp_ProviderID ps)" for ps
    using that
  proof (induction ps)
    case (Cons p ps)
    then show ?case
      by (auto simp: List.map_filter_simps split: option.splits) (auto simp: List.map_filter_def)
  qed (simp add: List.map_filter_simps)
  from this [OF sorted_sort_key] have "sorted (map (rp_ProviderID \<circ> fst) xs)" unfolding xs .
  moreover have "list_all (\<lambda>r. reg_status r \<noteq> NODE_ACTIVE \<or> heartbeat (rp_ProviderID (reg_provider r)) = Inl True \<or>
      (reg_provider r, the (fresh_capabilities heartbeat decode (rp_ProviderID (reg_provider r)))) \<in> set xs) rows"
    using all by (fastforce simp: list_all_iff mem)
  ultimately show ?thesis using mem by blast
qed

definition ex_registry :: "registry_row list" where
  "ex_registry = map (\<lambda>(i, st). \<lparr>reg_provider = \<lparr>rp_ProviderID = i, rp_PublicKey = [], rp_ProtocolVersion = '''',
     rp_AgentVersion = '''', rp_AgentEndpoint = ''''\<rparr>, reg_status = st\<rparr>)
     [(''p2'', NODE_ACTIVE), (''p1'', NODE_REVOKED), (''p0'', NODE_ACTIVE)]"

definition ex_capability :: ResourceCapability where
  "ex_capability = \<lparr>CpuTotal = Fin 4 0, CpuAvailable = Fin 2 0, RamTotalMb = 8192, RamAvailableMb = 4096, StorageTotalGb = 100,
     StorageAvailableGb = 50, cap_Bandwidth = None, cap_Zone = '''', cap_VirtualizationCapable = False\<rparr>"

theorem ListSchedulableProviders_exact_witness:
  "\<exists>xs. ListSchedulableProviders True ex_registry (\<lambda>i. if i = ''p0'' then Inl True else Inr [])
       (\<lambda>_. Some (''p2'', Some ex_capability)) = Inr xs \<and>
     (reg_provider (ex_registry ! 0), ex_capability) \<in> set xs"
proof -
  let ?h = "\<lambda>i. if i = ''p0'' then Inl True else Inr ([] :: byte list)"
  let ?d = "\<lambda>_ :: byte list. Some (''p2'', Some ex_capability)"
  have "\<exists>xs. ListSchedulableProviders True ex_registry ?h ?d = Inr xs"
    by (simp add: ListSchedulableProviders_def ListActive_def ex_registry_def)
  then obtain xs where xs: "ListSchedulableProviders True ex_registry ?h ?d = Inr xs" by blast
  from ListSchedulableProviders_exact [OF xs, THEN conjunct2, THEN conjunct2] xs show ?thesis
    by (simp add: ex_registry_def fresh_capabilities_def)
qed

end
