(* ===== verification/Backoff.thy ===== *)
theory Backoff
  imports Prelude
begin

text \<open>
  The retry schedule shared by the orchestrator's worker and the provider-registration
  reconciler (\<^verbatim>\<open>RetryPolicy\<close> of orchestrator/worker.go, \<^verbatim>\<open>ReconcilerConfig\<close> of
  providerjoin/reconciler.go): a base delay in nanoseconds doubled per attempt in
  \<^verbatim>\<open>int64\<close> and capped. The loop of either \<^verbatim>\<open>backoffFor\<close> is \<open>doubling\<close>.
\<close>

record RetryPolicy =
  MaxAttempts :: int
  BaseBackoff :: int
  MaxBackoff :: int

definition second :: int where "second = 1000000000"

definition DefaultRetryPolicy :: RetryPolicy where
  "DefaultRetryPolicy = \<lparr>MaxAttempts = 10, BaseBackoff = 5 * second, MaxBackoff = 10 * 60 * second\<rparr>"

definition withDefaults :: "RetryPolicy \<Rightarrow> RetryPolicy" where
  "withDefaults p =
     \<lparr>MaxAttempts = (if MaxAttempts p \<le> 0 then MaxAttempts DefaultRetryPolicy else MaxAttempts p),
      BaseBackoff = (if BaseBackoff p \<le> 0 then BaseBackoff DefaultRetryPolicy else BaseBackoff p),
      MaxBackoff = (if MaxBackoff p \<le> 0 then MaxBackoff DefaultRetryPolicy else MaxBackoff p)\<rparr>"

fun doubling :: "int \<Rightarrow> int \<Rightarrow> nat \<Rightarrow> int" where
  "doubling cap b 0 = (if b > cap then cap else b)"
| "doubling cap b (Suc n) =
     (let b' = i64 (b * 2) in if b' \<le> 0 \<or> b' > cap then cap else doubling cap b' n)"

definition backoffFor :: "RetryPolicy \<Rightarrow> int \<Rightarrow> int" where
  "backoffFor p attempt =
     (let shift = attempt - 1; shift = (if shift > 16 then 16 else shift) in
      doubling (MaxBackoff p) (BaseBackoff p) (nat shift))"

record ReconcilerConfig =
  rc_Interval :: int
  rc_BatchSize :: int
  rc_MaxAttempts :: int
  rc_BaseBackoff :: int
  rc_MaxBackoff :: int

definition DefaultReconcilerConfig :: ReconcilerConfig where
  "DefaultReconcilerConfig = \<lparr>rc_Interval = 15 * second, rc_BatchSize = 20, rc_MaxAttempts = 10,
     rc_BaseBackoff = 5 * second, rc_MaxBackoff = 10 * 60 * second\<rparr>"

definition reconciler_withDefaults :: "ReconcilerConfig \<Rightarrow> ReconcilerConfig" where
  "reconciler_withDefaults c =
     \<lparr>rc_Interval = (if rc_Interval c \<le> 0 then rc_Interval DefaultReconcilerConfig else rc_Interval c),
      rc_BatchSize = (if rc_BatchSize c \<le> 0 then rc_BatchSize DefaultReconcilerConfig else rc_BatchSize c),
      rc_MaxAttempts = (if rc_MaxAttempts c \<le> 0 then rc_MaxAttempts DefaultReconcilerConfig else rc_MaxAttempts c),
      rc_BaseBackoff = (if rc_BaseBackoff c \<le> 0 then rc_BaseBackoff DefaultReconcilerConfig else rc_BaseBackoff c),
      rc_MaxBackoff = (if rc_MaxBackoff c \<le> 0 then rc_MaxBackoff DefaultReconcilerConfig else rc_MaxBackoff c)\<rparr>"

definition reconciler_backoffFor :: "ReconcilerConfig \<Rightarrow> int \<Rightarrow> int" where
  "reconciler_backoffFor c attempt =
     (let shift = attempt - 1; shift = (if shift > 16 then 16 else shift) in
      doubling (rc_MaxBackoff c) (rc_BaseBackoff c) (nat shift))"

section \<open>The schedule\<close>

locale retry_schedule =
  fixes base cap :: int and delay :: "int \<Rightarrow> int"
  assumes delay_def: "1 \<le> attempt \<Longrightarrow> delay attempt = doubling cap base (nat (min (attempt - 1) 16))"
    and base_pos: "0 < base" and cap_pos: "0 < cap" and base_i64: "in_i64 base" and cap_i64: "in_i64 cap"
begin

lemma doubling_min:
  assumes "0 < b" and "in_i64 b"
  shows "doubling cap b n = min (b * 2 ^ n) cap"
  using assms
proof (induction n arbitrary: b)
  case (Suc n)
  show ?case
  proof (cases "b * 2 \<le> cap")
    case True
    then have b2: "in_i64 (b * 2)" using cap_i64 Suc.prems by (simp add: in_i64_def)
    with True Suc.prems Suc.IH [of "b * 2"] show ?thesis by (simp add: i64_id Let_def mult.assoc)
  next
    case False
    have "b * 2 \<le> b * 2 ^ Suc n" using Suc.prems by (intro mult_left_mono) simp_all
    then have "min (b * 2 ^ Suc n) cap = cap" using False by simp
    moreover have "i64 (b * 2) \<le> 0 \<or> i64 (b * 2) > cap"
    proof (cases "in_i64 (b * 2)")
      case True
      with False show ?thesis by (simp add: i64_id)
    next
      case out: False
      with Suc.prems have "2 ^ 63 \<le> b * 2" "b * 2 < 2 ^ 64" by (simp_all add: in_i64_def)
      then have "i64 (b * 2) = b * 2 - 2 ^ 64" by (rule i64_sub)
      with \<open>b * 2 < 2 ^ 64\<close> show ?thesis by simp
    qed
    ultimately show ?thesis by (auto simp: Let_def)
  qed
qed simp

lemma delay_exact: "1 \<le> attempt \<Longrightarrow> delay attempt = min (base * 2 ^ nat (min (attempt - 1) 16)) cap"
  by (simp add: delay_def doubling_min base_pos base_i64)

lemma delay_bounds: "1 \<le> attempt \<Longrightarrow> min base cap \<le> delay attempt \<and> delay attempt \<le> cap"
proof -
  assume a: "1 \<le> attempt"
  have "base * 1 \<le> base * 2 ^ nat (min (attempt - 1) 16)" using base_pos by (intro mult_left_mono) simp_all
  with a show ?thesis by (auto simp: delay_exact)
qed

lemma delay_mono:
  assumes "1 \<le> a" and "a \<le> b"
  shows "delay a \<le> delay b"
proof -
  have "(2::int) ^ nat (min (a - 1) 16) \<le> 2 ^ nat (min (b - 1) 16)"
    using assms by (intro power_increasing nat_mono min.mono) simp_all
  with base_pos have "base * 2 ^ nat (min (a - 1) 16) \<le> base * 2 ^ nat (min (b - 1) 16)" by simp
  with assms show ?thesis by (simp add: delay_exact min.coboundedI1)
qed

end

definition policy_ok :: "RetryPolicy \<Rightarrow> bool" where
  "policy_ok p \<longleftrightarrow> 0 < MaxAttempts p \<and> 0 < BaseBackoff p \<and> 0 < MaxBackoff p \<and> in_i64 (BaseBackoff p) \<and>
     in_i64 (MaxBackoff p)"

lemma nat_capped: "nat (if x > 16 then 16 else x) = nat (min x (16 :: int))"
  by simp

lemma worker_schedule: "policy_ok p \<Longrightarrow> retry_schedule (BaseBackoff p) (MaxBackoff p) (backoffFor p)"
  by unfold_locales (simp_all add: policy_ok_def backoffFor_def Let_def nat_capped min_def)

interpretation worker: retry_schedule "5 * second" "10 * 60 * second" "backoffFor DefaultRetryPolicy"
  by unfold_locales (simp_all add: backoffFor_def Let_def DefaultRetryPolicy_def second_def in_i64_def min_def)

interpretation registrar: retry_schedule "5 * second" "10 * 60 * second" "reconciler_backoffFor DefaultReconcilerConfig"
  by unfold_locales
    (simp_all add: reconciler_backoffFor_def Let_def DefaultReconcilerConfig_def second_def in_i64_def min_def)

lemma withDefaults_ok:
  assumes "in_i64 (BaseBackoff p)" and "in_i64 (MaxBackoff p)"
  shows "policy_ok (withDefaults p)"
  using assms by (simp add: policy_ok_def withDefaults_def DefaultRetryPolicy_def second_def in_i64_def)

text \<open>
  C31. The delay before the next attempt is exactly the base doubled once per earlier attempt,
  at most sixteen times, and never above the cap; the \<^verbatim>\<open>int64\<close> product inside the loop may
  overflow, and the delay is then the cap. It never shrinks from one attempt to the next.
  Filling in the defaults makes any policy safe.
\<close>

theorem backoffFor_exact:
  assumes "in_i64 (BaseBackoff p)" and "in_i64 (MaxBackoff p)" and "1 \<le> a" and "a \<le> b" and "p' = withDefaults p"
  shows "backoffFor p' a = min (BaseBackoff p' * 2 ^ nat (min (a - 1) 16)) (MaxBackoff p') \<and>
    0 < backoffFor p' a \<and> backoffFor p' a \<le> backoffFor p' b"
proof -
  have ok: "policy_ok p'" using assms(1,2,5) by (simp add: withDefaults_ok)
  note sched = worker_schedule [OF ok]
  from retry_schedule.delay_exact [OF sched assms(3)] retry_schedule.delay_bounds [OF sched assms(3)]
    retry_schedule.delay_mono [OF sched assms(3,4)] ok show ?thesis
    by (auto simp: policy_ok_def)
qed

theorem backoffFor_exact_witness:
  "backoffFor (withDefaults \<lparr>MaxAttempts = 0, BaseBackoff = 0, MaxBackoff = 0\<rparr>) 3 = 20 * second \<and>
     backoffFor (withDefaults \<lparr>MaxAttempts = 0, BaseBackoff = 0, MaxBackoff = 0\<rparr>) 3 \<le>
     backoffFor (withDefaults \<lparr>MaxAttempts = 0, BaseBackoff = 0, MaxBackoff = 0\<rparr>) 9"
  using backoffFor_exact [of "\<lparr>MaxAttempts = 0, BaseBackoff = 0, MaxBackoff = 0\<rparr>" 3 9, OF _ _ _ _ refl]
  by (simp add: in_i64_def withDefaults_def DefaultRetryPolicy_def second_def)

end
