(* ===== verification/OpenStack_Types.thy ===== *)
theory OpenStack_Types
  imports Prelude
begin

text \<open>
  The records of the OpenStack packages that other components read: a Cinder volume
  (openstackapi/cinder/cinder.go) and a Neutron security-group rule
  (openstackapi/neutron/securitygroup.go).
\<close>

record Volume =
  VolumeID :: string
  vol_ProjectID :: string
  vol_Name :: string
  vol_SizeGB :: int
  vol_State :: string
  vol_ProviderID :: "string option"
  AttachedWorkloadID :: "string option"
  MountPath :: "string option"
  vol_ReadOnly :: bool
  Encrypted :: bool
  vol_CreatedAt :: int

record SecurityGroupRule =
  RuleID :: string
  rule_SecurityGroupID :: string
  rule_ProjectID :: string
  Direction :: string
  Protocol :: string
  PortRangeMin :: "int option"
  PortRangeMax :: "int option"
  RemoteIPPrefix :: string

end
