(* ===== verification/Orchestrator.thy ===== *)
theory Orchestrator
  imports Workload_Service Workload_Refinement Agent_Manager Backoff OpenStack_Types
begin

text \<open>
  \<^verbatim>\<open>control-plane/internal/orchestrator/worker.go\<close>: one step of the worker, from the claim
  of a workload to its update, over the store interface \<^verbatim>\<open>PersistentStore\<close>. The chain
  registrar, the Agent dispatcher, the overlay and the two OpenStack lookups are parameters
  collected in \<open>worker_env\<close>; each successful external action is recorded as an \<open>event\<close>.
\<close>

section \<open>Interfaces\<close>

record 's PersistentStore =
  ps_ClaimNext :: "'s \<Rightarrow> (workload_error + WorkloadItem) \<times> 's"
  ps_BeginScheduling :: "WorkloadItem \<Rightarrow> 's \<Rightarrow> (workload_error + unit) \<times> 's"
  ps_AssignLease :: "WorkloadItem \<Rightarrow> string \<Rightarrow> byte list \<Rightarrow> ProviderCapacity \<Rightarrow> 's \<Rightarrow> (workload_error + int) \<times> 's"
  ps_MarkLeased :: "WorkloadItem \<Rightarrow> nat \<Rightarrow> 's \<Rightarrow> (workload_error + unit) \<times> 's"
  ps_RetryLater :: "WorkloadItem \<Rightarrow> string \<Rightarrow> int \<Rightarrow> 's \<Rightarrow> (workload_error + unit) \<times> 's"
  ps_MarkFailed :: "WorkloadItem \<Rightarrow> string \<Rightarrow> 's \<Rightarrow> (workload_error + unit) \<times> 's"
  ps_MarkDeploying :: "WorkloadItem \<Rightarrow> nat \<Rightarrow> 's \<Rightarrow> (workload_error + unit) \<times> 's"
  ps_MarkRunning :: "WorkloadItem \<Rightarrow> string \<Rightarrow> 's \<Rightarrow> (workload_error + unit) \<times> 's"
  ps_MarkStopped :: "WorkloadItem \<Rightarrow> nat \<Rightarrow> 's \<Rightarrow> (workload_error + unit) \<times> 's"

record AgentDispatcher =
  ad_DeployAndConfirm :: "RegisteredProvider \<Rightarrow> DeployRequest \<Rightarrow> string + string"
  ad_StopAndConfirm :: "RegisteredProvider \<Rightarrow> string \<Rightarrow> string + unit"
  ad_GetRunningWorkload :: "(RegisteredProvider \<Rightarrow> string \<Rightarrow> string + bool) option"

record OverlayManager =
  ov_Attach :: "string \<Rightarrow> string \<Rightarrow> string \<Rightarrow> int \<Rightarrow> bool"
  ov_AttachWithAllowedIPs :: "(string \<Rightarrow> string \<Rightarrow> string \<Rightarrow> int \<Rightarrow> string list \<Rightarrow> bool) option"
  ov_Revoke :: "string \<Rightarrow> bool"

text \<open>Lookups answer \<open>None\<close> when they fail; an optional dependency that is not set is \<open>None\<close>.\<close>

record worker_env =
  we_providers :: "SchedulableProvider list option"
  we_reputation :: "(byte list \<Rightarrow> (ReputationVector \<times> bool) option) option"
  we_unmarshal :: "byte list \<Rightarrow> WorkloadDefinition option"
  we_sha256 :: "byte list \<Rightarrow> byte list"
  we_platform :: platform
  EnsureLeaseActive :: "nat \<Rightarrow> byte list \<Rightarrow> byte list \<Rightarrow> u32 \<Rightarrow> bool"
  EnsureLeaseCompleted :: "nat \<Rightarrow> bool"
  we_dispatcher :: AgentDispatcher
  we_overlay :: "OverlayManager option"
  we_volumes :: "(string \<Rightarrow> Volume list option) option"
  we_security :: "(string \<Rightarrow> (SecurityGroupRule list \<times> string \<times> bool) option) option"
  we_now :: int

record Worker =
  w_ranker :: Ranker
  w_blockTime :: int
  w_retryPolicy :: RetryPolicy

definition NewWorker :: "Ranker \<Rightarrow> Worker" where
  "NewWorker ranker = \<lparr>w_ranker = ranker, w_blockTime = 3 * second, w_retryPolicy = DefaultRetryPolicy\<rparr>"

definition SetRetryPolicy :: "Worker \<Rightarrow> RetryPolicy \<Rightarrow> Worker" where
  "SetRetryPolicy w policy = w\<lparr>w_retryPolicy := withDefaults policy\<rparr>"

definition SetOverlay :: "Worker \<Rightarrow> worker_env \<Rightarrow> OverlayManager option \<Rightarrow> Worker \<times> worker_env" where
  "SetOverlay w env overlay =
     (w\<lparr>w_ranker := SetWireGuardOverlayEnabled (w_ranker w) (overlay \<noteq> None)\<rparr>, env\<lparr>we_overlay := overlay\<rparr>)"

datatype event =
    LeaseActive nat "byte list" "byte list" u32
  | Deployed string string string
  | Attached string
  | AgentStopped string
  | Revoked string
  | LeaseCompleted nat

datatype worker_error =
    StoreFailed workload_error | Cause string | GaveUp string | BadLeaseID | BadDefinition | Panicked

section \<open>Helpers\<close>

definition retry ::
  "'s PersistentStore \<Rightarrow> Worker \<Rightarrow> WorkloadItem \<Rightarrow> string \<Rightarrow> 's \<Rightarrow> (worker_error + unit) \<times> 's" where
  "retry st w item code s =
     (let attempt = wl_AttemptCount item + 1 in
      if attempt \<ge> MaxAttempts (w_retryPolicy w)
      then (case ps_MarkFailed st item code s of
              (Inl e, s') \<Rightarrow> (Inl (StoreFailed e), s') | (Inr _, s') \<Rightarrow> (Inl (GaveUp code), s'))
      else (case ps_RetryLater st item code (backoffFor (w_retryPolicy w) attempt) s of
              (Inl e, s') \<Rightarrow> (Inl (StoreFailed e), s') | (Inr _, s') \<Rightarrow> (Inl (Cause code), s')))"

definition worker_provider :: "worker_env \<Rightarrow> string \<Rightarrow> SchedulableProvider option" where
  "worker_provider env i =
     (case we_providers env of None \<Rightarrow> None | Some ps \<Rightarrow> find (\<lambda>(p, _). rp_ProviderID p = i) ps)"

definition providerKey :: "worker_env \<Rightarrow> string \<Rightarrow> byte list option" where
  "providerKey env i =
     (case worker_provider env i of
        None \<Rightarrow> None | Some (p, _) \<Rightarrow> if length (rp_PublicKey p) \<noteq> 32 then None else Some (rp_PublicKey p))"

definition no_capacity :: ProviderCapacity where
  "no_capacity = \<lparr>CPUMillicores = 0, RAMMB = 0, StorageGB = 0, cap_IngressMbps = 0, cap_EgressMbps = 0\<rparr>"

definition zero_reputation :: ReputationVector where
  "zero_reputation = \<lparr>Compute = 0, Storage = 0, Network = 0, Availability = 0, Reliability = 0\<rparr>"

definition bandwidth_of :: "ResourceCapability \<Rightarrow> int \<times> int" where
  "bandwidth_of c = (case cap_Bandwidth c of None \<Rightarrow> (0, 0) | Some b \<Rightarrow> (IngressMbps b, EgressMbps b))"

definition candidate_of :: "worker_env \<Rightarrow> SchedulableProvider \<Rightarrow> Candidate" where
  "candidate_of env pc =
     (case pc of (p, c) \<Rightarrow>
      let reputation = (case we_reputation env of
            None \<Rightarrow> None
          | Some latest \<Rightarrow> if length (rp_PublicKey p) = 32 then latest (rp_PublicKey p) else None) in
      \<lparr>cand_ProviderID = rp_ProviderID p, AgentEndpoint = rp_AgentEndpoint p,
       CPUAvailableCores = CpuAvailable c, CPUTotalCores = CpuTotal c,
       RAMAvailableMB = RamAvailableMb c, RAMTotalMB = RamTotalMb c,
       StorageAvailableGB = StorageAvailableGb c, StorageTotalGB = StorageTotalGb c,
       IngressTotalMbps = fst (bandwidth_of c), EgressTotalMbps = snd (bandwidth_of c),
       Reputation = (case reputation of None \<Rightarrow> zero_reputation | Some (v, _) \<Rightarrow> v),
       HasReputation = (case reputation of None \<Rightarrow> False | Some (_, found) \<Rightarrow> found),
       Zone = cap_Zone c, VirtualizationCapable = cap_VirtualizationCapable c\<rparr>)"

definition capacity_of :: "worker_env \<Rightarrow> ResourceCapability \<Rightarrow> ProviderCapacity" where
  "capacity_of env c =
     (let effective = (if we_overlay env \<noteq> None then WireGuardEffectiveMbps else (\<lambda>x. x)) in
      \<lparr>CPUMillicores = CPUCoresToMillicores (we_platform env) (CpuTotal c), RAMMB = RamTotalMb c,
       StorageGB = StorageTotalGb c, cap_IngressMbps = effective (fst (bandwidth_of c)),
       cap_EgressMbps = effective (snd (bandwidth_of c))\<rparr>)"

text \<open>The capacities are a Go map, so a later entry of the same provider replaces an earlier one.\<close>

definition rankableCandidates ::
  "worker_env \<Rightarrow> SchedulableProvider list \<Rightarrow> Candidate list \<times> (string \<Rightarrow> ProviderCapacity)" where
  "rankableCandidates env ps =
     (map (candidate_of env) ps,
      foldl (\<lambda>m (p, c). m(rp_ProviderID p := capacity_of env c)) (\<lambda>_. no_capacity) ps)"

definition workloadEgressMbps :: "WorkloadDefinition \<Rightarrow> int" where
  "workloadEgressMbps d =
     (case Requirements d of
        None \<Rightarrow> 0 | Some q \<Rightarrow> (case Bandwidth q of None \<Rightarrow> 0 | Some b \<Rightarrow> EgressMbps b))"

definition int32PtrOrSentinel :: "int option \<Rightarrow> int" where
  "int32PtrOrSentinel v = (case v of None \<Rightarrow> - 1 | Some x \<Rightarrow> x)"

definition securityGroupRuleProtos :: "SecurityGroupRule list \<Rightarrow> SecurityGroupRuleProto list" where
  "securityGroupRuleProtos rules =
     map (\<lambda>r. \<lparr>pr_Direction = Direction r, pr_Protocol = Protocol r,
        pr_PortRangeMin = int32PtrOrSentinel (PortRangeMin r), pr_PortRangeMax = int32PtrOrSentinel (PortRangeMax r),
        pr_RemoteIpPrefix = RemoteIPPrefix r\<rparr>) rules"

definition derefOrEmpty :: "string option \<Rightarrow> string" where
  "derefOrEmpty s = (case s of None \<Rightarrow> '''' | Some x \<Rightarrow> x)"

definition canonicalResourceHash :: "worker_env \<Rightarrow> byte list \<Rightarrow> string \<Rightarrow> byte list" where
  "canonicalResourceHash env definition' img =
     we_sha256 env (bytes_of ''openinfra-resource-v1'' @ [0] @ definition' @ [0] @ bytes_of img)"

definition leaseBlocks :: "Worker \<Rightarrow> WorkloadDefinition \<Rightarrow> u32" where
  "leaseBlocks w d =
     word_of_int (go_div (i64 (i64 (i64 (DurationSeconds d * second) + w_blockTime w) - 1)) (w_blockTime w))"

section \<open>Explaining an empty ranking\<close>

fun dedupeFrom :: "string list \<Rightarrow> string list \<Rightarrow> string list" where
  "dedupeFrom seen [] = []"
| "dedupeFrom seen (x # xs) = (if x \<in> set seen then dedupeFrom seen xs else x # dedupeFrom (x # seen) xs)"

definition dedupeOrdered :: "string list \<Rightarrow> string list" where
  "dedupeOrdered items = dedupeFrom [] items"

definition dedupeOrderedBounded :: "string list \<Rightarrow> nat \<Rightarrow> string list \<times> nat" where
  "dedupeOrderedBounded items m =
     (let values = dedupeOrdered items in
      if length values \<le> m then (values, 0) else (take m values, length values - m))"

fun strings_Join :: "string list \<Rightarrow> string \<Rightarrow> string" where
  "strings_Join [] sep = ''''"
| "strings_Join [x] sep = x"
| "strings_Join (x # y # xs) sep = x @ sep @ strings_Join (y # xs) sep"

definition joinWithOverflow :: "string list \<Rightarrow> nat \<Rightarrow> string" where
  "joinWithOverflow items truncatedBy =
     (if truncatedBy > 0 then strings_Join items '', '' @ '', and '' @ show_nat truncatedBy @ '' more''
      else strings_Join items '', '')"

definition maxDistinctExclusionReasons :: nat where "maxDistinctExclusionReasons = 5"

text \<open>The arguments of the message; its wording is left out.\<close>

datatype no_provider = NoneExcluded | NoZoneDeclared nat string | ZonesPresent nat string string | Reasons nat string

definition noEligibleProviderError :: "Exclusion list \<Rightarrow> Candidate list \<Rightarrow> string \<Rightarrow> no_provider" where
  "noEligibleProviderError excluded candidates requiredZone =
     (if excluded = [] then NoneExcluded
      else
        let (reasons, truncatedReasons) =
              dedupeOrderedBounded (map excl_Reason excluded) maxDistinctExclusionReasons in
        if (\<forall>e \<in> set excluded. excl_Reason e = ReasonZoneMismatch) \<and> requiredZone \<noteq> ''''
        then
          let zoneOf = foldl (\<lambda>m c. m(cand_ProviderID c := Zone c)) (\<lambda>_. '''') candidates;
              allZones = sort (dedupeOrdered (filter (\<lambda>z. z \<noteq> '''') (map (\<lambda>e. zoneOf (excl_ProviderID e)) excluded)));
              zones = take maxDistinctExclusionReasons allZones in
          if zones = [] then NoZoneDeclared (length excluded) requiredZone
          else ZonesPresent (length excluded) requiredZone
                 (joinWithOverflow zones (length allZones - maxDistinctExclusionReasons))
        else Reasons (length excluded) (joinWithOverflow reasons truncatedReasons))"

section \<open>One step of the worker\<close>

type_synonym 's worker_step = "(worker_error + unit) \<times> 's \<times> event list"

definition stored :: "(workload_error + 'a) \<times> 's \<Rightarrow> event list \<Rightarrow> 's worker_step" where
  "stored r es = (case r of (Inl e, s) \<Rightarrow> (Inl (StoreFailed e), s, es) | (Inr _, s) \<Rightarrow> (Inr (), s, es))"

definition retried :: "(worker_error + unit) \<times> 's \<Rightarrow> event list \<Rightarrow> 's worker_step" where
  "retried r es = (fst r, snd r, es)"

definition scheduleItem ::
  "'s PersistentStore \<Rightarrow> worker_env \<Rightarrow> Worker \<Rightarrow> WorkloadItem \<Rightarrow> 's \<Rightarrow> 's worker_step" where
  "scheduleItem st env w item s =
     (case we_unmarshal env (wl_Definition item) of
        None \<Rightarrow> retried (retry st w item ''INVALID_DEFINITION'' s) []
      | Some d \<Rightarrow>
     (case we_providers env of
        None \<Rightarrow> retried (retry st w item ''DIRECTORY_UNAVAILABLE'' s) []
      | Some ps \<Rightarrow>
          let (candidates, capacities) = rankableCandidates env ps in
          (case Rank (we_platform env) (w_ranker w) (Profile d) (Requirements d) (Constraints d) candidates of
             None \<Rightarrow> (Inl Panicked, s, [])
           | Some decision \<Rightarrow>
               (case Selected decision of
                  None \<Rightarrow> retried (retry st w item ''NO_CAPACITY'' s) []
                | Some score \<Rightarrow>
                    (case ps_AssignLease st item (ProviderID score)
                            (canonicalResourceHash env (wl_Definition item) (wl_Image item))
                            (capacities (ProviderID score)) s of
                       (Inl e, s') \<Rightarrow>
                         if e = ErrCapacityExceeded \<or> e = ErrConflict
                         then retried (retry st w item ''NO_CAPACITY'' s') []
                         else (Inl (StoreFailed e), s', [])
                     | (Inr _, s') \<Rightarrow> (Inr (), s', []))))))"

definition leaseItem ::
  "'s PersistentStore \<Rightarrow> worker_env \<Rightarrow> Worker \<Rightarrow> WorkloadItem \<Rightarrow> 's \<Rightarrow> 's worker_step" where
  "leaseItem st env w item s =
     (case ParseUint (wl_LeaseID item) of
        None \<Rightarrow> (Inl BadLeaseID, s, [])
      | Some leaseID \<Rightarrow>
     (case providerKey env (wl_ProviderID item) of
        None \<Rightarrow> retried (retry st w item ''PROVIDER_UNAVAILABLE'' s) []
      | Some key \<Rightarrow>
     (case we_unmarshal env (wl_Definition item) of
        None \<Rightarrow> (Inl BadDefinition, s, [])
      | Some d \<Rightarrow>
          if \<not> EnsureLeaseActive env leaseID key (wl_ResourceHash item) (leaseBlocks w d)
          then retried (retry st w item ''LEASE_NOT_FINALIZED'' s) []
          else stored (ps_MarkLeased st item leaseID s)
                 [LeaseActive leaseID key (wl_ResourceHash item) (leaseBlocks w d)])))"

definition deployRequest :: "worker_env \<Rightarrow> WorkloadItem \<Rightarrow> WorkloadDefinition \<Rightarrow> ResourceRequirements \<Rightarrow> DeployRequest" where
  "deployRequest env item d q =
     (let vm = (case Constraints d of None \<Rightarrow> False | Some c \<Rightarrow> RequiresVm c) in
      \<lparr>dr_WorkloadId = wl_WorkloadID item, dr_LeaseId = wl_LeaseID item,
       dr_Image = (if vm then '''' else wl_Image item),
       dr_Limits = \<lparr>CpuCores = Cpu q, MemoryMb = RamMb q, lim_EgressMbps = workloadEgressMbps d\<rparr>,
       dr_LeaseEnd = we_now env + DurationSeconds d * second,
       dr_Runtime = (if vm then RUNTIME_VM else RUNTIME_UNSPECIFIED),
       dr_Vm = (if vm then Some (wl_Image item, wl_VmImageSha256 item) else None),
       dr_Volumes = [], dr_SecurityContext = None\<rparr>)"

definition attachVolumes :: "worker_env \<Rightarrow> WorkloadItem \<Rightarrow> DeployRequest \<Rightarrow> DeployRequest option" where
  "attachVolumes env item request =
     (case we_volumes env of
        None \<Rightarrow> Some request
      | Some attachedTo \<Rightarrow>
          map_option (\<lambda>vs. request\<lparr>dr_Volumes := map (\<lambda>v. \<lparr>va_VolumeId = VolumeID v,
              va_MountPath = derefOrEmpty (MountPath v), va_ReadOnly = vol_ReadOnly v\<rparr>) vs\<rparr>)
            (attachedTo (wl_WorkloadID item)))"

definition resolveSecurity :: "worker_env \<Rightarrow> WorkloadItem \<Rightarrow> DeployRequest \<Rightarrow> (DeployRequest \<times> string) option" where
  "resolveSecurity env item request =
     (case we_security env of
        None \<Rightarrow> Some (request, '''')
      | Some resolve \<Rightarrow>
          map_option (\<lambda>(rules, fixedIP, hasPort).
              if hasPort then (request\<lparr>dr_SecurityContext := Some (securityGroupRuleProtos rules)\<rparr>, fixedIP)
              else (request, ''''))
            (resolve (wl_WorkloadID item)))"

definition attachOverlay :: "worker_env \<Rightarrow> WorkloadItem \<Rightarrow> string \<Rightarrow> int \<Rightarrow> string \<Rightarrow> bool" where
  "attachOverlay env item containerID expiry boundFixedIP =
     (case we_overlay env of
        None \<Rightarrow> True
      | Some overlay \<Rightarrow>
          (case ov_AttachWithAllowedIPs overlay of
             Some attach \<Rightarrow>
               if boundFixedIP \<noteq> ''''
               then attach (wl_WorkloadID item) (wl_LeaseID item) containerID expiry [boundFixedIP @ ''/32'']
               else ov_Attach overlay (wl_WorkloadID item) (wl_LeaseID item) containerID expiry
           | None \<Rightarrow> ov_Attach overlay (wl_WorkloadID item) (wl_LeaseID item) containerID expiry))"

definition dispatchItem ::
  "'s PersistentStore \<Rightarrow> worker_env \<Rightarrow> Worker \<Rightarrow> WorkloadItem \<Rightarrow> RegisteredProvider \<Rightarrow> DeployRequest \<Rightarrow> string \<Rightarrow> 's
     \<Rightarrow> 's worker_step" where
  "dispatchItem st env w item p request boundFixedIP s =
     (case ad_DeployAndConfirm (we_dispatcher env) p request of
        Inl _ \<Rightarrow> retried (retry st w item ''AGENT_DEPLOY_FAILED'' s) []
      | Inr containerID \<Rightarrow>
          let deployed = Deployed (rp_ProviderID p) (wl_WorkloadID item) containerID in
          if \<not> attachOverlay env item containerID (dr_LeaseEnd request) boundFixedIP
          then retried (retry st w item ''OVERLAY_ATTACH_FAILED'' s)
                 (deployed # (case ad_StopAndConfirm (we_dispatcher env) p (wl_WorkloadID item) of
                    Inl _ \<Rightarrow> [] | Inr _ \<Rightarrow> [AgentStopped (wl_WorkloadID item)]))
          else stored (ps_MarkRunning st item containerID s)
                 (deployed # (if we_overlay env = None then [] else [Attached (wl_WorkloadID item)])))"

definition deployItem ::
  "'s PersistentStore \<Rightarrow> worker_env \<Rightarrow> Worker \<Rightarrow> WorkloadItem \<Rightarrow> 's \<Rightarrow> 's worker_step" where
  "deployItem st env w item s =
     (case worker_provider env (wl_ProviderID item) of
        None \<Rightarrow> retried (retry st w item ''PROVIDER_UNAVAILABLE'' s) []
      | Some (p, _) \<Rightarrow>
     (case we_unmarshal env (wl_Definition item) of
        None \<Rightarrow> (Inl BadDefinition, s, [])
      | Some d \<Rightarrow>
          if (case ad_GetRunningWorkload (we_dispatcher env) of
                None \<Rightarrow> False | Some status \<Rightarrow> wl_AttemptCount item > 0 \<and> isl (status p (wl_WorkloadID item)))
          then retried (retry st w item ''AGENT_STATUS_UNKNOWN'' s) []
          else (case Requirements d of
             None \<Rightarrow> (Inl Panicked, s, [])
           | Some q \<Rightarrow>
               (case attachVolumes env item (deployRequest env item d q) of
                  None \<Rightarrow> retried (retry st w item ''VOLUME_LOOKUP_FAILED'' s) []
                | Some request \<Rightarrow>
                    (case resolveSecurity env item request of
                       None \<Rightarrow> retried (retry st w item ''SECURITY_GROUP_LOOKUP_FAILED'' s) []
                     | Some (request, boundFixedIP) \<Rightarrow> dispatchItem st env w item p request boundFixedIP s)))))"

definition stopItem ::
  "'s PersistentStore \<Rightarrow> worker_env \<Rightarrow> Worker \<Rightarrow> WorkloadItem \<Rightarrow> 's \<Rightarrow> 's worker_step" where
  "stopItem st env w item s =
     (case ParseUint (wl_LeaseID item) of
        None \<Rightarrow> (Inl BadLeaseID, s, [])
      | Some leaseID \<Rightarrow>
     (case worker_provider env (wl_ProviderID item) of
        None \<Rightarrow> retried (retry st w item ''PROVIDER_UNAVAILABLE'' s) []
      | Some (p, _) \<Rightarrow>
     (case ad_StopAndConfirm (we_dispatcher env) p (wl_WorkloadID item) of
        Inl _ \<Rightarrow> retried (retry st w item ''AGENT_STOP_FAILED'' s) []
      | Inr _ \<Rightarrow>
          let es = [AgentStopped (wl_WorkloadID item)] in
          if (case we_overlay env of None \<Rightarrow> False | Some overlay \<Rightarrow> \<not> ov_Revoke overlay (wl_WorkloadID item))
          then retried (retry st w item ''OVERLAY_REVOKE_FAILED'' s) es
          else let es = es @ (if we_overlay env = None then [] else [Revoked (wl_WorkloadID item)]) in
               if \<not> EnsureLeaseCompleted env leaseID
               then retried (retry st w item ''LEASE_COMPLETION_NOT_FINALIZED'' s) es
               else stored (ps_MarkStopped st item leaseID s) (es @ [LeaseCompleted leaseID]))))"

definition processItem ::
  "'s PersistentStore \<Rightarrow> worker_env \<Rightarrow> Worker \<Rightarrow> WorkloadItem \<Rightarrow> 's \<Rightarrow> 's worker_step" where
  "processItem st env w item s =
     (case wl_State item of
        REQUESTED \<Rightarrow> stored (ps_BeginScheduling st item s) []
      | SCHEDULING \<Rightarrow> scheduleItem st env w item s
      | LEASE_PENDING \<Rightarrow> leaseItem st env w item s
      | LEASED \<Rightarrow>
          (case ParseUint (wl_LeaseID item) of
             None \<Rightarrow> (Inl BadLeaseID, s, []) | Some leaseID \<Rightarrow> stored (ps_MarkDeploying st item leaseID s) [])
      | DEPLOYING \<Rightarrow> deployItem st env w item s
      | STOPPING \<Rightarrow> stopItem st env w item s
      | _ \<Rightarrow> (Inr (), s, []))"

definition processOne :: "'s PersistentStore \<Rightarrow> worker_env \<Rightarrow> Worker \<Rightarrow> 's \<Rightarrow> 's worker_step" where
  "processOne st env w s =
     (case ps_ClaimNext st s of
        (Inl e, s') \<Rightarrow> (Inl (StoreFailed e), s', []) | (Inr item, s') \<Rightarrow> processItem st env w item s')"

definition postgres_store ::
  "db_call \<Rightarrow> db_call \<Rightarrow> (string \<Rightarrow> bool) \<Rightarrow> string \<Rightarrow> workload_store PersistentStore" where
  "postgres_store c1 c2 locked workerID =
     \<lparr>ps_ClaimNext = (\<lambda>s. ClaimNext c1 locked s workerID (2 * 60 * second)),
      ps_BeginScheduling = (\<lambda>item s. BeginScheduling c2 s item),
      ps_AssignLease = (\<lambda>item p h cap s. AssignLease c2 s item p h cap),
      ps_MarkLeased = (\<lambda>item i s. MarkLeased c2 s item i),
      ps_RetryLater = (\<lambda>item code delay s. RetryLater c2 s item code delay),
      ps_MarkFailed = (\<lambda>item code s. MarkFailed c2 s item code),
      ps_MarkDeploying = (\<lambda>item i s. MarkDeploying c2 s item i),
      ps_MarkRunning = (\<lambda>item cid s. MarkRunning c2 s item cid),
      ps_MarkStopped = (\<lambda>item i s. MarkStopped c2 s item i)\<rparr>"

text \<open>The dispatcher the control plane wires in: the verified client of \<open>Agent_Manager\<close>.\<close>

definition client_dispatcher :: "network \<Rightarrow> AgentDispatcher" where
  "client_dispatcher net = \<lparr>ad_DeployAndConfirm = DeployAndConfirm net, ad_StopAndConfirm = StopAndConfirm net,
     ad_GetRunningWorkload = Some (GetRunningWorkload net)\<rparr>"

end
