(* ===== verification/Orchestration.thy ===== *)
theory Orchestration
  imports Orchestrator
begin

text \<open>
  What the worker does to the table. The interface \<^verbatim>\<open>PersistentStore\<close> is the locale
  \<open>persistent_store\<close>, proved of the PostgreSQL store; the transition system
  \<open>orchestration\<close> lets any number of workers, tenants and heartbeats interleave, a claim and
  the work on it being separate steps, and keeps the external events and how often each
  workload has been worked on.
\<close>

section \<open>The store interface\<close>

locale persistent_store =
  fixes st :: "'s PersistentStore" and inv :: "'s \<Rightarrow> bool" and later :: "'s \<Rightarrow> 's \<Rightarrow> bool"
  assumes later_refl: "later s s"
    and later_trans: "later s s' \<Longrightarrow> later s' s'' \<Longrightarrow> later s s''"
    and claim: "inv s \<Longrightarrow> ps_ClaimNext st s = (r, s') \<Longrightarrow> inv s' \<and> later s s'"
    and begin_scheduling: "inv s \<Longrightarrow> ps_BeginScheduling st item s = (r', s') \<Longrightarrow> inv s' \<and> later s s'"
    and assign: "inv s \<Longrightarrow> length h = 32 \<Longrightarrow> ps_AssignLease st item p h cap s = (r'', s') \<Longrightarrow> inv s' \<and> later s s'"
    and leased: "inv s \<Longrightarrow> ps_MarkLeased st item i s = (r', s') \<Longrightarrow> inv s' \<and> later s s'"
    and retry_later: "inv s \<Longrightarrow> ps_RetryLater st item code d s = (r', s') \<Longrightarrow> inv s' \<and> later s s'"
    and failed: "inv s \<Longrightarrow> ps_MarkFailed st item code s = (r', s') \<Longrightarrow> inv s' \<and> later s s'"
    and deploying: "inv s \<Longrightarrow> ps_MarkDeploying st item i s = (r', s') \<Longrightarrow> inv s' \<and> later s s'"
    and running: "inv s \<Longrightarrow> ps_MarkRunning st item cid s = (r', s') \<Longrightarrow> inv s' \<and> later s s'"
    and stopped: "inv s \<Longrightarrow> ps_MarkStopped st item i s = (r', s') \<Longrightarrow> inv s' \<and> later s s'"
begin

definition safe :: "'s \<Rightarrow> 's worker_step \<Rightarrow> bool" where
  "safe s x \<longleftrightarrow> inv (fst (snd x)) \<and> later s (fst (snd x))"

lemma safe_stay [simp]: "inv s \<Longrightarrow> safe s (r, s, es)"
  by (simp add: safe_def later_refl)

lemma safe_stored: "inv (snd r) \<Longrightarrow> later s (snd r) \<Longrightarrow> safe s (stored r es)"
  by (auto simp: safe_def stored_def split: sum.splits prod.splits)

lemma retry_safe: "inv s \<Longrightarrow> inv (snd (retry st w item code s)) \<and> later s (snd (retry st w item code s))"
  by (auto simp: retry_def Let_def split: sum.splits prod.splits dest: failed retry_later)

lemma safe_retried [simp]: "inv s \<Longrightarrow> safe s (retried (retry st w item code s) es)"
  by (simp add: safe_def retried_def retry_safe)

lemma safe_store_ops [simp]:
  assumes "inv s"
  shows "safe s (stored (ps_BeginScheduling st item s) es)" "safe s (stored (ps_MarkLeased st item i s) es)"
    "safe s (stored (ps_MarkDeploying st item i s) es)" "safe s (stored (ps_MarkRunning st item cid s) es)"
    "safe s (stored (ps_MarkStopped st item i s) es)"
  using begin_scheduling [OF assms surjective_pairing] leased [OF assms surjective_pairing]
    deploying [OF assms surjective_pairing] running [OF assms surjective_pairing] stopped [OF assms surjective_pairing]
  by (auto intro: safe_stored)

lemma schedule_safe:
  assumes "inv s" and "\<And>x. length (we_sha256 env x) = 32"
  shows "safe s (scheduleItem st env w item s)"
proof -
  have "safe s (case ps_AssignLease st item p (canonicalResourceHash env d img) cap s of
      (Inl e, s') \<Rightarrow> if e = ErrCapacityExceeded \<or> e = ErrConflict
        then retried (retry st w item ''NO_CAPACITY'' s') [] else (Inl (StoreFailed e), s', [])
    | (Inr _, s') \<Rightarrow> (Inr (), s', []))" for p d img cap
  proof (cases "ps_AssignLease st item p (canonicalResourceHash env d img) cap s")
    case (Pair r s')
    with assign [OF assms(1), of "canonicalResourceHash env d img"] assms(2)
    have s': "inv s'" "later s s'" by (auto simp: canonicalResourceHash_def)
    with retry_safe [OF s'(1)] later_trans [OF s'(2)] Pair show ?thesis
      by (auto simp: safe_def retried_def split: sum.splits)
  qed
  with assms(1) show ?thesis
    by (auto simp: scheduleItem_def Let_def rankableCandidates_def split: option.splits)
qed

lemma item_safe:
  assumes "inv s"
  shows "safe s (leaseItem st env w item s)" "safe s (deployItem st env w item s)" "safe s (stopItem st env w item s)"
  using assms
  by (auto simp: leaseItem_def deployItem_def dispatchItem_def stopItem_def Let_def
    split: option.splits sum.splits prod.splits)

lemma processItem_safe:
  assumes "inv s" and "\<And>x. length (we_sha256 env x) = 32"
  shows "safe s (processItem st env w item s)"
  using assms schedule_safe [OF assms, of w item] item_safe [OF assms(1)]
  by (auto simp: processItem_def split: workload_state.splits option.splits)

lemma processOne_safe:
  assumes "inv s" and "\<And>x. length (we_sha256 env x) = 32"
  shows "safe s (processOne st env w s)"
proof (cases "ps_ClaimNext st s")
  case (Pair r s')
  with claim [OF assms(1)] have s': "inv s'" "later s s'" by auto
  with Pair processItem_safe [OF s'(1) assms(2)] later_trans [OF s'(2)] show ?thesis
    by (auto simp: processOne_def safe_def split: sum.splits)
qed

end

section \<open>The PostgreSQL store\<close>

definition rows_later :: "workload_store \<Rightarrow> workload_store \<Rightarrow> bool" where
  "rows_later s s' \<longleftrightarrow> (\<forall>r \<in> set (ws_rows s). \<exists>r' \<in> set (ws_rows s'). row_later r r')"

lemma rows_later_refl: "rows_later s s"
  by (auto simp: rows_later_def intro: row_later_refl)

lemma rows_later_trans: "rows_later s s' \<Longrightarrow> rows_later s' s'' \<Longrightarrow> rows_later s s''"
  unfolding rows_later_def by (blast intro: row_later_trans)

lemma rows_later_ids: "rows_later s s' \<Longrightarrow> w_workload_id ` set (ws_rows s) \<subseteq> w_workload_id ` set (ws_rows s')"
proof (rule image_subsetI)
  fix r assume "rows_later s s'" and "r \<in> set (ws_rows s)"
  then obtain r' where "r' \<in> set (ws_rows s')" "row_later r r'" by (auto simp: rows_later_def)
  then show "w_workload_id r \<in> w_workload_id ` set (ws_rows s')"
    by (metis imageI row_later_def same_request_def)
qed

lemma rows_later_run: "system_run cap (s, C) (s', C') \<Longrightarrow> store_inv s \<Longrightarrow> rows_later s s'"
  unfolding rows_later_def using system_run_row [of cap "(s, C)" "(s', C')"] by auto

lemma rows_later_step: "system_step cap (s, C) (s', C') \<Longrightarrow> store_inv s \<Longrightarrow> rows_later s s'"
  by (rule rows_later_run) auto

lemma safe_step:
  assumes "system_step cap (s, C) (s', C')" and "store_inv s"
  shows "store_inv s' \<and> rows_later s s'"
  using system_step_inv [OF assms(1)] rows_later_step [OF assms] assms(2) by simp

lemma table_safe:
  assumes "table_step s s'" and "store_inv s"
  shows "store_inv s' \<and> rows_later s s'"
proof
  show "store_inv s'" using assms(2,1) by (rule table_step_inv)
  show "rows_later s s'"
    unfolding rows_later_def
  proof
    fix r assume "r \<in> set (ws_rows s)"
    moreover have "rows_step (ws_rows s) (ws_rows s')" using assms(1) by (simp add: table_step_def)
    ultimately obtain r' where "r' \<in> set (ws_rows s')" "r' = r \<or> row_step r r'" using rows_step_mem by blast
    then show "\<exists>r' \<in> set (ws_rows s'). row_later r r'" by (auto intro: row_later_refl row_later_row_step)
  qed
qed

lemma postgres_step:
  assumes "store_inv s"
  shows "ClaimNext c locked s workerID lease = (r, s') \<Longrightarrow> store_inv s' \<and> rows_later s s'"
    "BeginScheduling c s item = (u, s') \<Longrightarrow> store_inv s' \<and> rows_later s s'"
    "length h = 32 \<Longrightarrow> AssignLease c s item p h cap = (i', s') \<Longrightarrow> store_inv s' \<and> rows_later s s'"
    "MarkLeased c s item i = (u, s') \<Longrightarrow> store_inv s' \<and> rows_later s s'"
    "RetryLater c s item code d = (u, s') \<Longrightarrow> store_inv s' \<and> rows_later s s'"
    "MarkFailed c s item code = (u, s') \<Longrightarrow> store_inv s' \<and> rows_later s s'"
    "MarkDeploying c s item i = (u, s') \<Longrightarrow> store_inv s' \<and> rows_later s s'"
    "MarkRunning c s item cid = (u, s') \<Longrightarrow> store_inv s' \<and> rows_later s s'"
    "MarkStopped c s item i = (u, s') \<Longrightarrow> store_inv s' \<and> rows_later s s'"
proof -
  note table = table_safe [OF _ assms]
  show "ClaimNext c locked s workerID lease = (r, s') \<Longrightarrow> store_inv s' \<and> rows_later s s'"
    by (rule table) (rule ClaimNext_step)
  show "BeginScheduling c s item = (u, s') \<Longrightarrow> store_inv s' \<and> rows_later s s'"
    by (rule table) (rule worker_updates_step(1))
  show "MarkLeased c s item i = (u, s') \<Longrightarrow> store_inv s' \<and> rows_later s s'"
    by (rule table) (rule worker_updates_step(2))
  show "MarkDeploying c s item i = (u, s') \<Longrightarrow> store_inv s' \<and> rows_later s s'"
    by (rule table) (rule worker_updates_step(3))
  show "MarkStopped c s item i = (u, s') \<Longrightarrow> store_inv s' \<and> rows_later s s'"
    by (rule table) (rule worker_updates_step(4))
  show "RetryLater c s item code d = (u, s') \<Longrightarrow> store_inv s' \<and> rows_later s s'"
    by (rule table) (rule worker_updates_step(5))
  show "MarkFailed c s item code = (u, s') \<Longrightarrow> store_inv s' \<and> rows_later s s'"
    by (rule table) (rule worker_updates_step(6))
  show "MarkRunning c s item cid = (u, s') \<Longrightarrow> store_inv s' \<and> rows_later s s'"
    by (rule table) (rule MarkRunning_step)
  show "length h = 32 \<Longrightarrow> AssignLease c s item p h cap = (i', s') \<Longrightarrow> store_inv s' \<and> rows_later s s'"
    by (rule safe_step [OF system_step.assign [of item "{item}" h cap "\<lambda>_. cap" p c s] assms]) simp_all
qed

interpretation pg: persistent_store "postgres_store c1 c2 locked workerID" store_inv rows_later
  for c1 c2 locked workerID
  by unfold_locales
    (auto simp: postgres_store_def intro: rows_later_refl rows_later_trans dest: postgres_step)

text \<open>
  Whatever the directory, the chain, the Agents, the overlay and the database answer, one
  step of the worker keeps the table well formed, and every row it leaves behind is a later
  version of the row it found.
\<close>

theorem processOne_keeps_store:
  assumes "store_inv s" and "\<forall>x. length (we_sha256 env x) = 32"
    and "processOne (postgres_store c1 c2 locked workerID) env w s = (r, s', es)"
  shows "store_inv s' \<and> rows_later s s'"
  using pg.processOne_safe [OF assms(1), of env c1 c2 locked workerID w] assms(2,3)
  by (simp add: pg.safe_def)

section \<open>What one piece of work changes\<close>

definition replaced :: "workload_store \<Rightarrow> workload_store \<Rightarrow> workload_row \<Rightarrow> workload_row \<Rightarrow> bool" where
  "replaced s s' row row' \<longleftrightarrow>
     row \<in> set (ws_rows s) \<and> ws_rows s' = map (\<lambda>r. if r = row then row' else r) (ws_rows s)"

definition effect :: "db_call \<Rightarrow> WorkloadItem \<Rightarrow> (workload_row \<Rightarrow> workload_row \<Rightarrow> bool) \<Rightarrow> workload_store \<Rightarrow> workload_store \<Rightarrow> bool" where
  "effect c item Q s s' \<longleftrightarrow>
     s' = s \<or> (\<exists>row row'. replaced s s' row row' \<and> held c item row \<and> row_later row row' \<and> Q row row')"

lemma effect_stay [simp]: "effect c item Q s s"
  by (simp add: effect_def)

lemma effect_mono: "effect c item Q s s' \<Longrightarrow> (\<And>r r'. Q r r' \<Longrightarrow> Q' r r') \<Longrightarrow> effect c item Q' s s'"
  unfolding effect_def by blast

lemma update_held:
  assumes "distinct (map w_workload_id rows)" and "row \<in> set rows" and "held c item row" and "g row"
  shows "update_where (\<lambda>r. held c item r \<and> g r) change rows = map (\<lambda>r. if r = row then change row else r) rows"
proof -
  have "(held c item r \<and> g r) = (r = row)" if "r \<in> set rows" for r
    using held_unique [OF assms(1,2) that assms(3)] assms(3,4) by blast
  then show ?thesis by (auto simp: update_where_def)
qed

lemma guardedUpdate_effect:
  assumes "store_inv s" and "guardedUpdate c s (\<lambda>r. held c item r \<and> g r) change = (res, s')"
    and "\<And>r. held c item r \<Longrightarrow> g r \<Longrightarrow> row_later r (change r) \<and> Q r (change r)"
  shows "effect c item Q s s'"
proof (cases "\<exists>row \<in> set (ws_rows s). held c item row \<and> g row")
  case True
  then obtain row where row: "row \<in> set (ws_rows s)" "held c item row" "g row" by blast
  have "distinct (map w_workload_id (ws_rows s))" using assms(1) by (simp add: store_inv_def)
  from update_held [OF this row(1,2), of g change] row(3) assms(2)
  have "s' = s \<or> replaced s s' row (change row)"
    using row(1) by (auto simp: guardedUpdate_def replaced_def split: if_splits)
  with assms(3) row show ?thesis unfolding effect_def by blast
next
  case False
  with guardedUpdate_none [of s "\<lambda>r. held c item r \<and> g r" c change] assms(2) show ?thesis
    by (auto simp: effect_def)
qed

fun stage :: "workload_state \<Rightarrow> int" where
  "stage REQUESTED = 0"
| "stage SCHEDULING = 1"
| "stage LEASE_PENDING = 2"
| "stage LEASED = 3"
| "stage DEPLOYING = 4"
| "stage RUNNING = 5"
| "stage STOPPING = 6"
| "stage _ = 7"

definition under_lease :: "workload_state \<Rightarrow> bool" where
  "under_lease st \<longleftrightarrow> st \<in> {LEASED, DEPLOYING, RUNNING}"

lemma under_lease_simps [simp]:
  "under_lease LEASED" "under_lease DEPLOYING" "under_lease RUNNING" "\<not> under_lease REQUESTED"
  "\<not> under_lease SCHEDULING" "\<not> under_lease LEASE_PENDING" "\<not> under_lease STOPPING" "\<not> under_lease STOPPED"
  "\<not> under_lease COMPLETED" "\<not> under_lease FAILED"
  by (simp_all add: under_lease_def)

definition progress :: "workload_row \<Rightarrow> int" where
  "progress r = w_attempt_count r + stage (w_state r)"

lemma edge_stage: "edge st st' \<Longrightarrow> stage st \<le> stage st'"
  by (cases st; cases st') (auto elim: edge.cases)

lemma stage_bounds: "0 \<le> stage st" "stage st \<le> 7" "st \<notin> terminal_states \<Longrightarrow> stage st < 7"
  by (cases st; simp)+

lemma stage_terminal: "stage st = 7 \<longleftrightarrow> st \<in> terminal_states"
  by (cases st) simp_all

definition moved :: "workload_state \<Rightarrow> workload_state \<Rightarrow> workload_row \<Rightarrow> workload_row \<Rightarrow> bool" where
  "moved st0 st r r' \<longleftrightarrow> w_attempt_count r' = w_attempt_count r \<and> w_state r = st0 \<and> w_state r' = st \<and>
     stage st0 < stage st \<and>
     (if st = LEASE_PENDING then w_lease_id r' \<noteq> None \<and> w_resource_hash r' \<noteq> None
      else w_lease_id r' = w_lease_id r \<and> w_resource_hash r' = w_resource_hash r)"

definition attempted :: "Worker \<Rightarrow> WorkloadItem \<Rightarrow> workload_row \<Rightarrow> workload_row \<Rightarrow> bool" where
  "attempted w item r r' \<longleftrightarrow> w_attempt_count r' = w_attempt_count r + 1 \<and> w_state r \<notin> terminal_states \<and>
     (w_state r' = FAILED \<or> w_state r' = w_state r \<and> wl_AttemptCount item + 1 < MaxAttempts (w_retryPolicy w)) \<and>
     w_lease_id r' = w_lease_id r \<and> w_resource_hash r' = w_resource_hash r"

lemmas effect_rules = row_later_row_step moved_def attempted_def row_defs

lemma worker_effects:
  assumes "store_inv s"
  shows "BeginScheduling c s item = (u, s') \<Longrightarrow> effect c item (moved REQUESTED SCHEDULING) s s'"
    "MarkLeased c s item i = (u, s') \<Longrightarrow> effect c item (\<lambda>r r'. moved LEASE_PENDING LEASED r r' \<and> w_lease_id r = Some (int i)) s s'"
    "MarkDeploying c s item i = (u, s') \<Longrightarrow> effect c item (moved LEASED DEPLOYING) s s'"
    "MarkRunning c s item cid = (u, s') \<Longrightarrow> effect c item (moved DEPLOYING RUNNING) s s'"
    "MarkStopped c s item i = (u, s') \<Longrightarrow> effect c item (moved STOPPING STOPPED) s s'"
proof -
  show "BeginScheduling c s item = (u, s') \<Longrightarrow> effect c item (moved REQUESTED SCHEDULING) s s'"
    unfolding BeginScheduling_def
    by (erule guardedUpdate_effect [OF assms], rule conjI, rule row_later_row_step)
      (auto simp: row_defs moved_def intro: edge.intros)
  show "MarkLeased c s item i = (u, s') \<Longrightarrow> effect c item (\<lambda>r r'. moved LEASE_PENDING LEASED r r' \<and> w_lease_id r = Some (int i)) s s'"
    unfolding MarkLeased_def
    by (erule guardedUpdate_effect [OF assms], rule conjI, rule row_later_row_step)
      (auto simp: row_defs moved_def intro: edge.intros)
  show "MarkDeploying c s item i = (u, s') \<Longrightarrow> effect c item (moved LEASED DEPLOYING) s s'"
    unfolding MarkDeploying_def
    by (erule guardedUpdate_effect [OF assms], rule conjI, rule row_later_row_step)
      (auto simp: row_defs moved_def intro: edge.intros)
  show "MarkRunning c s item cid = (u, s') \<Longrightarrow> effect c item (moved DEPLOYING RUNNING) s s'"
    unfolding MarkRunning_def
    by (simp split: if_splits, erule guardedUpdate_effect [OF assms], rule conjI, rule row_later_row_step)
      (auto simp: row_defs moved_def intro: edge.intros)
  show "MarkStopped c s item i = (u, s') \<Longrightarrow> effect c item (moved STOPPING STOPPED) s s'"
    unfolding MarkStopped_def
    by (erule guardedUpdate_effect [OF assms], rule conjI, rule row_later_row_step)
      (auto simp: row_defs moved_def intro: edge.intros)
qed

lemma AssignLease_effect:
  assumes "store_inv s" and "length h = 32" and "AssignLease c s item p h cap = (r, s')"
  shows "effect c item (moved SCHEDULING LEASE_PENDING) s s' \<and> (isl r \<longrightarrow> s' = s)"
  using assms(3)
proof (cases rule: AssignLease_cases)
  case (assigned leaseID)
  let ?change = "\<lambda>row. (release c row)\<lparr>w_state := LEASE_PENDING, w_provider_id := Some p,
    w_lease_id := Some leaseID, w_resource_hash := Some h\<rparr>"
  from assigned(7) obtain row where row: "row \<in> set (ws_rows s)" "held c item row" "w_state row = SCHEDULING" by blast
  have "distinct (map w_workload_id (ws_rows s))" "0 \<le> leaseID"
    using assms(1) assigned(2) by (simp_all add: store_inv_def)
  moreover from this have "row_later row (?change row)"
    using assigned_row_step [OF row(3) assms(2)] row_later_assign_step by blast
  moreover have "moved SCHEDULING LEASE_PENDING row (?change row)" using row(3) by (simp add: moved_def release_def)
  moreover have "replaced s s' row (?change row)"
    using update_held [of "ws_rows s" row c item "\<lambda>r. w_state r = SCHEDULING" ?change] calculation(1) row
    by (simp add: replaced_def assigned(3))
  ultimately show ?thesis using row(2) assigned(1) unfolding effect_def by auto
qed simp

lemma retry_effect:
  assumes "store_inv s" and "retry (postgres_store c1 c locked workerID) w item code s = (r, s')"
  shows "effect c item (attempted w item) s s'"
proof -
  have "effect c item (attempted w item) s (snd (MarkFailed c s item code))"
    unfolding MarkFailed_def
    by (rule guardedUpdate_effect [OF assms(1) surjective_pairing], rule conjI, rule row_later_row_step)
      (auto simp: row_defs attempted_def intro: edge.intros)
  moreover have "effect c item (attempted w item) s (snd (RetryLater c s item code d))"
    if "wl_AttemptCount item + 1 < MaxAttempts (w_retryPolicy w)" for d
    unfolding RetryLater_def
    by (rule guardedUpdate_effect [OF assms(1) surjective_pairing], rule conjI, rule row_later_row_step)
      (use that in \<open>auto simp: row_defs attempted_def\<close>)
  moreover have "s' = (if wl_AttemptCount item + 1 \<ge> MaxAttempts (w_retryPolicy w) then snd (MarkFailed c s item code)
      else snd (RetryLater c s item code (backoffFor (w_retryPolicy w) (wl_AttemptCount item + 1))))"
    using assms(2) by (auto simp: retry_def postgres_store_def Let_def split: sum.splits prod.splits if_splits)
  ultimately show ?thesis by (auto simp: not_le)
qed

text \<open>The effect of working on an item, with the events that went with it.\<close>

definition lease_event :: "WorkloadItem \<Rightarrow> event list \<Rightarrow> workload_row \<Rightarrow> bool" where
  "lease_event item es r \<longleftrightarrow>
     (\<exists>i key blocks. w_lease_id r = Some (int i) \<and> LeaseActive i key (wl_ResourceHash item) blocks \<in> set es)"

definition work_done :: "Worker \<Rightarrow> WorkloadItem \<Rightarrow> event list \<Rightarrow> workload_row \<Rightarrow> workload_row \<Rightarrow> bool" where
  "work_done w item es r r' \<longleftrightarrow>
     attempted w item r r' \<or>
     (\<exists>st0 st. moved st0 st r r' \<and> (under_lease st \<longrightarrow>
        under_lease st0 \<or> lease_event item es r))"

lemma work_done_moved:
  "moved st0 st r r' \<Longrightarrow> (under_lease st \<Longrightarrow> under_lease st0 \<or> lease_event item es r) \<Longrightarrow> work_done w item es r r'"
  unfolding work_done_def by blast

definition effective :: "db_call \<Rightarrow> Worker \<Rightarrow> WorkloadItem \<Rightarrow> workload_store \<Rightarrow> workload_store worker_step \<Rightarrow> bool" where
  "effective c w item s x \<longleftrightarrow> effect c item (work_done w item (snd (snd x))) s (fst (snd x))"

lemma effective_stay [simp]: "effective c w item s (r, s, es)"
  by (simp add: effective_def)

lemma effective_retried [simp]:
  assumes "store_inv s"
  shows "effective c w item s (retried (retry (postgres_store c1 c locked workerID) w item code s) es)"
  using retry_effect [where ?c1.0 = c1 and c = c and locked = locked and workerID = workerID and w = w and item = item
    and code = code, OF assms surjective_pairing]
  unfolding effective_def retried_def by (auto simp: work_done_def elim: effect_mono)

lemma effective_stored:
  assumes "effect c item (moved st0 st) s (snd x)" and "under_lease st0 \<or> \<not> under_lease st"
  shows "effective c w item s (stored x es)"
proof -
  have "fst (snd (stored x es)) = snd x" by (simp add: stored_def split: prod.splits sum.splits)
  with assms show ?thesis
    unfolding effective_def by (auto intro: work_done_moved elim!: effect_mono)
qed

lemma effective_leased:
  assumes "store_inv s" and "LeaseActive i key (wl_ResourceHash item) blocks \<in> set es"
  shows "effective c w item s (stored (MarkLeased c s item i) es)"
proof -
  have "fst (snd (stored (MarkLeased c s item i) es)) = snd (MarkLeased c s item i)"
    "snd (snd (stored (MarkLeased c s item i) es)) = es"
    by (simp_all add: stored_def split: prod.splits sum.splits)
  with worker_effects(2) [where c = c and item = item and i = i, OF assms(1) surjective_pairing] assms(2) show ?thesis
    unfolding effective_def by (auto simp: lease_event_def intro: work_done_moved elim!: effect_mono)
qed

lemma processItem_effective:
  assumes "store_inv s" and "\<forall>x. length (we_sha256 env x) = 32"
  shows "effective c w item s (processItem (postgres_store c1 c locked workerID) env w item s)"
proof -
  let ?st = "postgres_store c1 c locked workerID"
  note ops [simp] = effective_stored [OF worker_effects(1) [OF assms(1) surjective_pairing]]
    effective_stored [OF worker_effects(3) [OF assms(1) surjective_pairing]]
    effective_stored [OF worker_effects(4) [OF assms(1) surjective_pairing]]
    effective_stored [OF worker_effects(5) [OF assms(1) surjective_pairing]]
  have ps: "ps_BeginScheduling ?st = (\<lambda>item s. BeginScheduling c s item)" "ps_MarkLeased ?st = (\<lambda>item i s. MarkLeased c s item i)"
    "ps_MarkDeploying ?st = (\<lambda>item i s. MarkDeploying c s item i)" "ps_MarkRunning ?st = (\<lambda>item i s. MarkRunning c s item i)"
    "ps_MarkStopped ?st = (\<lambda>item i s. MarkStopped c s item i)" "ps_AssignLease ?st = (\<lambda>item p h cap s. AssignLease c s item p h cap)"
    by (simp_all add: postgres_store_def)
  have lease: "effective c w item s (leaseItem ?st env w item s)"
    using assms(1) by (auto simp: leaseItem_def ps intro: effective_leased split: option.splits)
  have deploy: "effective c w item s (deployItem ?st env w item s)"
    using assms(1) by (auto simp: deployItem_def dispatchItem_def Let_def ps split: option.splits sum.splits prod.splits)
  have stop: "effective c w item s (stopItem ?st env w item s)"
    using assms(1) by (auto simp: stopItem_def Let_def ps split: option.splits sum.splits prod.splits)
  have assign: "effective c w item s (case AssignLease c s item p (canonicalResourceHash env d img) cap of
      (Inl e, s') \<Rightarrow> if e = ErrCapacityExceeded \<or> e = ErrConflict
        then retried (retry ?st w item ''NO_CAPACITY'' s') [] else (Inl (StoreFailed e), s', [])
    | (Inr _, s') \<Rightarrow> (Inr (), s', []))" for p d img cap
  proof (cases "AssignLease c s item p (canonicalResourceHash env d img) cap")
    case (Pair r s')
    with AssignLease_effect [OF assms(1) _ Pair] assms(2)
    have eff: "effect c item (moved SCHEDULING LEASE_PENDING) s s'" "isl r \<longrightarrow> s' = s" by (auto simp: canonicalResourceHash_def)
    have "effective c w item s (Inr (), s', [])"
      unfolding effective_def using eff(1) by (auto intro: work_done_moved elim!: effect_mono)
    with eff(2) Pair assms(1) show ?thesis by (auto split: sum.splits)
  qed
  then have sched: "effective c w item s (scheduleItem ?st env w item s)"
    using assms(1) by (auto simp: scheduleItem_def Let_def rankableCandidates_def ps split: option.splits)
  show ?thesis
    using assms(1) lease deploy stop sched
    by (auto simp: processItem_def ps split: workload_state.splits option.splits)
qed

section \<open>Workers, tenants and heartbeats together\<close>

text \<open>
  \<open>o_claims\<close> are the claims ever handed out, \<open>o_events\<close> what the chain and the Agents have
  confirmed, and \<open>o_worked\<close> counts, for each workload, the steps of \<^verbatim>\<open>processOne\<close> that
  changed the table after the claim; the claims themselves, which \<^verbatim>\<open>ClaimNext\<close> also writes
  into the row, are not counted.
\<close>

record orch =
  o_store :: workload_store
  o_claims :: "WorkloadItem set"
  o_events :: "event set"
  o_worked :: "string \<Rightarrow> nat"

inductive orchestration :: "Worker \<Rightarrow> orch \<Rightarrow> orch \<Rightarrow> bool" for w where
  claim: "ClaimNext c locked (o_store \<sigma>) workerID lease = (Inr item, s') \<Longrightarrow>
     orchestration w \<sigma> (\<sigma>\<lparr>o_store := s', o_claims := insert item (o_claims \<sigma>)\<rparr>)"
| no_claim: "ClaimNext c locked (o_store \<sigma>) workerID lease = (Inl e, s') \<Longrightarrow>
     orchestration w \<sigma> (\<sigma>\<lparr>o_store := s'\<rparr>)"
| work: "item \<in> o_claims \<sigma> \<Longrightarrow> \<forall>x. length (we_sha256 env x) = 32 \<Longrightarrow>
     processItem (postgres_store c1 c2 locked workerID) env w item (o_store \<sigma>) = (r, s', es) \<Longrightarrow>
     orchestration w \<sigma> (\<sigma>\<lparr>o_store := s', o_events := o_events \<sigma> \<union> set es,
       o_worked := (if s' = o_store \<sigma> then o_worked \<sigma>
         else (o_worked \<sigma>)(wl_WorkloadID item := Suc (o_worked \<sigma> (wl_WorkloadID item))))\<rparr>)"
| create: "CreateOrGet c (o_store \<sigma>) candidate = (res, s') \<Longrightarrow> wl_State candidate = REQUESTED \<Longrightarrow>
     orchestration w \<sigma> (\<sigma>\<lparr>o_store := s'\<rparr>)"
| stop: "RequestStopScoped scope c (o_store \<sigma>) workloadID requestID scopeID now = (res, s') \<Longrightarrow>
     orchestration w \<sigma> (\<sigma>\<lparr>o_store := s'\<rparr>)"
| reconcile: "reconciliationTransition phase = Some (fromStates, toState, errorCode) \<Longrightarrow>
     ReconcileFromAgent c (o_store \<sigma>) workloadID providerID fromStates toState containerID errorCode = (res', s') \<Longrightarrow>
     orchestration w \<sigma> (\<sigma>\<lparr>o_store := s'\<rparr>)"

definition new_orch :: "orch \<Rightarrow> bool" where
  "new_orch \<sigma> \<longleftrightarrow> new_store (o_store \<sigma>) \<and> o_claims \<sigma> = {} \<and> o_events \<sigma> = {} \<and> o_worked \<sigma> = (\<lambda>_. 0)"

text \<open>A claimed item is what its row says, as long as the row is untouched.\<close>

definition claim_ok :: "workload_store \<Rightarrow> WorkloadItem \<Rightarrow> bool" where
  "claim_ok s item \<longleftrightarrow> (\<exists>r \<in> set (ws_rows s). w_workload_id r = wl_WorkloadID item \<and> wl_Version item \<le> w_version r \<and>
     (w_version r = wl_Version item \<longrightarrow> scanWorkload r = Inr item))"

lemma claim_ok_later:
  assumes "claim_ok s item" and "rows_later s s'"
  shows "claim_ok s' item"
proof -
  from assms(1) obtain r where r: "r \<in> set (ws_rows s)" "w_workload_id r = wl_WorkloadID item"
    "wl_Version item \<le> w_version r" "w_version r = wl_Version item \<longrightarrow> scanWorkload r = Inr item"
    by (auto simp: claim_ok_def)
  from assms(2) r(1) obtain r' where r': "r' \<in> set (ws_rows s')" "row_later r r'" by (auto simp: rows_later_def)
  then have "w_version r' = wl_Version item \<Longrightarrow> r' = r" using r(3) by (auto simp: row_later_def)
  with r r' show ?thesis unfolding claim_ok_def by (auto simp: row_later_def same_request_def)
qed

lemma claim_ok_held:
  assumes "claim_ok s item" and "store_inv s" and "row \<in> set (ws_rows s)" and "held c item row"
  shows "scanWorkload row = Inr item"
proof -
  from assms(1) obtain r where r: "r \<in> set (ws_rows s)" "w_workload_id r = wl_WorkloadID item"
    "w_version r = wl_Version item \<longrightarrow> scanWorkload r = Inr item" by (auto simp: claim_ok_def)
  have "distinct (map w_workload_id (ws_rows s))" using assms(2) by (simp add: store_inv_def)
  then have "r = row" using r(1,2) assms(3,4) distinct_key_eq [of w_workload_id "ws_rows s" row r]
    by (simp add: held_def)
  with r(3) assms(4) show ?thesis by (simp add: held_def)
qed

lemma ClaimNext_claim_ok:
  assumes "ClaimNext c locked s workerID lease = (Inr item, s')"
  shows "claim_ok s' item"
  using assms
proof (cases rule: ClaimNext_cases)
  case (claimed row)
  let ?r = "row\<lparr>w_worker_id := Some workerID, w_worker_lease_until := Some (db_now c + lease),
     w_version := w_version row + 1\<rparr>"
  have scan: "scanWorkload ?r = Inr item" using claimed(3) by simp
  have "?r \<in> set (ws_rows s')" unfolding claimed(4) using claimed(1) by (auto simp: update_where_def)
  moreover have "w_workload_id ?r = wl_WorkloadID item \<and> wl_Version item \<le> w_version ?r"
    using scanWorkload_Inr(1,3) [OF scan] by simp
  ultimately show ?thesis unfolding claim_ok_def using scan by blast
qed simp

text \<open>What the steps other than \<open>work\<close> may do to a row.\<close>

definition quiet :: "workload_row \<Rightarrow> workload_row \<Rightarrow> bool" where
  "quiet r r' \<longleftrightarrow> w_workload_id r' = w_workload_id r \<and> w_attempt_count r' = w_attempt_count r \<and>
     w_lease_id r' = w_lease_id r \<and> w_resource_hash r' = w_resource_hash r \<and>
     stage (w_state r) \<le> stage (w_state r') \<and> (under_lease (w_state r') \<longrightarrow> under_lease (w_state r))"

definition quiet_rows :: "workload_store \<Rightarrow> workload_store \<Rightarrow> bool" where
  "quiet_rows s s' \<longleftrightarrow> (\<forall>r' \<in> set (ws_rows s').
     (\<exists>r \<in> set (ws_rows s). quiet r r') \<or>
     w_state r' = REQUESTED \<and> w_attempt_count r' = 0 \<and> w_lease_id r' = None \<and> w_resource_hash r' = None \<and>
     (\<forall>r \<in> set (ws_rows s). w_workload_id r \<noteq> w_workload_id r'))"

lemma quiet_refl [simp]: "quiet r r"
  by (simp add: quiet_def)

lemma quiet_self: "r \<in> set rows \<Longrightarrow> \<exists>r0 \<in> set rows. quiet r0 r"
  by (blast intro: quiet_refl)

lemma quiet_rows_refl [simp]: "quiet_rows s s"
  by (auto simp: quiet_rows_def intro: quiet_self)

lemma quiet_rows_update:
  assumes "\<And>r. r \<in> set (ws_rows s) \<Longrightarrow> guard r \<Longrightarrow> quiet r (change r)"
  shows "quiet_rows s (s\<lparr>ws_rows := update_where guard change (ws_rows s)\<rparr>)"
  unfolding quiet_rows_def
proof
  fix r' assume "r' \<in> set (ws_rows (s\<lparr>ws_rows := update_where guard change (ws_rows s)\<rparr>))"
  then have "r' \<in> set (update_where guard change (ws_rows s))" by simp
  then show "(\<exists>r \<in> set (ws_rows s). quiet r r') \<or>
     w_state r' = REQUESTED \<and> w_attempt_count r' = 0 \<and> w_lease_id r' = None \<and> w_resource_hash r' = None \<and>
     (\<forall>r \<in> set (ws_rows s). w_workload_id r \<noteq> w_workload_id r')"
    by (cases rule: set_update_whereE) (use assms quiet_refl in blast)+
qed

lemma quiet_steps:
  assumes "store_inv s"
  shows "ClaimNext c locked s workerID lease = (res, s') \<Longrightarrow> quiet_rows s s'"
    "CreateOrGet c s candidate = (res, s') \<Longrightarrow> wl_State candidate = REQUESTED \<Longrightarrow> quiet_rows s s'"
    "RequestStopScoped scope c s workloadID requestID scopeID now = (res, s') \<Longrightarrow> quiet_rows s s'"
    "reconciliationTransition phase = Some (fromStates, toState, errorCode) \<Longrightarrow>
       ReconcileFromAgent c s workloadID providerID fromStates toState containerID errorCode = (res', s') \<Longrightarrow> quiet_rows s s'"
proof -
  assume "ClaimNext c locked s workerID lease = (res, s')"
  then show "quiet_rows s s'"
  proof (cases rule: ClaimNext_cases)
    case (claimed row)
    show ?thesis unfolding claimed(4) by (rule quiet_rows_update) (simp add: quiet_def)
  qed simp
next
  assume a: "CreateOrGet c s candidate = (res, s')" "wl_State candidate = REQUESTED"
  from a(1) show "quiet_rows s s'"
  proof (cases rule: CreateOrGet_cases)
    case (created wid rid oid pid)
    with a(2) show ?thesis by (auto simp: quiet_rows_def row_of_def intro: quiet_self)
  qed simp
next
  assume a: "RequestStopScoped scope c s workloadID requestID scopeID now = (res, s')"
  have "distinct (map w_workload_id (ws_rows s))" using assms by (simp add: store_inv_def)
  with a show "quiet_rows s s'"
  proof (cases rule: RequestStopScoped_cases)
    case (stopped row rid)
    have "quiet row (stopping rid now row)"
      by (cases "w_state row") (simp_all add: quiet_def stopping_def stop_target_def)
    with stopped(1,3) show ?thesis
      by (auto simp: quiet_rows_def intro: quiet_self)
  qed simp
next
  assume tr: "reconciliationTransition phase = Some (fromStates, toState, errorCode)"
    and rec: "ReconcileFromAgent c s workloadID providerID fromStates toState containerID errorCode = (res', s')"
  have to: "stage st \<le> stage toState \<and> (under_lease toState \<longrightarrow> under_lease st)" if "st \<in> set fromStates" for st
    using tr that by (cases phase) auto
  from rec show "quiet_rows s s'"
  proof (cases rule: ReconcileFromAgent_cases)
    case (applied wid)
    show ?thesis unfolding applied(1)
    proof (rule quiet_rows_update)
      fix r :: workload_row
      assume "w_workload_id r = wid \<and> w_provider_id r = Some providerID \<and> w_state r \<in> set fromStates"
      with to [of "w_state r"] show "quiet r (reconciled c toState containerID errorCode r)"
        by (simp add: quiet_def reconciled_def release_def)
    qed
  qed simp
qed

section \<open>The invariant\<close>

definition lease_recorded :: "event set \<Rightarrow> workload_row \<Rightarrow> bool" where
  "lease_recorded H r \<longleftrightarrow> (\<exists>i key h blocks. w_lease_id r = Some (int i) \<and> w_resource_hash r = Some h \<and>
     LeaseActive i key h blocks \<in> H)"

text \<open>A row has a lease and the resource hash \<^verbatim>\<open>AssignLease\<close> stored with it, or neither.\<close>

definition hashed :: "workload_row \<Rightarrow> bool" where
  "hashed r \<longleftrightarrow> (w_lease_id r = None) = (w_resource_hash r = None)"

definition budget_ok :: "Worker \<Rightarrow> (string \<Rightarrow> nat) \<Rightarrow> workload_row \<Rightarrow> bool" where
  "budget_ok w n r \<longleftrightarrow> int (n (w_workload_id r)) \<le> progress r \<and> w_attempt_count r \<le> MaxAttempts (w_retryPolicy w) \<and>
     (w_state r \<in> terminal_states \<or> w_attempt_count r < MaxAttempts (w_retryPolicy w))"

definition row_inv :: "Worker \<Rightarrow> event set \<Rightarrow> (string \<Rightarrow> nat) \<Rightarrow> workload_row \<Rightarrow> bool" where
  "row_inv w H n r \<longleftrightarrow> (under_lease (w_state r) \<longrightarrow> lease_recorded H r) \<and> hashed r \<and> budget_ok w n r"

definition orch_inv :: "Worker \<Rightarrow> orch \<Rightarrow> bool" where
  "orch_inv w \<sigma> \<longleftrightarrow> store_inv (o_store \<sigma>) \<and> (\<forall>item \<in> o_claims \<sigma>. claim_ok (o_store \<sigma>) item) \<and>
     (\<forall>r \<in> set (ws_rows (o_store \<sigma>)). row_inv w (o_events \<sigma>) (o_worked \<sigma>) r) \<and>
     (\<forall>i. i \<notin> w_workload_id ` set (ws_rows (o_store \<sigma>)) \<longrightarrow> o_worked \<sigma> i = 0)"

lemma row_inv_quiet:
  assumes "quiet r r'" and "row_inv w H n r"
  shows "row_inv w H n r'"
proof -
  have eq: "w_workload_id r' = w_workload_id r" "w_attempt_count r' = w_attempt_count r" "w_lease_id r' = w_lease_id r"
    "w_resource_hash r' = w_resource_hash r" "stage (w_state r) \<le> stage (w_state r')"
    "under_lease (w_state r') \<Longrightarrow> under_lease (w_state r)"
    using assms(1) unfolding quiet_def by blast+
  have "w_state r' \<in> terminal_states" if "w_state r \<in> terminal_states"
    using eq(5) that stage_terminal [of "w_state r"] stage_terminal [of "w_state r'"] stage_bounds(2) [of "w_state r'"]
    by linarith
  moreover have "progress r \<le> progress r'" using eq(2,5) by (simp add: progress_def)
  moreover have "lease_recorded H r' = lease_recorded H r" "hashed r' = hashed r"
    unfolding lease_recorded_def hashed_def eq by (rule refl)+
  moreover note assms(2) [unfolded row_inv_def budget_ok_def]
  ultimately show ?thesis
    unfolding row_inv_def budget_ok_def eq(1,2) using eq(6) by (blast intro: order_trans)
qed

lemma orch_inv_quiet:
  assumes inv: "orch_inv w \<sigma>" and pos: "0 < MaxAttempts (w_retryPolicy w)"
    and q: "quiet_rows (o_store \<sigma>) s'" and safe: "store_inv s' \<and> rows_later (o_store \<sigma>) s'"
    and new: "\<forall>item \<in> C. claim_ok s' item"
  shows "orch_inv w (\<sigma>\<lparr>o_store := s', o_claims := C \<union> o_claims \<sigma>\<rparr>)"
proof -
  have rows: "row_inv w (o_events \<sigma>) (o_worked \<sigma>) r" if "r \<in> set (ws_rows (o_store \<sigma>))" for r
    using inv that by (simp add: orch_inv_def)
  have "row_inv w (o_events \<sigma>) (o_worked \<sigma>) r'" if r': "r' \<in> set (ws_rows s')" for r'
  proof (cases "\<exists>r \<in> set (ws_rows (o_store \<sigma>)). quiet r r'")
    case True
    then show ?thesis using row_inv_quiet rows by blast
  next
    case False
    with q r' have fresh: "w_state r' = REQUESTED" "w_attempt_count r' = 0" "hashed r'"
      "\<forall>r \<in> set (ws_rows (o_store \<sigma>)). w_workload_id r \<noteq> w_workload_id r'" by (auto simp: quiet_rows_def hashed_def)
    have "w_workload_id r' \<notin> w_workload_id ` set (ws_rows (o_store \<sigma>))" using fresh(4) by auto
    then have "o_worked \<sigma> (w_workload_id r') = 0" using inv by (simp add: orch_inv_def)
    with fresh pos show ?thesis by (simp add: row_inv_def budget_ok_def progress_def)
  qed
  moreover have "o_worked \<sigma> i = 0" if "i \<notin> w_workload_id ` set (ws_rows s')" for i
  proof -
    have "i \<notin> w_workload_id ` set (ws_rows (o_store \<sigma>))"
      using that rows_later_ids [of "o_store \<sigma>" s'] safe by blast
    with inv show ?thesis by (simp add: orch_inv_def)
  qed
  moreover have "claim_ok s' item" if "item \<in> o_claims \<sigma>" for item
    using claim_ok_later inv safe that by (auto simp: orch_inv_def)
  ultimately show ?thesis unfolding orch_inv_def using safe new by (intro conjI ballI allI impI) auto
qed

lemma lease_recorded_mono: "lease_recorded H r \<Longrightarrow> H \<subseteq> H' \<Longrightarrow> lease_recorded H' r"
  unfolding lease_recorded_def by blast

lemma scan_hash:
  assumes "scanWorkload r = Inr item" and "w_resource_hash r = Some h" and "row_ok r"
  shows "wl_ResourceHash item = h"
proof -
  have "length h = 32" using assms(2,3) by (simp add: row_ok_def)
  then have "h \<noteq> []" by auto
  with assms(1,2) show ?thesis by (auto simp: scanWorkload_def split: if_splits)
qed

lemma work_done_cases:
  assumes "work_done w item es r r'"
  obtains (attempted) "attempted w item r r'"
  | (moved) st0 st where "moved st0 st r r'" "under_lease st \<Longrightarrow> under_lease st0 \<or> lease_event item es r"
  using assms unfolding work_done_def by blast

lemma work_progress:
  assumes "work_done w item es r r'"
  shows "progress r + 1 \<le> progress r'"
  using assms
proof (cases rule: work_done_cases)
  case attempted
  then have "stage (w_state r) \<le> stage (w_state r')"
    using stage_bounds(2) [of "w_state r"] by (auto simp: attempted_def)
  with attempted show ?thesis by (simp add: attempted_def progress_def)
qed (simp add: moved_def progress_def)

lemma work_budget:
  assumes "work_done w item es r r'" and "budget_ok w n r" and "wl_AttemptCount item = w_attempt_count r"
    and "w_workload_id r' = w_workload_id r"
  shows "budget_ok w (n(w_workload_id r := Suc (n (w_workload_id r)))) r'"
proof -
  have b: "int (n (w_workload_id r)) \<le> progress r" "w_attempt_count r \<le> MaxAttempts (w_retryPolicy w)"
    "w_state r \<in> terminal_states \<or> w_attempt_count r < MaxAttempts (w_retryPolicy w)"
    using assms(2) unfolding budget_ok_def by blast+
  have "w_attempt_count r' \<le> MaxAttempts (w_retryPolicy w) \<and>
      (w_state r' \<in> terminal_states \<or> w_attempt_count r' < MaxAttempts (w_retryPolicy w))"
    using assms(1)
  proof (cases rule: work_done_cases)
    case attempted
    with b(3) assms(3) show ?thesis by (auto simp: attempted_def)
  next
    case (moved st0 st)
    then have "stage (w_state r) < 7" using stage_bounds(2) [of st] by (simp add: moved_def)
    then have "w_state r \<notin> terminal_states" using stage_terminal [of "w_state r"] by simp
    with moved(1) b show ?thesis by (simp add: moved_def)
  qed
  with work_progress [OF assms(1)] b(1) assms(4) show ?thesis by (simp add: budget_ok_def)
qed

lemma work_lease:
  assumes "work_done w item es r r'" and "under_lease (w_state r')"
    and "under_lease (w_state r) \<Longrightarrow> lease_recorded H r" and "hashed r" and "scanWorkload r = Inr item" and "row_ok r"
  shows "lease_recorded (H \<union> set es) r'"
  using assms(1)
proof (cases rule: work_done_cases)
  case attempted
  then have "under_lease (w_state r)" using assms(2) by (auto simp: attempted_def)
  from assms(3) [OF this] attempted show ?thesis unfolding lease_recorded_def attempted_def by auto
next
  case (moved st0 st)
  then have st: "w_state r = st0" "under_lease st" "w_lease_id r' = w_lease_id r" "w_resource_hash r' = w_resource_hash r"
    using assms(2) by (auto simp: moved_def split: if_splits)
  from moved(2) [OF st(2)] show ?thesis
  proof
    assume "under_lease st0"
    with assms(3) st show ?thesis unfolding lease_recorded_def by auto
  next
    assume "lease_event item es r"
    then obtain i key blocks where ev: "w_lease_id r = Some (int i)"
      "LeaseActive i key (wl_ResourceHash item) blocks \<in> set es" by (auto simp: lease_event_def)
    with assms(4) obtain h where h: "w_resource_hash r = Some h" by (auto simp: hashed_def)
    from scan_hash [OF assms(5) h assms(6)] ev h st show ?thesis unfolding lease_recorded_def by auto
  qed
qed

lemma work_hashed: "work_done w item es r r' \<Longrightarrow> hashed r \<Longrightarrow> hashed r'"
  by (erule work_done_cases) (auto simp: hashed_def attempted_def moved_def split: if_splits)

lemma work_row_inv:
  assumes "work_done w item es r r'" and "row_inv w H n r" and "scanWorkload r = Inr item" and "row_ok r"
    and "w_workload_id r' = w_workload_id r"
  shows "row_inv w (H \<union> set es) (n(w_workload_id r := Suc (n (w_workload_id r)))) r'"
  unfolding row_inv_def
proof (intro conjI impI)
  have inv: "under_lease (w_state r) \<Longrightarrow> lease_recorded H r" "hashed r" "budget_ok w n r"
    using assms(2) unfolding row_inv_def by blast+
  show "hashed r'" using work_hashed [OF assms(1) inv(2)] .
  show "budget_ok w (n(w_workload_id r := Suc (n (w_workload_id r)))) r'"
    using work_budget [OF assms(1) inv(3) _ assms(5)] scanWorkload_Inr(7) [OF assms(3)] by simp
  assume "under_lease (w_state r')"
  from work_lease [OF assms(1) this inv(1,2) assms(3,4)] show "lease_recorded (H \<union> set es) r'" .
qed

lemma orch_inv_work:
  assumes inv: "orch_inv w \<sigma>" and item: "item \<in> o_claims \<sigma>" and hash: "\<forall>x. length (we_sha256 env x) = 32"
    and step: "processItem (postgres_store c1 c2 locked workerID) env w item (o_store \<sigma>) = (r, s', es)"
  shows "orch_inv w (\<sigma>\<lparr>o_store := s', o_events := o_events \<sigma> \<union> set es,
       o_worked := (if s' = o_store \<sigma> then o_worked \<sigma>
         else (o_worked \<sigma>)(wl_WorkloadID item := Suc (o_worked \<sigma> (wl_WorkloadID item))))\<rparr>)"
proof -
  let ?s = "o_store \<sigma>" and ?H = "o_events \<sigma> \<union> set es"
  have store: "store_inv ?s" and claims: "\<And>i. i \<in> o_claims \<sigma> \<Longrightarrow> claim_ok ?s i"
    and rows: "\<And>r. r \<in> set (ws_rows ?s) \<Longrightarrow> row_inv w (o_events \<sigma>) (o_worked \<sigma>) r"
    and zero: "\<And>i. i \<notin> w_workload_id ` set (ws_rows ?s) \<Longrightarrow> o_worked \<sigma> i = 0"
    using inv by (auto simp: orch_inv_def)
  have safe: "store_inv s'" "rows_later ?s s'"
    using pg.processItem_safe [OF store, of env c1 c2 locked workerID w item] hash step by (simp_all add: pg.safe_def)
  have more: "row_inv w ?H (o_worked \<sigma>) r" if "r \<in> set (ws_rows ?s)" for r
    using rows [OF that] unfolding row_inv_def by (blast intro: lease_recorded_mono)
  have later: "claim_ok s' i" if "i \<in> o_claims \<sigma>" for i
    using claim_ok_later [OF claims [OF that] safe(2)] .
  have eff: "effect c2 item (work_done w item es) ?s s'"
    using processItem_effective [OF store hash, of c2 w item c1 locked workerID] step by (simp add: effective_def)
  show ?thesis
  proof (cases "s' = ?s")
    case True
    with store more zero claims show ?thesis unfolding orch_inv_def by simp
  next
    case False
    with eff obtain row row' where rr: "replaced ?s s' row row'" "held c2 item row" "row_later row row'"
      "work_done w item es row row'" unfolding effect_def by blast
    have row: "row \<in> set (ws_rows ?s)" "w_workload_id row = wl_WorkloadID item"
      "w_workload_id row' = w_workload_id row"
      using rr(1-3) by (auto simp: replaced_def held_def row_later_def same_request_def)
    let ?n = "(o_worked \<sigma>)(wl_WorkloadID item := Suc (o_worked \<sigma> (wl_WorkloadID item)))"
    have new: "row_inv w ?H ?n row'"
      using work_row_inv [OF rr(4) rows [OF row(1)] claim_ok_held [OF claims [OF item] store row(1) rr(2)] _ row(3)]
        store row by (simp add: store_inv_def)
    have "row_inv w ?H ?n r'" if "r' \<in> set (ws_rows s')" for r'
    proof (cases "r' = row'")
      case False
      with that rr(1) have r': "r' \<in> set (ws_rows ?s)" "r' \<noteq> row" by (auto simp: replaced_def split: if_splits)
      then have "w_workload_id r' \<noteq> wl_WorkloadID item"
        using distinct_key_eq [of w_workload_id "ws_rows ?s" row r'] store row by (auto simp: store_inv_def)
      with more [OF r'(1)] show ?thesis by (simp add: row_inv_def budget_ok_def)
    qed (use new in simp)
    moreover have "?n i = 0" if "i \<notin> w_workload_id ` set (ws_rows s')" for i
    proof -
      have "i \<notin> w_workload_id ` set (ws_rows ?s)" using that rows_later_ids [OF safe(2)] by blast
      moreover have "wl_WorkloadID item \<in> w_workload_id ` set (ws_rows ?s)" using row(1,2) by (metis imageI)
      ultimately show ?thesis using zero by auto
    qed
    ultimately show ?thesis unfolding orch_inv_def using False safe(1) later by simp
  qed
qed

lemma orchestration_inv:
  assumes "orchestration w \<sigma> \<sigma>'" and inv: "orch_inv w \<sigma>" and pos: "0 < MaxAttempts (w_retryPolicy w)"
  shows "orch_inv w \<sigma>'"
proof -
  have store: "store_inv (o_store \<sigma>)" using inv by (simp add: orch_inv_def)
  have dist: "distinct (map w_workload_id (ws_rows (o_store \<sigma>)))" using store by (simp add: store_inv_def)
  note quiet_step = orch_inv_quiet [OF inv pos, where C = "{}", simplified]
  show ?thesis
    using assms(1)
  proof cases
    case (claim c locked workerID lease item s')
    note facts = quiet_steps(1) [OF store claim(2)] postgres_step(1) [OF store claim(2)] ClaimNext_claim_ok [OF claim(2)]
    from orch_inv_quiet [OF inv pos facts(1,2), of "{item}"] facts(3) show ?thesis unfolding claim(1) by simp
  next
    case (no_claim c locked workerID lease e s')
    from quiet_step [OF quiet_steps(1) [OF store no_claim(2)] postgres_step(1) [OF store no_claim(2)]]
    show ?thesis unfolding no_claim(1) .
  next
    case (work item env c1 c2 locked workerID r s' es)
    from orch_inv_work [OF inv work(2-4)] show ?thesis unfolding work(1) .
  next
    case (create c candidate res s')
    have "system_step (\<lambda>_. no_capacity) (o_store \<sigma>, {}) (s', {})" using create(2,3) by (rule system_step.create)
    from quiet_step [OF quiet_steps(2) [OF store create(2,3)] safe_step [OF this store]]
    show ?thesis unfolding create(1) .
  next
    case (stop scope c workloadID requestID scopeID now res s')
    from quiet_step [OF quiet_steps(3) [OF store stop(2)] table_safe [OF RequestStopScoped_step [OF stop(2) dist] store]]
    show ?thesis unfolding stop(1) .
  next
    case (reconcile phase fromStates toState errorCode c workloadID providerID containerID res' s')
    from quiet_step [OF quiet_steps(4) [OF store reconcile(2,3)]
      table_safe [OF ReconcileFromAgent_step [OF reconcile(3,2)] store]]
    show ?thesis unfolding reconcile(1) .
  qed
qed

lemma orchestration_run_inv:
  assumes "(orchestration w)\<^sup>*\<^sup>* \<sigma> \<sigma>'" and "new_orch \<sigma>" and "0 < MaxAttempts (w_retryPolicy w)"
  shows "orch_inv w \<sigma>'"
  using assms(1)
proof (induction rule: rtranclp_induct)
  case base
  have "ws_rows (o_store \<sigma>) = []" "store_inv (o_store \<sigma>)"
    using assms(2) new_store_inv by (auto simp: new_orch_def new_store_def)
  with assms(2) show ?case by (simp add: orch_inv_def new_orch_def)
next
  case (step \<sigma>1 \<sigma>2)
  from orchestration_inv [OF step(2,3) assms(3)] show ?case .
qed

text \<open>
  C9. No workload is leased, deploying or running without a lease on the chain: in every state
  that any interleaving of workers, tenants and heartbeats can reach, such a row has a lease id
  and a resource hash, and the registrar has confirmed the lease of exactly that id and hash.
\<close>

theorem running_has_finalized_lease:
  assumes "new_orch \<sigma>" and "(orchestration w)\<^sup>*\<^sup>* \<sigma> \<sigma>'" and "0 < MaxAttempts (w_retryPolicy w)"
    and "r \<in> set (ws_rows (o_store \<sigma>'))" and "w_state r \<in> {LEASED, DEPLOYING, RUNNING}"
  shows "\<exists>leaseID key hash blocks. w_lease_id r = Some (int leaseID) \<and> w_resource_hash r = Some hash \<and>
    LeaseActive leaseID key hash blocks \<in> o_events \<sigma>'"
  using orchestration_run_inv [OF assms(2,1,3)] assms(4,5)
  by (simp add: orch_inv_def row_inv_def lease_recorded_def under_lease_def) blast

text \<open>
  C29. The processing of a workload comes to an end: however often Agents, the chain or the
  directory fail, \<^verbatim>\<open>processOne\<close>, once it holds a claim, changes the row of one workload at
  most as many times as the retry policy has attempts plus the seven stages of the life cycle, and
  the attempts counted on a row never exceed the policy's. Claims are not counted:
  \<^verbatim>\<open>ClaimNext\<close> writes the claim into the row each time it is taken, and nothing bounds how
  often that happens.
\<close>

theorem worker_updates_bounded:
  assumes "new_orch \<sigma>" and "(orchestration w)\<^sup>*\<^sup>* \<sigma> \<sigma>'" and "0 < MaxAttempts (w_retryPolicy w)"
  shows "int (o_worked \<sigma>' i) \<le> MaxAttempts (w_retryPolicy w) + 7 \<and>
    list_all (\<lambda>r. w_attempt_count r \<le> MaxAttempts (w_retryPolicy w)) (ws_rows (o_store \<sigma>'))"
proof -
  have inv: "orch_inv w \<sigma>'" using assms(2,1,3) by (rule orchestration_run_inv)
  then have rows: "budget_ok w (o_worked \<sigma>') r" if "r \<in> set (ws_rows (o_store \<sigma>'))" for r
    using that by (simp add: orch_inv_def row_inv_def)
  have "int (o_worked \<sigma>' i) \<le> MaxAttempts (w_retryPolicy w) + 7"
  proof (cases "i \<in> w_workload_id ` set (ws_rows (o_store \<sigma>'))")
    case True
    then obtain r where r: "r \<in> set (ws_rows (o_store \<sigma>'))" "w_workload_id r = i" by auto
    with rows [OF r(1)] stage_bounds(2) [of "w_state r"] show ?thesis by (simp add: budget_ok_def progress_def)
  next
    case False
    with inv assms(3) show ?thesis by (simp add: orch_inv_def)
  qed
  with rows show ?thesis by (simp add: list_all_iff budget_ok_def)
qed

end
