(* ===== verification/Orchestration_Run.thy ===== *)
theory Orchestration_Run
  imports Orchestration Ranking_Cases
begin

text \<open>
  A workload taken from submission to a finalized lease by the worker, as the concrete run that
  shows the hypotheses of the orchestration theorems can hold.
\<close>

definition ex_definition :: WorkloadDefinition where
  "ex_definition = \<lparr>def_WorkloadId = ''w1'', Profile = COMPUTE_INTENSIVE,
     Requirements = Some sample_requirements, Constraints = None, DurationSeconds = 3600\<rparr>"

definition ex_provider :: SchedulableProvider where
  "ex_provider = (\<lparr>rp_ProviderID = ''p1'', rp_PublicKey = replicate 32 1, rp_ProtocolVersion = '''', rp_AgentVersion = '''',
       rp_AgentEndpoint = ''https://p1''\<rparr>,
     \<lparr>CpuTotal = Fin 4 0, CpuAvailable = Fin 4 0, RamTotalMb = 8192, RamAvailableMb = 8192, StorageTotalGb = 100,
       StorageAvailableGb = 100, cap_Bandwidth = Some \<lparr>IngressMbps = 100, EgressMbps = 100\<rparr>, cap_Zone = '''',
       cap_VirtualizationCapable = False\<rparr>)"

definition ex_env :: worker_env where
  "ex_env = \<lparr>we_providers = Some [ex_provider], we_reputation = None, we_unmarshal = (\<lambda>_. Some ex_definition),
     we_sha256 = (\<lambda>_. replicate 32 9), we_platform = svc_platform ex_service,
     EnsureLeaseActive = (\<lambda>_ _ _ _. True), EnsureLeaseCompleted = (\<lambda>_. True),
     we_dispatcher = \<lparr>ad_DeployAndConfirm = (\<lambda>_ _. Inr ''c1''), ad_StopAndConfirm = (\<lambda>_ _. Inr ()),
       ad_GetRunningWorkload = None\<rparr>,
     we_overlay = None, we_volumes = None, we_security = None, we_now = 0\<rparr>"

definition ex_worker :: Worker where
  "ex_worker = NewWorker sample_ranker"

abbreviation ex_pg :: "int \<Rightarrow> workload_store PersistentStore" where
  "ex_pg t \<equiv> postgres_store (ex_call t) (ex_call t) (\<lambda>_. False) ''wk''"

lemma ex_candidates:
  "\<exists>d sc. Rank (we_platform ex_env) (w_ranker ex_worker) (Profile ex_definition) (Requirements ex_definition)
      (Constraints ex_definition) (fst (rankableCandidates ex_env [ex_provider])) = Some d \<and>
    Selected d = Some sc \<and> ProviderID sc = ''p1''"
proof -
  have "\<exists>sc. scoreOne pf sample_ranker w (Some sample_requirements) None (candidate_of ex_env ex_provider) = Scored sc \<and>
      ProviderID sc = ''p1''" for pf w
    by (simp add: candidate_of_def ex_env_def ex_provider_def scoreOne_def sample_requirements_def fitBps_sane covers_def
      cpuMillicores_whole max_figure_def bandwidthFit_def constraintCheck_def effectiveReputation_def bandwidth_of_def
      Let_def)
  from this [of "we_platform ex_env" "the (DefaultProfileWeights COMPUTE_INTENSIVE)"] obtain sc where
    "scoreOne (we_platform ex_env) sample_ranker (the (DefaultProfileWeights COMPUTE_INTENSIVE)) (Some sample_requirements)
       None (candidate_of ex_env ex_provider) = Scored sc" "ProviderID sc = ''p1''" by blast
  then show ?thesis
    by (simp add: Rank_def rankableCandidates_def ex_worker_def NewWorker_def ex_definition_def Let_def sortSlice_def)
qed

lemma ex_capacity: "snd (rankableCandidates ex_env [ex_provider]) ''p1'' = ex_cap ''p1''"
proof -
  have "fround f64 4000 0 = Fin 4000 0" by (simp add: representable_def f64_def)
  then show ?thesis
    by (simp add: rankableCandidates_def capacity_of_def ex_provider_def ex_env_def bandwidth_of_def ex_cap_def
      CPUCoresToMillicores_def to_int64_def in_i64_def)
qed

lemma ex_schedule: "processItem (ex_pg 5) ex_env ex_worker ex_item4 (ex_table ex_row4) = (Inr (), ex_leased 1024, [])"
proof -
  from ex_candidates obtain d sc where d: "Rank (we_platform ex_env) (w_ranker ex_worker) (Profile ex_definition)
      (Requirements ex_definition) (Constraints ex_definition) (fst (rankableCandidates ex_env [ex_provider])) = Some d"
    and sc: "Selected d = Some sc" "ProviderID sc = ''p1''" by blast
  have "canonicalResourceHash ex_env x y = replicate 32 9" for x y by (simp add: canonicalResourceHash_def ex_env_def)
  moreover have "we_unmarshal ex_env x = Some ex_definition" "we_providers ex_env = Some [ex_provider]" for x
    by (simp_all add: ex_env_def)
  moreover have "wl_State ex_item4 = SCHEDULING" by (simp add: ex_item_def)
  moreover have "ps_AssignLease (ex_pg 5) = (\<lambda>item p h cap s. AssignLease (ex_call 5) s item p h cap)"
    by (simp add: postgres_store_def)
  ultimately show ?thesis
    using d sc ex_capacity ex_assign [of 1024]
    by (simp add: processItem_def scheduleItem_def case_prod_unfold Let_def)
qed

section \<open>The lease is finalized\<close>

definition ex_row5 :: "string option \<Rightarrow> int option \<Rightarrow> workload_row" where
  "ex_row5 wk until = (ex_row 1024 LEASE_PENDING (if wk = None then 5 else 6) 5 wk until)\<lparr>w_provider_id := Some ''p1'',
     w_lease_id := Some 1, w_resource_hash := Some (replicate 32 9)\<rparr>"

definition ex_store5 :: "workload_row \<Rightarrow> workload_store" where
  "ex_store5 row = (ex_table row)\<lparr>ws_lease_seq := 2\<rparr>"

definition ex_item6 :: WorkloadItem where
  "ex_item6 = (ex_item 1024 LEASE_PENDING 6 5 (6 + 2 * 60 * second))\<lparr>wl_ProviderID := ''p1'', wl_LeaseID := ''1'',
     wl_ResourceHash := replicate 32 9\<rparr>"

definition ex_row7 :: workload_row where
  "ex_row7 = (ex_row5 None None)\<lparr>w_state := LEASED, w_version := 7, w_updated_at := 7\<rparr>"

lemmas ex_lease_defs = ex_row5_def ex_store5_def ex_item6_def ex_row7_def ex_defs

lemma ex_show1: "show_nat (Suc 0) = ''1''"
  by code_simp

lemma ex_claim5:
  "ClaimNext (ex_call 6) (\<lambda>_. False) (ex_leased 1024) ''wk'' (2 * 60 * second) =
     (Inr ex_item6, ex_store5 (ex_row5 (Some ''wk'') (Some (6 + 2 * 60 * second))))"
  by (simp add: ClaimNext_def Let_def claimable_def scanWorkload_def text_or_empty_def nullableID_def second_def
    ex_lease_defs) (rule ex_show1)

lemma ex_lease_confirmed:
  assumes "ensure 1 (replicate 32 1) (replicate 32 9) (leaseBlocks ex_worker ex_definition)"
  shows "processItem (ex_pg 7) (ex_env\<lparr>EnsureLeaseActive := ensure\<rparr>) ex_worker ex_item6 (ex_store5 (ex_row5 (Some ''wk'') (Some (6 + 2 * 60 * second)))) =
     (Inr (), ex_store5 ex_row7, [LeaseActive 1 (replicate 32 1) (replicate 32 9) (leaseBlocks ex_worker ex_definition)])"
proof -
  have "ParseUint ''1'' = Some 1" using ParseUint_show [of 1] ex_show1 by simp
  moreover have "wl_LeaseID ex_item6 = ''1''" "wl_State ex_item6 = LEASE_PENDING" "wl_ProviderID ex_item6 = ''p1''"
    "wl_ResourceHash ex_item6 = replicate 32 9" by (simp_all add: ex_lease_defs)
  moreover have "providerKey (ex_env\<lparr>EnsureLeaseActive := ensure\<rparr>) ''p1'' = Some (replicate 32 1)"
    by (simp add: providerKey_def worker_provider_def ex_env_def ex_provider_def)
  moreover have "MarkLeased (ex_call 7) (ex_store5 (ex_row5 (Some ''wk'') (Some (6 + 2 * 60 * second)))) ex_item6 1 =
      (Inr (), ex_store5 ex_row7)"
    by (simp add: MarkLeased_def guardedUpdate_def held_def release_def clear_errors_def rows_affected_def second_def
      ex_lease_defs)
  ultimately show ?thesis
    using assms by (simp add: processItem_def leaseItem_def stored_def postgres_store_def ex_env_def)
qed

lemma ex_lease:
  "processItem (ex_pg 7) ex_env ex_worker ex_item6 (ex_store5 (ex_row5 (Some ''wk'') (Some (6 + 2 * 60 * second)))) =
     (Inr (), ex_store5 ex_row7, [LeaseActive 1 (replicate 32 1) (replicate 32 9) (leaseBlocks ex_worker ex_definition)])"
  using ex_lease_confirmed [of "EnsureLeaseActive ex_env"] by (simp add: ex_env_def)

abbreviation orch_of :: "workload_store \<Rightarrow> WorkloadItem set \<Rightarrow> event set \<Rightarrow> (string \<Rightarrow> nat) \<Rightarrow> orch" where
  "orch_of s C H n \<equiv> \<lparr>o_store = s, o_claims = C, o_events = H, o_worked = n\<rparr>"

lemma orch_of_steps:
  "CreateOrGet c s candidate = (res, s') \<Longrightarrow> wl_State candidate = REQUESTED \<Longrightarrow>
     orchestration w (orch_of s C H n) (orch_of s' C H n)"
  "ClaimNext c locked s workerID lease = (Inr item, s') \<Longrightarrow>
     orchestration w (orch_of s C H n) (orch_of s' (insert item C) H n)"
  "item \<in> C \<Longrightarrow> \<forall>x. length (we_sha256 env x) = 32 \<Longrightarrow>
     processItem (postgres_store c1 c2 locked workerID) env w item s = (r, s', es) \<Longrightarrow>
     map w_version (ws_rows s') \<noteq> map w_version (ws_rows s) \<Longrightarrow>
     orchestration w (orch_of s C H n)
       (orch_of s' C (H \<union> set es) (n(wl_WorkloadID item := Suc (n (wl_WorkloadID item)))))"
  using orchestration.create [of c "orch_of s C H n" candidate res s' w]
    orchestration.claim [of c locked "orch_of s C H n" workerID lease item s' w]
    orchestration.work [of item "orch_of s C H n" env c1 c2 locked workerID w r s' es]
  by (auto split: if_splits)

definition ex_start :: orch where
  "ex_start = orch_of ex_store {} {} (\<lambda>_. 0)"

lemma ex_new_orch: "new_orch ex_start"
  by (simp add: new_orch_def ex_start_def ex_new_store)

lemma ex_hash: "\<forall>x. length (we_sha256 ex_env x) = 32"
  by (simp add: ex_env_def)

lemma ex_begin_work:
  "processItem (ex_pg 3) ex_env ex_worker ex_item2 (ex_table (ex_row 1024 REQUESTED 2 1 (Some ''wk'') (Some 32))) =
     (Inr (), ex_table (ex_row 1024 SCHEDULING 3 3 None None), [])"
  using ex_begin [of 1024] by (simp add: processItem_def postgres_store_def stored_def ex_item_def)

lemma ex_versions:
  "map w_version (ws_rows (ex_table (ex_row ram st v u wk until))) = [v]"
  "map w_version (ws_rows (ex_leased ram)) = [5]" "map w_version (ws_rows (ex_store5 ex_row7)) = [7]"
  "map w_version (ws_rows (ex_store5 (ex_row5 (Some x) y))) = [6]"
  by (simp_all add: ex_lease_defs)

abbreviation ex_store6 :: workload_store where
  "ex_store6 \<equiv> ex_store5 (ex_row5 (Some ''wk'') (Some (6 + 2 * 60 * second)))"

lemma ex_pending: "\<exists>C n. (orchestration ex_worker)\<^sup>*\<^sup>* ex_start (orch_of ex_store6 (insert ex_item6 C) {} n)"
proof -
  let ?n1 = "(\<lambda>_. 0)(wl_WorkloadID ex_item2 := Suc 0)"
  let ?run = "(orchestration ex_worker)\<^sup>*\<^sup>* ex_start"
  have "?run (orch_of (ex_table ex_row1) {} {} (\<lambda>_. 0))"
    unfolding ex_start_def
    by (rule r_into_rtranclp, rule orch_of_steps(1) [OF ex_create]) (simp_all add: ex_request_def)
  also have "orchestration ex_worker (orch_of (ex_table ex_row1) {} {} (\<lambda>_. 0))
      (orch_of (ex_table (ex_row 1024 REQUESTED 2 1 (Some ''wk'') (Some 32))) {ex_item2} {} (\<lambda>_. 0))"
    using orch_of_steps(2) [OF ex_claim [of REQUESTED 2 1024 1 1]] by simp
  also have "orchestration ex_worker
      (orch_of (ex_table (ex_row 1024 REQUESTED 2 1 (Some ''wk'') (Some 32))) {ex_item2} {} (\<lambda>_. 0))
      (orch_of (ex_table (ex_row 1024 SCHEDULING 3 3 None None)) {ex_item2} {} ?n1)"
    using orch_of_steps(3) [OF _ ex_hash ex_begin_work, of "{ex_item2}" "{}" "\<lambda>_. 0"]
    by (simp add: ex_versions)
  also have "orchestration ex_worker (orch_of (ex_table (ex_row 1024 SCHEDULING 3 3 None None)) {ex_item2} {} ?n1)
      (orch_of (ex_table ex_row4) {ex_item4, ex_item2} {} ?n1)"
    using orch_of_steps(2) [OF ex_claim [of SCHEDULING 4 1024 3 3]] by simp
  also have "orchestration ex_worker (orch_of (ex_table ex_row4) {ex_item4, ex_item2} {} ?n1)
      (orch_of (ex_leased 1024) {ex_item4, ex_item2} {} (?n1(wl_WorkloadID ex_item4 := Suc (?n1 (wl_WorkloadID ex_item4)))))"
    using orch_of_steps(3) [OF _ ex_hash ex_schedule, of "{ex_item4, ex_item2}" "{}" ?n1]
    by (simp add: ex_versions)
  finally have sched: "?run (orch_of (ex_leased 1024) {ex_item4, ex_item2} {}
    (?n1(wl_WorkloadID ex_item4 := Suc (?n1 (wl_WorkloadID ex_item4)))))" .
  let ?n2 = "?n1(wl_WorkloadID ex_item4 := Suc (?n1 (wl_WorkloadID ex_item4)))"
  note sched
  also have "orchestration ex_worker (orch_of (ex_leased 1024) {ex_item4, ex_item2} {} ?n2) (orch_of ex_store6 {ex_item6, ex_item4, ex_item2} {} ?n2)"
    by (rule orch_of_steps(2) [OF ex_claim5])
  finally show ?thesis by blast
qed

lemma ex_orchestration:
  "\<exists>C n H. (orchestration ex_worker)\<^sup>*\<^sup>* ex_start (orch_of (ex_store5 ex_row7) C H n) \<and> 0 < n ''w1''"
proof -
  from ex_pending obtain C n where "(orchestration ex_worker)\<^sup>*\<^sup>* ex_start (orch_of ex_store6 (insert ex_item6 C) {} n)" by blast
  also have "orchestration ex_worker (orch_of ex_store6 (insert ex_item6 C) {} n) (orch_of (ex_store5 ex_row7) (insert ex_item6 C)
      ({} \<union> set [LeaseActive 1 (replicate 32 1) (replicate 32 9) (leaseBlocks ex_worker ex_definition)])
      (n(wl_WorkloadID ex_item6 := Suc (n (wl_WorkloadID ex_item6)))))"
    by (rule orch_of_steps(3) [OF _ ex_hash ex_lease]) (simp_all add: ex_versions)
  finally have run: "(orchestration ex_worker)\<^sup>*\<^sup>* ex_start (orch_of (ex_store5 ex_row7) (insert ex_item6 C)
      ({} \<union> set [LeaseActive 1 (replicate 32 1) (replicate 32 9) (leaseBlocks ex_worker ex_definition)])
      (n(wl_WorkloadID ex_item6 := Suc (n (wl_WorkloadID ex_item6)))))" .
  have "wl_WorkloadID ex_item6 = ''w1''" by (simp add: ex_lease_defs)
  then have "0 < (n(wl_WorkloadID ex_item6 := Suc (n (wl_WorkloadID ex_item6)))) ''w1''" by simp
  with run show ?thesis by blast
qed

lemma ex_policy: "0 < MaxAttempts (w_retryPolicy ex_worker)"
  by (simp add: ex_worker_def NewWorker_def DefaultRetryPolicy_def)

theorem running_has_finalized_lease_witness:
  "\<exists>\<sigma> leaseID key blocks. (orchestration ex_worker)\<^sup>*\<^sup>* ex_start \<sigma> \<and> map w_state (ws_rows (o_store \<sigma>)) = [LEASED] \<and>
     LeaseActive leaseID key (replicate 32 9) blocks \<in> o_events \<sigma>"
proof -
  from ex_orchestration obtain C H n where
    run: "(orchestration ex_worker)\<^sup>*\<^sup>* ex_start (orch_of (ex_store5 ex_row7) C H n)" by blast
  have st: "map w_state (ws_rows (ex_store5 ex_row7)) = [LEASED]" "w_resource_hash ex_row7 = Some (replicate 32 9)"
    by (simp_all add: ex_lease_defs)
  have "ex_row7 \<in> set (ws_rows (ex_store5 ex_row7))" "w_state ex_row7 = LEASED" by (simp_all add: ex_lease_defs)
  with running_has_finalized_lease [OF ex_new_orch run ex_policy, of ex_row7] st(2)
  have "\<exists>leaseID key blocks. LeaseActive leaseID key (replicate 32 9) blocks \<in> H" by auto
  with run st(1) show ?thesis by force
qed

theorem worker_updates_bounded_witness:
  "\<exists>\<sigma>. (orchestration ex_worker)\<^sup>*\<^sup>* ex_start \<sigma> \<and> 0 < o_worked \<sigma> ''w1'' \<and> int (o_worked \<sigma> ''w1'') \<le> 17"
proof -
  from ex_orchestration obtain C H n where
    run: "(orchestration ex_worker)\<^sup>*\<^sup>* ex_start (orch_of (ex_store5 ex_row7) C H n)" "0 < n ''w1''" by blast
  from worker_updates_bounded [OF ex_new_orch run(1) ex_policy, of "''w1''"] have "int (n ''w1'') \<le> 17"
    by (simp add: ex_worker_def NewWorker_def DefaultRetryPolicy_def)
  with run show ?thesis by force
qed

theorem processOne_keeps_store_witness:
  "\<exists>s' es. processOne (ex_pg 3) ex_env ex_worker (ex_table ex_row1) = (Inr (), s', es) \<and>
     store_inv s' \<and> rows_later (ex_table ex_row1) s'"
proof -
  have inv: "store_inv (ex_table ex_row1)" using system_step_inv [OF ex_run1] new_store_inv [OF ex_new_store] by simp
  have "\<exists>s' es. processOne (ex_pg 3) ex_env ex_worker (ex_table ex_row1) = (Inr (), s', es)"
    by (simp add: processOne_def processItem_def postgres_store_def stored_def ClaimNext_def claimable_def Let_def
      scanWorkload_def text_or_empty_def nullableID_def BeginScheduling_def guardedUpdate_def held_def rows_affected_def
      second_def ex_defs)
  then obtain s' es where run: "processOne (ex_pg 3) ex_env ex_worker (ex_table ex_row1) = (Inr (), s', es)" by blast
  from processOne_keeps_store [OF inv ex_hash run] run show ?thesis by blast
qed

end
