(* ===== verification/Join_Store.thy ===== *)
theory Join_Store
  imports Workload_Service Agent_Manager Backoff
begin

text \<open>
  \<^verbatim>\<open>control-plane/internal/providerjoin/postgres.go\<close> over migrations 000001 to 000003: the
  tables of providers, join challenges, completions and chain registrations, and every query of
  the repository. Each statement or transaction is one step. Times are nanoseconds; a
  \<^verbatim>\<open>timestamptz\<close> column keeps microseconds. The texts of \<^verbatim>\<open>last_error\<close> and the
  column \<^verbatim>\<open>updated_at\<close>, which nothing reads, are not kept.
\<close>

record Challenge =
  ChallengeID :: string
  BeginRequestID :: string
  ch_RequestHash :: "byte list"
  ch_PublicKey :: "byte list"
  ch_ProtocolVersion :: string
  ch_AgentVersion :: string
  ch_AgentEndpoint :: string
  Nonce :: "byte list"
  ExpiresAt :: int

record challenge_row =
  jc_challenge :: Challenge
  jc_consumed_at :: "int option"
  jc_provider_id :: "string option"

record Completion =
  cm_RequestID :: string
  cm_RequestHash :: "byte list"
  cm_Challenge :: Challenge
  cm_ProviderID :: string
  cm_Capabilities :: "byte list"
  cm_RegisteredAt :: int
  cm_Status :: NodeStatus

record completion_row =
  jd_request_id :: string
  jd_challenge_id :: string
  jd_request_hash :: "byte list"
  jd_provider_id :: string
  jd_registered_at :: int

record provider_row =
  pv_provider :: RegisteredProvider
  pv_capabilities :: "byte list"
  pv_status :: NodeStatus
  pv_registered_at :: int
  pv_activated_at :: "int option"

abbreviation pv_id :: "provider_row \<Rightarrow> string" where "pv_id r \<equiv> rp_ProviderID (pv_provider r)"

abbreviation pv_key :: "provider_row \<Rightarrow> byte list" where "pv_key r \<equiv> rp_PublicKey (pv_provider r)"

datatype chain_state = CHAIN_READY | CHAIN_SUBMITTED | CHAIN_FINALIZED | CHAIN_RETRY | CHAIN_FAILED

record ChainFinalization =
  ExtrinsicHash :: "byte list option"
  FinalizedBlockHash :: "byte list"
  FinalizedBlockNumber :: u64

record chain_row =
  cr_provider_id :: string
  cr_state :: chain_state
  cr_finalization :: "ChainFinalization option"
  cr_attempt_count :: int
  cr_next_attempt_at :: "int option"
  cr_created_at :: int

record join_store =
  js_providers :: "provider_row list"
  js_challenges :: "challenge_row list"
  js_completions :: "completion_row list"
  js_registrations :: "chain_row list"

datatype join_error =
    JoinConflict | ChallengeNotFound | ChallengeExpired | ChallengeConsumed | ProviderNotFound | HeartbeatReplay
  | JoinStoreError

type_synonym 'a jresult = "(join_error + 'a) \<times> join_store"

record ProviderIdentity =
  pi_PublicKey :: "byte list"
  pi_Status :: NodeStatus

text \<open>A \<^verbatim>\<open>time.Time\<close> as a \<^verbatim>\<open>timestamptz\<close> column stores it.\<close>

definition timestamptz :: "int \<Rightarrow> int" where "timestamptz t = t div 1000 * 1000"

definition provider_identity :: "db_call \<Rightarrow> join_store \<Rightarrow> string \<Rightarrow> join_error + ProviderIdentity" where
  "provider_identity c s providerID =
     (if \<not> db_up c then Inl JoinStoreError
      else case find (\<lambda>r. pv_id r = providerID) (js_providers s) of
        None \<Rightarrow> Inl ProviderNotFound
      | Some r \<Rightarrow> Inr \<lparr>pi_PublicKey = pv_key r, pi_Status = pv_status r\<rparr>)"

section \<open>Challenges\<close>

definition scanChallenge :: "challenge_row option \<Rightarrow> join_error + Challenge" where
  "scanChallenge row =
     (case row of
        None \<Rightarrow> Inl ChallengeNotFound
      | Some r \<Rightarrow> if length (ch_RequestHash (jc_challenge r)) \<noteq> 32 then Inl JoinStoreError else Inr (jc_challenge r))"

definition challengeBy :: "(Challenge \<Rightarrow> string) \<Rightarrow> db_call \<Rightarrow> join_store \<Rightarrow> string \<Rightarrow> join_error + Challenge" where
  "challengeBy column c s i =
     (if \<not> db_up c then Inl JoinStoreError
      else case uuid_parse c i of
        None \<Rightarrow> Inl JoinStoreError
      | Some u \<Rightarrow> scanChallenge (find (\<lambda>r. column (jc_challenge r) = u) (js_challenges s)))"

definition GetChallenge :: "db_call \<Rightarrow> join_store \<Rightarrow> string \<Rightarrow> join_error + Challenge" where
  "GetChallenge = challengeBy ChallengeID"

definition challengeByBeginRequestID :: "db_call \<Rightarrow> join_store \<Rightarrow> string \<Rightarrow> join_error + Challenge" where
  "challengeByBeginRequestID = challengeBy BeginRequestID"

definition challenge_ok :: "Challenge \<Rightarrow> bool" where
  "challenge_ok ch \<longleftrightarrow> length (ch_RequestHash ch) = 32 \<and> length (ch_PublicKey ch) = 32 \<and> length (Nonce ch) = 32"

definition CreateOrGetChallenge :: "db_call \<Rightarrow> join_store \<Rightarrow> Challenge \<Rightarrow> Challenge jresult" where
  "CreateOrGetChallenge c s candidate =
     (if \<not> db_up c then (Inl JoinStoreError, s)
      else case (uuid_parse c (ChallengeID candidate), uuid_parse c (BeginRequestID candidate)) of
        (Some cid, Some bid) \<Rightarrow>
          if \<not> challenge_ok candidate then (Inl JoinStoreError, s)
          else if \<exists>r \<in> set (js_challenges s). BeginRequestID (jc_challenge r) = bid
          then (case challengeByBeginRequestID c s (BeginRequestID candidate) of
                  Inl e \<Rightarrow> (Inl e, s)
                | Inr ch \<Rightarrow>
                    if ch_RequestHash ch \<noteq> ch_RequestHash candidate then (Inl JoinConflict, s) else (Inr ch, s))
          else if \<exists>r \<in> set (js_challenges s). ChallengeID (jc_challenge r) = cid then (Inl JoinStoreError, s)
          else (Inr candidate,
                s\<lparr>js_challenges := js_challenges s @
                   [\<lparr>jc_challenge = candidate\<lparr>ChallengeID := cid, BeginRequestID := bid,
                                              ExpiresAt := timestamptz (ExpiresAt candidate)\<rparr>,
                     jc_consumed_at = None, jc_provider_id = None\<rparr>]\<rparr>)
      | _ \<Rightarrow> (Inl JoinStoreError, s))"

section \<open>Completing a join\<close>

text \<open>The completion recorded for a request id, joined with the status of its provider.\<close>

definition existingCompletion :: "join_store \<Rightarrow> string \<Rightarrow> (completion_row \<times> NodeStatus) option" where
  "existingCompletion s requestID =
     (case find (\<lambda>r. jd_request_id r = requestID) (js_completions s) of
        None \<Rightarrow> None
      | Some r \<Rightarrow> map_option (\<lambda>p. (r, pv_status p)) (find (\<lambda>p. pv_id p = jd_provider_id r) (js_providers s)))"

text \<open>\<^verbatim>\<open>INSERT INTO providers ... ON CONFLICT (provider_id) DO UPDATE\<close>: a provider that
  exists keeps its key, status and registration time. The key is unique.\<close>

definition upsertProvider :: "provider_row list \<Rightarrow> provider_row \<Rightarrow> provider_row list option" where
  "upsertProvider rows new =
     (if \<exists>r \<in> set rows. pv_id r = pv_id new
      then Some (update_where (\<lambda>r. pv_id r = pv_id new)
             (\<lambda>r. r\<lparr>pv_provider := (pv_provider new)\<lparr>rp_PublicKey := pv_key r\<rparr>,
                    pv_capabilities := pv_capabilities new\<rparr>) rows)
      else if length (pv_key new) \<noteq> 32 \<or> (\<exists>r \<in> set rows. pv_key r = pv_key new) then None
      else Some (rows @ [new]))"

definition readyRegistration :: "db_call \<Rightarrow> string \<Rightarrow> chain_row list \<Rightarrow> chain_row list" where
  "readyRegistration c providerID rows =
     (if \<exists>r \<in> set rows. cr_provider_id r = providerID then rows
      else rows @ [\<lparr>cr_provider_id = providerID, cr_state = CHAIN_READY, cr_finalization = None,
                    cr_attempt_count = 0, cr_next_attempt_at = None, cr_created_at = db_now c\<rparr>])"

definition joinedProvider :: "challenge_row \<Rightarrow> Completion \<Rightarrow> provider_row" where
  "joinedProvider row completion =
     (let ch = cm_Challenge completion in
      \<lparr>pv_provider = \<lparr>rp_ProviderID = cm_ProviderID completion, rp_PublicKey = ch_PublicKey (jc_challenge row),
         rp_ProtocolVersion = ch_ProtocolVersion ch, rp_AgentVersion = ch_AgentVersion ch,
         rp_AgentEndpoint = ch_AgentEndpoint ch\<rparr>,
       pv_capabilities = cm_Capabilities completion, pv_status = cm_Status completion,
       pv_registered_at = timestamptz (cm_RegisteredAt completion), pv_activated_at = None\<rparr>)"

definition recordCompletion :: "db_call \<Rightarrow> join_store \<Rightarrow> string \<Rightarrow> challenge_row \<Rightarrow> Completion \<Rightarrow> Completion jresult" where
  "recordCompletion c s requestID row completion =
     (let pid = cm_ProviderID completion in
      case upsertProvider (js_providers s) (joinedProvider row completion) of
        None \<Rightarrow> (Inl JoinStoreError, s)
      | Some providers' \<Rightarrow>
          if (\<exists>r \<in> set (js_completions s). jd_request_id r = requestID) \<or> length (cm_RequestHash completion) \<noteq> 32
          then (Inl JoinStoreError, s)
          else (Inr completion,
                s\<lparr>js_providers := providers',
                  js_registrations := readyRegistration c pid (js_registrations s),
                  js_challenges := update_where (\<lambda>r. ChallengeID (jc_challenge r) = ChallengeID (jc_challenge row))
                    (\<lambda>r. r\<lparr>jc_consumed_at := Some (timestamptz (cm_RegisteredAt completion)),
                           jc_provider_id := Some pid\<rparr>) (js_challenges s),
                  js_completions := js_completions s @
                    [\<lparr>jd_request_id = requestID, jd_challenge_id = ChallengeID (jc_challenge row),
                      jd_request_hash = cm_RequestHash completion, jd_provider_id = pid,
                      jd_registered_at = timestamptz (cm_RegisteredAt completion)\<rparr>]\<rparr>))"

definition repo_CompleteJoin :: "db_call \<Rightarrow> join_store \<Rightarrow> Completion \<Rightarrow> Completion jresult" where
  "repo_CompleteJoin c s completion =
     (if \<not> db_up c \<or> db_abort c then (Inl JoinStoreError, s)
      else case (uuid_parse c (cm_RequestID completion), uuid_parse c (ChallengeID (cm_Challenge completion))) of
        (Some requestID, Some cid) \<Rightarrow>
          (case existingCompletion s requestID of
             Some (r, status) \<Rightarrow>
               if jd_challenge_id r \<noteq> ChallengeID (cm_Challenge completion) \<or>
                  jd_request_hash r \<noteq> cm_RequestHash completion
               then (Inl JoinConflict, s)
               else (Inr (completion\<lparr>cm_ProviderID := jd_provider_id r, cm_RegisteredAt := jd_registered_at r,
                                     cm_Status := status\<rparr>), s)
           | None \<Rightarrow>
               (case find (\<lambda>r. ChallengeID (jc_challenge r) = cid) (js_challenges s) of
                  None \<Rightarrow> (Inl ChallengeNotFound, s)
                | Some row \<Rightarrow>
                    if jc_consumed_at row \<noteq> None then (Inl ChallengeConsumed, s)
                    else if \<not> cm_RegisteredAt completion < ExpiresAt (jc_challenge row)
                    then (Inl ChallengeExpired, s)
                    else if Nonce (jc_challenge row) \<noteq> Nonce (cm_Challenge completion) \<or>
                      ch_PublicKey (jc_challenge row) \<noteq> ch_PublicKey (cm_Challenge completion)
                    then (Inl JoinConflict, s)
                    else recordCompletion c s requestID row completion))
      | _ \<Rightarrow> (Inl JoinStoreError, s))"

section \<open>Activation and revocation\<close>

text \<open>The first completion of a provider: the least \<^verbatim>\<open>registered_at\<close>, whichever of those
  that share it the database returns first.\<close>

definition firstCompletion :: "join_store \<Rightarrow> string \<Rightarrow> completion_row option" where
  "firstCompletion s providerID =
     (case sort_key jd_registered_at (filter (\<lambda>r. jd_provider_id r = providerID) (js_completions s)) of
        [] \<Rightarrow> None | r # _ \<Rightarrow> Some r)"

definition ActivateProvider ::
  "db_call \<Rightarrow> join_store \<Rightarrow> string \<Rightarrow> ChainFinalization \<Rightarrow> (string \<times> string \<times> int \<times> NodeStatus) jresult" where
  "ActivateProvider c s providerID finalization =
     (if \<not> db_up c \<or> db_abort c then (Inl JoinStoreError, s)
      else if rows_affected (\<lambda>r. pv_id r = providerID) (js_providers s) \<noteq> 1 then (Inl ProviderNotFound, s)
      else if \<not> FinalizedBlockNumber finalization < 2 ^ 63 then (Inl JoinStoreError, s)
      else case firstCompletion s providerID of
        None \<Rightarrow> (Inl JoinStoreError, s)
      | Some r \<Rightarrow>
          (Inr (jd_request_id r, jd_provider_id r, jd_registered_at r, NODE_ACTIVE),
           s\<lparr>js_providers := update_where (\<lambda>p. pv_id p = providerID)
               (\<lambda>p. p\<lparr>pv_status := NODE_ACTIVE,
                      pv_activated_at := (case pv_activated_at p of None \<Rightarrow> Some (db_now c) | Some t \<Rightarrow> Some t)\<rparr>)
               (js_providers s),
             js_registrations := update_where (\<lambda>x. cr_provider_id x = providerID)
               (\<lambda>x. x\<lparr>cr_state := CHAIN_FINALIZED, cr_finalization := Some finalization\<rparr>) (js_registrations s)\<rparr>))"

definition RevokeProvider :: "db_call \<Rightarrow> join_store \<Rightarrow> string \<Rightarrow> unit jresult" where
  "RevokeProvider c s providerID =
     (if \<not> db_up c then (Inl JoinStoreError, s)
      else if rows_affected (\<lambda>r. pv_id r = providerID) (js_providers s) \<noteq> 1 then (Inl ProviderNotFound, s)
      else (Inr (), s\<lparr>js_providers := update_where (\<lambda>p. pv_id p = providerID) (\<lambda>p. p\<lparr>pv_status := NODE_REVOKED\<rparr>)
                       (js_providers s)\<rparr>))"

definition ListRevokedProviderIDs :: "db_call \<Rightarrow> join_store \<Rightarrow> join_error + string list" where
  "ListRevokedProviderIDs c s =
     (if \<not> db_up c then Inl JoinStoreError
      else Inr (map pv_id (filter (\<lambda>p. pv_status p = NODE_REVOKED) (js_providers s))))"

section \<open>The chain-registration outbox\<close>

record PendingChainRegistration =
  pr_ProviderID :: string
  pr_PublicKey :: "byte list"
  pr_AttemptCount :: int

definition due :: "db_call \<Rightarrow> chain_row \<Rightarrow> bool" where
  "due c r \<longleftrightarrow> cr_state r \<in> {CHAIN_READY, CHAIN_RETRY} \<and>
     (case cr_next_attempt_at r of None \<Rightarrow> True | Some t \<Rightarrow> t \<le> db_now c)"

text \<open>Rows that share a creation time may come in any order; the model takes the order of the table.\<close>

definition DueChainRegistrations :: "db_call \<Rightarrow> join_store \<Rightarrow> nat \<Rightarrow> join_error + PendingChainRegistration list" where
  "DueChainRegistrations c s limit =
     (if \<not> db_up c then Inl JoinStoreError
      else Inr (take limit (List.map_filter
        (\<lambda>r. map_option (\<lambda>p. \<lparr>pr_ProviderID = cr_provider_id r, pr_PublicKey = pv_key p,
                              pr_AttemptCount = cr_attempt_count r\<rparr>)
               (find (\<lambda>p. pv_id p = cr_provider_id r) (js_providers s)))
        (sort_key cr_created_at (filter (due c) (js_registrations s))))))"

definition RecordChainRegistrationFailure ::
  "db_call \<Rightarrow> join_store \<Rightarrow> string \<Rightarrow> int \<Rightarrow> bool \<Rightarrow> unit jresult" where
  "RecordChainRegistrationFailure c s providerID nextAttemptAt terminal =
     (if \<not> db_up c then (Inl JoinStoreError, s)
      else if rows_affected (\<lambda>r. cr_provider_id r = providerID) (js_registrations s) \<noteq> 1
      then (Inl ProviderNotFound, s)
      else (Inr (), s\<lparr>js_registrations := update_where (\<lambda>r. cr_provider_id r = providerID)
              (\<lambda>r. r\<lparr>cr_state := (if terminal then CHAIN_FAILED else CHAIN_RETRY),
                     cr_attempt_count := cr_attempt_count r + 1,
                     cr_next_attempt_at := (if terminal then None else Some (timestamptz nextAttemptAt))\<rparr>)
              (js_registrations s)\<rparr>))"

end
