(* ===== verification/Join_Service.thy ===== *)
theory Join_Service
  imports Join_Store
begin

text \<open>
  \<^verbatim>\<open>control-plane/internal/providerjoin/service.go\<close>: the challenge and response by which a
  provider joins. The cryptography, the encoding of the capabilities, the URL and UUID parsers,
  the chain registrar and the certificate authority are parameters; so are the random nonce and
  the clock. \<open>acceptCompletion\<close> is the part of \<^verbatim>\<open>CompleteJoin\<close> up to its transaction and
  \<open>activateCompletion\<close> the part that activates the provider, since other requests run between
  the two.
\<close>

datatype join_status =
    UNAUTHENTICATED | INVALID_ARGUMENT string | NOT_FOUND | ALREADY_EXISTS | FAILED_PRECONDITION
  | DEADLINE_EXCEEDED | PERMISSION_DENIED | UNAVAILABLE | INTERNAL

record parsed_url =
  Scheme :: string
  Hostname :: string
  Port :: string
  has_User :: bool
  Path :: string
  RawQuery :: string
  Fragment :: string

record IssuedCertificate =
  CertificatePEM :: string
  Serial :: string
  cert_ExpiresAt :: int

record join_service =
  jn_uuid_ok :: "string \<Rightarrow> bool"
  jn_url :: "string \<Rightarrow> parsed_url option"
  jn_sha256 :: "byte list \<Rightarrow> byte list"
  jn_verify :: "byte list \<Rightarrow> byte list \<Rightarrow> byte list \<Rightarrow> bool"
  jn_marshal :: "ResourceCapability \<Rightarrow> byte list option"
  jn_EnsureActive :: "(byte list \<Rightarrow> ChainFinalization option) option"
  jn_IssueLeaf :: "(string \<Rightarrow> byte list \<Rightarrow> int \<Rightarrow> IssuedCertificate option) option"
  jn_challengeTTL :: int
  jn_heartbeatInterval :: int

definition joinDomain :: "byte list" where "joinDomain = bytes_of ''openinfra-join-v1'' @ [0]"

definition defaultChallengeTTL :: int where "defaultChallengeTTL = 2 * 60 * second"

definition defaultHeartbeatInterval :: int where "defaultHeartbeatInterval = 15 * second"

section \<open>Requests\<close>

record BeginJoinRequest =
  bj_RequestId :: string
  bj_PublicKey :: "byte list"
  bj_ProtocolVersion :: string
  bj_AgentVersion :: string
  bj_AgentEndpoint :: string

record CompleteJoinRequest =
  cj_RequestId :: string
  cj_ChallengeId :: string
  cj_ChallengeSignature :: "byte list"
  cj_Capabilities :: "ResourceCapability option"
  cj_TlsPublicKey :: "byte list"

definition validEndpoint :: "join_service \<Rightarrow> string \<Rightarrow> bool" where
  "validEndpoint svc e =
     (case jn_url svc e of
        None \<Rightarrow> False
      | Some u \<Rightarrow> Scheme u = ''https'' \<and> Hostname u \<noteq> '''' \<and> Port u \<noteq> '''' \<and> \<not> has_User u \<and> Path u = '''' \<and>
                  RawQuery u = '''' \<and> Fragment u = '''' \<and> length e \<le> 256)"

definition validateBeginJoin :: "join_service \<Rightarrow> BeginJoinRequest option \<Rightarrow> string option" where
  "validateBeginJoin svc request =
     (case request of
        None \<Rightarrow> Some ''request is required''
      | Some r \<Rightarrow>
          if \<not> jn_uuid_ok svc (bj_RequestId r) then Some ''request_id must be a UUID''
          else if length (bj_PublicKey r) \<noteq> 32 then Some ''public_key must be 32 bytes''
          else if bj_ProtocolVersion r \<noteq> ''1'' then Some ''unsupported protocol_version''
          else if bj_AgentVersion r = '''' \<or> length (bj_AgentVersion r) > 64
          then Some ''agent_version must contain 1 to 64 characters''
          else if bj_AgentEndpoint r \<noteq> '''' \<and> \<not> validEndpoint svc (bj_AgentEndpoint r)
          then Some ''agent_endpoint must be an HTTPS host and explicit port without credentials or path''
          else None)"

fun float_less :: "gofloat \<Rightarrow> gofloat \<Rightarrow> bool" where
  "float_less (Fin m e) (Fin n d) \<longleftrightarrow> (let k = min e d in m * 2 ^ nat (e - k) < n * 2 ^ nat (d - k))"
| "float_less (Inf neg) (Fin n d) \<longleftrightarrow> neg"
| "float_less (Fin m e) (Inf neg) \<longleftrightarrow> \<not> neg"
| "float_less (Inf neg) (Inf neg') \<longleftrightarrow> neg \<and> \<not> neg'"
| "float_less _ _ \<longleftrightarrow> False"

definition finite_float :: "gofloat \<Rightarrow> bool" where
  "finite_float x = (case x of Fin m e \<Rightarrow> True | _ \<Rightarrow> False)"

definition validateCapabilities :: "ResourceCapability \<Rightarrow> string option" where
  "validateCapabilities cap =
     (if \<not> finite_float (CpuTotal cap) \<or> \<not> fpos (CpuTotal cap) then Some ''cpu_total must be a finite positive value''
      else if \<not> finite_float (CpuAvailable cap) \<or> fneg (CpuAvailable cap) \<or>
        float_less (CpuTotal cap) (CpuAvailable cap)
      then Some ''cpu_available must be finite and between zero and cpu_total''
      else if RamTotalMb cap \<le> 0 \<or> RamAvailableMb cap < 0 \<or> RamAvailableMb cap > RamTotalMb cap
      then Some ''RAM values are inconsistent''
      else if StorageTotalGb cap < 0 \<or> StorageAvailableGb cap < 0 \<or> StorageAvailableGb cap > StorageTotalGb cap
      then Some ''storage values are inconsistent''
      else None)"

definition validateCompleteJoin :: "join_service \<Rightarrow> CompleteJoinRequest option \<Rightarrow> string + CompleteJoinRequest \<times> ResourceCapability" where
  "validateCompleteJoin svc request =
     (case request of
        None \<Rightarrow> Inl ''request is required''
      | Some r \<Rightarrow>
          if \<not> jn_uuid_ok svc (cj_RequestId r) then Inl ''request_id must be a UUID''
          else if \<not> jn_uuid_ok svc (cj_ChallengeId r) then Inl ''challenge_id must be a UUID''
          else if length (cj_ChallengeSignature r) \<noteq> 64 then Inl ''challenge_signature must be 64 bytes''
          else (case cj_Capabilities r of
             None \<Rightarrow> Inl ''capabilities are required''
           | Some cap \<Rightarrow>
               (case validateCapabilities cap of
                  Some e \<Rightarrow> Inl e
                | None \<Rightarrow>
                    if cj_TlsPublicKey r \<noteq> [] \<and> length (cj_TlsPublicKey r) \<noteq> 32
                    then Inl ''tls_public_key must be empty or 32 bytes'' else Inr (r, cap))))"

definition beginRequestHash :: "join_service \<Rightarrow> BeginJoinRequest \<Rightarrow> byte list" where
  "beginRequestHash svc r =
     jn_sha256 svc (bj_PublicKey r @ [0] @ bytes_of (bj_ProtocolVersion r) @ [0] @ bytes_of (bj_AgentVersion r) @ [0] @
       bytes_of (bj_AgentEndpoint r))"

definition completeRequestHash :: "join_service \<Rightarrow> CompleteJoinRequest \<Rightarrow> byte list \<Rightarrow> byte list" where
  "completeRequestHash svc r capabilities =
     jn_sha256 svc (bytes_of (cj_ChallengeId r) @ [0] @ cj_ChallengeSignature r @ [0] @ capabilities)"

fun join_repositoryError :: "join_error \<Rightarrow> join_status" where
  "join_repositoryError JoinConflict = ALREADY_EXISTS"
| "join_repositoryError ChallengeConsumed = ALREADY_EXISTS"
| "join_repositoryError ChallengeNotFound = NOT_FOUND"
| "join_repositoryError ProviderNotFound = NOT_FOUND"
| "join_repositoryError HeartbeatReplay = FAILED_PRECONDITION"
| "join_repositoryError ChallengeExpired = DEADLINE_EXCEEDED"
| "join_repositoryError JoinStoreError = INTERNAL"

section \<open>Joining\<close>

text \<open>\<open>rand\<close> is what the random source gives for the nonce; \<open>fresh1\<close> of the call is the new
  challenge id.\<close>

definition newChallenge :: "join_service \<Rightarrow> db_call \<Rightarrow> int \<Rightarrow> byte list \<Rightarrow> BeginJoinRequest \<Rightarrow> Challenge" where
  "newChallenge svc c now nonce r =
     \<lparr>ChallengeID = fresh1 c, BeginRequestID = bj_RequestId r, ch_RequestHash = beginRequestHash svc r,
      ch_PublicKey = bj_PublicKey r, ch_ProtocolVersion = bj_ProtocolVersion r, ch_AgentVersion = bj_AgentVersion r,
      ch_AgentEndpoint = bj_AgentEndpoint r, Nonce = nonce, ExpiresAt = now + jn_challengeTTL svc\<rparr>"

definition BeginJoin ::
  "join_service \<Rightarrow> db_call \<Rightarrow> int \<Rightarrow> byte list option \<Rightarrow> join_store \<Rightarrow> BeginJoinRequest option
     \<Rightarrow> (join_status + string \<times> byte list \<times> int) \<times> join_store" where
  "BeginJoin svc c now rand s request =
     (case (validateBeginJoin svc request, request) of
        (None, Some r) \<Rightarrow>
          (case rand of
             None \<Rightarrow> (Inl INTERNAL, s)
           | Some nonce \<Rightarrow>
               (case CreateOrGetChallenge c s (newChallenge svc c now nonce r) of
                  (Inl e, s') \<Rightarrow> (Inl (join_repositoryError e), s')
                | (Inr stored, s') \<Rightarrow> (Inr (ChallengeID stored, Nonce stored, ExpiresAt stored), s')))
      | (Some e, _) \<Rightarrow> (Inl (INVALID_ARGUMENT e), s)
      | (None, None) \<Rightarrow> (Inl (INVALID_ARGUMENT ''request is required''), s))"

definition acceptCompletion ::
  "join_service \<Rightarrow> db_call \<Rightarrow> db_call \<Rightarrow> int \<Rightarrow> join_store \<Rightarrow> CompleteJoinRequest option
     \<Rightarrow> (join_status + Completion) \<times> join_store" where
  "acceptCompletion svc c1 c2 now s request =
     (case validateCompleteJoin svc request of
        Inl e \<Rightarrow> (Inl (INVALID_ARGUMENT e), s)
      | Inr (r, cap) \<Rightarrow>
     (case GetChallenge c1 s (cj_ChallengeId r) of
        Inl e \<Rightarrow> (Inl (join_repositoryError e), s)
      | Inr challenge \<Rightarrow>
          if \<not> jn_verify svc (ch_PublicKey challenge) (joinDomain @ Nonce challenge) (cj_ChallengeSignature r)
          then (Inl UNAUTHENTICATED, s)
          else (case jn_marshal svc cap of
             None \<Rightarrow> (Inl (INVALID_ARGUMENT ''invalid capabilities''), s)
           | Some capabilities \<Rightarrow>
               (case repo_CompleteJoin c2 s
                       \<lparr>cm_RequestID = cj_RequestId r, cm_RequestHash = completeRequestHash svc r capabilities,
                        cm_Challenge = challenge, cm_ProviderID = hex_encode (jn_sha256 svc (ch_PublicKey challenge)),
                        cm_Capabilities = capabilities, cm_RegisteredAt = now, cm_Status = NODE_PENDING\<rparr> of
                  (Inl e, s') \<Rightarrow> (Inl (join_repositoryError e), s')
                | (Inr completed, s') \<Rightarrow> (Inr completed, s')))))"

definition activateCompletion ::
  "join_service \<Rightarrow> db_call \<Rightarrow> join_store \<Rightarrow> Completion
     \<Rightarrow> (join_status + string \<times> NodeStatus \<times> int) \<times> join_store" where
  "activateCompletion svc c s completed =
     (if cm_Status completed = NODE_ACTIVE
      then (Inr (cm_ProviderID completed, cm_Status completed, cm_RegisteredAt completed), s)
      else case jn_EnsureActive svc of
        None \<Rightarrow> (Inl UNAVAILABLE, s)
      | Some ensure \<Rightarrow>
          (case ensure (ch_PublicKey (cm_Challenge completed)) of
             None \<Rightarrow> (Inl UNAVAILABLE, s)
           | Some finalization \<Rightarrow>
               (case ActivateProvider c s (cm_ProviderID completed) finalization of
                  (Inl e, s') \<Rightarrow> (Inl (join_repositoryError e), s')
                | (Inr (_, pid, registeredAt, status), s') \<Rightarrow> (Inr (pid, status, registeredAt), s'))))"

record CompleteJoinResponse =
  cjr_ProviderId :: string
  cjr_Status :: NodeStatus
  cjr_RegisteredAt :: int
  cjr_HeartbeatIntervalSeconds :: u32
  cjr_Certificate :: "(string \<times> int) option"

definition issueOnJoin ::
  "join_service \<Rightarrow> int \<Rightarrow> byte list \<Rightarrow> CompleteJoinResponse \<Rightarrow> join_status + CompleteJoinResponse" where
  "issueOnJoin svc now tlsKey response =
     (if length tlsKey \<noteq> 32 then Inr response
      else case jn_IssueLeaf svc of
        None \<Rightarrow> Inl UNAVAILABLE
      | Some issue \<Rightarrow>
          (case issue (cjr_ProviderId response) tlsKey now of
             None \<Rightarrow> Inl INTERNAL
           | Some cert \<Rightarrow> Inr (response\<lparr>cjr_Certificate := Some (CertificatePEM cert, cert_ExpiresAt cert)\<rparr>)))"

definition CompleteJoin ::
  "join_service \<Rightarrow> db_call \<Rightarrow> db_call \<Rightarrow> db_call \<Rightarrow> int \<Rightarrow> join_store \<Rightarrow> CompleteJoinRequest option
     \<Rightarrow> (join_status + CompleteJoinResponse) \<times> join_store" where
  "CompleteJoin svc c1 c2 c3 now s request =
     (case acceptCompletion svc c1 c2 now s request of
        (Inl e, s') \<Rightarrow> (Inl e, s')
      | (Inr completed, s') \<Rightarrow>
          (case activateCompletion svc c3 s' completed of
             (Inl e, s'') \<Rightarrow> (Inl e, s'')
           | (Inr (pid, status, registeredAt), s'') \<Rightarrow>
               (issueOnJoin svc now (case request of None \<Rightarrow> [] | Some r \<Rightarrow> cj_TlsPublicKey r)
                  \<lparr>cjr_ProviderId = pid, cjr_Status = status, cjr_RegisteredAt = registeredAt,
                   cjr_HeartbeatIntervalSeconds = word_of_int (go_div (jn_heartbeatInterval svc) second),
                   cjr_Certificate = None\<rparr>, s'')))"

section \<open>The registration reconciler\<close>

text \<open>\<^verbatim>\<open>providerjoin/reconciler.go\<close>. The chain answers per key: a finalization, or an error
  that is or is not a temporary ban. The clock, the database and the context are read anew for
  each registration of the batch.\<close>

record reconciler_env =
  re_EnsureActive :: "(byte list \<Rightarrow> bool + ChainFinalization) option"
  re_now :: "nat \<Rightarrow> int"
  re_list :: db_call
  re_call :: "nat \<Rightarrow> db_call"
  re_cancelled :: "nat \<Rightarrow> bool"

definition reconciler_fail ::
  "ReconcilerConfig \<Rightarrow> int \<Rightarrow> db_call \<Rightarrow> join_store \<Rightarrow> string \<Rightarrow> bool \<Rightarrow> int \<Rightarrow> bool \<Rightarrow> join_store" where
  "reconciler_fail cfg now c s providerID banned attemptNumber terminal =
     (let backoff = reconciler_backoffFor cfg attemptNumber;
          backoff = (if banned \<and> backoff < rc_MaxBackoff cfg then rc_MaxBackoff cfg else backoff) in
      snd (RecordChainRegistrationFailure c s providerID (now + backoff) terminal))"

definition reconcileOne ::
  "ReconcilerConfig \<Rightarrow> reconciler_env \<Rightarrow> nat \<Rightarrow> join_store \<Rightarrow> PendingChainRegistration \<Rightarrow> join_store" where
  "reconcileOne cfg env i s registration =
     (case re_EnsureActive env of
        None \<Rightarrow> s
      | Some ensure \<Rightarrow>
          let attempt = pr_AttemptCount registration + 1 in
          if length (pr_PublicKey registration) \<noteq> 32
          then reconciler_fail cfg (re_now env i) (re_call env i) s (pr_ProviderID registration) False attempt True
          else (case ensure (pr_PublicKey registration) of
             Inl banned \<Rightarrow>
               reconciler_fail cfg (re_now env i) (re_call env i) s (pr_ProviderID registration) banned attempt
                 (attempt \<ge> rc_MaxAttempts cfg)
           | Inr finalization \<Rightarrow> snd (ActivateProvider (re_call env i) s (pr_ProviderID registration) finalization)))"

fun reconcileLoop ::
  "ReconcilerConfig \<Rightarrow> reconciler_env \<Rightarrow> nat \<Rightarrow> PendingChainRegistration list \<Rightarrow> join_store \<Rightarrow> join_store" where
  "reconcileLoop cfg env i [] s = s"
| "reconcileLoop cfg env i (r # rs) s =
     (if re_cancelled env i then s
      else reconcileLoop cfg env (Suc i) rs (reconcileOne cfg env i s r))"

definition ReconcileOnce :: "ReconcilerConfig \<Rightarrow> reconciler_env \<Rightarrow> join_store \<Rightarrow> join_store" where
  "ReconcileOnce cfg env s =
     (case DueChainRegistrations (re_list env) s (nat (rc_BatchSize cfg)) of
        Inl _ \<Rightarrow> s | Inr rs \<Rightarrow> reconcileLoop cfg env 0 rs s)"

end
