(* ===== verification/Heartbeat.thy ===== *)
theory Heartbeat
  imports Join_Service
begin

text \<open>
  \<^verbatim>\<open>control-plane/internal/providerjoin\<close>: \<^verbatim>\<open>ReportHeartbeat\<close> of service.go with the
  Redis heartbeat store (redis.go), the bandwidth counters (bandwidth.go, postgres_bandwidth.go)
  and the reconciliation of the reported workloads. A protobuf timestamp is the instant it
  denotes in nanoseconds, or \<open>None\<close> where \<^verbatim>\<open>CheckValid\<close> refuses it. The encoding of the
  payload and the signature check are those of the join service.
\<close>

definition heartbeatDomain :: "byte list" where "heartbeatDomain = bytes_of ''openinfra-heartbeat-v1'' @ [0]"

definition defaultHeartbeatTTL :: int where "defaultHeartbeatTTL = 45 * second"

definition maxHeartbeatClockSkew :: int where "maxHeartbeatClockSkew = 2 * 60 * second"

section \<open>The heartbeat store\<close>

text \<open>What Redis keeps for one provider, and until when. The cache maps provider ids to entries;
  an entry past its time is gone.\<close>

record heartbeat_entry =
  hb_request_id :: string
  hb_sequence :: u64
  hb_payload_hash :: string
  hb_payload :: "byte list"
  hb_expires_at :: int

type_synonym heartbeat_cache = "string \<Rightarrow> heartbeat_entry option"

record redis_call =
  rd_up :: bool
  rd_now :: int

definition live_entry :: "heartbeat_cache \<Rightarrow> int \<Rightarrow> string \<Rightarrow> heartbeat_entry option" where
  "live_entry cache now providerID =
     (case cache providerID of
        None \<Rightarrow> None | Some e \<Rightarrow> if now < hb_expires_at e then Some e else None)"

text \<open>Lua keeps numbers as 64-bit floats: \<^verbatim>\<open>tonumber\<close> rounds a sequence of more than 53
  bits to the nearest one, ties to even.\<close>

definition lua_number :: "u64 \<Rightarrow> int" where
  "lua_number n = (let s = bitlen (unat n) - 53 in shift_half_even (uint n) s * 2 ^ s)"

text \<open>The script; \<open>milliseconds\<close> is \<^verbatim>\<open>ARGV[5]\<close>.\<close>

definition acceptHeartbeatScript ::
  "int \<Rightarrow> heartbeat_cache \<Rightarrow> string \<Rightarrow> string \<Rightarrow> u64 \<Rightarrow> string \<Rightarrow> byte list \<Rightarrow> int \<Rightarrow> int \<times> heartbeat_cache" where
  "acceptHeartbeatScript now cache key requestID sequence payloadHash payload milliseconds =
     (let expires = now + milliseconds * 1000000;
          new = \<lparr>hb_request_id = requestID, hb_sequence = sequence, hb_payload_hash = payloadHash, hb_payload = payload,
                 hb_expires_at = expires\<rparr> in
      case live_entry cache now key of
        None \<Rightarrow> (1, cache(key \<mapsto> new))
      | Some current \<Rightarrow>
          if hb_request_id current = requestID
          then if hb_payload_hash current = payloadHash
               then (1, cache(key \<mapsto> current\<lparr>hb_expires_at := expires\<rparr>)) else (-1, cache)
          else if lua_number sequence \<le> lua_number (hb_sequence current) then (-2, cache)
          else (1, cache(key \<mapsto> new)))"

definition heartbeat_Accept ::
  "redis_call \<Rightarrow> heartbeat_cache \<Rightarrow> string \<Rightarrow> string \<Rightarrow> u64 \<Rightarrow> byte list \<Rightarrow> byte list \<Rightarrow> int
     \<Rightarrow> (join_error + unit) \<times> heartbeat_cache" where
  "heartbeat_Accept rd cache providerID requestID sequence payloadHash payload ttl =
     (if \<not> rd_up rd then (Inl JoinStoreError, cache)
      else case acceptHeartbeatScript (rd_now rd) cache providerID requestID sequence (hex_encode payloadHash) payload
                  (go_div ttl 1000000) of
        (result, cache') \<Rightarrow>
          if result = 1 then (Inr (), cache')
          else if result = -1 then (Inl JoinConflict, cache')
          else if result = -2 then (Inl HeartbeatReplay, cache')
          else (Inl JoinStoreError, cache'))"

section \<open>Bandwidth counters\<close>

definition maxWorkloadBandwidthEntriesPerHeartbeat :: nat where "maxWorkloadBandwidthEntriesPerHeartbeat = 256"

record WorkloadBandwidthUsage =
  bw_WorkloadId :: string
  bw_IngressBytesTotal :: u64
  bw_EgressBytesTotal :: u64
  bw_WindowStartedAt :: "int option"

record usage_row =
  us_provider_id :: string
  us_workload_id :: string
  us_ingress :: int
  us_egress :: int
  us_window_started_at :: int
  us_last_reported_at :: int

fun bandwidthEntriesError :: "(string \<Rightarrow> bool) \<Rightarrow> WorkloadBandwidthUsage option list \<Rightarrow> string option" where
  "bandwidthEntriesError valid_id [] = None"
| "bandwidthEntriesError valid_id (None # es) = Some ''workload_bandwidth entries must not be nil''"
| "bandwidthEntriesError valid_id (Some e # es) =
     (if \<not> valid_id (bw_WorkloadId e) then Some ''workload_bandwidth[].workload_id must be a UUID''
      else if bw_WindowStartedAt e = None then Some ''workload_bandwidth[].window_started_at must be a valid timestamp''
      else bandwidthEntriesError valid_id es)"

definition validateWorkloadBandwidth :: "(string \<Rightarrow> bool) \<Rightarrow> WorkloadBandwidthUsage option list \<Rightarrow> string option" where
  "validateWorkloadBandwidth valid_id entries =
     (if length entries > maxWorkloadBandwidthEntriesPerHeartbeat
      then Some ''workload_bandwidth exceeds the maximum entries per heartbeat''
      else bandwidthEntriesError valid_id entries)"

text \<open>The upsert of one row. \<open>None\<close> is the statement's failure when a row it has just written
  would be written again; \<open>touched\<close> holds the keys written so far.\<close>

definition usage_newer :: "usage_row \<Rightarrow> usage_row \<Rightarrow> bool" where
  "usage_newer new row \<longleftrightarrow> us_window_started_at new \<noteq> us_window_started_at row \<or>
     (us_ingress new \<ge> us_ingress row \<and> us_egress new \<ge> us_egress row)"

definition usage_key :: "usage_row \<Rightarrow> string \<times> string" where
  "usage_key r = (us_provider_id r, us_workload_id r)"

fun upsertUsage :: "usage_row list \<Rightarrow> (string \<times> string) list \<Rightarrow> usage_row list \<Rightarrow> usage_row list option" where
  "upsertUsage [] touched rows = Some rows"
| "upsertUsage (new # rest) touched rows =
     (if usage_key new \<in> set touched then None
      else case find (\<lambda>r. usage_key r = usage_key new) rows of
        None \<Rightarrow> upsertUsage rest (usage_key new # touched) (rows @ [new])
      | Some row \<Rightarrow>
          if usage_newer new row
          then upsertUsage rest (usage_key new # touched) (update_where (\<lambda>r. usage_key r = usage_key new) (\<lambda>_. new) rows)
          else upsertUsage rest touched rows)"

definition fits_bigint :: "WorkloadBandwidthUsage \<Rightarrow> bool" where
  "fits_bigint e \<longleftrightarrow> \<not> (uint (bw_IngressBytesTotal e) > 2 ^ 63 - 1 \<or> uint (bw_EgressBytesTotal e) > 2 ^ 63 - 1)"

text \<open>The row set of the statement: the array parameters decode, or it fails as a whole; entries
  of workloads that do not exist are left out by the join.\<close>

fun usageRows :: "db_call \<Rightarrow> string list \<Rightarrow> string \<Rightarrow> WorkloadBandwidthUsage list \<Rightarrow> usage_row list option" where
  "usageRows c known providerID [] = Some []"
| "usageRows c known providerID (e # es) =
     (case (uuid_parse c (bw_WorkloadId e), usageRows c known providerID es) of
        (Some workloadID, Some rows) \<Rightarrow>
          Some (if workloadID \<in> set known
                then \<lparr>us_provider_id = providerID, us_workload_id = workloadID, us_ingress = uint (bw_IngressBytesTotal e),
                      us_egress = uint (bw_EgressBytesTotal e),
                      us_window_started_at = timestamptz (case bw_WindowStartedAt e of None \<Rightarrow> 0 | Some t \<Rightarrow> t),
                      us_last_reported_at = db_now c\<rparr> # rows
                else rows)
      | _ \<Rightarrow> None)"

text \<open>\<open>enrolled\<close> and \<open>known\<close> are the ids the foreign keys refer to; the result says
  whether an error was returned.\<close>

definition RecordUsage_heartbeat ::
  "db_call \<Rightarrow> string list \<Rightarrow> string list \<Rightarrow> usage_row list \<Rightarrow> string \<Rightarrow> WorkloadBandwidthUsage list \<Rightarrow> bool \<times> usage_row list" where
  "RecordUsage_heartbeat c enrolled known table providerID entries =
     (let kept = filter fits_bigint entries; skipped = length kept < length entries in
      if entries = [] then (False, table)
      else if kept = [] then (skipped, table)
      else if \<not> db_up c then (True, table)
      else case usageRows c known providerID kept of
        None \<Rightarrow> (True, table)
      | Some rows \<Rightarrow>
          if rows \<noteq> [] \<and> providerID \<notin> set enrolled then (True, table)
          else (case upsertUsage rows [] table of
             None \<Rightarrow> (True, table) | Some table' \<Rightarrow> (skipped, table')))"

section \<open>Reporting a heartbeat\<close>

record HeartbeatSigningPayload =
  hp_unknown :: bool
  hp_RequestId :: string
  hp_ProviderId :: string
  hp_Sequence :: u64
  hp_ObservedAt :: "int option"
  hp_Capabilities :: "ResourceCapability option"
  hp_WorkloadBandwidth :: "WorkloadBandwidthUsage option list"
  hp_WorkloadStatus :: "WorkloadStatusSummary option list"

record ReportHeartbeatRequest =
  hr_Payload :: "HeartbeatSigningPayload option"
  hr_Signature :: "byte list"

definition maxWorkloadStatusEntriesPerHeartbeat :: nat where "maxWorkloadStatusEntriesPerHeartbeat = 256"

fun statusEntriesError :: "(string \<Rightarrow> bool) \<Rightarrow> WorkloadStatusSummary option list \<Rightarrow> string option" where
  "statusEntriesError valid_id [] = None"
| "statusEntriesError valid_id (None # es) = Some ''workload_status entries must not be nil''"
| "statusEntriesError valid_id (Some e # es) =
     (if \<not> valid_id (st_WorkloadId e) then Some ''workload_status[].workload_id must be a UUID''
      else statusEntriesError valid_id es)"

definition validateWorkloadStatus :: "(string \<Rightarrow> bool) \<Rightarrow> WorkloadStatusSummary option list \<Rightarrow> string option" where
  "validateWorkloadStatus valid_id entries =
     (if length entries > maxWorkloadStatusEntriesPerHeartbeat
      then Some ''workload_status exceeds the maximum entries per heartbeat''
      else statusEntriesError valid_id entries)"

definition hex_digit :: "char \<Rightarrow> bool" where "hex_digit ch \<longleftrightarrow> ch \<in> set ''0123456789abcdefABCDEF''"

definition upper_hex :: "char \<Rightarrow> bool" where "upper_hex ch \<longleftrightarrow> ch \<in> set ''ABCDEF''"

definition validateHeartbeat ::
  "join_service \<Rightarrow> ReportHeartbeatRequest option \<Rightarrow> int \<Rightarrow> string + HeartbeatSigningPayload \<times> int" where
  "validateHeartbeat svc request now =
     (case request of
        None \<Rightarrow> Inl ''payload is required''
      | Some r \<Rightarrow>
     (case hr_Payload r of
        None \<Rightarrow> Inl ''payload is required''
      | Some p \<Rightarrow>
          if hp_unknown p then Inl ''payload contains unknown fields''
          else if \<not> jn_uuid_ok svc (hp_RequestId p) then Inl ''request_id must be a UUID''
          else if length (hp_ProviderId p) \<noteq> 64 then Inl ''provider_id must be a 64-character hexadecimal identifier''
          else if \<not> list_all hex_digit (hp_ProviderId p) then Inl ''provider_id must be lowercase hexadecimal''
          else if list_ex upper_hex (hp_ProviderId p) then Inl ''provider_id must be lowercase hexadecimal''
          else if hp_Sequence p = 0 then Inl ''sequence must be positive''
          else (case hp_ObservedAt p of
             None \<Rightarrow> Inl ''observed_at must be a valid timestamp''
           | Some observedAt \<Rightarrow>
               if observedAt < now - maxHeartbeatClockSkew \<or> observedAt > now + maxHeartbeatClockSkew
               then Inl ''observed_at is outside the allowed clock skew''
               else (case hp_Capabilities p of
                  None \<Rightarrow> Inl ''capabilities are required''
                | Some capabilities \<Rightarrow>
                    (case validateCapabilities capabilities of
                       Some e \<Rightarrow> Inl e
                     | None \<Rightarrow>
                    (case validateWorkloadBandwidth (jn_uuid_ok svc) (hp_WorkloadBandwidth p) of
                       Some e \<Rightarrow> Inl e
                     | None \<Rightarrow>
                    (case validateWorkloadStatus (jn_uuid_ok svc) (hp_WorkloadStatus p) of
                       Some e \<Rightarrow> Inl e
                     | None \<Rightarrow>
                         if length (hr_Signature r) \<noteq> 64 then Inl ''signature must be 64 bytes''
                         else Inr (p, observedAt))))))))"

text \<open>What the handler changes: the heartbeat cache, the bandwidth counters and the workloads.\<close>

record heartbeat_state =
  hs_cache :: heartbeat_cache
  hs_usage :: "usage_row list"
  hs_workloads :: workload_store

text \<open>One request's surroundings: the clock when it arrives and when it is answered, the calls it
  makes, and which optional parts are configured. \<open>he_marshal\<close> encodes the payload.\<close>

record heartbeat_env =
  he_now :: int
  he_answered_at :: int
  he_identity :: db_call
  he_marshal :: "HeartbeatSigningPayload \<Rightarrow> byte list option"
  he_redis :: "redis_call option"
  he_bandwidth :: "db_call option"
  he_reconcile :: "(nat \<Rightarrow> db_call) option"
  he_validators :: "(unit + byte list list) option"

definition recordBandwidthUsage ::
  "heartbeat_env \<Rightarrow> join_store \<Rightarrow> string \<Rightarrow> WorkloadBandwidthUsage list \<Rightarrow> heartbeat_state \<Rightarrow> heartbeat_state" where
  "recordBandwidthUsage env s providerID entries st =
     (case he_bandwidth env of
        None \<Rightarrow> st
      | Some c \<Rightarrow>
          if entries = [] then st
          else st\<lparr>hs_usage := snd (RecordUsage_heartbeat c (map pv_id (js_providers s)) (map w_workload_id (ws_rows (hs_workloads st)))
                                     (hs_usage st) providerID entries)\<rparr>)"

definition reconcileWorkloadStatus ::
  "heartbeat_env \<Rightarrow> string \<Rightarrow> WorkloadStatusSummary option list \<Rightarrow> heartbeat_state \<Rightarrow> heartbeat_state" where
  "reconcileWorkloadStatus env providerID statuses st =
     (case he_reconcile env of
        None \<Rightarrow> st
      | Some call \<Rightarrow>
          if statuses = [] then st
          else st\<lparr>hs_workloads := snd (ReconcileWorkloadStatus (hs_workloads st) providerID
                    (zip (map call [0..<length statuses]) statuses) None)\<rparr>)"

definition activeValidators :: "heartbeat_env \<Rightarrow> byte list list" where
  "activeValidators env =
     (case he_validators env of
        None \<Rightarrow> [] | Some (Inl _) \<Rightarrow> [] | Some (Inr accounts) \<Rightarrow> accounts)"

record ReportHeartbeatResponse =
  hrr_Status :: NodeStatus
  hrr_AcceptedAt :: int
  hrr_NextHeartbeatSeconds :: u32
  hrr_ActiveValidators :: "byte list list"

definition ReportHeartbeat ::
  "join_service \<Rightarrow> heartbeat_env \<Rightarrow> join_store \<Rightarrow> heartbeat_state \<Rightarrow> ReportHeartbeatRequest option
     \<Rightarrow> (join_status + ReportHeartbeatResponse) \<times> heartbeat_state" where
  "ReportHeartbeat svc env s st request =
     (case he_redis env of
        None \<Rightarrow> (Inl UNAVAILABLE, st)
      | Some rd \<Rightarrow>
     (case validateHeartbeat svc request (he_now env) of
        Inl e \<Rightarrow> (Inl (INVALID_ARGUMENT e), st)
      | Inr (p, _) \<Rightarrow>
     (case provider_identity (he_identity env) s (hp_ProviderId p) of
        Inl e \<Rightarrow> (Inl (join_repositoryError e), st)
      | Inr identity \<Rightarrow>
     (case he_marshal env p of
        None \<Rightarrow> (Inl (INVALID_ARGUMENT ''invalid heartbeat payload''), st)
      | Some payloadBytes \<Rightarrow>
          if pi_Status identity \<noteq> NODE_ACTIVE then (Inl FAILED_PRECONDITION, st)
          else if \<not> jn_verify svc (pi_PublicKey identity) (heartbeatDomain @ payloadBytes)
                      (case request of None \<Rightarrow> [] | Some r \<Rightarrow> hr_Signature r)
          then (Inl UNAUTHENTICATED, st)
          else (case heartbeat_Accept rd (hs_cache st) (hp_ProviderId p) (hp_RequestId p) (hp_Sequence p)
                       (jn_sha256 svc payloadBytes) payloadBytes defaultHeartbeatTTL of
             (Inl e, cache) \<Rightarrow> (Inl (join_repositoryError e), st\<lparr>hs_cache := cache\<rparr>)
           | (Inr _, cache) \<Rightarrow>
               (Inr \<lparr>hrr_Status = NODE_ACTIVE, hrr_AcceptedAt = he_answered_at env,
                     hrr_NextHeartbeatSeconds = word_of_int (go_div (jn_heartbeatInterval svc) second),
                     hrr_ActiveValidators = activeValidators env\<rparr>,
                reconcileWorkloadStatus env (hp_ProviderId p) (hp_WorkloadStatus p)
                  (recordBandwidthUsage env s (hp_ProviderId p) (map the (hp_WorkloadBandwidth p))
                     (st\<lparr>hs_cache := cache\<rparr>))))))))"

end
