(* ===== verification/Heartbeat_Usage.thy ===== *)
theory Heartbeat_Usage
  imports Heartbeat
begin

text \<open>
  The bandwidth counters of \<^verbatim>\<open>providerjoin/postgres_bandwidth.go\<close>: one row per provider and
  workload, counters that only grow within a window, and what one workload reported twice does
  to a whole heartbeat's counters.
\<close>

lemma upsertUsage_keys:
  assumes "upsertUsage news touched rows = Some rows'" and "distinct (map usage_key rows)"
  shows "distinct (map usage_key rows')"
  using assms
proof (induction news touched rows rule: upsertUsage.induct)
  case (2 new rest touched rows)
  let ?rows = "update_where (\<lambda>r. usage_key r = usage_key new) (\<lambda>_. new) rows"
  have keys: "map usage_key ?rows = map usage_key rows" by (induction rows) simp_all
  show ?case
  proof (cases "find (\<lambda>r. usage_key r = usage_key new) rows")
    case None
    then have "usage_key new \<notin> usage_key ` set rows" by (auto simp: find_None_iff)
    with 2 None show ?thesis by (simp split: if_splits)
  next
    case (Some row)
    with 2 keys show ?thesis by (simp split: if_splits)
  qed
qed simp

text \<open>A row is only ever replaced by a report of another window or with counters at least as large.\<close>

lemma upsertUsage_grows:
  assumes "upsertUsage news touched rows = Some rows'" and "distinct (map usage_key rows)" and "r \<in> set rows"
  shows "\<exists>r' \<in> set rows'. usage_key r' = usage_key r \<and> (usage_key r \<in> set touched \<longrightarrow> r' = r) \<and> (r' = r \<or> usage_newer r' r)"
  using assms
proof (induction news touched rows arbitrary: r rule: upsertUsage.induct)
  case (2 new rest touched rows)
  let ?rows = "update_where (\<lambda>r. usage_key r = usage_key new) (\<lambda>_. new) rows"
  have fresh: "usage_key new \<notin> set touched" using "2.prems"(1) by (simp split: if_splits)
  show ?case
  proof (cases "find (\<lambda>r. usage_key r = usage_key new) rows")
    case None
    then have new: "usage_key new \<notin> usage_key ` set rows" by (auto simp: find_None_iff)
    from "2.IH"(1) [OF fresh None, of r] "2.prems" None fresh new show ?thesis by auto
  next
    case (Some row)
    then have row: "row \<in> set rows" "usage_key row = usage_key new" by (auto dest: find_SomeD)
    have keys: "map usage_key ?rows = map usage_key rows" by (induction rows) simp_all
    show ?thesis
    proof (cases "usage_newer new row")
      case False
      with "2.IH"(3) [OF fresh Some False, of r] "2.prems" Some fresh show ?thesis by simp
    next
      case True
      then have rest: "upsertUsage rest (usage_key new # touched) ?rows = Some rows'" using "2.prems"(1) Some fresh by simp
      note IH = "2.IH"(2) [OF fresh Some True rest]
      show ?thesis
      proof (cases "usage_key r = usage_key new")
        case key: True
        then have "r = row" using "2.prems"(2,3) row by (metis (no_types, lifting) distinct_map inj_onD)
        have "new \<in> set ?rows" using row by (induction rows) auto
        from IH [OF _ this] "2.prems"(2) keys obtain r' where "r' \<in> set rows'" "r' = new" by auto
        with key True \<open>r = row\<close> fresh show ?thesis by auto
      next
        case key: False
        then have "r \<in> set ?rows" using "2.prems"(3) by (induction rows) auto
        from IH [OF _ this] "2.prems"(2) keys key show ?thesis by auto
      qed
    qed
  qed
qed auto

text \<open>A workload that is reported twice in one heartbeat fails the whole statement when its row is
  new: none of the other entries is recorded either.\<close>

lemma upsertUsage_duplicate:
  assumes "\<forall>n \<in> set news. usage_key n \<in> set touched \<or> usage_key n \<notin> usage_key ` set rows"
    and "(\<exists>n \<in> set news. usage_key n \<in> set touched) \<or> \<not> distinct (map usage_key news)"
  shows "upsertUsage news touched rows = None"
  using assms
proof (induction news touched rows rule: upsertUsage.induct)
  case (2 new rest touched rows)
  show ?case
  proof (cases "usage_key new \<in> set touched")
    case False
    with "2.prems"(1) have none: "find (\<lambda>r. usage_key r = usage_key new) rows = None"
      by (auto simp: find_None_iff) (metis imageI)
    have "\<forall>n \<in> set rest. usage_key n \<in> set (usage_key new # touched) \<or> usage_key n \<notin> usage_key ` set (rows @ [new])"
      using "2.prems"(1) by auto
    moreover have "(\<exists>n \<in> set rest. usage_key n \<in> set (usage_key new # touched)) \<or> \<not> distinct (map usage_key rest)"
      using "2.prems"(2) False by force
    ultimately show ?thesis using "2.IH"(1) [OF False none] False none by simp
  qed simp
qed simp

theorem duplicate_entry_drops_heartbeat:
  assumes "usageRows c known pid (filter fits_bigint entries) = Some rows" and "\<not> distinct (map usage_key rows)"
    and "\<forall>n \<in> set rows. usage_key n \<notin> usage_key ` set table"
  shows "RecordUsage_heartbeat c enrolled known table pid entries = (True, table)"
proof -
  have "upsertUsage rows [] table = None" using assms(2,3) by (intro upsertUsage_duplicate) simp_all
  moreover have "filter fits_bigint entries \<noteq> []" using assms(1,2) by auto
  moreover from this have "entries \<noteq> []" by auto
  ultimately show ?thesis using assms(1) unfolding RecordUsage_heartbeat_def Let_def by (simp split: if_splits)
qed

end
