(* ===== verification/Pki.thy ===== *)
theory Pki
  imports Heartbeat
begin

text \<open>
  \<^verbatim>\<open>control-plane/internal/pki\<close>: the certificate authority (ca.go), the check of a client's
  certificate at the handshake (tls.go) and on every call (interceptor.go), and the live
  revocation set with its reconciler (revocation.go). A certificate is the fields the package
  reads; whether its signature verifies under the authority's root or under its own key, and how
  it is encoded, are parameters of the authority.
\<close>

record Certificate =
  SerialNumber :: nat
  CommonName :: string
  NotBefore :: int
  NotAfter :: int
  crt_PublicKey :: "byte list"
  crt_ClientAuth :: bool
  crt_Signature :: "byte list"

record CA =
  ca_sign :: "Certificate \<Rightarrow> byte list option"
  ca_check :: "Certificate \<Rightarrow> bool"
  ca_check_self :: "Certificate \<Rightarrow> bool"
  ca_pem :: "Certificate \<Rightarrow> string"

section \<open>Loading the authority\<close>

text \<open>The decoders of \<^verbatim>\<open>encoding/pem\<close> and \<^verbatim>\<open>crypto/x509\<close>; a PKCS8 key may be of a kind that
  cannot sign.\<close>

record 'k key_codecs =
  kc_pem :: "byte list \<Rightarrow> byte list option"
  kc_certificate :: "byte list \<Rightarrow> Certificate option"
  kc_pkcs8 :: "byte list \<Rightarrow> 'k option option"
  kc_pkcs1 :: "byte list \<Rightarrow> 'k option"
  kc_ec :: "byte list \<Rightarrow> 'k option"

definition parsePrivateKey :: "'k key_codecs \<Rightarrow> byte list \<Rightarrow> string + 'k" where
  "parsePrivateKey kc keyPEM =
     (case kc_pem kc keyPEM of
        None \<Rightarrow> Inl ''no PEM block found''
      | Some block \<Rightarrow>
     (case kc_pkcs8 kc block of
        Some (Some signer) \<Rightarrow> Inr signer
      | Some None \<Rightarrow> Inl ''PKCS8 key does not implement crypto.Signer''
      | None \<Rightarrow>
     (case kc_pkcs1 kc block of
        Some key \<Rightarrow> Inr key
      | None \<Rightarrow>
     (case kc_ec kc block of
        Some key \<Rightarrow> Inr key
      | None \<Rightarrow> Inl ''unrecognized private key encoding (tried PKCS8, PKCS1, EC)''))))"

definition LoadCA :: "'k key_codecs \<Rightarrow> byte list \<Rightarrow> byte list \<Rightarrow> string + Certificate \<times> byte list \<times> 'k" where
  "LoadCA kc certPEM keyPEM =
     (case kc_pem kc certPEM of
        None \<Rightarrow> Inl ''pki: no PEM block found in CA certificate''
      | Some der \<Rightarrow>
     (case kc_certificate kc der of
        None \<Rightarrow> Inl ''pki: parse CA certificate''
      | Some cert \<Rightarrow>
     (case parsePrivateKey kc keyPEM of
        Inl e \<Rightarrow> Inl (''pki: parse CA private key: '' @ e)
      | Inr signer \<Rightarrow> Inr (cert, der, signer))))"

section \<open>Issuing and verifying\<close>

definition DefaultLeafTTL :: int where "DefaultLeafTTL = 24 * 3600 * second"

definition leafClockSkewTolerance :: int where "leafClockSkewTolerance = 5 * 60 * second"

text \<open>X.509 times have seconds; \<open>serial\<close> is the random serial number, below \<open>2 ^ 128\<close>.\<close>

definition leafCertificate :: "string \<Rightarrow> byte list \<Rightarrow> nat \<Rightarrow> int \<Rightarrow> int \<Rightarrow> byte list \<Rightarrow> Certificate" where
  "leafCertificate providerID publicKey serial now ttl sig =
     \<lparr>SerialNumber = serial, CommonName = providerID, NotBefore = (now - leafClockSkewTolerance) div second * second,
      NotAfter = (now + ttl) div second * second, crt_PublicKey = publicKey, crt_ClientAuth = True, crt_Signature = sig\<rparr>"

definition IssueLeaf ::
  "CA \<Rightarrow> nat option \<Rightarrow> string \<Rightarrow> byte list \<Rightarrow> int \<Rightarrow> int \<Rightarrow> string + IssuedCertificate \<times> Certificate" where
  "IssueLeaf ca rand providerID publicKey now ttl =
     (if length publicKey \<noteq> 32 then Inl ''pki: public key is not a 32-byte Ed25519 key''
      else if providerID = '''' then Inl ''pki: provider_id is required to issue a leaf certificate''
      else case rand of
        None \<Rightarrow> Inl ''pki: generate serial''
      | Some serial \<Rightarrow>
          (case ca_sign ca (leafCertificate providerID publicKey serial now ttl []) of
             None \<Rightarrow> Inl ''pki: sign leaf certificate''
           | Some sig \<Rightarrow>
               let cert = leafCertificate providerID publicKey serial now ttl sig in
               Inr (\<lparr>CertificatePEM = ca_pem ca cert, Serial = show_nat serial, cert_ExpiresAt = now + ttl\<rparr>, cert)))"

definition ChainVerified :: "CA \<Rightarrow> Certificate \<Rightarrow> int \<Rightarrow> bool" where
  "ChainVerified ca cert now \<longleftrightarrow> ca_check ca cert \<and> NotBefore cert \<le> now \<and> now \<le> NotAfter cert \<and> crt_ClientAuth cert"

definition IsSelfSigned :: "CA \<Rightarrow> Certificate \<Rightarrow> bool" where "IsSelfSigned ca cert = ca_check_self ca cert"

definition IdentityFromCertificate :: "Certificate option \<Rightarrow> string option" where
  "IdentityFromCertificate cert =
     (case cert of
        None \<Rightarrow> None | Some x \<Rightarrow> if CommonName x = '''' then None else Some (CommonName x))"

section \<open>The live revocation set\<close>

type_synonym revocation_set = "string set"

definition IsRevoked :: "redis_call \<Rightarrow> revocation_set \<Rightarrow> string \<Rightarrow> bool option" where
  "IsRevoked rd revoked providerID = (if rd_up rd then Some (providerID \<in> revoked) else None)"

definition revocation_Add :: "redis_call \<Rightarrow> revocation_set \<Rightarrow> string \<Rightarrow> bool \<times> revocation_set" where
  "revocation_Add rd revoked providerID = (if rd_up rd then (True, insert providerID revoked) else (False, revoked))"

text \<open>One sweep: \<open>call i\<close> is the Redis call for the \<open>i\<close>-th id; a failed one is skipped.\<close>

fun addAll :: "(nat \<Rightarrow> redis_call) \<Rightarrow> nat \<Rightarrow> string list \<Rightarrow> revocation_set \<Rightarrow> revocation_set" where
  "addAll call i [] revoked = revoked"
| "addAll call i (pid # ids) revoked = addAll call (Suc i) ids (snd (revocation_Add (call i) revoked pid))"

definition revocation_reconcileOnce ::
  "db_call \<Rightarrow> (nat \<Rightarrow> redis_call) \<Rightarrow> join_store \<Rightarrow> revocation_set \<Rightarrow> revocation_set" where
  "revocation_reconcileOnce c call s revoked =
     (case ListRevokedProviderIDs c s of
        Inl _ \<Rightarrow> revoked | Inr ids \<Rightarrow> addAll call 0 ids revoked)"

section \<open>Handshake and calls\<close>

text \<open>\<open>revocation\<close> is what the revocation store answers for a provider id: \<open>None\<close> when it is
  unavailable. No store is configured when the argument itself is \<open>None\<close>.\<close>

type_synonym revocation_checker = "(string \<Rightarrow> bool option) option"

definition ClientCertVerifier :: "CA \<Rightarrow> revocation_checker \<Rightarrow> int \<Rightarrow> Certificate option list \<Rightarrow> string + unit" where
  "ClientCertVerifier ca revocation now rawCerts =
     (case rawCerts of
        [] \<Rightarrow> Inl ''pki: no client certificate presented''
      | None # _ \<Rightarrow> Inl ''pki: parse client certificate''
      | Some cert # _ \<Rightarrow>
          if ChainVerified ca cert now
          then (case IdentityFromCertificate (Some cert) of
             None \<Rightarrow> Inl ''pki: CA-chained certificate has no bound provider identity''
           | Some providerID \<Rightarrow>
               (case revocation of
                  None \<Rightarrow> Inr ()
                | Some isRevoked \<Rightarrow>
                    (case isRevoked providerID of
                       None \<Rightarrow> Inl ''pki: revocation status unavailable''
                     | Some True \<Rightarrow> Inl ''pki: provider is revoked''
                     | Some False \<Rightarrow> Inr ())))
          else if IsSelfSigned ca cert then Inr ()
          else Inl ''pki: client certificate is neither Control-Plane-issued nor a well-formed self-signed bootstrap certificate'')"

text \<open>The certificate a connection presented: \<open>None\<close> for a connection without one.\<close>

definition PeerIdentity :: "CA \<Rightarrow> int \<Rightarrow> Certificate option \<Rightarrow> (string \<times> string \<times> bool) option" where
  "PeerIdentity ca now peer =
     (case peer of
        None \<Rightarrow> None
      | Some cert \<Rightarrow>
          (case IdentityFromCertificate (Some cert) of
             None \<Rightarrow> None
           | Some providerID \<Rightarrow> Some (providerID, show_nat (SerialNumber cert), ChainVerified ca cert now)))"

definition methodSuffix :: "string \<Rightarrow> string" where
  "methodSuffix fullMethod =
     (if CHR ''/'' \<in> set fullMethod
      then CHR ''/'' # rev (takeWhile (\<lambda>ch. ch \<noteq> CHR ''/'') (rev fullMethod)) else fullMethod)"

definition bootstrapAllowedMethods :: "string \<Rightarrow> bool" where
  "bootstrapAllowedMethods m \<longleftrightarrow> m \<in> {''/BeginJoin'', ''/CompleteJoin''}"

definition UnaryServerInterceptor ::
  "CA \<Rightarrow> revocation_checker \<Rightarrow> int \<Rightarrow> Certificate option \<Rightarrow> string \<Rightarrow> (join_status + 'r) \<Rightarrow> join_status + 'r" where
  "UnaryServerInterceptor ca revocation now peer fullMethod handler =
     (case PeerIdentity ca now peer of
        None \<Rightarrow> Inl UNAUTHENTICATED
      | Some (providerID, _, chainVerified) \<Rightarrow>
          if \<not> chainVerified
          then if bootstrapAllowedMethods (methodSuffix fullMethod) then handler else Inl UNAUTHENTICATED
          else (case revocation of
             None \<Rightarrow> handler
           | Some isRevoked \<Rightarrow>
               (case isRevoked providerID of
                  None \<Rightarrow> Inl UNAVAILABLE
                | Some revoked \<Rightarrow> if revoked then Inl PERMISSION_DENIED else handler)))"

end
