(* ===== verification/Join_Lifecycle.thy ===== *)
theory Join_Lifecycle
  imports Join_Service
begin

text \<open>
  What each query of the join repository can do to the tables, as case rules, and the
  well-formedness invariant that all of them keep: the keys of the four tables are unique and
  their references resolve, every challenge is well sized and consumed by at most one
  completion, every provider id is the hash of the provider's key, and every provider has a
  completion and a chain registration.
\<close>

section \<open>Case rules\<close>

lemma CreateOrGetChallenge_cases:
  assumes "CreateOrGetChallenge c s candidate = (res, s')"
  obtains (same) "s' = s"
  | (created) cid bid where "res = Inr candidate" "challenge_ok candidate"
      "s' = s\<lparr>js_challenges := js_challenges s @
         [\<lparr>jc_challenge = candidate\<lparr>ChallengeID := cid, BeginRequestID := bid,
             ExpiresAt := timestamptz (ExpiresAt candidate)\<rparr>, jc_consumed_at = None, jc_provider_id = None\<rparr>]\<rparr>"
      "\<forall>r \<in> set (js_challenges s). BeginRequestID (jc_challenge r) \<noteq> bid"
      "\<forall>r \<in> set (js_challenges s). ChallengeID (jc_challenge r) \<noteq> cid"
  using assms unfolding CreateOrGetChallenge_def
  by (auto split: if_splits option.splits sum.splits)

lemma BeginJoin_cases:
  assumes "BeginJoin svc c now rand s request = (res, s')"
  obtains (same) "s' = s" | (call) ch res' where "CreateOrGetChallenge c s ch = (res', s')"
  using assms unfolding BeginJoin_def by (auto split: option.splits prod.splits sum.splits)

lemma GetChallenge_row:
  assumes "GetChallenge c s i = Inr ch"
  obtains row where "row \<in> set (js_challenges s)" "jc_challenge row = ch"
  using assms unfolding GetChallenge_def challengeBy_def scanChallenge_def
  by (auto split: if_splits option.splits dest: find_SomeD)

lemma existingCompletion_row: "existingCompletion s i = Some (r, status) \<Longrightarrow> r \<in> set (js_completions s)"
  unfolding existingCompletion_def by (auto split: option.splits dest: find_SomeD)

lemma recordCompletion_result:
  "recordCompletion c s requestID row completion = (Inl JoinStoreError, s) \<or>
   fst (recordCompletion c s requestID row completion) = Inr completion"
  unfolding recordCompletion_def by (simp add: Let_def split: option.split)

lemma repo_CompleteJoin_cases:
  assumes "repo_CompleteJoin c s completion = (res, s')"
  obtains (failed) e where "res = Inl e" "s' = s"
  | (replay) r status where "s' = s" "r \<in> set (js_completions s)"
      "jd_challenge_id r = ChallengeID (cm_Challenge completion)"
      "res = Inr (completion\<lparr>cm_ProviderID := jd_provider_id r, cm_RegisteredAt := jd_registered_at r, cm_Status := status\<rparr>)"
  | (recorded) requestID row where "row \<in> set (js_challenges s)" "jc_consumed_at row = None"
      "cm_RegisteredAt completion < ExpiresAt (jc_challenge row)"
      "Nonce (jc_challenge row) = Nonce (cm_Challenge completion)"
      "ch_PublicKey (jc_challenge row) = ch_PublicKey (cm_Challenge completion)"
      "recordCompletion c s requestID row completion = (Inr completion, s')" "res = Inr completion"
proof -
  note case_failed = that(1) and case_replay = that(2) and case_recorded = that(3)
  show thesis
  proof (cases "\<exists>requestID cid. db_up c \<and> \<not> db_abort c \<and> uuid_parse c (cm_RequestID completion) = Some requestID \<and>
      uuid_parse c (ChallengeID (cm_Challenge completion)) = Some cid")
    case False
    with assms case_failed show thesis unfolding repo_CompleteJoin_def by (auto split: if_splits option.splits)
  next
    case True
    then obtain requestID cid where call: "db_up c" "\<not> db_abort c"
      "uuid_parse c (cm_RequestID completion) = Some requestID"
      "uuid_parse c (ChallengeID (cm_Challenge completion)) = Some cid" by blast
    show thesis
    proof (cases "existingCompletion s requestID")
      case (Some rs)
      then obtain r status where rs: "rs = (r, status)" "r \<in> set (js_completions s)"
        by (cases rs) (auto dest: existingCompletion_row)
      with Some call assms case_failed case_replay show thesis
        unfolding repo_CompleteJoin_def by (auto split: if_splits)
    next
      case None
      show thesis
      proof (cases "find (\<lambda>r. ChallengeID (jc_challenge r) = cid) (js_challenges s)")
        case None
        with \<open>existingCompletion s requestID = None\<close> call assms case_failed show thesis
          unfolding repo_CompleteJoin_def by auto
      next
        case (Some row)
        then have row: "row \<in> set (js_challenges s)" by (simp add: find_SomeD)
        from Some \<open>existingCompletion s requestID = None\<close> call assms
        have eq: "(if jc_consumed_at row \<noteq> None then (Inl ChallengeConsumed, s)
            else if \<not> cm_RegisteredAt completion < ExpiresAt (jc_challenge row) then (Inl ChallengeExpired, s)
            else if Nonce (jc_challenge row) \<noteq> Nonce (cm_Challenge completion) \<or>
              ch_PublicKey (jc_challenge row) \<noteq> ch_PublicKey (cm_Challenge completion)
            then (Inl JoinConflict, s) else recordCompletion c s requestID row completion) = (res, s')"
          unfolding repo_CompleteJoin_def by simp
        show thesis
        proof (cases res)
          case (Inl e)
          with eq recordCompletion_result [of c s requestID row completion] have "s' = s"
            by (auto split: if_splits)
          with Inl case_failed show thesis by blast
        next
          case (Inr x)
          with eq recordCompletion_result [of c s requestID row completion] row case_recorded show thesis
            by (auto split: if_splits)
        qed
      qed
    qed
  qed
qed

lemma ActivateProvider_cases:
  assumes "ActivateProvider c s providerID finalization = (res, s')"
  obtains (failed) e where "res = Inl e" "s' = s"
  | (activated) r where "s' = s\<lparr>
        js_providers := update_where (\<lambda>p. pv_id p = providerID)
          (\<lambda>p. p\<lparr>pv_status := NODE_ACTIVE,
             pv_activated_at := (case pv_activated_at p of None \<Rightarrow> Some (db_now c) | Some t \<Rightarrow> Some t)\<rparr>) (js_providers s),
        js_registrations := update_where (\<lambda>x. cr_provider_id x = providerID)
          (\<lambda>x. x\<lparr>cr_state := CHAIN_FINALIZED, cr_finalization := Some finalization\<rparr>) (js_registrations s)\<rparr>"
      "res = Inr (jd_request_id r, jd_provider_id r, jd_registered_at r, NODE_ACTIVE)"
      "firstCompletion s providerID = Some r"
  using assms unfolding ActivateProvider_def by (auto split: if_splits option.splits)

lemma RecordChainRegistrationFailure_cases:
  assumes "RecordChainRegistrationFailure c s providerID nextAttemptAt terminal = (res, s')"
  obtains (failed) e where "res = Inl e" "s' = s"
  | (recorded) "res = Inr ()" "s' = s\<lparr>js_registrations := update_where (\<lambda>r. cr_provider_id r = providerID)
      (\<lambda>r. r\<lparr>cr_state := (if terminal then CHAIN_FAILED else CHAIN_RETRY), cr_attempt_count := cr_attempt_count r + 1,
             cr_next_attempt_at := (if terminal then None else Some (timestamptz nextAttemptAt))\<rparr>) (js_registrations s)\<rparr>"
  using assms unfolding RecordChainRegistrationFailure_def by (auto split: if_splits)

lemma RevokeProvider_cases:
  assumes "RevokeProvider c s providerID = (res, s')"
  obtains (failed) "s' = s"
  | (revoked) "s' = s\<lparr>js_providers := update_where (\<lambda>p. pv_id p = providerID) (\<lambda>p. p\<lparr>pv_status := NODE_REVOKED\<rparr>)
      (js_providers s)\<rparr>"
  using assms unfolding RevokeProvider_def by (auto split: if_splits)

lemma upsertProvider_cases:
  assumes "upsertProvider rows new = Some rows'"
  obtains (known) "pv_id new \<in> pv_id ` set rows"
      "rows' = update_where (\<lambda>r. pv_id r = pv_id new)
         (\<lambda>r. r\<lparr>pv_provider := (pv_provider new)\<lparr>rp_PublicKey := pv_key r\<rparr>, pv_capabilities := pv_capabilities new\<rparr>) rows"
  | (added) "pv_id new \<notin> pv_id ` set rows" "length (pv_key new) = 32" "rows' = rows @ [new]"
proof -
  have "(\<exists>r \<in> set rows. pv_id r = pv_id new) \<longleftrightarrow> pv_id new \<in> pv_id ` set rows"
    by (metis (mono_tags, lifting) imageE image_eqI)
  with assms that show thesis unfolding upsertProvider_def by (simp split: if_splits)
qed

section \<open>The invariant\<close>

text \<open>A provider is \<open>backed\<close> by a completion of a challenge that was issued to its key; a
  completion is \<open>justified\<close> by a provider and by a consumed challenge whose key hashes to the
  provider's id.\<close>

abbreviation challenges_of :: "join_store \<Rightarrow> Challenge set" where
  "challenges_of s \<equiv> jc_challenge ` set (js_challenges s)"

definition used_challenges :: "join_store \<Rightarrow> Challenge set" where
  "used_challenges s = jc_challenge ` {r \<in> set (js_challenges s). jc_consumed_at r \<noteq> None}"

definition backed :: "join_store \<Rightarrow> string \<Rightarrow> byte list \<Rightarrow> bool" where
  "backed s pid key \<longleftrightarrow> (\<exists>ch \<in> challenges_of s. ch_PublicKey ch = key \<and>
     (\<exists>d \<in> set (js_completions s). jd_provider_id d = pid \<and> jd_challenge_id d = ChallengeID ch))"

definition justified :: "(byte list \<Rightarrow> byte list) \<Rightarrow> join_store \<Rightarrow> completion_row \<Rightarrow> bool" where
  "justified sha s d \<longleftrightarrow> jd_provider_id d \<in> pv_id ` set (js_providers s) \<and>
     (\<exists>ch \<in> used_challenges s. ChallengeID ch = jd_challenge_id d \<and> jd_provider_id d = hex_encode (sha (ch_PublicKey ch)))"

lemma backed_mono:
  "backed s pid key \<Longrightarrow> challenges_of s \<subseteq> challenges_of s' \<Longrightarrow> set (js_completions s) \<subseteq> set (js_completions s') \<Longrightarrow>
   backed s' pid key"
  unfolding backed_def by blast

lemma justified_mono:
  "justified sha s d \<Longrightarrow> used_challenges s \<subseteq> used_challenges s' \<Longrightarrow>
   pv_id ` set (js_providers s) \<subseteq> pv_id ` set (js_providers s') \<Longrightarrow> justified sha s' d"
  unfolding justified_def by blast

definition provider_ok :: "(byte list \<Rightarrow> byte list) \<Rightarrow> join_store \<Rightarrow> string \<Rightarrow> byte list \<Rightarrow> bool" where
  "provider_ok sha s pid key \<longleftrightarrow> length key = 32 \<and> pid = hex_encode (sha key) \<and>
     pid \<in> cr_provider_id ` set (js_registrations s) \<and> backed s pid key"

definition providers_inv :: "(byte list \<Rightarrow> byte list) \<Rightarrow> join_store \<Rightarrow> bool" where
  "providers_inv sha s \<longleftrightarrow> distinct (map pv_id (js_providers s)) \<and>
     (\<forall>p \<in> set (js_providers s). provider_ok sha s (pv_id p) (pv_key p))"

definition challenges_inv :: "join_store \<Rightarrow> bool" where
  "challenges_inv s \<longleftrightarrow> distinct (map (\<lambda>r. ChallengeID (jc_challenge r)) (js_challenges s)) \<and>
     distinct (map (\<lambda>r. BeginRequestID (jc_challenge r)) (js_challenges s)) \<and>
     (\<forall>ch \<in> challenges_of s. challenge_ok ch)"

definition completions_inv :: "(byte list \<Rightarrow> byte list) \<Rightarrow> join_store \<Rightarrow> bool" where
  "completions_inv sha s \<longleftrightarrow> distinct (map jd_request_id (js_completions s)) \<and>
     distinct (map jd_challenge_id (js_completions s)) \<and> (\<forall>d \<in> set (js_completions s). justified sha s d)"

definition registrations_inv :: "join_store \<Rightarrow> bool" where
  "registrations_inv s \<longleftrightarrow> distinct (map cr_provider_id (js_registrations s)) \<and>
     (\<forall>r \<in> set (js_registrations s). cr_provider_id r \<in> pv_id ` set (js_providers s) \<and> 0 \<le> cr_attempt_count r)"

definition join_inv :: "(byte list \<Rightarrow> byte list) \<Rightarrow> join_store \<Rightarrow> bool" where
  "join_inv sha s \<longleftrightarrow> providers_inv sha s \<and> challenges_inv s \<and> completions_inv sha s \<and> registrations_inv s"

definition empty_join_store :: join_store where
  "empty_join_store = \<lparr>js_providers = [], js_challenges = [], js_completions = [], js_registrations = []\<rparr>"

lemma join_inv_empty: "join_inv sha empty_join_store"
  by (simp add: join_inv_def providers_inv_def challenges_inv_def completions_inv_def registrations_inv_def
    empty_join_store_def)

text \<open>An update that keeps the key of every row keeps the set of keys.\<close>

lemma image_update_where: "(\<And>r. p r \<Longrightarrow> k (f r) = k r) \<Longrightarrow> k ` set (update_where p f rows) = k ` set rows"
  by (metis list.set_map map_update_where)

lemma in_update_where: "r \<in> set rows \<Longrightarrow> (if p r then f r else r) \<in> set (update_where p f rows)"
  unfolding update_where_def set_map by (rule image_eqI [OF refl])

lemma ball_update_where: "(\<And>r. r \<in> set rows \<Longrightarrow> Q r \<Longrightarrow> p r \<Longrightarrow> Q (f r)) \<Longrightarrow> \<forall>r \<in> set rows. Q r \<Longrightarrow>
  \<forall>r \<in> set (update_where p f rows). Q r"
  by (auto elim: set_update_whereE)

lemma provider_ok_mono:
  "provider_ok sha s pid key \<Longrightarrow> challenges_of s \<subseteq> challenges_of s' \<Longrightarrow> set (js_completions s) \<subseteq> set (js_completions s') \<Longrightarrow>
   cr_provider_id ` set (js_registrations s) \<subseteq> cr_provider_id ` set (js_registrations s') \<Longrightarrow> provider_ok sha s' pid key"
  unfolding provider_ok_def using backed_mono [of s pid key s'] by blast

lemma CreateOrGetChallenge_inv:
  assumes "CreateOrGetChallenge c s candidate = (res, s')" and "join_inv sha s"
  shows "join_inv sha s'"
  using assms(1)
proof (cases rule: CreateOrGetChallenge_cases)
  case (created cid bid)
  have kept: "js_providers s' = js_providers s" "js_completions s' = js_completions s"
    "js_registrations s' = js_registrations s" by (simp_all add: created(3))
  have grows: "challenges_of s \<subseteq> challenges_of s'" "used_challenges s \<subseteq> used_challenges s'"
    by (auto simp: created(3) used_challenges_def)
  have "providers_inv sha s'"
    using assms(2) provider_ok_mono [OF _ grows(1)] by (auto simp: join_inv_def providers_inv_def kept)
  moreover have "challenges_inv s'"
    using assms(2) created(2,4,5) by (auto simp: join_inv_def challenges_inv_def challenge_ok_def created(3))
  moreover have "completions_inv sha s'"
    using assms(2) justified_mono [OF _ grows(2)] by (auto simp: join_inv_def completions_inv_def kept)
  moreover have "registrations_inv s'"
    using assms(2) by (simp add: join_inv_def registrations_inv_def kept)
  ultimately show ?thesis by (simp add: join_inv_def)
qed (use assms(2) in simp)

text \<open>Updates that keep ids and keys keep the invariant.\<close>

lemma rows_update_inv:
  assumes inv: "join_inv sha s"
    and s': "s' = s\<lparr>js_providers := update_where q f (js_providers s), js_registrations := update_where q' g (js_registrations s)\<rparr>"
    and f: "\<And>p. pv_provider (f p) = pv_provider p" and g: "\<And>r. cr_provider_id (g r) = cr_provider_id r"
    and attempts: "\<And>r. 0 \<le> cr_attempt_count r \<Longrightarrow> 0 \<le> cr_attempt_count (g r)"
  shows "join_inv sha s'"
proof -
  have ids: "map pv_id (js_providers s') = map pv_id (js_providers s)"
    "map cr_provider_id (js_registrations s') = map cr_provider_id (js_registrations s)"
    by (simp_all add: s' map_update_where f g)
  then have img: "pv_id ` set (js_providers s') = pv_id ` set (js_providers s)"
    "cr_provider_id ` set (js_registrations s') = cr_provider_id ` set (js_registrations s)"
    by (metis list.set_map)+
  have kept: "js_challenges s' = js_challenges s" "js_completions s' = js_completions s" by (simp_all add: s')
  have ok: "provider_ok sha s' = provider_ok sha s" "justified sha s' = justified sha s"
    by (intro ext, simp add: provider_ok_def backed_def justified_def used_challenges_def kept img)+
  have "providers_inv sha s'"
    using inv unfolding join_inv_def providers_inv_def ids ok by (auto simp: s' f elim!: set_update_whereE)
  moreover have "registrations_inv s'"
    using inv attempts unfolding join_inv_def registrations_inv_def ids img
    by (auto simp: s' g elim!: set_update_whereE)
  ultimately show ?thesis
    using inv by (simp add: join_inv_def challenges_inv_def completions_inv_def kept ok)
qed

lemma update_where_id: "update_where p (\<lambda>x. x) rows = rows"
  by (simp add: update_where_def)

lemma ActivateProvider_inv:
  assumes "ActivateProvider c s providerID finalization = (res, s')" and "join_inv sha s"
  shows "join_inv sha s'"
  using assms(1)
proof (cases rule: ActivateProvider_cases)
  case (activated r)
  show ?thesis by (rule rows_update_inv [OF assms(2) activated(1)]) simp_all
qed (use assms(2) in simp)

lemma RevokeProvider_inv:
  assumes "RevokeProvider c s providerID = (res, s')" and "join_inv sha s"
  shows "join_inv sha s'"
  using assms(1)
proof (cases rule: RevokeProvider_cases)
  case revoked
  have "s' = s\<lparr>js_providers := update_where (\<lambda>p. pv_id p = providerID) (\<lambda>p. p\<lparr>pv_status := NODE_REVOKED\<rparr>) (js_providers s),
    js_registrations := update_where (\<lambda>_. True) (\<lambda>x. x) (js_registrations s)\<rparr>"
    by (simp add: revoked update_where_id)
  from rows_update_inv [OF assms(2) this] show ?thesis by simp
qed (use assms(2) in simp)

lemma RecordChainRegistrationFailure_inv:
  assumes "RecordChainRegistrationFailure c s providerID nextAttemptAt terminal = (res, s')" and "join_inv sha s"
  shows "join_inv sha s'"
  using assms(1)
proof (cases rule: RecordChainRegistrationFailure_cases)
  case recorded
  have "s' = s\<lparr>js_providers := update_where (\<lambda>_. True) (\<lambda>x. x) (js_providers s),
    js_registrations := update_where (\<lambda>r. cr_provider_id r = providerID)
      (\<lambda>r. r\<lparr>cr_state := (if terminal then CHAIN_FAILED else CHAIN_RETRY), cr_attempt_count := cr_attempt_count r + 1,
         cr_next_attempt_at := (if terminal then None else Some (timestamptz nextAttemptAt))\<rparr>) (js_registrations s)\<rparr>"
    by (simp add: recorded update_where_id)
  from rows_update_inv [OF assms(2) this] show ?thesis by simp
qed (use assms(2) in simp)

section \<open>Recording a completion\<close>

lemma upserted:
  assumes "upsertProvider rows new = Some rows'"
  shows "pv_id ` set rows' = insert (pv_id new) (pv_id ` set rows)"
    and "distinct (map pv_id rows) \<Longrightarrow> distinct (map pv_id rows')"
    and "\<forall>p \<in> set rows'. (\<exists>p0 \<in> set rows. pv_id p0 = pv_id p \<and> pv_key p0 = pv_key p) \<or>
      pv_id p = pv_id new \<and> pv_key p = pv_key new"
  using assms
  by (cases rule: upsertProvider_cases;
    auto simp: image_update_where map_update_where elim!: set_update_whereE)+

lemma recordCompletion_inv:
  assumes "recordCompletion c s requestID row completion = (Inr x, s')" and inv: "join_inv sha s"
    and row: "row \<in> set (js_challenges s)" "jc_consumed_at row = None"
    and pid: "cm_ProviderID completion = hex_encode (sha (ch_PublicKey (jc_challenge row)))"
  shows "join_inv sha s'"
proof -
  let ?cid = "ChallengeID (jc_challenge row)" and ?at = "timestamptz (cm_RegisteredAt completion)"
    and ?pid = "cm_ProviderID completion"
  let ?use = "\<lambda>r. r\<lparr>jc_consumed_at := Some ?at, jc_provider_id := Some ?pid\<rparr>"
  let ?d = "\<lparr>jd_request_id = requestID, jd_challenge_id = ?cid, jd_request_hash = cm_RequestHash completion,
    jd_provider_id = ?pid, jd_registered_at = ?at\<rparr>"
  let ?new = "joinedProvider row completion"
  obtain providers' where up: "upsertProvider (js_providers s) ?new = Some providers'"
    and fresh: "\<forall>d \<in> set (js_completions s). jd_request_id d \<noteq> requestID"
    and s': "s' = s\<lparr>js_providers := providers', js_registrations := readyRegistration c ?pid (js_registrations s),
      js_challenges := update_where (\<lambda>r. ChallengeID (jc_challenge r) = ?cid) ?use (js_challenges s),
      js_completions := js_completions s @ [?d]\<rparr>"
    using assms(1) unfolding recordCompletion_def by (auto simp: Let_def split: option.splits if_splits)
  have new: "pv_id ?new = ?pid" "pv_key ?new = ch_PublicKey (jc_challenge row)"
    by (simp_all add: joinedProvider_def Let_def)
  have challenges: "challenges_of s' = challenges_of s" by (simp add: s' image_update_where)
  have unused: "?cid \<notin> jd_challenge_id ` set (js_completions s)"
  proof
    assume "?cid \<in> jd_challenge_id ` set (js_completions s)"
    with inv obtain r where r: "r \<in> set (js_challenges s)" "jc_consumed_at r \<noteq> None"
      "ChallengeID (jc_challenge r) = ?cid"
      by (auto simp: join_inv_def completions_inv_def justified_def used_challenges_def)
    with inv row have "r = row"
      by (auto simp: join_inv_def challenges_inv_def distinct_map dest: inj_onD)
    with r(2) row(2) show False by simp
  qed
  have used: "used_challenges s \<subseteq> used_challenges s'" "jc_challenge row \<in> used_challenges s'"
  proof -
    have use: "jc_challenge r \<in> used_challenges s'"
      if "r \<in> set (js_challenges s)" "jc_consumed_at r \<noteq> None \<or> ChallengeID (jc_challenge r) = ?cid" for r
    proof -
      let ?r = "if ChallengeID (jc_challenge r) = ?cid then ?use r else r"
      have "?r \<in> set (update_where (\<lambda>r. ChallengeID (jc_challenge r) = ?cid) ?use (js_challenges s))"
        by (rule in_update_where [OF that(1)])
      then have "?r \<in> set (js_challenges s')" unfolding s' by simp
      moreover have "jc_consumed_at ?r \<noteq> None" "jc_challenge ?r = jc_challenge r" using that(2) by auto
      ultimately show ?thesis unfolding used_challenges_def by (intro image_eqI [where x = ?r]) simp_all
    qed
    then show "used_challenges s \<subseteq> used_challenges s'" by (auto simp: used_challenges_def)
    show "jc_challenge row \<in> used_challenges s'" using use row(1) by simp
  qed
  have regs: "cr_provider_id ` set (js_registrations s') = insert ?pid (cr_provider_id ` set (js_registrations s))"
    by (simp add: s' readyRegistration_def) (metis image_eqI insert_absorb)
  have provs: "pv_id ` set (js_providers s') = insert ?pid (pv_id ` set (js_providers s))"
    and pdist: "distinct (map pv_id (js_providers s'))"
    and pold: "\<forall>p \<in> set (js_providers s'). (\<exists>p0 \<in> set (js_providers s). pv_id p0 = pv_id p \<and> pv_key p0 = pv_key p) \<or>
      pv_id p = ?pid \<and> pv_key p = ch_PublicKey (jc_challenge row)"
    using upserted [OF up] inv by (simp_all add: new s' join_inv_def providers_inv_def)
  have "backed s' ?pid (ch_PublicKey (jc_challenge row))"
    unfolding backed_def challenges
  proof (intro bexI conjI refl)
    show "?d \<in> set (js_completions s')" by (simp add: s')
  qed (use row(1) in auto)
  then have newok: "provider_ok sha s' ?pid (ch_PublicKey (jc_challenge row))"
    using pid regs inv row(1) by (auto simp: provider_ok_def join_inv_def challenges_inv_def challenge_ok_def)
  have oldok: "provider_ok sha s' i k" if "provider_ok sha s i k" for i k
  proof (rule provider_ok_mono [OF that])
    show "set (js_completions s) \<subseteq> set (js_completions s')" by (auto simp: s')
  qed (use challenges regs in auto)
  have "providers_inv sha s'"
    unfolding providers_inv_def
  proof (intro conjI ballI pdist)
    fix p
    assume "p \<in> set (js_providers s')"
    with pold consider p0 where "p0 \<in> set (js_providers s)" "pv_id p0 = pv_id p" "pv_key p0 = pv_key p"
      | "pv_id p = ?pid" "pv_key p = ch_PublicKey (jc_challenge row)" by blast
    then show "provider_ok sha s' (pv_id p) (pv_key p)"
    proof cases
      case (1 p0)
      have "provider_ok sha s (pv_id p0) (pv_key p0)"
        using inv 1(1) unfolding join_inv_def providers_inv_def by blast
      then show ?thesis unfolding 1 by (rule oldok)
    qed (simp add: newok)
  qed
  moreover have "challenges_inv s'"
    using inv by (simp add: join_inv_def challenges_inv_def challenges) (simp add: s' map_update_where)
  moreover have "completions_inv sha s'"
  proof -
    have "justified sha s' ?d" using used(2) pid provs by (auto simp: justified_def)
    moreover have "justified sha s' d" if "justified sha s d" for d
      using that used(1) provs by (auto intro: justified_mono)
    ultimately show ?thesis
      using inv fresh unused unfolding join_inv_def completions_inv_def by (auto simp: s')
  qed
  moreover have "registrations_inv s'"
    using inv unfolding join_inv_def registrations_inv_def provs
    by (auto simp: s' readyRegistration_def)
  ultimately show ?thesis by (simp add: join_inv_def)
qed

end
