(* ===== verification/Join_System.thy ===== *)
theory Join_System
  imports Join_Lifecycle
begin

text \<open>
  Provider join as a transition system: any number of join requests, of passes of the
  registration reconciler and of revocations, interleaved at the boundaries of their
  transactions. The state remembers the completions whose activation is still to come, the
  registrations a pass has listed, and what was observed: the signatures received and the keys
  the chain registrar has reported active.
\<close>

datatype join_event = SignatureReceived "byte list" | ChainActive "byte list"

record join_system =
  jy_store :: join_store
  jy_completed :: "Completion set"
  jy_pending :: "PendingChainRegistration set"
  jy_events :: "join_event set"

abbreviation completed_key :: "Completion \<Rightarrow> byte list" where
  "completed_key cm \<equiv> ch_PublicKey (cm_Challenge cm)"

definition activation_events :: "(byte list \<Rightarrow> ChainFinalization option) \<Rightarrow> Completion \<Rightarrow> join_event set" where
  "activation_events ensure cm =
     (if cm_Status cm = NODE_ACTIVE \<or> ensure (completed_key cm) = None then {} else {ChainActive (completed_key cm)})"

definition reconcile_events :: "reconciler_env \<Rightarrow> PendingChainRegistration \<Rightarrow> join_event set" where
  "reconcile_events env r =
     (case re_EnsureActive env of
        None \<Rightarrow> {}
      | Some ensure \<Rightarrow> if isl (ensure (pr_PublicKey r)) then {} else {ChainActive (pr_PublicKey r)})"

inductive join_step :: "join_service \<Rightarrow> ReconcilerConfig \<Rightarrow> join_system \<Rightarrow> join_system \<Rightarrow> bool" for svc cfg where
  begin_join: "BeginJoin svc c now rand (jy_store \<sigma>) request = (res, s') \<Longrightarrow> join_step svc cfg \<sigma> (\<sigma>\<lparr>jy_store := s'\<rparr>)"
| accept: "acceptCompletion svc c1 c2 now (jy_store \<sigma>) (Some r) = (acc, s') \<Longrightarrow>
    join_step svc cfg \<sigma> (\<sigma>\<lparr>jy_store := s',
      jy_completed := (case acc of Inl _ \<Rightarrow> jy_completed \<sigma> | Inr cm \<Rightarrow> insert cm (jy_completed \<sigma>)),
      jy_events := insert (SignatureReceived (cj_ChallengeSignature r)) (jy_events \<sigma>)\<rparr>)"
| activate: "cm \<in> jy_completed \<sigma> \<Longrightarrow>
    activateCompletion (svc\<lparr>jn_EnsureActive := Some ensure\<rparr>) c (jy_store \<sigma>) cm = (out, s') \<Longrightarrow>
    join_step svc cfg \<sigma> (\<sigma>\<lparr>jy_store := s', jy_events := jy_events \<sigma> \<union> activation_events ensure cm\<rparr>)"
| list_due: "DueChainRegistrations c (jy_store \<sigma>) limit = Inr rs \<Longrightarrow>
    join_step svc cfg \<sigma> (\<sigma>\<lparr>jy_pending := jy_pending \<sigma> \<union> set rs\<rparr>)"
| reconcile: "pr \<in> jy_pending \<sigma> \<Longrightarrow>
    join_step svc cfg \<sigma> (\<sigma>\<lparr>jy_store := reconcileOne cfg env i (jy_store \<sigma>) pr,
      jy_events := jy_events \<sigma> \<union> reconcile_events env pr\<rparr>)"
| revoke: "RevokeProvider c (jy_store \<sigma>) providerID = (gone, s') \<Longrightarrow> join_step svc cfg \<sigma> (\<sigma>\<lparr>jy_store := s'\<rparr>)"

definition new_join :: "join_system \<Rightarrow> bool" where
  "new_join \<sigma> \<longleftrightarrow> jy_store \<sigma> = empty_join_store \<and> jy_completed \<sigma> = {} \<and> jy_pending \<sigma> = {} \<and> jy_events \<sigma> = {}"

section \<open>What a join request does\<close>

lemma acceptCompletion_cases:
  assumes "acceptCompletion svc c1 c2 now s (Some r) = (res, s')"
  obtains (refused) e where "res = Inl e" "s' = s"
  | (accepted) ch x completion where "ch \<in> challenges_of s"
      "jn_verify svc (ch_PublicKey ch) (joinDomain @ Nonce ch) (cj_ChallengeSignature r)"
      "cm_Challenge completion = ch" "cm_ProviderID completion = hex_encode (jn_sha256 svc (ch_PublicKey ch))"
      "cm_Status completion = NODE_PENDING" "repo_CompleteJoin c2 s completion = (Inr x, s')" "res = Inr x"
proof (cases res)
  case (Inl e)
  have "s' = s"
    using assms Inl unfolding acceptCompletion_def
    by (auto split: sum.splits option.splits if_splits prod.splits elim: repo_CompleteJoin_cases)
  with Inl refused show thesis by blast
next
  case (Inr x)
  with assms obtain rr ch capabilities where ch: "GetChallenge c1 s (cj_ChallengeId rr) = Inr ch"
    "rr = r" "jn_verify svc (ch_PublicKey ch) (joinDomain @ Nonce ch) (cj_ChallengeSignature rr)"
    "repo_CompleteJoin c2 s \<lparr>cm_RequestID = cj_RequestId rr, cm_RequestHash = completeRequestHash svc rr capabilities,
       cm_Challenge = ch, cm_ProviderID = hex_encode (jn_sha256 svc (ch_PublicKey ch)), cm_Capabilities = capabilities,
       cm_RegisteredAt = now, cm_Status = NODE_PENDING\<rparr> = (Inr x, s')"
    unfolding acceptCompletion_def validateCompleteJoin_def
    by (auto split: sum.splits option.splits if_splits prod.splits)
  from ch(1) have "ch \<in> challenges_of s" by (auto elim: GetChallenge_row)
  then show thesis
    by (rule accepted [OF _ ch(3) [unfolded ch(2)] _ _ _ ch(4) Inr]) simp_all
qed

lemma activateCompletion_cases:
  assumes "activateCompletion (svc\<lparr>jn_EnsureActive := Some ensure\<rparr>) c s cm = (res, s')"
  obtains (same) "s' = s"
  | (call) finalization acc where "ensure (completed_key cm) = Some finalization" "cm_Status cm \<noteq> NODE_ACTIVE"
      "ActivateProvider c s (cm_ProviderID cm) finalization = (acc, s')"
  using assms unfolding activateCompletion_def by (auto split: if_splits option.splits prod.splits sum.splits)

lemma reconcileOne_cases:
  obtains (same) "reconcileOne cfg env i s pr = s"
  | (failed) next_at terminal where
      "reconcileOne cfg env i s pr = snd (RecordChainRegistrationFailure (re_call env i) s (pr_ProviderID pr) next_at terminal)"
  | (call) ensure finalization where "re_EnsureActive env = Some ensure" "ensure (pr_PublicKey pr) = Inr finalization"
      "reconcileOne cfg env i s pr = snd (ActivateProvider (re_call env i) s (pr_ProviderID pr) finalization)"
proof (cases "re_EnsureActive env")
  case None
  then show thesis using same by (simp add: reconcileOne_def)
next
  case (Some ensure)
  have fail: thesis
    if "reconcileOne cfg env i s pr = reconciler_fail cfg (re_now env i) (re_call env i) s (pr_ProviderID pr) banned n terminal"
    for banned n terminal
    using failed [OF that [unfolded reconciler_fail_def Let_def]] .
  show thesis
  proof (cases "length (pr_PublicKey pr) \<noteq> 32")
    case True
    with Some fail show thesis by (simp add: reconcileOne_def Let_def)
  next
    case False
    with Some fail call show thesis
      by (cases "ensure (pr_PublicKey pr)") (simp_all add: reconcileOne_def Let_def)
  qed
qed

section \<open>The invariant of the system\<close>

definition proved :: "join_service \<Rightarrow> join_event set \<Rightarrow> Challenge \<Rightarrow> bool" where
  "proved svc es ch \<longleftrightarrow> (\<exists>sig. SignatureReceived sig \<in> es \<and> jn_verify svc (ch_PublicKey ch) (joinDomain @ Nonce ch) sig)"

definition on_chain :: "join_service \<Rightarrow> join_event set \<Rightarrow> string \<Rightarrow> bool" where
  "on_chain svc es pid \<longleftrightarrow> (\<exists>k. pid = hex_encode (jn_sha256 svc k) \<and> ChainActive k \<in> es)"

definition row_in_time :: "challenge_row \<Rightarrow> bool" where
  "row_in_time r \<longleftrightarrow> (case jc_consumed_at r of None \<Rightarrow> True | Some t \<Rightarrow> t < ExpiresAt (jc_challenge r))"

definition observed :: "join_service \<Rightarrow> join_store \<Rightarrow> join_event set \<Rightarrow> bool" where
  "observed svc s es \<longleftrightarrow> (\<forall>ch \<in> used_challenges s. proved svc es ch) \<and>
     (\<forall>p \<in> set (js_providers s). pv_status p = NODE_ACTIVE \<longrightarrow> on_chain svc es (pv_id p)) \<and>
     (\<forall>r \<in> set (js_challenges s). row_in_time r)"

definition sys_inv :: "join_service \<Rightarrow> join_system \<Rightarrow> bool" where
  "sys_inv svc \<sigma> \<longleftrightarrow> join_inv (jn_sha256 svc) (jy_store \<sigma>) \<and> observed svc (jy_store \<sigma>) (jy_events \<sigma>) \<and>
     (\<forall>cm \<in> jy_completed \<sigma>. cm_ProviderID cm = hex_encode (jn_sha256 svc (completed_key cm))) \<and>
     (\<forall>r \<in> jy_pending \<sigma>. pr_ProviderID r = hex_encode (jn_sha256 svc (pr_PublicKey r)))"

lemma observed_mono:
  assumes "observed svc s es" and "es \<subseteq> es'"
  shows "observed svc s es'"
proof -
  have "proved svc es' ch" if "proved svc es ch" for ch using that assms(2) unfolding proved_def by blast
  moreover have "on_chain svc es' pid" if "on_chain svc es pid" for pid using that assms(2) unfolding on_chain_def by blast
  ultimately show ?thesis using assms(1) unfolding observed_def by blast
qed

lemma timestamptz_le: "timestamptz t \<le> t"
proof -
  have "t = t div 1000 * 1000 + t mod 1000" by simp
  moreover have "0 \<le> t mod 1000" by simp
  ultimately show ?thesis unfolding timestamptz_def by linarith
qed

lemma CreateOrGetChallenge_observed:
  assumes "CreateOrGetChallenge c s candidate = (res, s')" and "observed svc s es"
  shows "observed svc s' es"
  using assms(1)
proof (cases rule: CreateOrGetChallenge_cases)
  case (created cid bid)
  have "used_challenges s' = used_challenges s" by (auto simp: used_challenges_def created(3))
  with assms(2) show ?thesis by (auto simp: observed_def created(3) row_in_time_def)
qed (use assms(2) in simp)

lemma ActivateProvider_observed:
  assumes "ActivateProvider c s pid finalization = (res, s')" and "observed svc s es" and "on_chain svc es pid"
  shows "observed svc s' es"
  using assms(1)
proof (cases rule: ActivateProvider_cases)
  case (activated r)
  have "used_challenges s' = used_challenges s" by (simp add: used_challenges_def activated(1))
  with assms(2,3) show ?thesis
    unfolding observed_def by (auto simp: activated(1) elim!: set_update_whereE)
qed (use assms(2) in simp)

lemma RecordChainRegistrationFailure_observed:
  assumes "RecordChainRegistrationFailure c s pid next_at terminal = (res, s')" and "observed svc s es"
  shows "observed svc s' es"
  using assms(1)
proof (cases rule: RecordChainRegistrationFailure_cases)
  case recorded
  then show ?thesis using assms(2) by (simp add: observed_def used_challenges_def)
qed (use assms(2) in simp)

lemma RevokeProvider_observed:
  assumes "RevokeProvider c s pid = (res, s')" and "observed svc s es"
  shows "observed svc s' es"
  using assms(1)
proof (cases rule: RevokeProvider_cases)
  case revoked
  have "used_challenges s' = used_challenges s" by (simp add: used_challenges_def revoked)
  with assms(2) show ?thesis unfolding observed_def by (auto simp: revoked elim!: set_update_whereE)
qed (use assms(2) in simp)

lemma challenge_unique:
  assumes "join_inv sha s" and "ch \<in> challenges_of s" and "ch' \<in> challenges_of s" and "ChallengeID ch = ChallengeID ch'"
  shows "ch = ch'"
proof -
  obtain r r' where r: "r \<in> set (js_challenges s)" "r' \<in> set (js_challenges s)" "ch = jc_challenge r" "ch' = jc_challenge r'"
    using assms(2,3) by blast
  with assms(1,4) have "r = r'"
    by (auto simp: join_inv_def challenges_inv_def distinct_map dest: inj_onD)
  with r show ?thesis by simp
qed

lemma used_subset: "used_challenges s \<subseteq> challenges_of s"
  by (auto simp: used_challenges_def)

lemma recordCompletion_observed:
  assumes "recordCompletion c s requestID row completion = (Inr x, s')" and inv: "join_inv sha s" and "observed svc s es"
    and row: "row \<in> set (js_challenges s)" "cm_RegisteredAt completion < ExpiresAt (jc_challenge row)"
    and "proved svc es (jc_challenge row)" and "cm_Status completion = NODE_PENDING"
  shows "observed svc s' es"
proof -
  let ?cid = "ChallengeID (jc_challenge row)" and ?at = "timestamptz (cm_RegisteredAt completion)"
  let ?use = "\<lambda>r. r\<lparr>jc_consumed_at := Some ?at, jc_provider_id := Some (cm_ProviderID completion)\<rparr>"
  let ?new = "joinedProvider row completion"
  obtain providers' where up: "upsertProvider (js_providers s) ?new = Some providers'"
    and s': "js_providers s' = providers'"
      "js_challenges s' = update_where (\<lambda>r. ChallengeID (jc_challenge r) = ?cid) ?use (js_challenges s)"
    using assms(1) unfolding recordCompletion_def by (auto simp: Let_def split: option.splits if_splits)
  have same: "jc_challenge r = jc_challenge row" if "r \<in> set (js_challenges s)" "ChallengeID (jc_challenge r) = ?cid" for r
    using challenge_unique [OF inv] that row(1) by blast
  have new: "pv_status ?new = NODE_PENDING" by (simp add: joinedProvider_def Let_def assms(7))
  have "on_chain svc es (pv_id p)" if "p \<in> set (js_providers s')" "pv_status p = NODE_ACTIVE" for p
    using up
  proof (cases rule: upsertProvider_cases)
    case known
    from that(1) [unfolded s'(1) known(2)] show ?thesis
      using that(2) assms(3) by (cases rule: set_update_whereE) (auto simp: observed_def)
  next
    case added
    with that new assms(3) show ?thesis by (auto simp: observed_def s'(1))
  qed
  moreover have "proved svc es ch" if "ch \<in> used_challenges s'" for ch
  proof -
    from that obtain r where r: "r \<in> set (js_challenges s')" "jc_consumed_at r \<noteq> None" "ch = jc_challenge r"
      by (auto simp: used_challenges_def)
    from r(1) [unfolded s'(2)] show ?thesis
    proof (cases rule: set_update_whereE)
      case kept
      with r(2,3) have "ch \<in> used_challenges s" by (auto simp: used_challenges_def)
      with assms(3) show ?thesis by (simp add: observed_def)
    next
      case (updated r0)
      from same [OF updated(1,2)] r(3) updated(3) assms(6) show ?thesis by simp
    qed
  qed
  moreover have "row_in_time r" if "r \<in> set (js_challenges s')" for r
    using that [unfolded s'(2)]
  proof (cases rule: set_update_whereE)
    case (updated r0)
    from same [OF updated(1,2)] updated(3) row(2) timestamptz_le [of "cm_RegisteredAt completion"] show ?thesis
      by (simp add: row_in_time_def)
  qed (use assms(3) in \<open>simp add: observed_def\<close>)
  ultimately show ?thesis by (simp add: observed_def)
qed

lemma accept_inv:
  assumes "acceptCompletion svc c1 c2 now s (Some r) = (res, s')" and "join_inv (jn_sha256 svc) s" and "observed svc s es"
    and "es' = insert (SignatureReceived (cj_ChallengeSignature r)) es"
  shows "join_inv (jn_sha256 svc) s' \<and> observed svc s' es' \<and>
    (\<forall>cm. res = Inr cm \<longrightarrow> cm_ProviderID cm = hex_encode (jn_sha256 svc (completed_key cm)))"
proof -
  have es': "observed svc s es'" using assms(3,4) observed_mono by blast
  from assms(1) show ?thesis
  proof (cases rule: acceptCompletion_cases)
    case (refused e)
    with assms(2) es' show ?thesis by simp
  next
    case (accepted ch x completion)
    have proof_of: "proved svc es' ch" using accepted(2) assms(4) by (auto simp: proved_def)
    from accepted(6) show ?thesis
    proof (cases rule: repo_CompleteJoin_cases)
      case (replay d status)
      from assms(2) replay(2) have "justified (jn_sha256 svc) s d"
        unfolding join_inv_def completions_inv_def by blast
      then obtain ch' where ch': "ch' \<in> challenges_of s" "ChallengeID ch' = jd_challenge_id d"
        "jd_provider_id d = hex_encode (jn_sha256 svc (ch_PublicKey ch'))"
        unfolding justified_def using used_subset by blast
      from challenge_unique [OF assms(2) accepted(1) ch'(1)] ch'(2) replay(3) accepted(3) have "ch' = ch" by simp
      with ch'(3) replay accepted es' assms(2) show ?thesis by simp
    next
      case (recorded requestID row)
      have row: "ch_PublicKey (jc_challenge row) = ch_PublicKey ch" "Nonce (jc_challenge row) = Nonce ch"
        using recorded accepted(3) by simp_all
      have pid: "cm_ProviderID completion = hex_encode (jn_sha256 svc (ch_PublicKey (jc_challenge row)))"
        using accepted(4) row by simp
      have "proved svc es' (jc_challenge row)" using proof_of row by (simp add: proved_def)
      with recordCompletion_inv [OF recorded(6) assms(2) recorded(1,2) pid]
        recordCompletion_observed [OF recorded(6) assms(2) es' recorded(1,3)] accepted recorded(7) show ?thesis by simp
    qed (use accepted in simp)
  qed
qed

lemma in_map_filter: "y \<in> set (List.map_filter f xs) \<longleftrightarrow> (\<exists>x \<in> set xs. f x = Some y)"
  by (induction xs) (auto simp: map_filter_simps split: option.splits)

lemma DueChainRegistrations_row:
  assumes "DueChainRegistrations c s limit = Inr rs" and "r \<in> set rs"
  obtains x p where "x \<in> set (js_registrations s)" "due c x"
    "find (\<lambda>p. pv_id p = cr_provider_id x) (js_providers s) = Some p"
    "r = \<lparr>pr_ProviderID = cr_provider_id x, pr_PublicKey = pv_key p, pr_AttemptCount = cr_attempt_count x\<rparr>"
proof -
  from assms have "r \<in> set (List.map_filter
        (\<lambda>r. map_option (\<lambda>p. \<lparr>pr_ProviderID = cr_provider_id r, pr_PublicKey = pv_key p,
                              pr_AttemptCount = cr_attempt_count r\<rparr>)
               (find (\<lambda>p. pv_id p = cr_provider_id r) (js_providers s)))
        (sort_key cr_created_at (filter (due c) (js_registrations s))))"
    unfolding DueChainRegistrations_def by (auto split: if_splits dest: in_set_takeD)
  with that show thesis unfolding in_map_filter by auto
qed

lemma DueChainRegistrations_keys:
  assumes "DueChainRegistrations c s limit = Inr rs" and "join_inv sha s" and "r \<in> set rs"
  shows "pr_ProviderID r = hex_encode (sha (pr_PublicKey r))"
proof -
  obtain x p where "x \<in> set (js_registrations s)" "due c x"
    and p: "find (\<lambda>p. pv_id p = cr_provider_id x) (js_providers s) = Some p"
    "r = \<lparr>pr_ProviderID = cr_provider_id x, pr_PublicKey = pv_key p, pr_AttemptCount = cr_attempt_count x\<rparr>"
    using assms(1,3) by (rule DueChainRegistrations_row)
  from find_SomeD [OF p(1)] assms(2) have "provider_ok sha s (pv_id p) (pv_key p)" "pv_id p = cr_provider_id x"
    unfolding join_inv_def providers_inv_def by blast+
  with p(2) show ?thesis by (simp add: provider_ok_def)
qed

lemma join_step_inv:
  assumes "join_step svc cfg \<sigma> \<sigma>'" and "sys_inv svc \<sigma>"
  shows "sys_inv svc \<sigma>'"
  using assms
proof cases
  case (begin_join c now rand request res s')
  from begin_join(2) have "join_inv (jn_sha256 svc) s' \<and> observed svc s' (jy_events \<sigma>)"
    using assms(2) CreateOrGetChallenge_inv CreateOrGetChallenge_observed
    by (cases rule: BeginJoin_cases) (auto simp: sys_inv_def)
  with assms(2) begin_join(1) show ?thesis by (simp add: sys_inv_def)
next
  case (accept c1 c2 now r acc s')
  from assms(2) have inv: "join_inv (jn_sha256 svc) (jy_store \<sigma>)" "observed svc (jy_store \<sigma>) (jy_events \<sigma>)"
    by (simp_all add: sys_inv_def)
  have "join_inv (jn_sha256 svc) s' \<and> observed svc s' (insert (SignatureReceived (cj_ChallengeSignature r)) (jy_events \<sigma>)) \<and>
     (\<forall>cm. acc = Inr cm \<longrightarrow> cm_ProviderID cm = hex_encode (jn_sha256 svc (completed_key cm)))"
    by (rule accept_inv [OF accept(2) inv refl])
  with assms(2) accept(1) show ?thesis by (auto simp: sys_inv_def split: sum.split)
next
  case (activate cm ensure c out s')
  have mono: "observed svc (jy_store \<sigma>) (jy_events \<sigma> \<union> activation_events ensure cm)"
    using assms(2) observed_mono by (auto simp: sys_inv_def)
  from activate(3) have "join_inv (jn_sha256 svc) s' \<and> observed svc s' (jy_events \<sigma> \<union> activation_events ensure cm)"
  proof (cases rule: activateCompletion_cases)
    case same
    with assms(2) mono show ?thesis by (simp add: sys_inv_def)
  next
    case (call finalization acc)
    have "on_chain svc (jy_events \<sigma> \<union> activation_events ensure cm) (cm_ProviderID cm)"
      using assms(2) activate(2) call(1,2) by (auto simp: on_chain_def activation_events_def sys_inv_def)
    with ActivateProvider_inv [OF call(3)] ActivateProvider_observed [OF call(3) mono] assms(2) show ?thesis
      by (simp add: sys_inv_def)
  qed
  with assms(2) activate(1) show ?thesis by (simp add: sys_inv_def)
next
  case (list_due c limit rs)
  with assms(2) DueChainRegistrations_keys [OF list_due(2)] show ?thesis by (auto simp: sys_inv_def)
next
  case (reconcile pr env i)
  let ?s' = "reconcileOne cfg env i (jy_store \<sigma>) pr" and ?es = "jy_events \<sigma> \<union> reconcile_events env pr"
  have mono: "observed svc (jy_store \<sigma>) ?es" using assms(2) observed_mono by (auto simp: sys_inv_def)
  have inv: "join_inv (jn_sha256 svc) (jy_store \<sigma>)" using assms(2) by (simp add: sys_inv_def)
  have "join_inv (jn_sha256 svc) ?s' \<and> observed svc ?s' ?es"
  proof (cases rule: reconcileOne_cases [of cfg env i "jy_store \<sigma>" pr])
    case same
    with mono inv show ?thesis by simp
  next
    case (failed next_at terminal)
    obtain res s'' where eq: "RecordChainRegistrationFailure (re_call env i) (jy_store \<sigma>) (pr_ProviderID pr) next_at terminal = (res, s'')"
      by fastforce
    with RecordChainRegistrationFailure_inv [OF eq inv] RecordChainRegistrationFailure_observed [OF eq mono] failed
    show ?thesis by simp
  next
    case (call ensure finalization)
    obtain res s'' where eq: "ActivateProvider (re_call env i) (jy_store \<sigma>) (pr_ProviderID pr) finalization = (res, s'')" by fastforce
    have "on_chain svc ?es (pr_ProviderID pr)"
      using assms(2) reconcile(2) call(1,2) by (auto simp: on_chain_def reconcile_events_def sys_inv_def)
    with ActivateProvider_inv [OF eq inv] ActivateProvider_observed [OF eq mono] call(3) eq show ?thesis by simp
  qed
  with assms(2) reconcile(1) show ?thesis by (simp add: sys_inv_def)
next
  case (revoke c providerID gone s')
  with RevokeProvider_inv [OF revoke(2)] RevokeProvider_observed [OF revoke(2)] assms(2) show ?thesis
    by (simp add: sys_inv_def)
qed

lemma join_run_inv:
  assumes "(join_step svc cfg)\<^sup>*\<^sup>* \<sigma> \<sigma>'" and "new_join \<sigma>"
  shows "sys_inv svc \<sigma>'"
  using assms(1)
proof (induction rule: rtranclp_induct)
  case base
  with assms(2) show ?case
    by (simp add: sys_inv_def new_join_def join_inv_empty) (simp add: observed_def used_challenges_def empty_join_store_def)
next
  case (step y z)
  then show ?case by (simp add: join_step_inv)
qed

end
