(* ===== verification/Join_Liveness.thy ===== *)
theory Join_Liveness
  imports Join_System
begin

text \<open>
  The registration reconciler settles every row of its outbox. A pass over a due row lowers the
  number of attempts still allowed; a pass that fails changes nothing. So after enough passes
  that work, spread over enough time, every registration is finalized or has failed for good,
  and the polling loop of \<^verbatim>\<open>reconciler.go\<close> makes such passes.
\<close>

definition unsettled :: "chain_row \<Rightarrow> bool" where
  "unsettled r \<longleftrightarrow> cr_state r \<in> {CHAIN_READY, CHAIN_RETRY}"

definition settled :: "chain_row \<Rightarrow> bool" where
  "settled r \<longleftrightarrow> cr_state r \<in> {CHAIN_FINALIZED, CHAIN_FAILED}"

definition outbox_row_ok :: "ReconcilerConfig \<Rightarrow> int \<Rightarrow> chain_row \<Rightarrow> bool" where
  "outbox_row_ok cfg t r \<longleftrightarrow> settled r \<or> unsettled r \<and> 0 \<le> cr_attempt_count r \<and> cr_attempt_count r < rc_MaxAttempts cfg \<and>
     (case cr_next_attempt_at r of None \<Rightarrow> True | Some n \<Rightarrow> n \<le> t + rc_MaxBackoff cfg)"

definition weight :: "ReconcilerConfig \<Rightarrow> chain_row \<Rightarrow> nat" where
  "weight cfg r = (if unsettled r then nat (rc_MaxAttempts cfg - cr_attempt_count r) else 0)"

definition work_left :: "ReconcilerConfig \<Rightarrow> join_store \<Rightarrow> nat" where
  "work_left cfg s = sum_list (map (weight cfg) (js_registrations s))"

definition outbox_inv :: "(byte list \<Rightarrow> byte list) \<Rightarrow> ReconcilerConfig \<Rightarrow> int \<Rightarrow> join_store \<Rightarrow> bool" where
  "outbox_inv sha cfg t s \<longleftrightarrow> join_inv sha s \<and> (\<forall>r \<in> set (js_registrations s). outbox_row_ok cfg t r)"

text \<open>
  A pass that works: it has a registrar, lists the outbox and gets to store what the chain
  answers for the first registration, whatever that is, with a block number that fits the
  column. What happens to the rest of its batch is left open.
\<close>

definition good_call :: "db_call \<Rightarrow> bool" where "good_call c \<longleftrightarrow> db_up c \<and> \<not> db_abort c"

definition good_pass :: "reconciler_env \<Rightarrow> bool" where
  "good_pass env \<longleftrightarrow> db_up (re_list env) \<and> good_call (re_call env 0) \<and> \<not> re_cancelled env 0 \<and>
     (\<exists>ensure. re_EnsureActive env = Some ensure \<and> (\<forall>k f. ensure k = Inr f \<longrightarrow> FinalizedBlockNumber f < 2 ^ 63))"

text \<open>The latest the clock has shown by the end of a pass.\<close>

definition latest :: "ReconcilerConfig \<Rightarrow> int \<Rightarrow> reconciler_env \<Rightarrow> int" where
  "latest cfg t env = fold max (map (re_now env) [0..<nat (rc_BatchSize cfg)]) t"

text \<open>
  How many of the passes count: those that work and list the outbox at least the longest backoff
  after the last one that counted, of which \<open>a\<close> is the latest clock reading. The passes in
  between may be as frequent and may fail as they like.
\<close>

fun counted :: "ReconcilerConfig \<Rightarrow> int \<Rightarrow> int \<Rightarrow> reconciler_env list \<Rightarrow> nat" where
  "counted cfg a t [] = 0"
| "counted cfg a t (env # envs) =
     (if good_pass env \<and> a + rc_MaxBackoff cfg \<le> db_now (re_list env)
      then Suc (counted cfg (latest cfg t env) (latest cfg t env) envs)
      else counted cfg a (latest cfg t env) envs)"

lemma latest_ge: "t \<le> latest cfg t env"
proof -
  have "t \<le> fold max xs t" for xs :: "int list" by (induction xs arbitrary: t) (auto intro: order_trans [OF max.cobounded2])
  then show ?thesis by (simp add: latest_def)
qed

lemma latest_reading: "i < nat (rc_BatchSize cfg) \<Longrightarrow> re_now env i \<le> latest cfg t env"
proof -
  have ge: "t \<le> fold max xs t" for xs :: "int list" and t
    by (induction xs arbitrary: t) (auto intro: order_trans [OF max.cobounded2])
  have "x \<in> set xs \<Longrightarrow> x \<le> fold max xs t" for xs :: "int list" and x t
    by (induction xs arbitrary: t) (auto intro: order_trans [OF max.cobounded1 ge])
  then show "i < nat (rc_BatchSize cfg) \<Longrightarrow> re_now env i \<le> latest cfg t env" by (simp add: latest_def)
qed

section \<open>One registration\<close>

lemma doubling_le_cap: "doubling cap b n \<le> cap"
  by (induction cap b n rule: doubling.induct) (simp_all add: Let_def)

lemma reconciler_backoffFor_le: "reconciler_backoffFor cfg n \<le> rc_MaxBackoff cfg"
  by (simp add: reconciler_backoffFor_def Let_def doubling_le_cap)

lemma sum_update_less:
  fixes w :: "'r \<Rightarrow> nat"
  assumes "\<exists>r \<in> set rows. p r" and "\<forall>r \<in> set rows. p r \<longrightarrow> w (f r) < w r"
  shows "sum_list (map w (update_where p f rows)) < sum_list (map w rows)"
proof -
  have le: "sum_list (map w (update_where p f rs)) \<le> sum_list (map w rs)"
    if "\<forall>r \<in> set rs. p r \<longrightarrow> w (f r) < w r" for rs
    using that by (induction rs) fastforce+
  show ?thesis using assms
  proof (induction rows)
    case (Cons r rows)
    show ?case
    proof (cases "p r")
      case True
      with Cons.prems le [of rows] show ?thesis by fastforce
    next
      case False
      with Cons show ?thesis by simp
    qed
  qed simp
qed

lemma same_key: "distinct (map k rows) \<Longrightarrow> r \<in> set rows \<Longrightarrow> x \<in> set rows \<Longrightarrow> k r = k x \<Longrightarrow> r = x"
  by (auto simp: distinct_map dest: inj_onD)

lemma rows_affected_one:
  assumes "distinct (map k rows)" and "key \<in> k ` set rows"
  shows "rows_affected (\<lambda>r. k r = key) rows = 1"
proof -
  have "rows_affected (\<lambda>r. k r = key) rows \<noteq> 0" using assms(2) by (auto simp: rows_affected_0)
  moreover have "rows_affected (\<lambda>r. k r = key) rows \<le> 1" by (rule rows_affected_le_1 [OF assms(1)])
  ultimately show ?thesis by linarith
qed

text \<open>What a pass has listed, as long as the row it describes has not changed.\<close>

definition lists_row :: "join_store \<Rightarrow> PendingChainRegistration \<Rightarrow> bool" where
  "lists_row s pr \<longleftrightarrow> (\<exists>x \<in> set (js_registrations s). unsettled x \<and> cr_provider_id x = pr_ProviderID pr \<and>
     cr_attempt_count x = pr_AttemptCount pr)"

lemma outbox_row_ok_later: "outbox_row_ok cfg t r \<Longrightarrow> t \<le> t' \<Longrightarrow> outbox_row_ok cfg t' r"
  by (auto simp: outbox_row_ok_def split: option.splits)

lemma outbox_inv_later: "outbox_inv sha cfg t s \<Longrightarrow> t \<le> t' \<Longrightarrow> outbox_inv sha cfg t' s"
  using outbox_row_ok_later by (auto simp: outbox_inv_def)

text \<open>Progress on one registration: less work is left, and the other rows are as they were.\<close>

definition row_progress ::
  "(byte list \<Rightarrow> byte list) \<Rightarrow> ReconcilerConfig \<Rightarrow> int \<Rightarrow> string \<Rightarrow> join_store \<Rightarrow> join_store \<Rightarrow> bool" where
  "row_progress sha cfg u pid s s' \<longleftrightarrow> outbox_inv sha cfg u s' \<and> work_left cfg s' < work_left cfg s \<and>
     (\<forall>x \<in> set (js_registrations s). cr_provider_id x \<noteq> pid \<longrightarrow> x \<in> set (js_registrations s'))"

lemma row_progress_update:
  assumes inv: "outbox_inv sha cfg t s" and listed: "lists_row s pr" and "t \<le> u" and join: "join_inv sha s'"
    and s': "js_registrations s' = update_where (\<lambda>r. cr_provider_id r = pr_ProviderID pr) f (js_registrations s)"
    and new: "\<And>x. unsettled x \<Longrightarrow> outbox_row_ok cfg t x \<Longrightarrow> cr_attempt_count x = pr_AttemptCount pr \<Longrightarrow>
      outbox_row_ok cfg u (f x) \<and> weight cfg (f x) < weight cfg x"
  shows "row_progress sha cfg u (pr_ProviderID pr) s s'"
proof -
  obtain x where x: "x \<in> set (js_registrations s)" "unsettled x" "cr_provider_id x = pr_ProviderID pr"
    "cr_attempt_count x = pr_AttemptCount pr" using listed by (auto simp: lists_row_def)
  have regs: "registrations_inv s" using inv by (simp add: outbox_inv_def join_inv_def)
  have only: "r = x" if "r \<in> set (js_registrations s)" "cr_provider_id r = pr_ProviderID pr" for r
    using same_key [of cr_provider_id "js_registrations s" r x] regs that x(1,3) by (simp add: registrations_inv_def)
  have newx: "outbox_row_ok cfg u (f x)" "weight cfg (f x) < weight cfg x"
    using new [OF x(2) _ x(4)] inv x(1) by (simp_all add: outbox_inv_def)
  have oldok: "outbox_row_ok cfg u r" if "r \<in> set (js_registrations s)" for r
    using outbox_inv_later [OF inv \<open>t \<le> u\<close>] that by (simp add: outbox_inv_def)
  have "outbox_row_ok cfg u r" if "r \<in> set (js_registrations s')" for r
    using that [unfolded s'] by (cases rule: set_update_whereE) (use oldok newx only in auto)
  moreover have "work_left cfg s' < work_left cfg s"
    unfolding work_left_def s' by (rule sum_update_less) (use x(1,3) only newx(2) in blast)+
  moreover have "r \<in> set (js_registrations s')"
    if "r \<in> set (js_registrations s)" "cr_provider_id r \<noteq> pr_ProviderID pr" for r
    using in_update_where [OF that(1), of "\<lambda>r. cr_provider_id r = pr_ProviderID pr" f] that(2) by (simp add: s')
  ultimately show ?thesis using join by (simp add: row_progress_def outbox_inv_def)
qed

lemma fail_progress:
  assumes inv: "outbox_inv sha cfg t s" and listed: "lists_row s pr" and "t \<le> u" "now \<le> u"
    and final: "\<not> terminal \<Longrightarrow> pr_AttemptCount pr + 1 < rc_MaxAttempts cfg"
    and s': "s' = reconciler_fail cfg now c s (pr_ProviderID pr) banned n terminal"
  shows "s' = s \<and> \<not> good_call c \<or> row_progress sha cfg u (pr_ProviderID pr) s s'"
proof -
  obtain x where x: "x \<in> set (js_registrations s)" "cr_provider_id x = pr_ProviderID pr"
    using listed by (auto simp: lists_row_def)
  have regs: "registrations_inv s" and join: "join_inv sha s" using inv by (simp_all add: outbox_inv_def join_inv_def)
  define due_at where "due_at = now + (if banned \<and> reconciler_backoffFor cfg n < rc_MaxBackoff cfg
    then rc_MaxBackoff cfg else reconciler_backoffFor cfg n)"
  have due_at: "due_at \<le> u + rc_MaxBackoff cfg"
    using \<open>now \<le> u\<close> reconciler_backoffFor_le [of cfg n] by (simp add: due_at_def)
  have s'': "s' = snd (RecordChainRegistrationFailure c s (pr_ProviderID pr) due_at terminal)"
    using s' by (simp add: due_at_def reconciler_fail_def Let_def)
  obtain res where eq: "RecordChainRegistrationFailure c s (pr_ProviderID pr) due_at terminal = (res, s')"
    using s'' by (metis prod.collapse)
  from eq show ?thesis
  proof (cases rule: RecordChainRegistrationFailure_cases)
    case (failed e)
    have "rows_affected (\<lambda>r. cr_provider_id r = pr_ProviderID pr) (js_registrations s) = 1"
      unfolding x(2) [symmetric] using regs x(1) by (intro rows_affected_one imageI) (auto simp: registrations_inv_def)
    then have "\<not> good_call c" using eq failed(1) by (auto simp: RecordChainRegistrationFailure_def good_call_def)
    with failed(2) show ?thesis by simp
  next
    case recorded
    have "row_progress sha cfg u (pr_ProviderID pr) s s'"
    proof (rule row_progress_update [OF inv listed \<open>t \<le> u\<close> RecordChainRegistrationFailure_inv [OF eq join]])
      show "js_registrations s' = update_where (\<lambda>r. cr_provider_id r = pr_ProviderID pr)
        (\<lambda>r. r\<lparr>cr_state := (if terminal then CHAIN_FAILED else CHAIN_RETRY), cr_attempt_count := cr_attempt_count r + 1,
           cr_next_attempt_at := (if terminal then None else Some (timestamptz due_at))\<rparr>) (js_registrations s)"
        by (simp add: recorded(2))
    qed (use final due_at timestamptz_le [of due_at] in
      \<open>auto simp: outbox_row_ok_def settled_def unsettled_def weight_def\<close>)
    then show ?thesis ..
  qed
qed

text \<open>Activating a provider that the tables know succeeds when the database answers.\<close>

lemma ActivateProvider_succeeds:
  assumes "join_inv sha s" and "good_call c" and pid: "pid \<in> pv_id ` set (js_providers s)"
    and "FinalizedBlockNumber finalization < 2 ^ 63"
  obtains d :: completion_row where "jd_provider_id d = pid" "ActivateProvider c s pid finalization =
    (Inr (jd_request_id d, jd_provider_id d, jd_registered_at d, NODE_ACTIVE), s\<lparr>
        js_providers := update_where (\<lambda>p. pv_id p = pid)
          (\<lambda>p. p\<lparr>pv_status := NODE_ACTIVE,
             pv_activated_at := (case pv_activated_at p of None \<Rightarrow> Some (db_now c) | Some t \<Rightarrow> Some t)\<rparr>) (js_providers s),
        js_registrations := update_where (\<lambda>x. cr_provider_id x = pid)
          (\<lambda>x. x\<lparr>cr_state := CHAIN_FINALIZED, cr_finalization := Some finalization\<rparr>) (js_registrations s)\<rparr>)"
proof -
  have provs: "providers_inv sha s" using assms(1) by (simp add: join_inv_def)
  have one: "rows_affected (\<lambda>r. pv_id r = pid) (js_providers s) = 1"
    using provs pid by (intro rows_affected_one) (auto simp: providers_inv_def)
  let ?ds = "sort_key jd_registered_at (filter (\<lambda>r. jd_provider_id r = pid) (js_completions s))"
  from pid provs have "\<exists>d \<in> set (js_completions s). jd_provider_id d = pid"
    unfolding providers_inv_def provider_ok_def backed_def by fastforce
  then have "set ?ds \<noteq> {}" by (auto simp: filter_empty_conv)
  then obtain d ds where ds: "?ds = d # ds" by (metis list.set_sel(1) empty_set neq_Nil_conv)
  then have "d \<in> set ?ds" by simp
  then have "jd_provider_id d = pid" by simp
  moreover have "firstCompletion s pid = Some d" using ds by (simp add: firstCompletion_def)
  ultimately show thesis using assms(2,4) one by (intro that [of d]) (simp_all add: ActivateProvider_def good_call_def)
qed

lemma activate_progress:
  assumes inv: "outbox_inv sha cfg t s" and listed: "lists_row s pr" and "t \<le> u"
    and s': "s' = snd (ActivateProvider c s (pr_ProviderID pr) finalization)"
  shows "s' = s \<and> \<not> (good_call c \<and> FinalizedBlockNumber finalization < 2 ^ 63) \<or>
    row_progress sha cfg u (pr_ProviderID pr) s s'"
proof -
  obtain x where x: "x \<in> set (js_registrations s)" "cr_provider_id x = pr_ProviderID pr"
    using listed by (auto simp: lists_row_def)
  have regs: "registrations_inv s" and join: "join_inv sha s" using inv by (simp_all add: outbox_inv_def join_inv_def)
  from regs x have pid: "pr_ProviderID pr \<in> pv_id ` set (js_providers s)"
    unfolding registrations_inv_def by metis
  obtain res where eq: "ActivateProvider c s (pr_ProviderID pr) finalization = (res, s')"
    using s' by (metis prod.collapse)
  from eq show ?thesis
  proof (cases rule: ActivateProvider_cases)
    case (failed e)
    have False if "good_call c" "FinalizedBlockNumber finalization < 2 ^ 63"
      by (rule ActivateProvider_succeeds [OF join that(1) pid that(2)]) (use eq failed(1) in simp)
    with failed(2) show ?thesis by blast
  next
    case (activated d)
    have "row_progress sha cfg u (pr_ProviderID pr) s s'"
    proof (rule row_progress_update [OF inv listed \<open>t \<le> u\<close> ActivateProvider_inv [OF eq join]])
      show "js_registrations s' = update_where (\<lambda>x. cr_provider_id x = pr_ProviderID pr)
        (\<lambda>x. x\<lparr>cr_state := CHAIN_FINALIZED, cr_finalization := Some finalization\<rparr>) (js_registrations s)"
        by (simp add: activated(1))
    qed (auto simp: outbox_row_ok_def settled_def unsettled_def weight_def)
    then show ?thesis ..
  qed
qed

lemma reconcileOne_progress:
  assumes inv: "outbox_inv sha cfg t s" and listed: "lists_row s pr" and u: "t \<le> u" "re_now env i \<le> u"
    and s': "s' = reconcileOne cfg env i s pr"
  shows "s' = s \<and> \<not> (good_call (re_call env i) \<and> (\<exists>ensure. re_EnsureActive env = Some ensure \<and>
      (\<forall>k f. ensure k = Inr f \<longrightarrow> FinalizedBlockNumber f < 2 ^ 63))) \<or>
    row_progress sha cfg u (pr_ProviderID pr) s s'"
proof (cases "re_EnsureActive env")
  case None
  with s' show ?thesis by (simp add: reconcileOne_def)
next
  case (Some ensure)
  note fail = fail_progress [OF inv listed u]
  show ?thesis
  proof (cases "length (pr_PublicKey pr) \<noteq> 32")
    case True
    with Some s' have "s' = reconciler_fail cfg (re_now env i) (re_call env i) s (pr_ProviderID pr) False (pr_AttemptCount pr + 1) True"
      by (simp add: reconcileOne_def Let_def)
    from fail [OF _ this] show ?thesis by auto
  next
    case len: False
    show ?thesis
    proof (cases "ensure (pr_PublicKey pr)")
      case (Inl banned)
      with Some s' len have "s' = reconciler_fail cfg (re_now env i) (re_call env i) s (pr_ProviderID pr) banned
          (pr_AttemptCount pr + 1) (pr_AttemptCount pr + 1 \<ge> rc_MaxAttempts cfg)"
        by (simp add: reconcileOne_def Let_def)
      from fail [OF _ this] show ?thesis by auto
    next
      case (Inr finalization)
      with Some s' len have "s' = snd (ActivateProvider (re_call env i) s (pr_ProviderID pr) finalization)"
        by (simp add: reconcileOne_def Let_def)
      from activate_progress [OF inv listed u(1) this] Some Inr show ?thesis by auto
    qed
  qed
qed

section \<open>Passes\<close>

text \<open>What any part of a pass does: nothing, or progress.\<close>

definition pass_progress :: "(byte list \<Rightarrow> byte list) \<Rightarrow> ReconcilerConfig \<Rightarrow> int \<Rightarrow> join_store \<Rightarrow> join_store \<Rightarrow> bool" where
  "pass_progress sha cfg u s s' \<longleftrightarrow> outbox_inv sha cfg u s' \<and> work_left cfg s' < work_left cfg s"

lemma lists_row_other:
  assumes "row_progress sha cfg u (pr_ProviderID pr) s s'" and "lists_row s q" and "pr_ProviderID q \<noteq> pr_ProviderID pr"
  shows "lists_row s' q"
  using assms unfolding lists_row_def row_progress_def by metis

lemma reconcileLoop_progress:
  assumes "outbox_inv sha cfg t s" and "t \<le> u" and "\<forall>j. i \<le> j \<and> j < i + length rs \<longrightarrow> re_now env j \<le> u"
    and "\<forall>pr \<in> set rs. lists_row s pr" and "distinct (map pr_ProviderID rs)"
  shows "reconcileLoop cfg env i rs s = s \<or> pass_progress sha cfg u s (reconcileLoop cfg env i rs s)"
  using assms
proof (induction rs arbitrary: i s t)
  case (Cons pr rs)
  let ?s1 = "reconcileOne cfg env i s pr"
  have others: "lists_row s q \<and> pr_ProviderID q \<noteq> pr_ProviderID pr" if "q \<in> set rs" for q
  proof
    show "lists_row s q" using Cons.prems(4) that by simp
    show "pr_ProviderID q \<noteq> pr_ProviderID pr" using Cons.prems(5) imageI [OF that, of pr_ProviderID] by auto
  qed
  have later: "\<forall>j. Suc i \<le> j \<and> j < Suc i + length rs \<longrightarrow> re_now env j \<le> u" using Cons.prems(3) by simp
  have "?s1 = s \<or> row_progress sha cfg u (pr_ProviderID pr) s ?s1"
    using reconcileOne_progress [OF Cons.prems(1) _ Cons.prems(2) _ refl, of pr env i] Cons.prems(3,4) by auto
  then show ?case
  proof
    assume "?s1 = s"
    with Cons.IH [OF Cons.prems(1,2) later] others Cons.prems(5) show ?thesis by simp
  next
    assume prog: "row_progress sha cfg u (pr_ProviderID pr) s ?s1"
    then have inv1: "outbox_inv sha cfg u ?s1" "work_left cfg ?s1 < work_left cfg s" by (simp_all add: row_progress_def)
    have "\<forall>q \<in> set rs. lists_row ?s1 q" using lists_row_other [OF prog] others by blast
    from Cons.IH [OF inv1(1) order_refl later this] Cons.prems(5) inv1 show ?thesis
      by (auto simp: pass_progress_def)
  qed
qed simp

lemma distinct_map_filter_key:
  assumes "distinct (map k xs)" and "\<And>x y. f x = Some y \<Longrightarrow> k' y = k x"
  shows "distinct (map k' (List.map_filter f xs))"
  using assms(1)
proof (induction xs)
  case (Cons x xs)
  show ?case
  proof (cases "f x")
    case None
    with Cons show ?thesis by (simp add: map_filter_simps)
  next
    case (Some y)
    have "k' y \<noteq> k' z" if "z \<in> set (List.map_filter f xs)" for z
    proof -
      from that obtain w where w: "w \<in> set xs" "f w = Some z" unfolding in_map_filter by blast
      from imageI [OF w(1), of k] Cons.prems have "k x \<noteq> k w" by auto
      with assms(2) [OF Some] assms(2) [OF w(2)] show ?thesis by simp
    qed
    with Cons Some show ?thesis by (auto simp: map_filter_simps)
  qed
qed (simp add: map_filter_simps)

lemma distinct_sort_key: "distinct (map k (sort_key f xs)) \<longleftrightarrow> distinct (map k xs)"
proof -
  have "mset (map k (sort_key f xs)) = mset (map k xs)" by simp
  then show ?thesis by (rule mset_eq_imp_distinct_iff)
qed

lemma DueChainRegistrations_lists:
  assumes "outbox_inv sha cfg t s" and "db_up c"
  obtains rs where "DueChainRegistrations c s n = Inr rs" "\<forall>pr \<in> set rs. lists_row s pr"
    "distinct (map pr_ProviderID rs)" "length rs \<le> n"
    "t + rc_MaxBackoff cfg \<le> db_now c \<and> 0 < n \<and> (\<exists>r \<in> set (js_registrations s). unsettled r) \<longrightarrow> rs \<noteq> []"
proof -
  let ?f = "\<lambda>r. map_option (\<lambda>p. \<lparr>pr_ProviderID = cr_provider_id r, pr_PublicKey = pv_key p, pr_AttemptCount = cr_attempt_count r\<rparr>)
    (find (\<lambda>p. pv_id p = cr_provider_id r) (js_providers s))"
  let ?xs = "sort_key cr_created_at (filter (due c) (js_registrations s))"
  let ?rs = "take n (List.map_filter ?f ?xs)"
  have regs: "registrations_inv s" using assms(1) by (simp add: outbox_inv_def join_inv_def)
  have eq: "DueChainRegistrations c s n = Inr ?rs" using assms(2) by (simp add: DueChainRegistrations_def)
  moreover have "lists_row s pr" if pr: "pr \<in> set ?rs" for pr
  proof -
    obtain x p where x: "x \<in> set (js_registrations s)" "due c x"
      and "find (\<lambda>p. pv_id p = cr_provider_id x) (js_providers s) = Some p"
      and "pr = \<lparr>pr_ProviderID = cr_provider_id x, pr_PublicKey = pv_key p, pr_AttemptCount = cr_attempt_count x\<rparr>"
      using eq pr by (rule DueChainRegistrations_row)
    then show ?thesis by (auto simp: lists_row_def due_def unsettled_def)
  qed
  moreover have "distinct (map pr_ProviderID ?rs)"
  proof -
    have "distinct (map cr_provider_id ?xs)"
      using regs by (auto simp: distinct_sort_key registrations_inv_def distinct_map inj_on_def)
    then have "distinct (map pr_ProviderID (List.map_filter ?f ?xs))"
      by (rule distinct_map_filter_key) auto
    then show ?thesis by (simp add: take_map [symmetric])
  qed
  moreover have "length ?rs \<le> n" by simp
  moreover have "?rs \<noteq> []"
    if wait: "t + rc_MaxBackoff cfg \<le> db_now c" and n: "0 < n" and some: "\<exists>r \<in> set (js_registrations s). unsettled r"
  proof -
    from some obtain r where r: "r \<in> set (js_registrations s)" "unsettled r" by blast
    then have "outbox_row_ok cfg t r" using assms(1) by (simp add: outbox_inv_def)
    with r(2) wait have "due c r"
      by (auto simp: outbox_row_ok_def due_def unsettled_def settled_def split: option.splits)
    moreover have "find (\<lambda>p. pv_id p = cr_provider_id r) (js_providers s) \<noteq> None"
    proof -
      from regs r(1) have "cr_provider_id r \<in> pv_id ` set (js_providers s)" by (simp add: registrations_inv_def)
      then obtain p where "p \<in> set (js_providers s)" "cr_provider_id r = pv_id p" by (rule imageE)
      then show ?thesis by (auto simp: find_None_iff)
    qed
    ultimately have "\<exists>y. y \<in> set (List.map_filter ?f ?xs)" unfolding in_map_filter using r(1) by auto
    then have "List.map_filter ?f ?xs \<noteq> []" by auto
    with n show ?thesis by simp
  qed
  ultimately show thesis using that by blast
qed

lemma ReconcileOnce_any:
  assumes "outbox_inv sha cfg t s"
  shows "ReconcileOnce cfg env s = s \<or> pass_progress sha cfg (latest cfg t env) s (ReconcileOnce cfg env s)"
proof (cases "db_up (re_list env)")
  case True
  from DueChainRegistrations_lists [OF assms True, of "nat (rc_BatchSize cfg)"] obtain rs where
    rs: "DueChainRegistrations (re_list env) s (nat (rc_BatchSize cfg)) = Inr rs" "\<forall>pr \<in> set rs. lists_row s pr"
      "distinct (map pr_ProviderID rs)" "length rs \<le> nat (rc_BatchSize cfg)" .
  have "\<forall>j. 0 \<le> j \<and> j < 0 + length rs \<longrightarrow> re_now env j \<le> latest cfg t env"
    using rs(4) latest_reading by auto
  from reconcileLoop_progress [OF assms latest_ge this rs(2,3)] rs(1) show ?thesis by (simp add: ReconcileOnce_def)
qed (simp add: ReconcileOnce_def DueChainRegistrations_def)

lemma ReconcileOnce_good:
  assumes inv: "outbox_inv sha cfg a s" and t: "a \<le> t" and good: "good_pass env"
    and time: "a + rc_MaxBackoff cfg \<le> db_now (re_list env)" and batch: "0 < rc_BatchSize cfg"
    and some: "work_left cfg s \<noteq> 0"
  shows "pass_progress sha cfg (latest cfg t env) s (ReconcileOnce cfg env s)"
proof -
  have up: "db_up (re_list env)" using good by (simp add: good_pass_def)
  from DueChainRegistrations_lists [OF inv up, of "nat (rc_BatchSize cfg)"] obtain rs where
    rs: "DueChainRegistrations (re_list env) s (nat (rc_BatchSize cfg)) = Inr rs" "\<forall>pr \<in> set rs. lists_row s pr"
      "distinct (map pr_ProviderID rs)" "length rs \<le> nat (rc_BatchSize cfg)"
      "a + rc_MaxBackoff cfg \<le> db_now (re_list env) \<and> 0 < nat (rc_BatchSize cfg) \<and>
        (\<exists>r \<in> set (js_registrations s). unsettled r) \<longrightarrow> rs \<noteq> []" .
  have "\<exists>r \<in> set (js_registrations s). unsettled r"
  proof (rule ccontr)
    assume "\<not> ?thesis"
    then have "work_left cfg s = 0" by (simp add: work_left_def weight_def)
    with some show False ..
  qed
  with rs(5) time batch have "rs \<noteq> []" by simp
  then obtain pr rest where split: "rs = pr # rest" by (cases rs) auto
  let ?u = "latest cfg t env" and ?s1 = "reconcileOne cfg env 0 s pr"
  have le: "t \<le> ?u" by (rule latest_ge)
  have "re_now env 0 \<le> ?u" using batch by (intro latest_reading) simp
  with reconcileOne_progress [OF inv _ _ _ refl, of pr ?u env 0] rs(2) good t le have
    prog: "row_progress sha cfg ?u (pr_ProviderID pr) s ?s1" by (auto simp: split good_pass_def)
  then have inv1: "outbox_inv sha cfg ?u ?s1" "work_left cfg ?s1 < work_left cfg s" by (simp_all add: row_progress_def)
  have now: "\<forall>j. Suc 0 \<le> j \<and> j < Suc 0 + length rest \<longrightarrow> re_now env j \<le> ?u"
    using rs(4) latest_reading by (auto simp: split)
  have "\<forall>q \<in> set rest. lists_row ?s1 q"
  proof
    fix q assume q: "q \<in> set rest"
    have "pr_ProviderID q \<noteq> pr_ProviderID pr"
      using rs(3) [unfolded split] imageI [OF q, of pr_ProviderID] by auto
    with lists_row_other [OF prog, of q] rs(2) q show "lists_row ?s1 q" by (simp add: split)
  qed
  from reconcileLoop_progress [OF inv1(1) order_refl now this] rs(3) inv1
  have "pass_progress sha cfg ?u s (reconcileLoop cfg env (Suc 0) rest ?s1)"
    by (auto simp: split pass_progress_def)
  with good show ?thesis by (simp add: ReconcileOnce_def rs(1) split good_pass_def)
qed

text \<open>
  Each counted pass, with the passes since the last one, does at least one attempt: either one
  of the passes in between did (\<open>b = 1\<close>), or nothing has changed and every row is due.
\<close>

lemma passes_progress:
  assumes "outbox_inv sha cfg t s" and "a \<le> t" and "b = 0 \<and> outbox_inv sha cfg a s \<or> b = 1" and "0 < rc_BatchSize cfg"
  shows "\<exists>t'. outbox_inv sha cfg t' (fold (ReconcileOnce cfg) envs s) \<and>
    work_left cfg (fold (ReconcileOnce cfg) envs s) \<le> work_left cfg s + b - counted cfg a t envs"
  using assms(1-3)
proof (induction envs arbitrary: a b t s)
  case (Cons env envs)
  let ?s1 = "ReconcileOnce cfg env s" and ?t1 = "latest cfg t env"
  have t1: "a \<le> ?t1" using Cons.prems(2) latest_ge order_trans by blast
  have any: "?s1 = s \<or> pass_progress sha cfg ?t1 s ?s1" by (rule ReconcileOnce_any [OF Cons.prems(1)])
  have inv1: "outbox_inv sha cfg ?t1 ?s1"
    using any outbox_inv_later [OF Cons.prems(1) latest_ge] by (auto simp: pass_progress_def)
  show ?case
  proof (cases "good_pass env \<and> a + rc_MaxBackoff cfg \<le> db_now (re_list env)")
    case True
    from Cons.IH [OF inv1 order_refl, of 0] inv1 obtain t' where
      ih: "outbox_inv sha cfg t' (fold (ReconcileOnce cfg) envs ?s1)"
        "work_left cfg (fold (ReconcileOnce cfg) envs ?s1) \<le> work_left cfg ?s1 - counted cfg ?t1 ?t1 envs" by auto
    have "b = 1 \<or> work_left cfg s = 0 \<or> work_left cfg ?s1 < work_left cfg s"
      using Cons.prems(3) ReconcileOnce_good [OF _ Cons.prems(2) _ _ assms(4)] True
      by (auto simp: pass_progress_def)
    moreover have "work_left cfg ?s1 \<le> work_left cfg s" using any by (auto simp: pass_progress_def)
    ultimately show ?thesis using ih True by (intro exI [of _ t']) auto
  next
    case False
    from any show ?thesis
    proof
      assume same: "?s1 = s"
      from Cons.IH [OF _ t1 Cons.prems(3)] inv1 False show ?thesis unfolding same by (auto simp: same)
    next
      assume prog: "pass_progress sha cfg ?t1 s ?s1"
      from Cons.IH [OF inv1 t1, of 1] obtain t' where
        "outbox_inv sha cfg t' (fold (ReconcileOnce cfg) envs ?s1)"
        "work_left cfg (fold (ReconcileOnce cfg) envs ?s1) \<le> work_left cfg ?s1 + 1 - counted cfg a ?t1 envs" by auto
      with prog False show ?thesis by (intro exI [of _ t']) (auto simp: pass_progress_def)
    qed
  qed
qed auto

lemma work_left_le:
  assumes "outbox_inv sha cfg t s"
  shows "work_left cfg s \<le> length (js_registrations s) * nat (rc_MaxAttempts cfg)"
proof -
  have "weight cfg r \<le> nat (rc_MaxAttempts cfg)" if "r \<in> set (js_registrations s)" for r
    using assms that by (auto simp: outbox_inv_def outbox_row_ok_def weight_def settled_def unsettled_def)
  moreover have "sum_list (map w rs) \<le> length rs * n" if "\<forall>r \<in> set rs. w r \<le> n" for rs :: "chain_row list" and w n
    using that by (induction rs) (auto intro: add_mono)
  ultimately show ?thesis unfolding work_left_def by blast
qed

section \<open>The polling loop\<close>

text \<open>
  \<^verbatim>\<open>Run\<close> with a ticker: one pass every interval, each done before the next tick, with a
  working database and registrar and the clocks of the process and the database in step.
\<close>

fun polled :: "ReconcilerConfig \<Rightarrow> int \<Rightarrow> reconciler_env list \<Rightarrow> bool" where
  "polled cfg T [] \<longleftrightarrow> True"
| "polled cfg T (env # envs) \<longleftrightarrow> good_pass env \<and> db_now (re_list env) = T \<and>
     (\<forall>i. T \<le> re_now env i \<and> re_now env i \<le> T + rc_Interval cfg) \<and> polled cfg (T + rc_Interval cfg) envs"

lemma latest_polled:
  assumes "\<forall>i. T \<le> re_now env i \<and> re_now env i \<le> T + d" and "t \<le> T" and "0 \<le> d" and "0 < rc_BatchSize cfg"
  shows "T \<le> latest cfg t env \<and> latest cfg t env \<le> T + d"
proof
  show "T \<le> latest cfg t env"
    using latest_reading [of 0 cfg env t] assms(1,4) by (auto intro: order_trans)
  have "fold max xs t \<le> u" if "\<forall>x \<in> set xs. x \<le> u" "t \<le> u" for xs :: "int list" and t u
    using that by (induction xs arbitrary: t) auto
  then show "latest cfg t env \<le> T + d" using assms(1-3) by (simp add: latest_def)
qed

lemma polled_counted:
  assumes "polled cfg T envs" and "t \<le> T" and "T \<le> a + rc_MaxBackoff cfg + rc_Interval cfg"
    and pos: "0 \<le> rc_Interval cfg" "0 \<le> rc_MaxBackoff cfg" "0 < rc_BatchSize cfg"
  shows "int (length envs) * rc_Interval cfg + (T - a) \<le>
    (rc_MaxBackoff cfg + 2 * rc_Interval cfg) * (int (counted cfg a t envs) + 1)"
  using assms(1-3)
proof (induction envs arbitrary: T t a)
  case Nil
  then show ?case using pos by simp
next
  case (Cons env envs)
  let ?I = "rc_Interval cfg" and ?t1 = "latest cfg t env"
  have t1: "T \<le> ?t1 \<and> ?t1 \<le> T + ?I"
    using latest_polled [of T env ?I t cfg] Cons.prems(1,2) pos by simp
  have rest: "polled cfg (T + ?I) envs" "good_pass env" "db_now (re_list env) = T" using Cons.prems(1) by simp_all
  show ?case
  proof (cases "a + rc_MaxBackoff cfg \<le> T")
    case True
    then have eq: "counted cfg a t (env # envs) = Suc (counted cfg ?t1 ?t1 envs)" using rest by simp
    from Cons.IH [OF rest(1), of ?t1 ?t1] t1 pos show ?thesis
      unfolding eq using Cons.prems(3) by (simp add: algebra_simps)
  next
    case False
    then have eq: "counted cfg a t (env # envs) = counted cfg a ?t1 envs" using rest by simp
    from Cons.IH [OF rest(1), of ?t1 a] t1 False show ?thesis
      unfolding eq by (simp add: algebra_simps)
  qed
qed

end
