(* ===== verification/Join_Properties.thy ===== *)
theory Join_Properties
  imports Join_Liveness
begin

text \<open>
  What provider join guarantees in every state any interleaving can reach, and what revocation
  does not: the properties of the join component, each with a concrete run.
\<close>

lemma used_challenge_row:
  assumes "ch \<in> used_challenges s"
  obtains r t where "r \<in> set (js_challenges s)" "jc_challenge r = ch" "jc_consumed_at r = Some t"
  using assms by (auto simp: used_challenges_def)

lemma provider_challenge_used:
  assumes "join_inv sha s" and "p \<in> set (js_providers s)"
  obtains ch where "ch \<in> used_challenges s" "ch_PublicKey ch = pv_key p"
proof -
  from assms have "backed s (pv_id p) (pv_key p)"
    unfolding join_inv_def providers_inv_def provider_ok_def by blast
  then obtain ch d where ch: "ch \<in> challenges_of s" "ch_PublicKey ch = pv_key p"
    and d: "d \<in> set (js_completions s)" "jd_challenge_id d = ChallengeID ch" unfolding backed_def by blast
  from assms(1) d(1) have "justified sha s d" unfolding join_inv_def completions_inv_def by blast
  then obtain ch' where ch': "ch' \<in> used_challenges s" "ChallengeID ch' = jd_challenge_id d" unfolding justified_def by blast
  have "ch' = ch"
    using challenge_unique [OF assms(1) _ ch(1), of ch'] ch'(1) used_subset ch'(2) d(2) by auto
  with ch' ch(2) that show thesis by blast
qed

text \<open>
  C4. A provider is registered only for a key whose owner has proved possession of it: in every
  reachable state its id is the hash of its key, a challenge issued to that key was consumed
  before it expired, and a signature of that challenge's nonce under the key was received. It is
  active only if the chain registrar has reported a key of that id active.
\<close>

theorem registered_provider_proved_key:
  assumes "new_join \<sigma>" and "(join_step svc cfg)\<^sup>*\<^sup>* \<sigma> \<sigma>'" and "p \<in> set (js_providers (jy_store \<sigma>'))"
  shows "pv_id p = hex_encode (jn_sha256 svc (pv_key p)) \<and>
    (\<exists>r \<in> set (js_challenges (jy_store \<sigma>')). \<exists>t sig. ch_PublicKey (jc_challenge r) = pv_key p \<and>
       jc_consumed_at r = Some t \<and> t < ExpiresAt (jc_challenge r) \<and> SignatureReceived sig \<in> jy_events \<sigma>' \<and>
       jn_verify svc (pv_key p) (joinDomain @ Nonce (jc_challenge r)) sig) \<and>
    (pv_status p = NODE_ACTIVE \<longrightarrow> (\<exists>k. pv_id p = hex_encode (jn_sha256 svc k) \<and> ChainActive k \<in> jy_events \<sigma>'))"
proof -
  have inv: "join_inv (jn_sha256 svc) (jy_store \<sigma>')" and obs: "observed svc (jy_store \<sigma>') (jy_events \<sigma>')"
    using join_run_inv [OF assms(2,1)] by (simp_all add: sys_inv_def)
  have "provider_ok (jn_sha256 svc) (jy_store \<sigma>') (pv_id p) (pv_key p)"
    using inv assms(3) unfolding join_inv_def providers_inv_def by blast
  then have id: "pv_id p = hex_encode (jn_sha256 svc (pv_key p))" by (simp add: provider_ok_def)
  obtain ch where ch: "ch \<in> used_challenges (jy_store \<sigma>')" "ch_PublicKey ch = pv_key p"
    using inv assms(3) by (rule provider_challenge_used)
  from ch(1) obtain r t where r: "r \<in> set (js_challenges (jy_store \<sigma>'))" "jc_challenge r = ch" "jc_consumed_at r = Some t"
    by (rule used_challenge_row)
  from obs ch(1) have "proved svc (jy_events \<sigma>') ch" by (simp add: observed_def)
  then obtain sig where sig: "SignatureReceived sig \<in> jy_events \<sigma>'" "jn_verify svc (pv_key p) (joinDomain @ Nonce ch) sig"
    using ch(2) by (auto simp: proved_def)
  have "row_in_time r" using obs r(1) by (simp add: observed_def)
  then have "t < ExpiresAt ch" using r(2,3) by (simp add: row_in_time_def)
  moreover have "pv_status p = NODE_ACTIVE \<longrightarrow> on_chain svc (jy_events \<sigma>') (pv_id p)"
    using obs assms(3) by (simp add: observed_def)
  ultimately show ?thesis using id ch(2) r sig unfolding on_chain_def by blast
qed

text \<open>
  C32. The join tables stay well formed: in every reachable state provider ids and keys are unique
  and every key has 32 bytes, challenge ids and begin requests are unique, no challenge is
  completed twice, every completion belongs to a provider, and every provider has exactly one
  chain registration.
\<close>

theorem join_tables_well_formed:
  assumes "new_join \<sigma>" and "(join_step svc cfg)\<^sup>*\<^sup>* \<sigma> \<sigma>'" and "s = jy_store \<sigma>'"
  shows "distinct (map pv_id (js_providers s)) \<and> distinct (map pv_key (js_providers s)) \<and>
    list_all (\<lambda>p. length (pv_key p) = 32) (js_providers s) \<and>
    distinct (map (\<lambda>r. ChallengeID (jc_challenge r)) (js_challenges s)) \<and>
    distinct (map (\<lambda>r. BeginRequestID (jc_challenge r)) (js_challenges s)) \<and>
    distinct (map jd_challenge_id (js_completions s)) \<and>
    list_all (\<lambda>d. jd_provider_id d \<in> pv_id ` set (js_providers s)) (js_completions s) \<and>
    distinct (map cr_provider_id (js_registrations s)) \<and>
    cr_provider_id ` set (js_registrations s) = pv_id ` set (js_providers s)"
proof -
  have inv: "join_inv (jn_sha256 svc) s" using join_run_inv [OF assms(2,1)] assms(3) by (simp add: sys_inv_def)
  have prov: "provider_ok (jn_sha256 svc) s (pv_id p) (pv_key p)" if "p \<in> set (js_providers s)" for p
    using inv that unfolding join_inv_def providers_inv_def by blast
  have ids: "distinct (map pv_id (js_providers s))" using inv by (simp add: join_inv_def providers_inv_def)
  have "distinct (map pv_key (js_providers s))"
  proof -
    have "inj_on pv_key (set (js_providers s))"
    proof (rule inj_onI)
      fix p q
      assume pq: "p \<in> set (js_providers s)" "q \<in> set (js_providers s)" "pv_key p = pv_key q"
      then have "pv_id p = pv_id q" using prov [OF pq(1)] prov [OF pq(2)] by (simp add: provider_ok_def)
      with same_key [OF ids pq(1,2)] show "p = q" by simp
    qed
    moreover have "distinct (js_providers s)" using ids by (simp add: distinct_map)
    ultimately show ?thesis by (simp add: distinct_map)
  qed
  moreover have "list_all (\<lambda>p. length (pv_key p) = 32) (js_providers s)"
    using prov by (simp add: list_all_iff provider_ok_def)
  moreover have "list_all (\<lambda>d. jd_provider_id d \<in> pv_id ` set (js_providers s)) (js_completions s)"
  proof -
    have "justified (jn_sha256 svc) s d" if "d \<in> set (js_completions s)" for d
      using inv that unfolding join_inv_def completions_inv_def by blast
    then show ?thesis by (simp add: list_all_iff justified_def)
  qed
  moreover have "cr_provider_id ` set (js_registrations s) = pv_id ` set (js_providers s)"
  proof
    show "cr_provider_id ` set (js_registrations s) \<subseteq> pv_id ` set (js_providers s)"
      using inv unfolding join_inv_def registrations_inv_def by blast
    show "pv_id ` set (js_providers s) \<subseteq> cr_provider_id ` set (js_registrations s)"
      using prov unfolding provider_ok_def by blast
  qed
  ultimately show ?thesis
    using inv ids by (simp add: join_inv_def challenges_inv_def completions_inv_def registrations_inv_def)
qed

section \<open>Settling\<close>

text \<open>
  C33. Every chain registration is settled in the end. Take any state of the tables in which the
  unsettled outbox rows have attempts left and are due within the longest backoff, and any sequence
  of passes of the reconciler, as frequent as they are and failing or cancelled as they may be, with
  no other call in between. A pass counts if it has a registrar, the database answers, it is not
  cancelled before its first registration, block numbers are below \<open>2 ^ 63\<close>, and it starts
  at least the longest backoff after the last pass that counted. After as many counted passes as
  there are rows times attempts, every registration is finalized or has failed for good, whether the
  chain accepts, rejects or bans it and however small the batches are. A loop that polls every 15
  seconds makes such passes as long as it runs.
\<close>

theorem registrations_settle:
  assumes "outbox_inv sha cfg t s" and "0 < rc_BatchSize cfg"
    and "length (js_registrations s) * nat (rc_MaxAttempts cfg) \<le> counted cfg t t envs"
  shows "\<forall>r \<in> set (js_registrations (fold (ReconcileOnce cfg) envs s)). cr_state r \<in> {CHAIN_FINALIZED, CHAIN_FAILED}"
proof -
  let ?s = "fold (ReconcileOnce cfg) envs s"
  from passes_progress [OF assms(1) order_refl _ assms(2), of 0 envs] assms(1) obtain t' where
    inv: "outbox_inv sha cfg t' ?s" and "work_left cfg ?s \<le> work_left cfg s - counted cfg t t envs" by auto
  with work_left_le [OF assms(1)] assms(3) have none: "work_left cfg ?s = 0" by simp
  have "settled r" if "r \<in> set (js_registrations ?s)" for r
  proof -
    have "weight cfg r = 0" using none that by (simp add: work_left_def)
    moreover have "outbox_row_ok cfg t' r" using inv that by (simp add: outbox_inv_def)
    ultimately show ?thesis by (auto simp: weight_def outbox_row_ok_def)
  qed
  then show ?thesis by (simp add: settled_def)
qed

section \<open>Revocation\<close>

lemma challengeBy_map:
  assumes "map jc_challenge (js_challenges s') = map jc_challenge (js_challenges s)"
  shows "challengeBy column c s' i = challengeBy column c s i"
proof -
  have find_map: "map_option jc_challenge (find (\<lambda>r. P (jc_challenge r)) rows) = find P (map jc_challenge rows)" for P and rows
    by (induction rows) simp_all
  have scan: "scanChallenge row = scanChallenge row'" if "map_option jc_challenge row = map_option jc_challenge row'" for row row'
    using that by (cases row; cases row') (simp_all add: scanChallenge_def)
  have "scanChallenge (find (\<lambda>r. column (jc_challenge r) = u) (js_challenges s')) =
    scanChallenge (find (\<lambda>r. column (jc_challenge r) = u) (js_challenges s))" for u
    by (rule scan) (simp add: find_map [of "\<lambda>ch. column ch = u"] assms)
  then show ?thesis by (simp add: challengeBy_def split: option.split)
qed

lemma repo_CompleteJoin_challenges:
  assumes "repo_CompleteJoin c s completion = (res, s')"
  shows "map jc_challenge (js_challenges s') = map jc_challenge (js_challenges s)"
  using assms
proof (cases rule: repo_CompleteJoin_cases)
  case (recorded requestID row)
  then show ?thesis
    unfolding recordCompletion_def by (auto simp: Let_def map_update_where split: option.splits if_splits)
qed simp_all

lemma find_append_fresh: "\<forall>x \<in> set xs. \<not> P x \<Longrightarrow> P y \<Longrightarrow> find P (xs @ [y]) = Some y"
  by (induction xs) simp_all

text \<open>After an accepted completion the tables hold its record.\<close>

lemma repo_CompleteJoin_record:
  assumes "repo_CompleteJoin c s completion = (Inr cm, s')" and "join_inv sha s" and "join_inv sha s'"
    and canon: "uuid_parse c (ChallengeID (cm_Challenge completion)) = Some (ChallengeID (cm_Challenge completion))"
  obtains requestID d status where "uuid_parse c (cm_RequestID completion) = Some requestID"
    "existingCompletion s' requestID = Some (d, status)" "jd_challenge_id d = ChallengeID (cm_Challenge completion)"
    "jd_request_hash d = cm_RequestHash completion" "jd_provider_id d = cm_ProviderID cm"
    "cm_Challenge cm = cm_Challenge completion"
proof -
  from assms(1) canon obtain requestID where call: "db_up c" "\<not> db_abort c"
    "uuid_parse c (cm_RequestID completion) = Some requestID"
    unfolding repo_CompleteJoin_def by (auto split: if_splits option.splits)
  show thesis
  proof (cases "existingCompletion s requestID")
    case (Some ds)
    obtain d status where ds: "ds = (d, status)" by (cases ds)
    from assms(1) call canon Some ds have "s' = s" "jd_challenge_id d = ChallengeID (cm_Challenge completion)"
      "jd_request_hash d = cm_RequestHash completion"
      "cm = completion\<lparr>cm_ProviderID := jd_provider_id d, cm_RegisteredAt := jd_registered_at d, cm_Status := status\<rparr>"
      unfolding repo_CompleteJoin_def by (auto split: if_splits)
    with Some ds call(3) show thesis by (intro that [of requestID d status]) simp_all
  next
    case None
    from assms(1) call canon None obtain row where
      row: "find (\<lambda>r. ChallengeID (jc_challenge r) = ChallengeID (cm_Challenge completion)) (js_challenges s) = Some row"
      and rec: "recordCompletion c s requestID row completion = (Inr cm, s')"
      unfolding repo_CompleteJoin_def by (auto split: if_splits option.splits)
    define d where "d = \<lparr>jd_request_id = requestID, jd_challenge_id = ChallengeID (jc_challenge row),
      jd_request_hash = cm_RequestHash completion, jd_provider_id = cm_ProviderID completion,
      jd_registered_at = timestamptz (cm_RegisteredAt completion)\<rparr>"
    from rec have s': "js_completions s' = js_completions s @ [d]" "cm = completion"
      and fresh: "\<forall>x \<in> set (js_completions s). jd_request_id x \<noteq> requestID"
      unfolding recordCompletion_def d_def by (auto simp: Let_def split: option.splits if_splits)
    have "find (\<lambda>r. jd_request_id r = requestID) (js_completions s') = Some d"
      using find_append_fresh [OF fresh, of d] by (simp add: s' d_def)
    moreover obtain p where "find (\<lambda>p. pv_id p = jd_provider_id d) (js_providers s') = Some p"
    proof -
      have "justified sha s' d" using assms(3) s'(1) unfolding join_inv_def completions_inv_def by simp
      then have "jd_provider_id d \<in> pv_id ` set (js_providers s')" by (simp add: justified_def)
      then obtain p where "p \<in> set (js_providers s')" "jd_provider_id d = pv_id p" by (rule imageE)
      then have "find (\<lambda>p. pv_id p = jd_provider_id d) (js_providers s') \<noteq> None" by (auto simp: find_None_iff)
      then show thesis using that by blast
    qed
    ultimately have "existingCompletion s' requestID = Some (d, pv_status p)"
      by (simp add: existingCompletion_def)
    moreover have "ChallengeID (jc_challenge row) = ChallengeID (cm_Challenge completion)" using find_SomeD [OF row] by simp
    ultimately show thesis using call(3) s'(2) by (intro that [of requestID d "pv_status p"]) (simp_all add: d_def)
  qed
qed

lemma find_update_where:
  "(\<And>x. k (f x) = k x) \<Longrightarrow> find (\<lambda>x. k x = i) (update_where (\<lambda>x. k x = i) f rows) = map_option f (find (\<lambda>x. k x = i) rows)"
  by (induction rows) simp_all

text \<open>The completion a join request asks the repository for.\<close>

definition asked :: "join_service \<Rightarrow> CompleteJoinRequest \<Rightarrow> Challenge \<Rightarrow> byte list \<Rightarrow> int \<Rightarrow> Completion" where
  "asked svc r ch capabilities now =
     \<lparr>cm_RequestID = cj_RequestId r, cm_RequestHash = completeRequestHash svc r capabilities, cm_Challenge = ch,
      cm_ProviderID = hex_encode (jn_sha256 svc (ch_PublicKey ch)), cm_Capabilities = capabilities,
      cm_RegisteredAt = now, cm_Status = NODE_PENDING\<rparr>"

lemma acceptCompletion_accepted:
  assumes "acceptCompletion svc c1 c2 now s (Some r) = (Inr cm, s')"
  obtains cap capabilities ch where "validateCompleteJoin svc (Some r) = Inr (r, cap)"
    "GetChallenge c1 s (cj_ChallengeId r) = Inr ch"
    "jn_verify svc (ch_PublicKey ch) (joinDomain @ Nonce ch) (cj_ChallengeSignature r)"
    "jn_marshal svc cap = Some capabilities" "repo_CompleteJoin c2 s (asked svc r ch capabilities now) = (Inr cm, s')"
proof -
  from assms obtain rr cap where v: "validateCompleteJoin svc (Some r) = Inr (rr, cap)"
    by (cases "validateCompleteJoin svc (Some r)") (auto simp: acceptCompletion_def)
  then have "rr = r" by (auto simp: validateCompleteJoin_def split: if_splits option.splits)
  with assms v that show thesis
    unfolding acceptCompletion_def asked_def by (auto split: sum.splits option.splits if_splits prod.splits)
qed

lemma repo_CompleteJoin_inv:
  assumes "repo_CompleteJoin c s completion = (res, s')" and "join_inv sha s"
    and "cm_ProviderID completion = hex_encode (sha (completed_key completion))"
  shows "join_inv sha s'"
  using assms(1)
proof (cases rule: repo_CompleteJoin_cases)
  case (recorded requestID row)
  from recordCompletion_inv [OF recorded(6) assms(2) recorded(1,2)] assms(3) recorded(5) show ?thesis by simp
qed (use assms(2) in simp_all)

lemma repo_CompleteJoin_challenge: "repo_CompleteJoin c s completion = (Inr cm, s') \<Longrightarrow> cm_Challenge cm = cm_Challenge completion"
  by (erule repo_CompleteJoin_cases) simp_all

text \<open>The request that joined is accepted again after a revocation, as a replay.\<close>

lemma replay_after_revocation:
  assumes inv: "join_inv (jn_sha256 svc) s"
    and joined: "acceptCompletion svc c1 c2 now s (Some r) = (Inr cm, s1)"
    and revoked: "RevokeProvider c3 s1 (cm_ProviderID cm) = (Inr (), s2)"
    and up: "good_call c4" "good_call c5" "uuid_parse c4 = uuid_parse c1" "uuid_parse c5 = uuid_parse c2"
    and canon: "canonical c2 (ChallengeID (cm_Challenge cm))"
  obtains cm2 where "acceptCompletion svc c4 c5 now' s2 (Some r) = (Inr cm2, s2)" "cm_ProviderID cm2 = cm_ProviderID cm"
    "cm_Status cm2 = NODE_REVOKED" "completed_key cm2 = completed_key cm" "cm_ProviderID cm \<in> pv_id ` set (js_providers s2)"
    "join_inv (jn_sha256 svc) s2"
proof -
  let ?pid = "cm_ProviderID cm"
  from joined obtain cap capabilities ch where ch: "validateCompleteJoin svc (Some r) = Inr (r, cap)"
    "GetChallenge c1 s (cj_ChallengeId r) = Inr ch"
    "jn_verify svc (ch_PublicKey ch) (joinDomain @ Nonce ch) (cj_ChallengeSignature r)"
    "jn_marshal svc cap = Some capabilities" and repo: "repo_CompleteJoin c2 s (asked svc r ch capabilities now) = (Inr cm, s1)"
    by (rule acceptCompletion_accepted)
  have pid: "cm_ProviderID (asked svc r ch capabilities n) = hex_encode (jn_sha256 svc (completed_key (asked svc r ch capabilities n)))"
    for n by (simp add: asked_def)
  have inv1: "join_inv (jn_sha256 svc) s1" by (rule repo_CompleteJoin_inv [OF repo inv pid])
  have same_ch: "cm_Challenge cm = ch" using repo_CompleteJoin_challenge [OF repo] by (simp add: asked_def)
  have cch: "cm_Challenge (asked svc r ch capabilities now) = ch" by (simp add: asked_def)
  have "uuid_parse c2 (ChallengeID (cm_Challenge (asked svc r ch capabilities now))) =
    Some (ChallengeID (cm_Challenge (asked svc r ch capabilities now)))"
    using canon same_ch cch by (simp add: canonical_def)
  from repo inv inv1 this obtain requestID d status where d0: "uuid_parse c2 (cm_RequestID (asked svc r ch capabilities now)) = Some requestID"
    "existingCompletion s1 requestID = Some (d, status)" "jd_challenge_id d = ChallengeID (cm_Challenge (asked svc r ch capabilities now))"
    "jd_request_hash d = cm_RequestHash (asked svc r ch capabilities now)" "jd_provider_id d = ?pid"
    by (rule repo_CompleteJoin_record)
  then have d: "uuid_parse c2 (cj_RequestId r) = Some requestID"
    "existingCompletion s1 requestID = Some (d, status)" "jd_challenge_id d = ChallengeID ch"
    "jd_request_hash d = completeRequestHash svc r capabilities" "jd_provider_id d = ?pid"
    by (simp_all add: asked_def)
  let ?revoke = "\<lambda>p. p\<lparr>pv_status := NODE_REVOKED\<rparr>"
  have s2: "s2 = s1\<lparr>js_providers := update_where (\<lambda>p. pv_id p = ?pid) ?revoke (js_providers s1)\<rparr>"
    using revoked by (auto simp: RevokeProvider_def split: if_splits)
  have inv2: "join_inv (jn_sha256 svc) s2" by (rule RevokeProvider_inv [OF revoked inv1])
  obtain p where p: "find (\<lambda>p. pv_id p = ?pid) (js_providers s1) = Some p"
    using d(2,5) by (auto simp: existingCompletion_def split: option.splits)
  have "find (\<lambda>p. pv_id p = ?pid) (js_providers s2) = Some (?revoke p)"
    using p by (simp add: s2 find_update_where)
  then have again: "existingCompletion s2 requestID = Some (d, NODE_REVOKED)"
    using d(2,5) by (auto simp: existingCompletion_def s2 split: option.splits)
  have known: "?pid \<in> pv_id ` set (js_providers s2)"
    using find_SomeD [OF \<open>find (\<lambda>p. pv_id p = ?pid) (js_providers s2) = Some (?revoke p)\<close>] by force
  have get: "GetChallenge c4 s2 (cj_ChallengeId r) = Inr ch"
  proof -
    have "map jc_challenge (js_challenges s2) = map jc_challenge (js_challenges s)"
      using repo_CompleteJoin_challenges [OF repo] by (simp add: s2)
    then have "GetChallenge c4 s2 (cj_ChallengeId r) = GetChallenge c4 s (cj_ChallengeId r)"
      unfolding GetChallenge_def by (rule challengeBy_map)
    with ch(2) up(1,3) show ?thesis by (auto simp: GetChallenge_def challengeBy_def good_call_def split: if_splits)
  qed
  define cm2 where "cm2 = (asked svc r ch capabilities now')\<lparr>cm_ProviderID := ?pid, cm_RegisteredAt := jd_registered_at d,
    cm_Status := NODE_REVOKED\<rparr>"
  have "repo_CompleteJoin c5 s2 (asked svc r ch capabilities now') = (Inr cm2, s2)"
    using up(2,4) d again canon same_ch by (simp add: repo_CompleteJoin_def asked_def cm2_def good_call_def canonical_def)
  then have "acceptCompletion svc c4 c5 now' s2 (Some r) = (Inr cm2, s2)"
    using ch get by (simp add: acceptCompletion_def asked_def)
  with known inv2 show thesis by (intro that [of cm2]) (simp_all add: cm2_def asked_def same_ch)
qed

text \<open>
  C34. Revoking a provider does not last: the very request by which the provider once joined, sent
  again after an operator has revoked it, is accepted as a replay, and the provider is active
  again, as soon as the registrar still reports its key active on the chain.
\<close>

theorem revoked_provider_returns:
  assumes inv: "join_inv (jn_sha256 svc) s"
    and joined: "acceptCompletion svc c1 c2 now s (Some r) = (Inr cm, s1)"
    and revoked: "RevokeProvider c3 s1 (cm_ProviderID cm) = (Inr (), s2)"
    and chain: "jn_EnsureActive svc = Some ensure" "ensure (completed_key cm) = Some finalization"
      "FinalizedBlockNumber finalization < 2 ^ 63"
    and up: "good_call c4" "good_call c5" "good_call c6" "uuid_parse c4 = uuid_parse c1" "uuid_parse c5 = uuid_parse c2"
    and canon: "canonical c2 (ChallengeID (cm_Challenge cm))" and no_tls: "cj_TlsPublicKey r = []"
  shows "\<exists>rsp s3. CompleteJoin svc c4 c5 c6 now' s2 (Some r) = (Inr rsp, s3) \<and> cjr_ProviderId rsp = cm_ProviderID cm \<and>
    list_all (\<lambda>p. pv_status p = NODE_REVOKED) (filter (\<lambda>p. pv_id p = cm_ProviderID cm) (js_providers s2)) \<and>
    list_all (\<lambda>p. pv_status p = NODE_ACTIVE) (filter (\<lambda>p. pv_id p = cm_ProviderID cm) (js_providers s3)) \<and>
    cm_ProviderID cm \<in> pv_id ` set (js_providers s3)"
proof -
  let ?pid = "cm_ProviderID cm"
  from inv joined revoked up(1,2,4,5) canon obtain cm2 where accept: "acceptCompletion svc c4 c5 now' s2 (Some r) = (Inr cm2, s2)"
    and cm2: "cm_ProviderID cm2 = ?pid" "cm_Status cm2 = NODE_REVOKED" "completed_key cm2 = completed_key cm"
    and known: "?pid \<in> pv_id ` set (js_providers s2)" and inv2: "join_inv (jn_sha256 svc) s2"
    by (rule replay_after_revocation)
  have s2: "js_providers s2 = update_where (\<lambda>p. pv_id p = ?pid) (\<lambda>p. p\<lparr>pv_status := NODE_REVOKED\<rparr>) (js_providers s1)"
    using revoked by (auto simp: RevokeProvider_def split: if_splits)
  let ?activate = "\<lambda>p. p\<lparr>pv_status := NODE_ACTIVE,
    pv_activated_at := (case pv_activated_at p of None \<Rightarrow> Some (db_now c6) | Some t \<Rightarrow> Some t)\<rparr>"
  obtain d' :: completion_row and s3 where d': "jd_provider_id d' = ?pid"
    "ActivateProvider c6 s2 ?pid finalization = (Inr (jd_request_id d', jd_provider_id d', jd_registered_at d', NODE_ACTIVE), s3)"
    and s3: "js_providers s3 = update_where (\<lambda>p. pv_id p = ?pid) ?activate (js_providers s2)"
    using ActivateProvider_succeeds [OF inv2 up(3) known chain(3)] by (metis (no_types, lifting) join_store.select_convs(1)
      join_store.surjective join_store.update_convs(1) join_store.update_convs(4))
  have activate: "activateCompletion svc c6 s2 cm2 = (Inr (?pid, NODE_ACTIVE, jd_registered_at d'), s3)"
    using chain(1,2) d' cm2 by (simp add: activateCompletion_def)
  have "\<exists>rsp. CompleteJoin svc c4 c5 c6 now' s2 (Some r) = (Inr rsp, s3) \<and> cjr_ProviderId rsp = ?pid"
    using accept activate no_tls by (simp add: CompleteJoin_def issueOnJoin_def)
  moreover have "list_all (\<lambda>p. pv_status p = NODE_REVOKED) (filter (\<lambda>p. pv_id p = ?pid) (js_providers s2))"
    by (auto simp: list_all_iff s2 elim!: set_update_whereE)
  moreover have "list_all (\<lambda>p. pv_status p = NODE_ACTIVE) (filter (\<lambda>p. pv_id p = ?pid) (js_providers s3))"
    by (auto simp: list_all_iff s3 elim!: set_update_whereE)
  moreover have "?pid \<in> pv_id ` set (js_providers s3)" using known by (simp add: s3 image_update_where)
  ultimately show ?thesis by blast
qed

section \<open>A concrete run\<close>

definition sample_sha :: "byte list \<Rightarrow> byte list" where
  "sample_sha m = take 32 (m @ replicate 32 0)"

definition sample_join :: join_service where
  "sample_join = \<lparr>jn_uuid_ok = (\<lambda>_. True), jn_url = (\<lambda>_. None), jn_sha256 = sample_sha,
     jn_verify = (\<lambda>k m sig. sig = take 64 (m @ k)), jn_marshal = (\<lambda>_. Some [1]),
     jn_EnsureActive = Some (\<lambda>_. Some \<lparr>ExtrinsicHash = None, FinalizedBlockHash = replicate 32 2, FinalizedBlockNumber = 9\<rparr>),
     jn_IssueLeaf = None, jn_challengeTTL = defaultChallengeTTL, jn_heartbeatInterval = defaultHeartbeatInterval\<rparr>"

definition sample_call :: "string \<Rightarrow> int \<Rightarrow> db_call" where
  "sample_call new now = \<lparr>uuid_parse = Some, fresh1 = new, fresh2 = new, db_now = now, db_gap = 0, db_up = True, db_abort = False\<rparr>"

definition sample_begin :: BeginJoinRequest where
  "sample_begin = \<lparr>bj_RequestId = ''begin'', bj_PublicKey = replicate 32 7, bj_ProtocolVersion = ''1'',
     bj_AgentVersion = ''a'', bj_AgentEndpoint = ''''\<rparr>"

definition sample_complete :: CompleteJoinRequest where
  "sample_complete = \<lparr>cj_RequestId = ''complete'', cj_ChallengeId = ''challenge'',
     cj_ChallengeSignature = joinDomain @ replicate 32 5 @ replicate 14 7,
     cj_Capabilities = Some \<lparr>CpuTotal = Fin 4 0, CpuAvailable = Fin 4 0, RamTotalMb = 1024, RamAvailableMb = 512,
       StorageTotalGb = 10, StorageAvailableGb = 10, cap_Bandwidth = None, cap_Zone = '''', cap_VirtualizationCapable = False\<rparr>,
     cj_TlsPublicKey = []\<rparr>"

definition sample_challenged :: join_store where
  "sample_challenged = snd (BeginJoin sample_join (sample_call ''challenge'' 0) 0 (Some (replicate 32 5)) empty_join_store (Some sample_begin))"

definition sample_acceptance :: "(join_status + Completion) \<times> join_store" where
  "sample_acceptance = acceptCompletion sample_join (sample_call '''' second) (sample_call '''' second) second sample_challenged
     (Some sample_complete)"

definition sample_activated :: join_store where
  "sample_activated = snd (activateCompletion sample_join (sample_call '''' second) (snd sample_acceptance) (projr (fst sample_acceptance)))"

definition sample_new :: join_system where
  "sample_new = \<lparr>jy_store = empty_join_store, jy_completed = {}, jy_pending = {}, jy_events = {}\<rparr>"

definition sample_system :: join_system where
  "sample_system = \<lparr>jy_store = sample_activated, jy_completed = {projr (fst sample_acceptance)}, jy_pending = {},
     jy_events = {SignatureReceived (cj_ChallengeSignature sample_complete), ChainActive (replicate 32 7)}\<rparr>"

text \<open>What the acceptance comes to, evaluated once.\<close>

definition sample_challenge :: Challenge where
  "sample_challenge = \<lparr>ChallengeID = ''challenge'', BeginRequestID = ''begin'', ch_RequestHash = replicate 32 7,
     ch_PublicKey = replicate 32 7, ch_ProtocolVersion = ''1'', ch_AgentVersion = ''a'', ch_AgentEndpoint = '''',
     Nonce = replicate 32 5, ExpiresAt = 120000000000\<rparr>"

definition sample_id :: string where
  "sample_id = ''0707070707070707070707070707070707070707070707070707070707070707''"

definition sample_hash :: "byte list" where
  "sample_hash = bytes_of ''challenge'' @ [0] @ joinDomain @ replicate 4 5"

lemma sample_acceptance_eval [code]:
  "sample_acceptance =
     (Inr \<lparr>cm_RequestID = ''complete'', cm_RequestHash = sample_hash, cm_Challenge = sample_challenge, cm_ProviderID = sample_id,
           cm_Capabilities = [1], cm_RegisteredAt = 1000000000, cm_Status = NODE_PENDING\<rparr>,
      \<lparr>js_providers = [\<lparr>pv_provider = \<lparr>rp_ProviderID = sample_id, rp_PublicKey = replicate 32 7, rp_ProtocolVersion = ''1'',
           rp_AgentVersion = ''a'', rp_AgentEndpoint = ''''\<rparr>, pv_capabilities = [1], pv_status = NODE_PENDING,
           pv_registered_at = 1000000000, pv_activated_at = None\<rparr>],
       js_challenges = [\<lparr>jc_challenge = sample_challenge, jc_consumed_at = Some 1000000000, jc_provider_id = Some sample_id\<rparr>],
       js_completions = [\<lparr>jd_request_id = ''complete'', jd_challenge_id = ''challenge'', jd_request_hash = sample_hash,
           jd_provider_id = sample_id, jd_registered_at = 1000000000\<rparr>],
       js_registrations = [\<lparr>cr_provider_id = sample_id, cr_state = CHAIN_READY, cr_finalization = None, cr_attempt_count = 0,
           cr_next_attempt_at = None, cr_created_at = 1000000000\<rparr>]\<rparr>)"
  by code_simp

lemma sample_acceptance_ok: "\<not> isl (fst sample_acceptance)"
  by code_simp

lemma sample_key: "completed_key (projr (fst sample_acceptance)) = replicate 32 7"
  by code_simp

lemma sample_pending: "cm_Status (projr (fst sample_acceptance)) = NODE_PENDING"
  by code_simp

definition sample_pending_system :: join_system where
  "sample_pending_system = sample_system\<lparr>jy_store := snd sample_acceptance,
     jy_events := {SignatureReceived (cj_ChallengeSignature sample_complete)}\<rparr>"

lemma sample_new_join: "new_join sample_new"
  by (simp add: new_join_def sample_new_def)

lemma sample_begins: "join_step sample_join cfg sample_new (sample_new\<lparr>jy_store := sample_challenged\<rparr>)"
proof (rule join_step.begin_join)
  show "BeginJoin sample_join (sample_call ''challenge'' 0) 0 (Some (replicate 32 5)) (jy_store sample_new) (Some sample_begin) =
      (fst (BeginJoin sample_join (sample_call ''challenge'' 0) 0 (Some (replicate 32 5)) empty_join_store (Some sample_begin)), sample_challenged)"
    by (simp add: sample_challenged_def sample_new_def)
qed

lemma sample_accepts: "join_step sample_join cfg (sample_new\<lparr>jy_store := sample_challenged\<rparr>) sample_pending_system"
proof -
  let ?s1 = "sample_new\<lparr>jy_store := sample_challenged\<rparr>"
  have "acceptCompletion sample_join (sample_call '''' second) (sample_call '''' second) second (jy_store ?s1) (Some sample_complete) =
      (fst sample_acceptance, snd sample_acceptance)"
    by (simp add: sample_acceptance_def)
  note step = join_step.accept [OF this, of cfg]
  obtain cm where cm: "fst sample_acceptance = Inr cm" using sample_acceptance_ok by (cases "fst sample_acceptance") simp_all
  from step show ?thesis by (simp add: cm sample_pending_system_def sample_system_def sample_new_def)
qed

lemma sample_activates: "join_step sample_join cfg sample_pending_system sample_system"
proof -
  let ?cm = "projr (fst sample_acceptance)" and ?ensure = "the (jn_EnsureActive sample_join)"
  have ens: "sample_join\<lparr>jn_EnsureActive := Some ?ensure\<rparr> = sample_join" by (simp add: sample_join_def)
  have "activateCompletion (sample_join\<lparr>jn_EnsureActive := Some ?ensure\<rparr>) (sample_call '''' second) (jy_store sample_pending_system) ?cm =
      (fst (activateCompletion sample_join (sample_call '''' second) (snd sample_acceptance) ?cm), sample_activated)"
    unfolding ens by (simp add: sample_activated_def sample_pending_system_def)
  moreover have "?cm \<in> jy_completed sample_pending_system" by (simp add: sample_pending_system_def sample_system_def)
  ultimately have "join_step sample_join cfg sample_pending_system (sample_pending_system\<lparr>jy_store := sample_activated,
      jy_events := jy_events sample_pending_system \<union> activation_events ?ensure ?cm\<rparr>)" by (intro join_step.activate)
  moreover have "activation_events ?ensure ?cm = {ChainActive (replicate 32 7)}"
    unfolding activation_events_def sample_key sample_pending by (simp add: sample_join_def)
  ultimately show ?thesis by (simp add: sample_pending_system_def sample_system_def insert_commute)
qed

lemma sample_run: "(join_step sample_join cfg)\<^sup>*\<^sup>* sample_new sample_system"
  using sample_begins sample_accepts sample_activates by (meson converse_rtranclp_into_rtranclp rtranclp.rtrancl_refl)

lemma sample_sha256: "jn_sha256 sample_join = sample_sha"
  by (simp add: sample_join_def)

lemma sample_challenged_inv: "join_inv sample_sha sample_challenged"
  using join_run_inv [OF r_into_rtranclp, OF sample_begins sample_new_join] by (simp add: sys_inv_def sample_sha256)

lemma sample_accepted_inv: "join_inv sample_sha (snd sample_acceptance)"
proof -
  have "(join_step sample_join DefaultReconcilerConfig)\<^sup>*\<^sup>* sample_new sample_pending_system"
    using sample_begins sample_accepts by (meson converse_rtranclp_into_rtranclp rtranclp.rtrancl_refl)
  from join_run_inv [OF this sample_new_join] show ?thesis by (simp add: sys_inv_def sample_sha256 sample_pending_system_def)
qed

theorem registered_provider_proved_key_witness:
  "\<exists>p \<in> set (js_providers (jy_store sample_system)). pv_status p = NODE_ACTIVE \<and> pv_id p = hex_encode (sample_sha (pv_key p)) \<and>
     (\<exists>k. pv_id p = hex_encode (sample_sha k) \<and> ChainActive k \<in> jy_events sample_system)"
proof -
  let ?p = "hd (js_providers sample_activated)"
  have "js_providers sample_activated \<noteq> [] \<and> pv_status ?p = NODE_ACTIVE" by code_simp
  then have p: "?p \<in> set (js_providers (jy_store sample_system))" "pv_status ?p = NODE_ACTIVE"
    by (simp_all add: sample_system_def)
  from registered_provider_proved_key [OF sample_new_join sample_run [of DefaultReconcilerConfig] p(1)] p show ?thesis
    unfolding sample_sha256 by blast
qed

theorem join_tables_well_formed_witness:
  "js_providers sample_activated \<noteq> [] \<and> distinct (map pv_key (js_providers sample_activated))"
proof -
  have "js_providers sample_activated \<noteq> []" by code_simp
  with join_tables_well_formed [OF sample_new_join sample_run [of DefaultReconcilerConfig] refl] show ?thesis
    by (simp add: sample_system_def)
qed

definition sample_pass :: "int \<Rightarrow> reconciler_env" where
  "sample_pass now = \<lparr>re_EnsureActive = Some (\<lambda>_. Inl False), re_now = (\<lambda>_. now), re_list = sample_call '''' now,
     re_call = (\<lambda>_. sample_call '''' now), re_cancelled = (\<lambda>_. False)\<rparr>"

text \<open>The default loop: a pass every 15 seconds.\<close>

primrec sample_loop :: "nat \<Rightarrow> int \<Rightarrow> reconciler_env list" where
  "sample_loop 0 now = []"
| "sample_loop (Suc n) now = sample_pass now # sample_loop n (now + rc_Interval DefaultReconcilerConfig)"

lemma sample_polled: "polled DefaultReconcilerConfig now (sample_loop n now)"
  by (induction n arbitrary: now)
    (simp_all add: good_pass_def good_call_def sample_pass_def sample_call_def DefaultReconcilerConfig_def second_def)

lemma length_sample_loop: "length (sample_loop n now) = n"
  by (induction n arbitrary: now) simp_all

theorem registrations_settle_witness:
  "js_registrations (snd sample_acceptance) \<noteq> [] \<and>
   list_all (\<lambda>r. cr_state r = CHAIN_READY) (js_registrations (snd sample_acceptance)) \<and>
   list_all (\<lambda>r. cr_state r = CHAIN_FINALIZED \<or> cr_state r = CHAIN_FAILED)
     (js_registrations (fold (ReconcileOnce DefaultReconcilerConfig) (sample_loop 462 0) (snd sample_acceptance)))"
proof -
  let ?cfg = DefaultReconcilerConfig
  have "list_all (outbox_row_ok ?cfg 0) (js_registrations (snd sample_acceptance))" by code_simp
  then have outbox: "outbox_inv sample_sha ?cfg 0 (snd sample_acceptance)"
    using sample_accepted_inv by (simp add: outbox_inv_def list_all_iff)
  have "10 \<le> counted ?cfg 0 0 (sample_loop 462 0)"
    using polled_counted [OF sample_polled, of 0 0 0 462]
    by (simp add: length_sample_loop DefaultReconcilerConfig_def second_def)
  moreover have "length (js_registrations (snd sample_acceptance)) = 1" by code_simp
  ultimately have "length (js_registrations (snd sample_acceptance)) * nat (rc_MaxAttempts ?cfg) \<le>
      counted ?cfg 0 0 (sample_loop 462 0)"
    by (simp add: DefaultReconcilerConfig_def)
  with registrations_settle [OF outbox] have "list_all (\<lambda>r. cr_state r = CHAIN_FINALIZED \<or> cr_state r = CHAIN_FAILED)
     (js_registrations (fold (ReconcileOnce ?cfg) (sample_loop 462 0) (snd sample_acceptance)))"
    by (simp add: list_all_iff DefaultReconcilerConfig_def)
  moreover have "js_registrations (snd sample_acceptance) \<noteq> []" by code_simp
  moreover have "list_all (\<lambda>r. cr_state r = CHAIN_READY) (js_registrations (snd sample_acceptance))" by code_simp
  ultimately show ?thesis by blast
qed

definition sample_revoked :: join_store where
  "sample_revoked = snd (RevokeProvider (sample_call '''' second) (snd sample_acceptance) (cm_ProviderID (projr (fst sample_acceptance))))"

theorem revoked_provider_returns_witness:
  "\<exists>rsp s3. CompleteJoin sample_join (sample_call '''' 0) (sample_call '''' 0) (sample_call '''' 0) second sample_revoked
       (Some sample_complete) = (Inr rsp, s3) \<and>
     list_all (\<lambda>p. pv_status p = NODE_REVOKED) (js_providers sample_revoked) \<and>
     cjr_ProviderId rsp \<in> pv_id ` set (js_providers s3)"
proof -
  let ?c = "sample_call '''' second" and ?z = "sample_call '''' 0"
  obtain cm where cm: "fst sample_acceptance = Inr cm" using sample_acceptance_ok by (cases "fst sample_acceptance") simp_all
  have inv: "join_inv (jn_sha256 sample_join) sample_challenged" by (simp add: sample_sha256 sample_challenged_inv)
  have acc: "acceptCompletion sample_join ?c ?c second sample_challenged (Some sample_complete) = (Inr cm, snd sample_acceptance)"
    unfolding sample_acceptance_def [symmetric] by (rule prod_eqI) (simp_all add: cm)
  have "\<not> isl (fst (RevokeProvider ?c (snd sample_acceptance) (cm_ProviderID (projr (fst sample_acceptance)))))" by code_simp
  then have rev: "RevokeProvider ?c (snd sample_acceptance) (cm_ProviderID cm) = (Inr (), sample_revoked)"
    unfolding sample_revoked_def cm sum.sel by (metis (full_types) isl_def old.sum.exhaust old.unit.exhaust prod.collapse)
  have good: "good_call ?z" by (simp add: good_call_def sample_call_def)
  obtain ensure finalization where ensure: "jn_EnsureActive sample_join = Some ensure" "ensure (completed_key cm) = Some finalization"
    "FinalizedBlockNumber finalization < 2 ^ 63" by (simp add: sample_join_def)
  have "uuid_parse ?z = uuid_parse ?c" "canonical ?c (ChallengeID (cm_Challenge cm))" "cj_TlsPublicKey sample_complete = []"
    by (simp_all add: sample_call_def canonical_def sample_complete_def)
  from revoked_provider_returns [OF inv acc rev ensure good good good this(1,1,2,3)]
  obtain rsp s3 where "CompleteJoin sample_join ?z ?z ?z second sample_revoked (Some sample_complete) = (Inr rsp, s3)"
    "cjr_ProviderId rsp \<in> pv_id ` set (js_providers s3)" by metis
  moreover have "list_all (\<lambda>p. pv_status p = NODE_REVOKED) (js_providers sample_revoked)" by code_simp
  ultimately show ?thesis by blast
qed

end
