(* ===== verification/Heartbeat_System.thy ===== *)
theory Heartbeat_System
  imports Heartbeat Join_Properties
begin

text \<open>
  Heartbeats interleaved with provider join. Every entry of the heartbeat cache is vouched for by
  a signature of the provider's key, and it dies a bounded time after the instant the provider
  observed; so every provider the scheduler is offered was alive recently. Also what the sequence check
  refuses.
\<close>

section \<open>Sequences\<close>

lemma bitlen_gt: "0 < n \<Longrightarrow> 2 ^ (bitlen n - 1) \<le> n"
proof (induction n rule: bitlen.induct)
  case (1 n)
  show ?case
  proof (cases "n div 2 = 0")
    case True
    with "1.prems" show ?thesis by (simp add: bitlen_eval)
  next
    case False
    with "1.prems" "1.IH" have "2 ^ (bitlen (n div 2) - 1) \<le> n div 2" by simp
    moreover have "bitlen (n div 2) > 0" using False by (simp add: bitlen_eval)
    then have "(2::nat) ^ bitlen (n div 2) = 2 * 2 ^ (bitlen (n div 2) - 1)"
      by (metis Suc_diff_1 power_Suc)
    ultimately show ?thesis using "1.prems" by (simp add: bitlen_eval)
  qed
qed

lemma bitlen_lt: "n < 2 ^ bitlen n"
proof (induction n rule: bitlen.induct)
  case (1 n)
  show ?case
  proof (cases "n = 0")
    case False
    with "1" have "n div 2 < 2 ^ bitlen (n div 2)" by simp
    with False show ?thesis by (simp add: bitlen_eval)
  qed simp
qed

lemma bitlen_mono: "m \<le> n \<Longrightarrow> bitlen m \<le> bitlen n"
  by (rule bitlen_le) (use bitlen_lt [of n] in linarith)

lemma shift_half_even_power: "s \<le> b \<Longrightarrow> shift_half_even (2 ^ b) s = 2 ^ (b - s)"
proof -
  assume "s \<le> b"
  then obtain d where "b = s + d" using le_Suc_ex by blast
  then show ?thesis by (simp add: shift_half_even_def power_add Let_def)
qed

lemma shift_half_even_mono:
  assumes "m \<le> n"
  shows "shift_half_even m s \<le> shift_half_even n s"
proof (cases "m div 2 ^ s = n div 2 ^ s")
  case True
  have "m mod 2 ^ s \<le> n mod 2 ^ s"
    using assms True by (metis add_le_cancel_left div_mult_mod_eq)
  with True assms show ?thesis by (auto simp: shift_half_even_def Let_def)
next
  case False
  then have "m div 2 ^ s + 1 \<le> n div 2 ^ s" using zdiv_mono1 [OF assms, of "2 ^ s"] by simp
  moreover have "shift_half_even m s \<le> m div 2 ^ s + 1" by (auto simp: shift_half_even_def Let_def)
  moreover have "n div 2 ^ s \<le> shift_half_even n s" by (auto simp: shift_half_even_def Let_def)
  ultimately show ?thesis by linarith
qed

text \<open>The rounding of \<^verbatim>\<open>tonumber\<close> keeps the order of sequences, though it may make two of them
  equal.\<close>

lemma lua_number_mono:
  assumes "m \<le> n"
  shows "lua_number m \<le> lua_number n"
proof -
  let ?s = "bitlen (unat m) - 53" and ?t = "bitlen (unat n) - 53"
  have mn: "uint m \<le> uint n" "unat m \<le> unat n" using assms by (simp add: word_le_def, simp add: word_le_nat_alt)
  show ?thesis
  proof (cases "?s = ?t")
    case True
    then show ?thesis using shift_half_even_mono [OF mn(1)] by (simp add: lua_number_def Let_def mult_right_mono)
  next
    case False
    with bitlen_mono [OF mn(2)] have len: "bitlen (unat m) < bitlen (unat n)" "53 < bitlen (unat n)" by linarith+
    let ?B = "bitlen (unat n) - 1"
    have pos: "0 < unat n" using len(2) by (cases "unat n = 0") (simp_all add: bitlen_eval)
    have m_lt: "uint m < 2 ^ ?B"
    proof -
      have "unat m < 2 ^ bitlen (unat m)" by (rule bitlen_lt)
      also have "\<dots> \<le> 2 ^ ?B" using len(1) by (intro power_increasing) auto
      finally have "int (unat m) < int (2 ^ ?B)" by (simp only: of_nat_less_iff)
      then show ?thesis by simp
    qed
    have n_ge: "2 ^ ?B \<le> uint n"
    proof -
      have "int (2 ^ ?B) \<le> int (unat n)" using bitlen_gt [OF pos] by (simp only: of_nat_le_iff)
      then show ?thesis by simp
    qed
    have "lua_number m \<le> 2 ^ ?B"
    proof -
      have "shift_half_even (uint m) ?s \<le> shift_half_even (2 ^ ?B) ?s" using m_lt by (intro shift_half_even_mono) simp
      also have "?s \<le> ?B" using len by linarith
      then have "shift_half_even (2 ^ ?B) ?s = 2 ^ (?B - ?s)"
        by (rule shift_half_even_power)
      finally have "lua_number m \<le> 2 ^ (?B - ?s) * 2 ^ ?s" by (simp add: lua_number_def Let_def mult_right_mono)
      also have "\<dots> = 2 ^ ?B" using \<open>?s \<le> ?B\<close> by (simp add: power_add [symmetric])
      finally show ?thesis .
    qed
    also have "\<dots> \<le> lua_number n"
    proof -
      have t: "?t \<le> ?B" using len by linarith
      have "2 ^ (?B - ?t) = shift_half_even (2 ^ ?B) ?t"
        by (rule shift_half_even_power [OF t, symmetric])
      also have "\<dots> \<le> shift_half_even (uint n) ?t" using n_ge by (rule shift_half_even_mono)
      finally have "2 ^ (?B - ?t) * 2 ^ ?t \<le> lua_number n" by (simp add: lua_number_def Let_def mult_right_mono)
      moreover have "(2::int) ^ (?B - ?t) * 2 ^ ?t = 2 ^ ?B" using t by (simp add: power_add [symmetric])
      ultimately show ?thesis by simp
    qed
    finally show ?thesis .
  qed
qed

text \<open>While an entry lives, no request but a retry of the one that wrote it is accepted with a
  sequence that is not larger; refusing changes nothing.\<close>

lemma heartbeat_replay_refused:
  assumes "live_entry cache (rd_now rd) pid = Some e" and "rd_up rd" and "hb_request_id e \<noteq> requestID"
    and "sequence \<le> hb_sequence e"
  shows "heartbeat_Accept rd cache pid requestID sequence hash payload ttl = (Inl HeartbeatReplay, cache)"
  using assms lua_number_mono [OF assms(4)] by (simp add: heartbeat_Accept_def acceptHeartbeatScript_def Let_def)

section \<open>The system\<close>

record hb_system =
  hy_join :: join_system
  hy_state :: heartbeat_state
  hy_received :: "(ReportHeartbeatRequest \<times> int) set"

text \<open>\<open>delay\<close> bounds the time from a request's arrival to the Redis script, clock difference
  included.\<close>

inductive hb_step ::
  "join_service \<Rightarrow> ReconcilerConfig \<Rightarrow> (HeartbeatSigningPayload \<Rightarrow> byte list option) \<Rightarrow> int \<Rightarrow> hb_system \<Rightarrow> hb_system \<Rightarrow> bool"
  for svc cfg encode delay where
  joins: "join_step svc cfg (hy_join \<sigma>) j \<Longrightarrow> hb_step svc cfg encode delay \<sigma> (\<sigma>\<lparr>hy_join := j\<rparr>)"
| beat: "ReportHeartbeat svc env (jy_store (hy_join \<sigma>)) (hy_state \<sigma>) (Some r) = (res, st') \<Longrightarrow> he_marshal env = encode \<Longrightarrow>
    (\<forall>rd. he_redis env = Some rd \<longrightarrow> rd_now rd \<le> he_now env + delay) \<Longrightarrow>
    hb_step svc cfg encode delay \<sigma> (\<sigma>\<lparr>hy_state := st', hy_received := insert (r, he_now env) (hy_received \<sigma>)\<rparr>)"

definition new_heartbeats :: "hb_system \<Rightarrow> bool" where
  "new_heartbeats \<sigma> \<longleftrightarrow> new_join (hy_join \<sigma>) \<and> hs_cache (hy_state \<sigma>) = (\<lambda>_. None) \<and> hy_received \<sigma> = {}"

text \<open>A request whose payload, encoded as \<open>bytes\<close>, is signed by the key the provider id is the
  hash of.\<close>

definition signed_beat ::
  "join_service \<Rightarrow> (HeartbeatSigningPayload \<Rightarrow> byte list option) \<Rightarrow> string \<Rightarrow> ReportHeartbeatRequest \<Rightarrow> byte list \<Rightarrow> bool" where
  "signed_beat svc encode pid r bytes \<longleftrightarrow> (\<exists>k p. hr_Payload r = Some p \<and> hp_ProviderId p = pid \<and> encode p = Some bytes \<and>
     pid = hex_encode (jn_sha256 svc k) \<and> jn_verify svc k (heartbeatDomain @ bytes) (hr_Signature r))"

definition recent_beat ::
  "join_service \<Rightarrow> (HeartbeatSigningPayload \<Rightarrow> byte list option) \<Rightarrow> int \<Rightarrow> string \<Rightarrow> string \<Rightarrow> int \<Rightarrow> ReportHeartbeatRequest \<Rightarrow> bool" where
  "recent_beat svc encode delay pid hash expires r \<longleftrightarrow> (\<exists>p bytes obs. signed_beat svc encode pid r bytes \<and>
     hr_Payload r = Some p \<and> hash = hex_encode (jn_sha256 svc bytes) \<and> hp_ObservedAt p = Some obs \<and>
     expires \<le> obs + maxHeartbeatClockSkew + delay + defaultHeartbeatTTL)"

definition vouched ::
  "join_service \<Rightarrow> (HeartbeatSigningPayload \<Rightarrow> byte list option) \<Rightarrow> int \<Rightarrow> (ReportHeartbeatRequest \<times> int) set \<Rightarrow> string
     \<Rightarrow> heartbeat_entry \<Rightarrow> bool" where
  "vouched svc encode delay received pid e \<longleftrightarrow>
     (\<exists>r \<in> fst ` received. signed_beat svc encode pid r (hb_payload e)) \<and>
     (\<exists>r \<in> fst ` received. recent_beat svc encode delay pid (hb_payload_hash e) (hb_expires_at e) r) \<and>
     hb_payload_hash e = hex_encode (jn_sha256 svc (hb_payload e))"

definition hb_inv ::
  "join_service \<Rightarrow> (HeartbeatSigningPayload \<Rightarrow> byte list option) \<Rightarrow> int \<Rightarrow> hb_system \<Rightarrow> bool" where
  "hb_inv svc encode delay \<sigma> \<longleftrightarrow> sys_inv svc (hy_join \<sigma>) \<and>
     (\<forall>pid e. hs_cache (hy_state \<sigma>) pid = Some e \<longrightarrow> vouched svc encode delay (hy_received \<sigma>) pid e)"

lemma vouched_mono: "vouched svc encode delay received pid e \<Longrightarrow> received \<subseteq> received' \<Longrightarrow> vouched svc encode delay received' pid e"
  unfolding vouched_def by (meson image_mono subsetD)

section \<open>What a heartbeat does\<close>

lemma hs_cache_side_effects [simp]:
  "hs_cache (recordBandwidthUsage env s pid entries st) = hs_cache st"
  "hs_cache (reconcileWorkloadStatus env pid statuses st) = hs_cache st"
  by (simp_all add: recordBandwidthUsage_def reconcileWorkloadStatus_def split: option.splits)

lemma heartbeat_Accept_cases:
  assumes "heartbeat_Accept rd cache pid requestID sequence hash payload defaultHeartbeatTTL = (res, cache')"
  obtains (same) "cache' = cache"
  | (new) "res = Inr ()" "cache' = cache(pid \<mapsto> \<lparr>hb_request_id = requestID, hb_sequence = sequence,
      hb_payload_hash = hex_encode hash, hb_payload = payload, hb_expires_at = rd_now rd + defaultHeartbeatTTL\<rparr>)"
  | (refreshed) e where "res = Inr ()" "cache pid = Some e" "hb_payload_hash e = hex_encode hash"
      "cache' = cache(pid \<mapsto> e\<lparr>hb_expires_at := rd_now rd + defaultHeartbeatTTL\<rparr>)"
proof -
  have ttl: "go_div defaultHeartbeatTTL 1000000 * 1000000 = defaultHeartbeatTTL"
    by (simp add: defaultHeartbeatTTL_def second_def go_div_def)
  have live: "cache pid = Some e" if "live_entry cache (rd_now rd) pid = Some e" for e
    using that by (simp add: live_entry_def split: option.splits if_splits)
  show thesis
  proof (cases "rd_up rd")
    case False
    with assms same show thesis by (simp add: heartbeat_Accept_def)
  next
    case up: True
    show thesis
    proof (cases "live_entry cache (rd_now rd) pid")
      case None
      with assms new up show thesis by (simp add: heartbeat_Accept_def acceptHeartbeatScript_def Let_def ttl)
    next
      case (Some e)
      note entry = assms [unfolded heartbeat_Accept_def acceptHeartbeatScript_def Let_def Some option.simps ttl]
      show thesis
      proof (cases "hb_request_id e = requestID")
        case True
        with entry up same refreshed [OF _ live [OF Some]] show thesis by (simp split: if_splits)
      next
        case False
        with entry up same new show thesis by (simp split: if_splits)
      qed
    qed
  qed
qed

lemma ReportHeartbeat_cases:
  assumes "ReportHeartbeat svc env s st (Some r) = (res, st')"
  obtains (same) "hs_cache st' = hs_cache st"
  | (called) rd p obs row bytes out where "he_redis env = Some rd" "hr_Payload r = Some p" "hp_ObservedAt p = Some obs"
      "he_now env \<le> obs + maxHeartbeatClockSkew" "row \<in> set (js_providers s)" "pv_id row = hp_ProviderId p"
      "he_marshal env p = Some bytes" "jn_verify svc (pv_key row) (heartbeatDomain @ bytes) (hr_Signature r)"
      "heartbeat_Accept rd (hs_cache st) (hp_ProviderId p) (hp_RequestId p) (hp_Sequence p) (jn_sha256 svc bytes) bytes
         defaultHeartbeatTTL = (out, hs_cache st')"
proof (cases "he_redis env")
  case None
  with assms same show thesis by (simp add: ReportHeartbeat_def)
next
  case (Some rd)
  note rd = Some
  show thesis
  proof (cases "validateHeartbeat svc (Some r) (he_now env)")
    case (Inl e)
    with assms same rd show thesis by (simp add: ReportHeartbeat_def)
  next
    case (Inr pobs)
    obtain p obs where pobs: "pobs = (p, obs)" by (cases pobs)
    from Inr have p: "hr_Payload r = Some p" "hp_ObservedAt p = Some obs" "he_now env \<le> obs + maxHeartbeatClockSkew"
      by (auto simp: validateHeartbeat_def pobs split: option.splits if_splits)
    show thesis
    proof (cases "provider_identity (he_identity env) s (hp_ProviderId p)")
      case (Inl e)
      with assms same rd Inr pobs show thesis by (simp add: ReportHeartbeat_def)
    next
      case (Inr identity)
      then obtain row where row: "row \<in> set (js_providers s)" "pv_id row = hp_ProviderId p" "pi_PublicKey identity = pv_key row"
        by (auto simp: provider_identity_def split: if_splits option.splits dest: find_SomeD)
      show thesis
        using assms rd \<open>validateHeartbeat svc (Some r) (he_now env) = Inr pobs\<close> pobs Inr row p same called [OF rd p row(1,2)]
        by (auto simp: ReportHeartbeat_def split: option.splits if_splits prod.splits sum.splits)
    qed
  qed
qed

lemma vouched_new:
  assumes "(r, t) \<in> received" and "signed_beat svc encode pid r bytes" and "hr_Payload r = Some p" and "hp_ObservedAt p = Some obs"
    and "hb_payload_hash e = hex_encode (jn_sha256 svc bytes)"
    and "hb_expires_at e \<le> obs + maxHeartbeatClockSkew + delay + defaultHeartbeatTTL"
    and payload: "hb_payload e = bytes \<or> vouched svc encode delay received pid e0 \<and> hb_payload e = hb_payload e0 \<and>
      hb_payload_hash e = hb_payload_hash e0"
  shows "vouched svc encode delay received pid e"
proof -
  have r: "r \<in> fst ` received" using assms(1) by force
  moreover have "recent_beat svc encode delay pid (hb_payload_hash e) (hb_expires_at e) r"
    using assms(2-6) unfolding recent_beat_def by blast
  moreover have "(\<exists>r \<in> fst ` received. signed_beat svc encode pid r (hb_payload e)) \<and>
      hb_payload_hash e = hex_encode (jn_sha256 svc (hb_payload e))"
    using payload
  proof
    assume "hb_payload e = bytes"
    with r assms(2,5) show ?thesis by auto
  qed (auto simp: vouched_def)
  ultimately show ?thesis unfolding vouched_def by blast
qed

lemma ReportHeartbeat_vouched:
  assumes call: "ReportHeartbeat svc env s st (Some r) = (res, st')" and inv: "join_inv (jn_sha256 svc) s"
    and time: "\<forall>rd. he_redis env = Some rd \<longrightarrow> rd_now rd \<le> he_now env + delay"
    and old: "\<And>pid e. hs_cache st pid = Some e \<Longrightarrow> vouched svc (he_marshal env) delay received pid e"
    and entry: "hs_cache st' pid = Some e"
  shows "vouched svc (he_marshal env) delay (insert (r, he_now env) received) pid e"
  using call
proof (cases rule: ReportHeartbeat_cases)
  case same
  with entry old show ?thesis by (auto intro: vouched_mono)
next
  case (called rd p obs row bytes out)
  have "provider_ok (jn_sha256 svc) s (pv_id row) (pv_key row)"
    using inv called(5) unfolding join_inv_def providers_inv_def by blast
  then have beat: "signed_beat svc (he_marshal env) (hp_ProviderId p) r bytes"
    using called(2,6,7,8) unfolding signed_beat_def provider_ok_def by auto
  have soon: "rd_now rd + defaultHeartbeatTTL \<le> obs + maxHeartbeatClockSkew + delay + defaultHeartbeatTTL"
    using time called(1,4) by fastforce
  let ?received = "insert (r, he_now env) received"
  have kept: "vouched svc (he_marshal env) delay ?received i x" if "hs_cache st i = Some x" for i x
    using old [OF that] by (rule vouched_mono) auto
  have member: "(r, he_now env) \<in> ?received" by simp
  note vouch = vouched_new [OF member beat called(2,3)]
  from called(9) show ?thesis
  proof (cases rule: heartbeat_Accept_cases)
    case same
    with entry kept show ?thesis by simp
  next
    case new
    show ?thesis
    proof (cases "pid = hp_ProviderId p")
      case True
      with entry new(2) have "hb_payload_hash e = hex_encode (jn_sha256 svc bytes)" "hb_payload e = bytes"
        "hb_expires_at e = rd_now rd + defaultHeartbeatTTL" by auto
      with vouch soon True show ?thesis by simp
    qed (use entry new(2) kept in simp)
  next
    case (refreshed e0)
    show ?thesis
    proof (cases "pid = hp_ProviderId p")
      case True
      with entry refreshed(4) have "e = e0\<lparr>hb_expires_at := rd_now rd + defaultHeartbeatTTL\<rparr>" by simp
      with vouch [of e delay e0] soon True refreshed(2,3) kept show ?thesis by simp
    qed (use entry refreshed(4) kept in simp)
  qed
qed

lemma hb_step_inv:
  assumes "hb_step svc cfg encode delay \<sigma> \<sigma>'" and "hb_inv svc encode delay \<sigma>"
  shows "hb_inv svc encode delay \<sigma>'"
  using assms(1)
proof cases
  case (joins j)
  with assms(2) join_step_inv show ?thesis by (simp add: hb_inv_def)
next
  case (beat env r res st')
  have "join_inv (jn_sha256 svc) (jy_store (hy_join \<sigma>))" using assms(2) by (simp add: hb_inv_def sys_inv_def)
  from ReportHeartbeat_vouched [OF beat(2) this beat(4), of "hy_received \<sigma>"] assms(2) beat(1,3) show ?thesis
    by (simp add: hb_inv_def)
qed

lemma hb_run_inv:
  assumes "(hb_step svc cfg encode delay)\<^sup>*\<^sup>* \<sigma> \<sigma>'" and "new_heartbeats \<sigma>"
  shows "hb_inv svc encode delay \<sigma>'"
  using assms(1)
proof (induction rule: rtranclp_induct)
  case base
  have "sys_inv svc (hy_join \<sigma>)"
    using join_run_inv [of svc cfg "hy_join \<sigma>" "hy_join \<sigma>"] assms(2) by (simp add: new_heartbeats_def)
  with assms(2) show ?case by (simp add: hb_inv_def new_heartbeats_def)
qed (rule hb_step_inv)

section \<open>The scheduler is offered only recent providers\<close>

text \<open>The directory's view: the rows of the registry, and the heartbeat payloads Redis has now.\<close>

definition registry_of :: "join_store \<Rightarrow> registry_row list" where
  "registry_of s = map (\<lambda>p. \<lparr>reg_provider = pv_provider p, reg_status = pv_status p\<rparr>) (js_providers s)"

definition heartbeats_at :: "heartbeat_cache \<Rightarrow> int \<Rightarrow> heartbeat_source" where
  "heartbeats_at cache now pid =
     (case live_entry cache now pid of None \<Rightarrow> Inl True | Some e \<Rightarrow> Inr (hb_payload e))"

lemma listed_provider:
  assumes "ListSchedulableProviders up rows heartbeat decode = Inr xs" and "(p, cap) \<in> set xs"
  obtains row where "row \<in> set rows" "reg_provider row = p" "reg_status row = NODE_ACTIVE"
    "fresh_capabilities heartbeat decode (rp_ProviderID p) = Some cap"
proof -
  have "schedulableLoop heartbeat decode (sort_key rp_ProviderID (map reg_provider (filter (\<lambda>r. reg_status r = NODE_ACTIVE) rows))) [] = Inr xs"
    using assms(1) by (simp add: ListSchedulableProviders_def ListActive_def split: if_splits)
  from schedulableLoop_Inr [OF this] assms(2) that show thesis by (auto simp: List.map_filter_def)
qed

text \<open>
  C5. Every provider the directory offers the scheduler was alive a bounded time ago. Whatever
  joins, revocations and heartbeats have run, a provider listed at time \<open>now\<close> is active, the
  capabilities it is listed with were signed by the key its id is the hash of, and a heartbeat
  with the same hash and signed by that key was received whose observation is less than the clock
  skew, the time to live and the handling delay before \<open>now\<close>.
\<close>

theorem scheduled_provider_recent:
  assumes "new_heartbeats \<sigma>" and "(hb_step svc cfg encode delay)\<^sup>*\<^sup>* \<sigma> \<sigma>'"
    and codec: "\<And>p bytes. encode p = Some bytes \<Longrightarrow> decode bytes = Some (hp_ProviderId p, hp_Capabilities p)"
    and "ListSchedulableProviders up (registry_of (jy_store (hy_join \<sigma>'))) (heartbeats_at (hs_cache (hy_state \<sigma>')) now) decode = Inr xs"
    and "(p, cap) \<in> set xs"
  shows "(\<exists>row \<in> set (js_providers (jy_store (hy_join \<sigma>'))). pv_provider row = p \<and> pv_status row = NODE_ACTIVE) \<and>
    (\<exists>r pl bytes r' pl' bytes' obs.
       r \<in> fst ` hy_received \<sigma>' \<and> hr_Payload r = Some pl \<and> hp_Capabilities pl = Some cap \<and>
       signed_beat svc encode (rp_ProviderID p) r bytes \<and>
       r' \<in> fst ` hy_received \<sigma>' \<and> hr_Payload r' = Some pl' \<and> hp_ObservedAt pl' = Some obs \<and>
       signed_beat svc encode (rp_ProviderID p) r' bytes' \<and>
       hex_encode (jn_sha256 svc bytes') = hex_encode (jn_sha256 svc bytes) \<and>
       now < obs + maxHeartbeatClockSkew + delay + defaultHeartbeatTTL)"
proof -
  from assms(4,5) obtain row where row: "row \<in> set (registry_of (jy_store (hy_join \<sigma>')))" "reg_provider row = p"
    "reg_status row = NODE_ACTIVE"
    and fresh: "fresh_capabilities (heartbeats_at (hs_cache (hy_state \<sigma>')) now) decode (rp_ProviderID p) = Some cap"
    by (rule listed_provider)
  from fresh obtain e where e: "live_entry (hs_cache (hy_state \<sigma>')) now (rp_ProviderID p) = Some e"
    "decode (hb_payload e) = Some (rp_ProviderID p, Some cap)"
    by (auto simp: fresh_capabilities_def heartbeats_at_def split: option.splits if_splits)
  then have live: "now < hb_expires_at e" and "hs_cache (hy_state \<sigma>') (rp_ProviderID p) = Some e"
    by (auto simp: live_entry_def split: option.splits if_splits)
  with hb_run_inv [OF assms(2,1)] have v: "vouched svc encode delay (hy_received \<sigma>') (rp_ProviderID p) e"
    by (simp add: hb_inv_def)
  then obtain r where r: "r \<in> fst ` hy_received \<sigma>'" "signed_beat svc encode (rp_ProviderID p) r (hb_payload e)"
    unfolding vouched_def by blast
  then obtain pl where pl: "hr_Payload r = Some pl" "encode pl = Some (hb_payload e)" unfolding signed_beat_def by blast
  have cap: "hp_Capabilities pl = Some cap" using codec [OF pl(2)] e(2) by simp
  have hash: "hb_payload_hash e = hex_encode (jn_sha256 svc (hb_payload e))" using v by (simp add: vouched_def)
  from v obtain r' where r': "r' \<in> fst ` hy_received \<sigma>'"
    "recent_beat svc encode delay (rp_ProviderID p) (hex_encode (jn_sha256 svc (hb_payload e))) (hb_expires_at e) r'"
    unfolding vouched_def hash by blast
  then obtain pl' bytes' obs where o: "signed_beat svc encode (rp_ProviderID p) r' bytes'" "hr_Payload r' = Some pl'"
    "hex_encode (jn_sha256 svc (hb_payload e)) = hex_encode (jn_sha256 svc bytes')" "hp_ObservedAt pl' = Some obs"
    "hb_expires_at e \<le> obs + maxHeartbeatClockSkew + delay + defaultHeartbeatTTL"
    unfolding recent_beat_def by blast
  have "now < obs + maxHeartbeatClockSkew + delay + defaultHeartbeatTTL" using live o(5) by (rule order_less_le_trans)
  with r r'(1) pl(1) cap o(1-4) have beats: "r \<in> fst ` hy_received \<sigma>' \<and> hr_Payload r = Some pl \<and> hp_Capabilities pl = Some cap \<and>
       signed_beat svc encode (rp_ProviderID p) r (hb_payload e) \<and>
       r' \<in> fst ` hy_received \<sigma>' \<and> hr_Payload r' = Some pl' \<and> hp_ObservedAt pl' = Some obs \<and>
       signed_beat svc encode (rp_ProviderID p) r' bytes' \<and>
       hex_encode (jn_sha256 svc bytes') = hex_encode (jn_sha256 svc (hb_payload e)) \<and>
       now < obs + maxHeartbeatClockSkew + delay + defaultHeartbeatTTL" by simp
  show ?thesis
  proof
    show "\<exists>row \<in> set (js_providers (jy_store (hy_join \<sigma>'))). pv_provider row = p \<and> pv_status row = NODE_ACTIVE"
      using row by (auto simp: registry_of_def)
  qed (use beats in \<open>intro exI\<close>)
qed

lemma joins_run:
  assumes "(join_step svc cfg)\<^sup>*\<^sup>* j j'"
  shows "(hb_step svc cfg encode delay)\<^sup>*\<^sup>* (\<sigma>\<lparr>hy_join := j\<rparr>) (\<sigma>\<lparr>hy_join := j'\<rparr>)"
  using assms
proof (induction rule: rtranclp_induct)
  case (step y z)
  have "hb_step svc cfg encode delay (\<sigma>\<lparr>hy_join := y\<rparr>) (\<sigma>\<lparr>hy_join := y\<rparr>\<lparr>hy_join := z\<rparr>)"
    using step(2) by (intro hb_step.joins) simp
  with step(3) show ?case by simp
qed simp

definition sample_heartbeat :: HeartbeatSigningPayload where
  "sample_heartbeat = \<lparr>hp_unknown = False, hp_RequestId = ''beat'', hp_ProviderId = hex_encode (sample_sha (replicate 32 7)),
     hp_Sequence = 1, hp_ObservedAt = Some (5 * second), hp_Capabilities = cj_Capabilities sample_complete,
     hp_WorkloadBandwidth = [], hp_WorkloadStatus = []\<rparr>"

definition sample_encode :: "HeartbeatSigningPayload \<Rightarrow> byte list option" where
  "sample_encode p = (if p = sample_heartbeat then Some (replicate 64 3) else None)"

definition sample_decode :: heartbeat_codec where
  "sample_decode bytes = Some (hp_ProviderId sample_heartbeat, hp_Capabilities sample_heartbeat)"

definition sample_report :: ReportHeartbeatRequest where
  "sample_report = \<lparr>hr_Payload = Some sample_heartbeat, hr_Signature = take 64 (heartbeatDomain @ replicate 64 3)\<rparr>"

definition sample_env :: heartbeat_env where
  "sample_env = \<lparr>he_now = 5 * second, he_answered_at = 6 * second, he_identity = sample_call '''' (5 * second),
     he_marshal = sample_encode, he_redis = Some \<lparr>rd_up = True, rd_now = 5 * second\<rparr>, he_bandwidth = None, he_reconcile = None,
     he_validators = None\<rparr>"

definition sample_quiet :: heartbeat_state where
  "sample_quiet = \<lparr>hs_cache = (\<lambda>_. None), hs_usage = [], hs_workloads = \<lparr>ws_rows = [], ws_lease_seq = 0, ws_providers = [], ws_users = [], ws_projects = []\<rparr>\<rparr>"

definition sample_beaten :: heartbeat_state where
  "sample_beaten = snd (ReportHeartbeat sample_join sample_env sample_activated sample_quiet (Some sample_report))"

definition sample_start :: hb_system where
  "sample_start = \<lparr>hy_join = sample_new, hy_state = sample_quiet, hy_received = {}\<rparr>"

definition sample_alive :: hb_system where
  "sample_alive = \<lparr>hy_join = sample_system, hy_state = sample_beaten, hy_received = {(sample_report, 5 * second)}\<rparr>"

lemma sample_alive_run: "(hb_step sample_join cfg sample_encode 0)\<^sup>*\<^sup>* sample_start sample_alive"
proof -
  let ?s = "sample_start\<lparr>hy_join := sample_system\<rparr>"
  have start: "sample_start\<lparr>hy_join := sample_new\<rparr> = sample_start" by (simp add: sample_start_def)
  have "(hb_step sample_join cfg sample_encode 0)\<^sup>*\<^sup>* sample_start ?s"
    using joins_run [OF sample_run, where \<sigma> = sample_start] unfolding start .
  moreover have "ReportHeartbeat sample_join sample_env (jy_store (hy_join ?s)) (hy_state ?s) (Some sample_report) =
      (fst (ReportHeartbeat sample_join sample_env sample_activated sample_quiet (Some sample_report)), sample_beaten)"
    by (simp add: sample_beaten_def sample_start_def sample_system_def)
  then have "hb_step sample_join cfg sample_encode 0 ?s
      (?s\<lparr>hy_state := sample_beaten, hy_received := insert (sample_report, he_now sample_env) (hy_received ?s)\<rparr>)"
    by (rule hb_step.beat) (simp_all add: sample_env_def)
  then have "hb_step sample_join cfg sample_encode 0 ?s sample_alive"
    by (simp add: sample_alive_def sample_start_def sample_env_def)
  ultimately show ?thesis by (rule rtranclp.rtrancl_into_rtrancl)
qed

definition sample_listed :: "directory_error + SchedulableProvider list" where
  "sample_listed = ListSchedulableProviders True (registry_of sample_activated) (heartbeats_at (hs_cache sample_beaten) (6 * second)) sample_decode"

theorem scheduled_provider_recent_witness:
  "\<exists>p cap. sample_listed = Inr [(p, cap)] \<and> (\<exists>r bytes. r \<in> fst ` hy_received sample_alive \<and>
     signed_beat sample_join sample_encode (rp_ProviderID p) r bytes)"
proof -
  have new: "new_heartbeats sample_start"
    by (simp add: new_heartbeats_def sample_start_def sample_new_join sample_quiet_def)
  have "\<not> isl sample_listed \<and> length (projr sample_listed) = 1" by code_simp
  then have "sample_listed = Inr (projr sample_listed)" "length (projr sample_listed) = Suc 0"
    by (simp_all add: sum.collapse)
  then obtain p cap where listed: "sample_listed = Inr [(p, cap)]"
    by (metis length_0_conv length_Suc_conv surj_pair)
  then have list: "ListSchedulableProviders True (registry_of (jy_store (hy_join sample_alive)))
      (heartbeats_at (hs_cache (hy_state sample_alive)) (6 * second)) sample_decode = Inr [(p, cap)]"
    by (simp add: sample_listed_def sample_alive_def sample_system_def)
  have codec: "sample_decode bytes = Some (hp_ProviderId q, hp_Capabilities q)" if "sample_encode q = Some bytes" for q bytes
    using that by (simp add: sample_encode_def sample_decode_def split: if_splits)
  from scheduled_provider_recent [OF new sample_alive_run [of DefaultReconcilerConfig] codec list, of p cap] listed
  show ?thesis by auto
qed

end
