(* ===== verification/Certificates.thy ===== *)
theory Certificates
  imports Pki Heartbeat_System
begin

text \<open>
  \<^verbatim>\<open>control-plane/internal/providerjoin/certificates.go\<close>: the renewal of a provider's
  certificate, with the nonce store of redis.go. The theory shows what a signature over a renewal
  covers, what a renewed certificate rests on, and how revocation cuts a provider off.
\<close>

definition renewDomain :: "byte list" where "renewDomain = bytes_of ''openinfra-cert-renew-v1'' @ [0]"

definition maxRenewalClockSkew :: int where "maxRenewalClockSkew = maxHeartbeatClockSkew"

section \<open>The nonce store\<close>

type_synonym nonce_store = "string \<Rightarrow> u64 option"

definition acceptRenewalNonceScript :: "nonce_store \<Rightarrow> string \<Rightarrow> u64 \<Rightarrow> int \<times> nonce_store" where
  "acceptRenewalNonceScript nonces key nonce =
     (case nonces key of
        Some current \<Rightarrow>
          if lua_number nonce \<le> lua_number current then (-1, nonces) else (1, nonces(key \<mapsto> nonce))
      | None \<Rightarrow> (1, nonces(key \<mapsto> nonce)))"

text \<open>\<open>Inl True\<close> is \<^verbatim>\<open>ErrRenewalReplay\<close>, \<open>Inl False\<close> a failed call.\<close>

definition renewal_Accept :: "redis_call \<Rightarrow> nonce_store \<Rightarrow> string \<Rightarrow> u64 \<Rightarrow> (bool + unit) \<times> nonce_store" where
  "renewal_Accept rd nonces providerID nonce =
     (if \<not> rd_up rd then (Inl False, nonces)
      else case acceptRenewalNonceScript nonces providerID nonce of
        (result, nonces') \<Rightarrow> if result = -1 then (Inl True, nonces') else (Inr (), nonces'))"

section \<open>Renewal\<close>

record RenewCertificateRequest =
  rn_RequestId :: string
  rn_ProviderId :: string
  rn_NewTlsPublicKey :: "byte list"
  rn_CurrentCertificateSerial :: string
  rn_Timestamp :: "int option"
  rn_Nonce :: u64
  rn_Signature :: "byte list"

definition validateRenewCertificate :: "join_service \<Rightarrow> RenewCertificateRequest option \<Rightarrow> string + RenewCertificateRequest \<times> int" where
  "validateRenewCertificate svc request =
     (case request of
        None \<Rightarrow> Inl ''request is required''
      | Some r \<Rightarrow>
          if \<not> jn_uuid_ok svc (rn_RequestId r) then Inl ''request_id must be a UUID''
          else if length (rn_ProviderId r) \<noteq> 64 then Inl ''provider_id must be a 64-character hexadecimal identifier''
          else if length (rn_NewTlsPublicKey r) \<noteq> 32 then Inl ''new_tls_public_key must be 32 bytes''
          else if rn_CurrentCertificateSerial r = '''' then Inl ''current_certificate_serial is required''
          else if rn_Nonce r = 0 then Inl ''nonce must be positive''
          else if length (rn_Signature r) \<noteq> 64 then Inl ''signature must be 64 bytes''
          else (case rn_Timestamp r of
             None \<Rightarrow> Inl ''timestamp must be a valid timestamp'' | Some t \<Rightarrow> Inr (r, t)))"

definition validateRenewalTimestamp :: "int \<Rightarrow> int \<Rightarrow> bool" where
  "validateRenewalTimestamp signedAt now \<longleftrightarrow>
     \<not> (signedAt < now - maxRenewalClockSkew \<or> signedAt > now + maxRenewalClockSkew)"

definition renewalSigningPayload :: "byte list \<Rightarrow> string \<Rightarrow> int \<Rightarrow> u64 \<Rightarrow> byte list" where
  "renewalSigningPayload newTLSPublicKey currentCertificateSerial t nonce =
     (let serial = bytes_of currentCertificateSerial;
          payload = renewDomain;
          payload = payload @ newTLSPublicKey;
          payload = payload @ [word_of_nat (length serial)];
          payload = payload @ serial;
          payload = payload @ put_u64 (word_of_int (t div second));
          payload = payload @ put_u32 (word_of_int (t mod second));
          payload = payload @ put_u64 nonce
      in payload)"

record renewal_env =
  rv_now :: int
  rv_peer_now :: int
  rv_peer :: "Certificate option"
  rv_identity :: db_call
  rv_nonces :: "redis_call option"
  rv_ca :: "CA option"
  rv_rand :: "nat option"

record RenewCertificateResponse =
  rnr_CertificatePem :: string
  rnr_ExpiresAt :: int
  rnr_Serial :: string
  rnr_certificate :: Certificate

definition RenewCertificate ::
  "join_service \<Rightarrow> renewal_env \<Rightarrow> join_store \<Rightarrow> nonce_store \<Rightarrow> RenewCertificateRequest option
     \<Rightarrow> (join_status + RenewCertificateResponse) \<times> nonce_store" where
  "RenewCertificate svc env s nonces request =
     (case rv_ca env of
        None \<Rightarrow> (Inl UNAVAILABLE, nonces)
      | Some ca \<Rightarrow>
     (case rv_nonces env of
        None \<Rightarrow> (Inl UNAVAILABLE, nonces)
      | Some rd \<Rightarrow>
     (case validateRenewCertificate svc request of
        Inl e \<Rightarrow> (Inl (INVALID_ARGUMENT e), nonces)
      | Inr (r, t) \<Rightarrow>
     (case PeerIdentity ca (rv_peer_now env) (rv_peer env) of
        None \<Rightarrow> (Inl UNAUTHENTICATED, nonces)
      | Some (peerProviderID, peerSerial, chainVerified) \<Rightarrow>
          if \<not> chainVerified then (Inl UNAUTHENTICATED, nonces)
          else if peerProviderID \<noteq> rn_ProviderId r then (Inl UNAUTHENTICATED, nonces)
          else if peerSerial \<noteq> rn_CurrentCertificateSerial r then (Inl UNAUTHENTICATED, nonces)
          else (case provider_identity (rv_identity env) s (rn_ProviderId r) of
             Inl e \<Rightarrow> (Inl (join_repositoryError e), nonces)
           | Inr identity \<Rightarrow>
               if pi_Status identity \<noteq> NODE_ACTIVE then (Inl FAILED_PRECONDITION, nonces)
               else if \<not> validateRenewalTimestamp t (rv_now env)
               then (Inl (INVALID_ARGUMENT ''timestamp is outside the allowed clock skew''), nonces)
               else if \<not> jn_verify svc (pi_PublicKey identity)
                          (renewalSigningPayload (rn_NewTlsPublicKey r) (rn_CurrentCertificateSerial r) t (rn_Nonce r))
                          (rn_Signature r)
               then (Inl UNAUTHENTICATED, nonces)
               else (case renewal_Accept rd nonces (rn_ProviderId r) (rn_Nonce r) of
                  (Inl replay, nonces') \<Rightarrow> (Inl (if replay then FAILED_PRECONDITION else INTERNAL), nonces')
                | (Inr _, nonces') \<Rightarrow>
                    (case IssueLeaf ca (rv_rand env) (rn_ProviderId r) (rn_NewTlsPublicKey r) (rv_now env) DefaultLeafTTL of
                       Inl _ \<Rightarrow> (Inl INTERNAL, nonces')
                     | Inr (issued, cert) \<Rightarrow>
                         (Inr \<lparr>rnr_CertificatePem = CertificatePEM issued, rnr_ExpiresAt = cert_ExpiresAt issued,
                               rnr_Serial = Serial issued, rnr_certificate = cert\<rparr>, nonces'))))))))"

section \<open>What a renewal signature covers\<close>

lemma length_put [simp]: "length (put_u64 x) = 8" "length (put_u32 y) = 4"
  by (simp_all add: put_u64_def put_u32_def)

text \<open>
  C37. The signed bytes of a renewal determine its new key, the serial, the instant and the nonce,
  for every serial, also one longer than the length byte can say: no field of a renewal can be
  changed without changing what the signature covers.
\<close>

theorem renewalSigningPayload_inject:
  assumes "length k = 32" and "length k' = 32" and "in_i64 (t div second)" and "in_i64 (t' div second)"
    and "renewalSigningPayload k serial t nonce = renewalSigningPayload k' serial' t' nonce'"
  shows "k = k' \<and> serial = serial' \<and> t = t' \<and> nonce = nonce'"
proof -
  let ?b = "\<lambda>t nonce. put_u64 (word_of_int (t div second)) @ put_u32 (word_of_int (t mod second)) @ put_u64 nonce"
  have eq: "k @ [word_of_nat (length serial)] @ bytes_of serial @ ?b t nonce =
    k' @ [word_of_nat (length serial')] @ bytes_of serial' @ ?b t' nonce'"
    using assms(5) by (simp add: renewalSigningPayload_def Let_def bytes_of_def)
  have "length (bytes_of serial) = length (bytes_of serial')"
    using arg_cong [OF eq, of length] assms(1,2) by simp
  with eq assms(1,2) have k: "k = k'" "bytes_of serial = bytes_of serial'" "?b t nonce = ?b t' nonce'" by simp_all
  then have words: "(word_of_int (t div second) :: u64) = word_of_int (t' div second)"
    "(word_of_int (t mod second) :: u32) = word_of_int (t' mod second)" "nonce = nonce'"
    by (simp_all add: u64be.enc_append_inject u32be.enc_append_inject u32be.enc_inject u64be.enc_inject)
  have secs: "t div second = t' div second"
  proof -
    have "(t div second) mod 2 ^ 64 = (t' div second) mod 2 ^ 64"
      using words(1) by (simp only: word_of_int_eq_iff take_bit_eq_mod len_num0 len_num1 len_bit0 len_bit1) simp
    then have "(t div second + 2 ^ 63) mod 2 ^ 64 = (t' div second + 2 ^ 63) mod 2 ^ 64" by (rule mod_add_cong) (rule refl)
    then have "i64 (t div second) = i64 (t' div second)" by (simp only: i64_def)
    then show ?thesis using assms(3,4) by (simp add: i64_id)
  qed
  have nanos: "0 \<le> x mod second \<and> x mod second < 2 ^ 32" for x :: int
    using pos_mod_bound [of second x] by (simp add: second_def)
  have "t mod second = t' mod second"
    using words(2) nanos [of t] nanos [of t'] by (simp add: word_of_int_eq_iff take_bit_eq_mod)
  with secs have "t = t'" by (metis div_mult_mod_eq)
  with k words(3) show ?thesis by (simp add: bytes_of_inject)
qed

theorem renewalSigningPayload_inject_witness:
  "renewalSigningPayload (replicate 32 1) ''5'' second 7 \<noteq> renewalSigningPayload (replicate 32 1) ''5'' second 8"
proof
  assume "renewalSigningPayload (replicate 32 1) ''5'' second 7 = renewalSigningPayload (replicate 32 1) ''5'' second 8"
  moreover have "length (replicate 32 (1::byte)) = 32" "in_i64 (second div second)" by (simp_all add: in_i64_def second_def)
  ultimately show False using renewalSigningPayload_inject [of "replicate 32 1" "replicate 32 1" second second "''5''" 7 "''5''" 8] by simp
qed

section \<open>What a renewed certificate rests on\<close>

lemma renewal_Accept_accepted:
  assumes "renewal_Accept rd nonces pid nonce = (Inr (), nonces')"
  shows "nonces' = nonces(pid \<mapsto> nonce)" and "\<And>n. nonces pid = Some n \<Longrightarrow> n < nonce"
proof -
  show "nonces' = nonces(pid \<mapsto> nonce)"
    using assms by (auto simp: renewal_Accept_def acceptRenewalNonceScript_def split: if_splits option.splits)
  fix n
  assume "nonces pid = Some n"
  with assms have "\<not> lua_number nonce \<le> lua_number n"
    by (auto simp: renewal_Accept_def acceptRenewalNonceScript_def split: if_splits)
  then show "n < nonce" using lua_number_mono [of nonce n] by (meson not_le)
qed

lemma IssueLeaf_issued:
  assumes "IssueLeaf ca rand pid key now ttl = Inr (issued, cert)"
  shows "CommonName cert = pid" and "crt_PublicKey cert = key" and "NotAfter cert \<le> cert_ExpiresAt issued"
    and "cert_ExpiresAt issued = now + ttl" and "Serial issued = show_nat (SerialNumber cert)"
proof -
  have "(now + ttl) div second * second \<le> now + ttl" by (simp add: second_def)
  with assms show "CommonName cert = pid" "crt_PublicKey cert = key" "NotAfter cert \<le> cert_ExpiresAt issued"
    "cert_ExpiresAt issued = now + ttl" "Serial issued = show_nat (SerialNumber cert)"
    by (auto simp: IssueLeaf_def Let_def leafCertificate_def split: if_splits option.splits)
qed

text \<open>
  C35. A certificate is renewed only for an active provider, over a connection that presents a
  leaf of the authority issued to that provider and valid now, for a request signed with the
  provider's registered key within the clock skew and with a nonce above every nonce accepted for
  it before; the new leaf names that provider and the signed key and lives at most a day.
\<close>

theorem RenewCertificate_sound:
  assumes "RenewCertificate svc env s nonces (Some r) = (Inr rsp, nonces')"
  shows "\<exists>ca cert p t. rv_ca env = Some ca \<and> rv_peer env = Some cert \<and> ChainVerified ca cert (rv_peer_now env) \<and>
    CommonName cert = rn_ProviderId r \<and> show_nat (SerialNumber cert) = rn_CurrentCertificateSerial r \<and>
    p \<in> set (js_providers s) \<and> pv_id p = rn_ProviderId r \<and> pv_status p = NODE_ACTIVE \<and>
    rn_Timestamp r = Some t \<and> \<bar>t - rv_now env\<bar> \<le> maxRenewalClockSkew \<and>
    jn_verify svc (pv_key p)
      (renewalSigningPayload (rn_NewTlsPublicKey r) (rn_CurrentCertificateSerial r) t (rn_Nonce r)) (rn_Signature r) \<and>
    (case nonces (rn_ProviderId r) of None \<Rightarrow> True | Some n \<Rightarrow> n < rn_Nonce r) \<and>
    nonces' = nonces(rn_ProviderId r \<mapsto> rn_Nonce r) \<and>
    CommonName (rnr_certificate rsp) = rn_ProviderId r \<and> crt_PublicKey (rnr_certificate rsp) = rn_NewTlsPublicKey r \<and>
    NotAfter (rnr_certificate rsp) \<le> rv_now env + DefaultLeafTTL"
proof -
  obtain ca where ca: "rv_ca env = Some ca" using assms by (cases "rv_ca env") (auto simp: RenewCertificate_def)
  obtain rd where rd: "rv_nonces env = Some rd" using assms ca by (cases "rv_nonces env") (auto simp: RenewCertificate_def)
  obtain rr t where v: "validateRenewCertificate svc (Some r) = Inr (rr, t)"
    using assms ca rd by (cases "validateRenewCertificate svc (Some r)") (auto simp: RenewCertificate_def)
  then have rr: "rr = r" "rn_Timestamp r = Some t"
    by (auto simp: validateRenewCertificate_def split: if_splits option.splits)
  note step = assms [unfolded RenewCertificate_def ca rd v rr option.simps sum.simps prod.case]
  obtain serial chain where peer: "PeerIdentity ca (rv_peer_now env) (rv_peer env) = Some (rn_ProviderId r, serial, chain)"
    "chain" "serial = rn_CurrentCertificateSerial r"
    using step by (auto split: option.splits if_splits prod.splits)
  then obtain cert where cert: "rv_peer env = Some cert" "CommonName cert = rn_ProviderId r"
    "show_nat (SerialNumber cert) = rn_CurrentCertificateSerial r" "ChainVerified ca cert (rv_peer_now env)"
    by (auto simp: PeerIdentity_def IdentityFromCertificate_def split: option.splits if_splits)
  note step = step [unfolded peer(1) option.simps prod.case]
  obtain identity where id: "provider_identity (rv_identity env) s (rn_ProviderId r) = Inr identity" "pi_Status identity = NODE_ACTIVE"
    using step by (auto split: sum.splits if_splits)
  then obtain p where p: "p \<in> set (js_providers s)" "pv_id p = rn_ProviderId r" "pv_status p = NODE_ACTIVE"
    "pi_PublicKey identity = pv_key p"
    by (auto simp: provider_identity_def split: if_splits option.splits dest: find_SomeD)
  note step = step [unfolded id(1) sum.simps]
  have checks: "validateRenewalTimestamp t (rv_now env)" "jn_verify svc (pi_PublicKey identity)
      (renewalSigningPayload (rn_NewTlsPublicKey r) (rn_CurrentCertificateSerial r) t (rn_Nonce r)) (rn_Signature r)"
    using step by (auto split: if_splits)
  obtain issued cert' where acc: "renewal_Accept rd nonces (rn_ProviderId r) (rn_Nonce r) = (Inr (), nonces')"
    and issue: "IssueLeaf ca (rv_rand env) (rn_ProviderId r) (rn_NewTlsPublicKey r) (rv_now env) DefaultLeafTTL = Inr (issued, cert')"
    and rsp: "rnr_certificate rsp = cert'"
    using step by (auto split: if_splits prod.splits sum.splits)
  have "\<bar>t - rv_now env\<bar> \<le> maxRenewalClockSkew" using checks(1) by (simp add: validateRenewalTimestamp_def abs_le_iff)
  moreover have "case nonces (rn_ProviderId r) of None \<Rightarrow> True | Some n \<Rightarrow> n < rn_Nonce r"
    using renewal_Accept_accepted(2) [OF acc] by (simp split: option.split)
  ultimately show ?thesis
    using ca cert p rr(2) checks(2) renewal_Accept_accepted(1) [OF acc] IssueLeaf_issued [OF issue] rsp by auto
qed

definition sample_ca :: CA where
  "sample_ca = \<lparr>ca_sign = (\<lambda>_. Some [9]), ca_check = (\<lambda>cert. crt_Signature cert = [9]), ca_check_self = (\<lambda>_. False), ca_pem = CommonName\<rparr>"

definition sample_leaf :: Certificate where
  "sample_leaf = leafCertificate sample_id (replicate 32 4) 12 0 DefaultLeafTTL [9]"

definition sample_renewal :: RenewCertificateRequest where
  "sample_renewal = \<lparr>rn_RequestId = ''renew'', rn_ProviderId = sample_id, rn_NewTlsPublicKey = replicate 32 6,
     rn_CurrentCertificateSerial = ''12'', rn_Timestamp = Some (9 * second), rn_Nonce = 3,
     rn_Signature = take 64 (renewalSigningPayload (replicate 32 6) ''12'' (9 * second) 3)\<rparr>"

definition sample_renewal_env :: renewal_env where
  "sample_renewal_env = \<lparr>rv_now = 10 * second, rv_peer_now = 10 * second, rv_peer = Some sample_leaf,
     rv_identity = sample_call '''' 0, rv_nonces = Some \<lparr>rd_up = True, rd_now = 0\<rparr>, rv_ca = Some sample_ca, rv_rand = Some 13\<rparr>"

definition sample_renewed :: "(join_status + RenewCertificateResponse) \<times> nonce_store" where
  "sample_renewed = RenewCertificate sample_join sample_renewal_env sample_activated (\<lambda>_. None) (Some sample_renewal)"

theorem RenewCertificate_sound_witness:
  "\<not> isl (fst sample_renewed) \<and> crt_PublicKey (rnr_certificate (projr (fst sample_renewed))) = replicate 32 6 \<and>
   snd sample_renewed sample_id = Some 3"
proof -
  have ok: "\<not> isl (fst sample_renewed)" by code_simp
  then obtain rsp where rsp: "fst sample_renewed = Inr rsp" by (metis sum.collapse(2))
  have "RenewCertificate sample_join sample_renewal_env sample_activated (\<lambda>_. None) (Some sample_renewal) = (Inr rsp, snd sample_renewed)"
    unfolding sample_renewed_def [symmetric] by (rule prod_eqI) (simp_all add: rsp)
  from RenewCertificate_sound [OF this] show ?thesis using ok rsp by (auto simp: sample_renewal_def)
qed

section \<open>Revocation cuts a provider off\<close>

lemma addAll_reachable:
  assumes "\<And>i. rd_up (call i)"
  shows "addAll call i ids revoked = revoked \<union> set ids"
  by (induction ids arbitrary: i revoked) (auto simp: revocation_Add_def assms)

lemma addAll_grows: "revoked \<subseteq> addAll call i ids revoked"
proof (induction ids arbitrary: i revoked)
  case (Cons pid ids)
  have "revoked \<subseteq> snd (revocation_Add (call i) revoked pid)" by (auto simp: revocation_Add_def)
  also have "\<dots> \<subseteq> addAll call (Suc i) ids \<dots>" by (rule Cons.IH)
  finally show ?case by simp
qed simp

lemma sweep_grows: "revoked \<subseteq> revocation_reconcileOnce c call s revoked"
  by (simp add: revocation_reconcileOnce_def addAll_grows split: sum.split)

text \<open>
  C36. Once a sweep of the revocation reconciler has reached both stores, and whatever further
  sweeps do, a provider that was revoked then cannot use a leaf of the authority: the handshake
  refuses it, and on a connection that is already open every call is refused, whether or not the
  revocation store can still be reached. With no valid leaf it can call only BeginJoin and
  CompleteJoin.
\<close>

theorem revoked_provider_cut_off:
  assumes "db_up c" and "\<And>i. rd_up (call i)" and "p \<in> set (js_providers s)" and "pv_status p = NODE_REVOKED"
    and "CommonName cert = pv_id p"
    and "revoked = fold (\<lambda>(c, call, s) rs. revocation_reconcileOnce c call s rs) sweeps (revocation_reconcileOnce c call s revoked0)"
  shows "(ChainVerified ca cert now \<longrightarrow> isl (ClientCertVerifier ca (Some (IsRevoked rd revoked)) now (Some cert # certs))) \<and>
    (ChainVerified ca cert now \<or> \<not> bootstrapAllowedMethods (methodSuffix m) \<longrightarrow>
       isl (UnaryServerInterceptor ca (Some (IsRevoked rd revoked)) now (Some cert) m handler))"
proof -
  have "pv_id p \<in> revocation_reconcileOnce c call s revoked0"
    using assms(1,3,4) by (auto simp: revocation_reconcileOnce_def ListRevokedProviderIDs_def addAll_reachable [OF assms(2)])
  moreover have "rs \<subseteq> fold (\<lambda>(c, call, s) rs. revocation_reconcileOnce c call s rs) sweeps rs" for rs
  proof (induction sweeps arbitrary: rs)
    case (Cons x xs)
    obtain c call s where x: "x = (c, call, s)" by (cases x)
    from sweep_grows [of rs c call s] Cons.IH [of "revocation_reconcileOnce c call s rs"] show ?case by (simp add: x)
  qed simp
  ultimately have "pv_id p \<in> revoked" unfolding assms(6) by blast
  then have "IsRevoked rd revoked (pv_id p) = Some True \<or> IsRevoked rd revoked (pv_id p) = None" by (simp add: IsRevoked_def)
  then show ?thesis
    using assms(5)
    by (auto simp: ClientCertVerifier_def UnaryServerInterceptor_def PeerIdentity_def IdentityFromCertificate_def)
qed

theorem revoked_provider_cut_off_witness:
  "ChainVerified sample_ca sample_leaf second \<and>
   isl (UnaryServerInterceptor sample_ca
     (Some (IsRevoked \<lparr>rd_up = True, rd_now = 0\<rparr> (revocation_reconcileOnce (sample_call '''' 0) (\<lambda>_. \<lparr>rd_up = True, rd_now = 0\<rparr>) sample_revoked {})))
     second (Some sample_leaf) ''/openinfra.controlplane.v1.ControlPlaneService/ReportHeartbeat'' (Inr ()))"
proof -
  let ?c = "sample_call '''' 0" and ?rd = "\<lparr>rd_up = True, rd_now = 0\<rparr>"
  let ?call = "\<lambda>_ :: nat. ?rd"
  have chain: "ChainVerified sample_ca sample_leaf second" by code_simp
  have row: "js_providers sample_revoked \<noteq> [] \<and> pv_status (hd (js_providers sample_revoked)) = NODE_REVOKED \<and>
    CommonName sample_leaf = pv_id (hd (js_providers sample_revoked))" by code_simp
  then have "hd (js_providers sample_revoked) \<in> set (js_providers sample_revoked)" by simp
  note cut = revoked_provider_cut_off [where c = ?c and call = ?call and sweeps = "[]" and cert = sample_leaf and ?revoked0.0 = "{}",
      OF _ _ this _ _ refl, of sample_ca second ?rd "[]" "''/openinfra.controlplane.v1.ControlPlaneService/ReportHeartbeat''" "Inr ()"]
  have up: "db_up ?c" "\<And>i. rd_up (?call i)" by (simp_all add: sample_call_def)
  from cut [OF up] row chain show ?thesis by simp
qed

end
