(* ===== verification/Scale.thy ===== *)
theory Scale
  imports Byte_Codec
begin

text \<open>
  The SCALE encoding \<^verbatim>\<open>control-plane/internal/blockchainbridge\<close> writes and reads: little-endian
  words, compact integers (\<^verbatim>\<open>compactUint\<close> of registrar.go, \<^verbatim>\<open>decodeCompactUint\<close> of
  networkvalidator.go) and length-prefixed bytes. Each interprets the contract of an encoding.
\<close>

section \<open>Little-endian words\<close>

definition put_le16 :: "16 word \<Rightarrow> bytes" where
  "put_le16 v = [ucast v, ucast (drop_bit 8 v)]"

definition put_le32 :: "u32 \<Rightarrow> bytes" where
  "put_le32 v = [ucast v, ucast (drop_bit 8 v), ucast (drop_bit 16 v), ucast (drop_bit 24 v)]"

definition put_le64 :: "u64 \<Rightarrow> bytes" where
  "put_le64 v =
     [ucast v, ucast (drop_bit 8 v), ucast (drop_bit 16 v), ucast (drop_bit 24 v),
      ucast (drop_bit 32 v), ucast (drop_bit 40 v), ucast (drop_bit 48 v), ucast (drop_bit 56 v)]"

text \<open>\<^verbatim>\<open>binary.LittleEndian\<close>'s readers as one fold: the value of bytes, least significant first.\<close>

definition le_value :: "bytes \<Rightarrow> 'a::len word" where
  "le_value bs = foldr (\<lambda>b acc. push_bit 8 acc OR ucast b) bs 0"

definition get_fixed :: "nat \<Rightarrow> bytes \<Rightarrow> (bytes \<times> bytes) option" where
  "get_fixed n bs = (if length bs < n then None else Some (take n bs, drop n bs))"

definition get_le16 :: "bytes \<Rightarrow> (16 word \<times> bytes) option" where
  "get_le16 bs = map_option (apfst le_value) (get_fixed 2 bs)"

definition get_le32 :: "bytes \<Rightarrow> (u32 \<times> bytes) option" where
  "get_le32 bs = map_option (apfst le_value) (get_fixed 4 bs)"

definition get_le64 :: "bytes \<Rightarrow> (u64 \<times> bytes) option" where
  "get_le64 bs = map_option (apfst le_value) (get_fixed 8 bs)"

lemma length_put_le [simp]: "length (put_le16 a) = 2" "length (put_le32 b) = 4" "length (put_le64 c) = 8"
  by (simp_all add: put_le16_def put_le32_def put_le64_def)

lemma le_value_Nil [simp]: "le_value [] = 0"
  by (simp add: le_value_def)

lemma le_value_Cons [simp]: "le_value (b # bs) = push_bit 8 (le_value bs) OR ucast b"
  by (simp add: le_value_def)

lemma put_le_lanes:
  "put_le16 u = [lane 0 u, lane 8 u]" "put_le32 v = [lane 0 v, lane 8 v, lane 16 v, lane 24 v]"
  "put_le64 w = [lane 0 w, lane 8 w, lane 16 w, lane 24 w, lane 32 w, lane 40 w, lane 48 w, lane 56 w]"
  by (simp_all add: put_le16_def put_le32_def put_le64_def lane_def)

lemma le_value_16: "le_value (put_le16 v) = v"
proof -
  have "le_value (put_le16 v) = push_bit 8 (ucast (lane 8 v)) OR push_bit 0 (ucast (lane 0 v))"
    by (simp add: put_le_lanes push_bit_or)
  also have "\<dots> = v" by (rule bit_word_eqI) (auto simp only: join_lanes)
  finally show ?thesis .
qed

lemma le_value_32: "le_value (put_le32 v) = v"
proof -
  have "le_value (put_le32 v) = push_bit 24 (ucast (lane 24 v)) OR push_bit 16 (ucast (lane 16 v)) OR
      push_bit 8 (ucast (lane 8 v)) OR push_bit 0 (ucast (lane 0 v))"
    by (simp add: put_le_lanes push_bit_or or.assoc)
  also have "\<dots> = v" by (rule lanes_u32)
  finally show ?thesis .
qed

lemma le_value_64: "le_value (put_le64 v) = v"
proof -
  have "le_value (put_le64 v) = push_bit 56 (ucast (lane 56 v)) OR push_bit 48 (ucast (lane 48 v)) OR
      push_bit 40 (ucast (lane 40 v)) OR push_bit 32 (ucast (lane 32 v)) OR push_bit 24 (ucast (lane 24 v)) OR
      push_bit 16 (ucast (lane 16 v)) OR push_bit 8 (ucast (lane 8 v)) OR push_bit 0 (ucast (lane 0 v))"
    by (simp add: put_le_lanes push_bit_or or.assoc)
  also have "\<dots> = v" by (rule lanes_u64)
  finally show ?thesis .
qed

lemma get_fixed_append [simp]: "length bs = n \<Longrightarrow> get_fixed n (bs @ rest) = Some (bs, rest)"
  by (simp add: get_fixed_def)

interpretation u16le: codec put_le16 get_le16 "\<lambda>_. True"
  by unfold_locales (simp add: get_le16_def le_value_16)

interpretation u32le: codec put_le32 get_le32 "\<lambda>_. True"
  by unfold_locales (simp add: get_le32_def le_value_32)

interpretation u64le: codec put_le64 get_le64 "\<lambda>_. True"
  by unfold_locales (simp add: get_le64_def le_value_64)

text \<open>A fixed-width array is its own encoding.\<close>

interpretation account: codec "\<lambda>a. a" "get_fixed 32" "\<lambda>a. length a = 32"
  by unfold_locales simp

section \<open>Compact integers\<close>

fun compactLength :: "bytes \<Rightarrow> nat \<Rightarrow> nat" where
  "compactLength bs n = (if n > 4 \<and> bs ! (n - 1) = 0 then compactLength bs (n - 1) else n)"

declare compactLength.simps [simp del]

definition compactUint :: "u64 \<Rightarrow> bytes" where
  "compactUint v =
     (if v < 2 ^ 6 then [ucast (push_bit 2 v)]
      else if v < 2 ^ 14
      then (let encoded = (ucast (push_bit 2 v) :: 16 word) OR 1 in [ucast encoded, ucast (drop_bit 8 encoded)])
      else if v < 2 ^ 30
      then (let encoded = (ucast (push_bit 2 v) :: u32) OR 2 in
            [ucast encoded, ucast (drop_bit 8 encoded), ucast (drop_bit 16 encoded), ucast (drop_bit 24 encoded)])
      else (let bs = put_le64 v; n = compactLength bs 8 in
            (push_bit 2 (word_of_nat (n - 4)) OR 3) # take n bs))"

text \<open>The error is the message of the source; the number is how many bytes were read.\<close>

definition decodeCompactUint :: "bytes \<Rightarrow> string + u64 \<times> nat" where
  "decodeCompactUint data =
     (case data of
        [] \<Rightarrow> Inl ''compact integer: empty input''
      | b # _ \<Rightarrow>
          if b AND 3 = 0 then Inr (ucast (drop_bit 2 b), 1)
          else if b AND 3 = 1
          then if length data < 2 then Inl ''compact integer: truncated two-byte mode''
               else Inr (drop_bit 2 (ucast (le_value (take 2 data) :: 16 word)), 2)
          else if b AND 3 = 2
          then if length data < 4 then Inl ''compact integer: truncated four-byte mode''
               else Inr (drop_bit 2 (ucast (le_value (take 4 data) :: u32)), 4)
          else (let n = unat (drop_bit 2 b) + 4 in
                if length data < 1 + n then Inl ''compact integer: truncated big-integer mode''
                else Inr (le_value (take n (drop 1 data)), 1 + n)))"

lemma bit_less_pow: "unat (v :: u64) < 2 ^ k \<Longrightarrow> bit v n \<Longrightarrow> n < k"
proof (rule ccontr)
  assume v: "unat v < 2 ^ k" "bit v n" "\<not> n < k"
  then have "bit (unat v) n" by (simp add: bit_unsigned_iff)
  then have "odd (unat v div 2 ^ n)" by (simp add: bit_iff_odd)
  then have "2 ^ n \<le> unat v" by (metis div_less even_zero not_le)
  moreover have "(2::nat) ^ k \<le> 2 ^ n" using v(3) by (intro power_increasing) auto
  ultimately show False using v(1) by linarith
qed

lemma mask_3: "(3 :: byte) = mask 2"
  by (simp add: mask_eq_exp_minus_1)

lemma compact_one:
  assumes "unat (v :: u64) < 2 ^ 6"
  shows "(ucast (push_bit 2 v) :: byte) AND 3 = 0" and "ucast (drop_bit 2 (ucast (push_bit 2 v) :: byte)) = v"
proof -
  show "(ucast (push_bit 2 v) :: byte) AND 3 = 0"
    unfolding mask_3 by (rule bit_word_eqI) (auto simp: bit_simps)
  show "ucast (drop_bit 2 (ucast (push_bit 2 v) :: byte)) = v"
  proof (rule bit_word_eqI)
    fix n
    show "bit (ucast (drop_bit 2 (ucast (push_bit 2 v) :: byte)) :: u64) n \<longleftrightarrow> bit v n"
      using bit_less_pow [OF assms, of n] by (auto simp: bit_simps)
  qed
qed

lemma compact_two:
  assumes "unat (v :: u64) < 2 ^ 14" and "e = (ucast (push_bit 2 v) :: 16 word) OR 1"
  shows "(ucast e :: byte) AND 3 = 1" and "drop_bit 2 (ucast e) = v"
proof -
  show "(ucast e :: byte) AND 3 = 1"
    unfolding mask_3 assms(2) by (rule bit_word_eqI) (auto simp: bit_simps bit_1_iff)
  show "drop_bit 2 (ucast e) = v"
  proof (rule bit_word_eqI)
    fix n
    show "bit (drop_bit 2 (ucast e) :: u64) n \<longleftrightarrow> bit v n"
      unfolding assms(2) using bit_less_pow [OF assms(1), of n] by (auto simp: bit_simps bit_1_iff)
  qed
qed

lemma compact_four:
  assumes "unat (v :: u64) < 2 ^ 30" and "e = (ucast (push_bit 2 v) :: u32) OR 2"
  shows "(ucast e :: byte) AND 3 = 2" and "drop_bit 2 (ucast e) = v"
proof -
  have two: "(2 :: 'w::len word) = push_bit 1 1" by simp
  show "(ucast e :: byte) AND 3 = 2"
    unfolding mask_3 assms(2) two by (rule bit_word_eqI) (auto simp: bit_simps bit_1_iff)
  show "drop_bit 2 (ucast e) = v"
  proof (rule bit_word_eqI)
    fix n
    show "bit (drop_bit 2 (ucast e) :: u64) n \<longleftrightarrow> bit v n"
      unfolding assms(2) two using bit_less_pow [OF assms(1), of n] by (auto simp: bit_simps bit_1_iff)
  qed
qed

lemma compactLength_range: "n \<le> 8 \<Longrightarrow> 4 \<le> n \<Longrightarrow> 4 \<le> compactLength bs n \<and> compactLength bs n \<le> n"
proof (induction bs n rule: compactLength.induct)
  case (1 bs n)
  show ?case
  proof (cases "n > 4 \<and> bs ! (n - 1) = 0")
    case True
    then have "n - 1 \<le> 8" "4 \<le> n - 1" using "1.prems" by linarith+
    from "1.IH" [OF True this] have "4 \<le> compactLength bs (n - 1) \<and> compactLength bs (n - 1) \<le> n - 1" .
    moreover have "compactLength bs n = compactLength bs (n - 1)" using True by (simp add: compactLength.simps [of bs n])
    ultimately show ?thesis by linarith
  next
    case False
    then have "compactLength bs n = n" by (subst compactLength.simps) auto
    with "1.prems" show ?thesis by simp
  qed
qed

lemma le_value_zeros:
  assumes "list_all (\<lambda>b. b = 0) zs"
  shows "(le_value (bs @ zs) :: 'a::len word) = le_value bs"
proof -
  have "(le_value zs :: 'a word) = 0" using assms by (induction zs) simp_all
  then show ?thesis by (induction bs) simp_all
qed

lemma compactLength_zeros:
  "n \<le> length bs \<Longrightarrow> list_all (\<lambda>b. b = 0) (drop n bs) \<Longrightarrow> list_all (\<lambda>b. b = 0) (drop (compactLength bs n) bs)"
proof (induction bs n rule: compactLength.induct)
  case (1 bs n)
  show ?case
  proof (cases "n > 4 \<and> bs ! (n - 1) = 0")
    case True
    then have "drop (n - 1) bs = bs ! (n - 1) # drop n bs"
      using "1.prems"(1) Cons_nth_drop_Suc [of "n - 1" bs] by fastforce
    with True "1.prems"(2) have zeros: "list_all (\<lambda>b. b = 0) (drop (n - 1) bs)" by simp
    have "n - 1 \<le> length bs" using "1.prems"(1) by simp
    from "1.IH" [OF True this zeros] show ?thesis using True by (subst compactLength.simps) simp
  next
    case False
    then have "compactLength bs n = n" by (subst compactLength.simps) auto
    with "1.prems" show ?thesis by simp
  qed
qed

lemma compact_big:
  assumes "n = compactLength (put_le64 v) 8"
  shows "(push_bit 2 (word_of_nat (n - 4)) OR 3 :: byte) AND 3 = 3" and "unat (drop_bit 2 (push_bit 2 (word_of_nat (n - 4)) OR 3 :: byte)) + 4 = n"
    and "n \<le> 8" and "le_value (take n (put_le64 v)) = v"
proof -
  have range: "4 \<le> n" "n \<le> 8" using compactLength_range [of 8 "put_le64 v"] assms by simp_all
  then have "n \<in> {4, 5, 6, 7, 8}" by auto
  then show "(push_bit 2 (word_of_nat (n - 4)) OR 3 :: byte) AND 3 = 3"
    "unat (drop_bit 2 (push_bit 2 (word_of_nat (n - 4)) OR 3 :: byte)) + 4 = n" by auto
  show "n \<le> 8" by (rule range)
  have "list_all (\<lambda>b. b = 0) (drop n (put_le64 v))"
    unfolding assms by (rule compactLength_zeros) simp_all
  then have "le_value (take n (put_le64 v) @ drop n (put_le64 v)) = (le_value (take n (put_le64 v)) :: u64)"
    by (rule le_value_zeros)
  then show "le_value (take n (put_le64 v)) = v" by (simp add: le_value_64)
qed

text \<open>A compact integer followed by anything is read back with its own length.\<close>

lemma decodeCompactUint_compactUint:
  "decodeCompactUint (compactUint v @ rest) = Inr (v, length (compactUint v))"
proof -
  have le: "v < 64 \<longleftrightarrow> unat v < 64" "v < 16384 \<longleftrightarrow> unat v < 16384" "v < 1073741824 \<longleftrightarrow> unat v < 1073741824"
    by (simp_all add: word_less_nat_alt)
  consider "unat v < 2 ^ 6" | "\<not> unat v < 2 ^ 6" "unat v < 2 ^ 14" | "\<not> unat v < 2 ^ 14" "unat v < 2 ^ 30" | "\<not> unat v < 2 ^ 30"
    by blast
  then show ?thesis
  proof cases
    case 1
    then have "compactUint v = [ucast (push_bit 2 v)]" by (simp add: compactUint_def le)
    with compact_one [OF 1] show ?thesis by (simp add: decodeCompactUint_def)
  next
    case 2
    define e where "e = (ucast (push_bit 2 v) :: 16 word) OR 1"
    have enc: "compactUint v = put_le16 e" using 2 by (simp add: compactUint_def le e_def put_le16_def Let_def)
    have "decodeCompactUint (put_le16 e @ rest) = Inr (drop_bit 2 (ucast e), 2)"
      using compact_two(1) [OF 2(2) e_def] le_value_16 [of e] by (simp add: decodeCompactUint_def put_le16_def)
    with compact_two(2) [OF 2(2) e_def] enc show ?thesis by simp
  next
    case 3
    then have "\<not> unat v < 2 ^ 6" by simp
    define e where "e = (ucast (push_bit 2 v) :: u32) OR 2"
    have enc: "compactUint v = put_le32 e"
      using 3 \<open>\<not> unat v < 2 ^ 6\<close> by (simp add: compactUint_def le e_def put_le32_def Let_def)
    have "decodeCompactUint (put_le32 e @ rest) = Inr (drop_bit 2 (ucast e), 4)"
      using compact_four(1) [OF 3(2) e_def] le_value_32 [of e] by (simp add: decodeCompactUint_def put_le32_def)
    with compact_four(2) [OF 3(2) e_def] enc show ?thesis by simp
  next
    case 4
    then have "\<not> unat v < 2 ^ 6" "\<not> unat v < 2 ^ 14" by simp_all
    define n where "n = compactLength (put_le64 v) 8"
    note big = compact_big [OF n_def]
    define h :: byte where "h = push_bit 2 (word_of_nat (n - 4)) OR 3"
    have enc: "compactUint v = h # take n (put_le64 v)"
      using 4 \<open>\<not> unat v < 2 ^ 6\<close> \<open>\<not> unat v < 2 ^ 14\<close> by (simp add: compactUint_def le n_def h_def Let_def)
    show ?thesis unfolding enc using big(3,4) big(1,2) [folded h_def] by (simp add: decodeCompactUint_def Let_def)
  qed
qed

definition get_compact :: "bytes \<Rightarrow> (u64 \<times> bytes) option" where
  "get_compact bs = (case decodeCompactUint bs of Inl _ \<Rightarrow> None | Inr (v, n) \<Rightarrow> Some (v, drop n bs))"

interpretation compact: codec compactUint get_compact "\<lambda>_. True"
  by unfold_locales (simp add: get_compact_def decodeCompactUint_compactUint)

section \<open>Bounded bytes\<close>

definition encodeBoundedBytes :: "bytes \<Rightarrow> bytes" where
  "encodeBoundedBytes value = compactUint (word_of_nat (length value)) @ value"

definition get_bounded :: "bytes \<Rightarrow> (bytes \<times> bytes) option" where
  "get_bounded bs =
     (case get_compact bs of
        None \<Rightarrow> None
      | Some (n, rest) \<Rightarrow> if length rest < unat n then None else Some (take (unat n) rest, drop (unat n) rest))"

interpretation bounded: codec encodeBoundedBytes get_bounded "\<lambda>v. length v < 2 ^ 64"
proof
  fix v rest :: bytes
  assume v: "length v < 2 ^ 64"
  have "unat (word_of_nat (length v) :: u64) = length v" using v by (simp add: unat_of_nat)
  then show "get_bounded (encodeBoundedBytes v @ rest) = Some (v, rest)"
    by (simp add: get_bounded_def encodeBoundedBytes_def compact.dec_enc)
qed

section \<open>Slices\<close>

text \<open>\<^verbatim>\<open>data[a:b]\<close> within bounds.\<close>

definition slice :: "nat \<Rightarrow> nat \<Rightarrow> 'a list \<Rightarrow> 'a list" where
  "slice a b xs = take (b - a) (drop a xs)"

lemma slice_append [simp]: "a = length xs \<Longrightarrow> b = a + length ys \<Longrightarrow> slice a b (xs @ ys @ zs) = ys"
  by (simp add: slice_def)

lemma slice_all [simp]: "b = length xs \<Longrightarrow> slice 0 b (xs @ ys) = xs"
  by (simp add: slice_def)

lemma length_slice [simp]: "b \<le> length xs \<Longrightarrow> length (slice a b xs) = b - a"
  by (simp add: slice_def)

lemma slice_skip: "length xs \<le> a \<Longrightarrow> slice a b (xs @ ys) = slice (a - length xs) (b - length xs) ys"
  by (simp add: slice_def)

end
