(* ===== verification/Chain_Codec.thy ===== *)
theory Chain_Codec
  imports Scale Agent_Manager
begin

text \<open>
  What \<^verbatim>\<open>control-plane/internal/blockchainbridge\<close> reads from finalized storage and writes as
  calls: hexadecimal values (rpc.go), storage keys, the decoders of every pallet's records
  (reputation.go, availability.go, rewards.go, evidence.go, networkvalidator.go,
  networkvalidatorregistrar.go, roundresult.go, resourcemarket.go, providerregistry.go) and the
  encoders of the calls (registrar.go, balances.go). The hash functions of the keys are
  parameters. A decoder returns the message of the source, or \<open>Panics\<close> where the Go code would
  panic.
\<close>

datatype codec_error = Malformed string | Panics

record chain_hashes =
  blake2b_128 :: "bytes \<Rightarrow> bytes"
  blake2b_256 :: "bytes \<Rightarrow> bytes"
  xxh64 :: "bytes \<Rightarrow> u64 \<Rightarrow> u64"

section \<open>Hexadecimal values\<close>

definition decodeHex :: "string \<Rightarrow> string + bytes" where
  "decodeHex value =
     (if length value < 2 \<or> take 2 value \<noteq> ''0x'' then Inl ''hex value must start with 0x''
      else if length value mod 2 \<noteq> 0 then Inl ''hex value has odd length''
      else case hex_decode (drop 2 value) of None \<Rightarrow> Inl ''invalid hexadecimal'' | Some bs \<Rightarrow> Inr bs)"

definition hex0x :: "bytes \<Rightarrow> string" where "hex0x bs = ''0x'' @ hex_encode bs"

definition fixedHash :: "string \<Rightarrow> string + bytes" where
  "fixedHash value =
     (case decodeHex value of
        Inr decoded \<Rightarrow> if length decoded = 32 then Inr decoded else Inl ''expected a 32-byte hexadecimal hash''
      | Inl _ \<Rightarrow> Inl ''expected a 32-byte hexadecimal hash'')"

definition equal32 :: "bytes \<Rightarrow> bytes \<Rightarrow> bool" where
  "equal32 left right =
     (if length left \<noteq> 32 \<or> length right \<noteq> 32 then False
      else fold (\<lambda>i different. different OR (left ! i XOR right ! i)) [0..<32] 0 = 0)"

record Header =
  ParentHash :: string
  hd_Number :: string
  StateRoot :: string
  ExtrinsicsRoot :: string

fun hex_number :: "nat \<Rightarrow> string \<Rightarrow> nat option" where
  "hex_number acc [] = Some acc"
| "hex_number acc (c # cs) = (case hex_value c of None \<Rightarrow> None | Some d \<Rightarrow> hex_number (acc * 16 + d) cs)"

definition BlockNumber :: "Header \<Rightarrow> string + u64" where
  "BlockNumber h =
     (if length (hd_Number h) < 3 \<or> take 2 (hd_Number h) \<noteq> ''0x'' then Inl ''invalid Substrate block number''
      else case hex_number 0 (drop 2 (hd_Number h)) of
        None \<Rightarrow> Inl ''parse Substrate block number''
      | Some n \<Rightarrow> if n < 2 ^ 64 then Inr (word_of_nat n) else Inl ''parse Substrate block number'')"

section \<open>Storage keys\<close>

definition twox128 :: "chain_hashes \<Rightarrow> string \<Rightarrow> bytes" where
  "twox128 h value = put_le64 (xxh64 h (bytes_of value) 0) @ put_le64 (xxh64 h (bytes_of value) 1)"

definition twox64 :: "chain_hashes \<Rightarrow> bytes \<Rightarrow> bytes" where
  "twox64 h value = put_le64 (xxh64 h value 0)"

definition mapStorageKey :: "chain_hashes \<Rightarrow> string \<Rightarrow> string \<Rightarrow> bytes \<Rightarrow> string" where
  "mapStorageKey h pallet item keyValue =
     hex0x (twox128 h pallet @ twox128 h item @ blake2b_128 h keyValue @ keyValue)"

definition providerStorageKey :: "chain_hashes \<Rightarrow> bytes \<Rightarrow> string" where
  "providerStorageKey h provider = mapStorageKey h ''ProviderRegistry'' ''Providers'' provider"

definition accountStorageKey :: "chain_hashes \<Rightarrow> bytes \<Rightarrow> string" where
  "accountStorageKey h acct = mapStorageKey h ''System'' ''Account'' acct"

definition leaseStorageKey :: "chain_hashes \<Rightarrow> u64 \<Rightarrow> string" where
  "leaseStorageKey h leaseID = mapStorageKey h ''Lease'' ''Leases'' (put_le64 leaseID)"

definition reputationVectorStorageKey :: "chain_hashes \<Rightarrow> bytes \<Rightarrow> string" where
  "reputationVectorStorageKey h provider = mapStorageKey h ''Reputation'' ''ReputationVectors'' provider"

definition latestProofStorageKey :: "chain_hashes \<Rightarrow> bytes \<Rightarrow> string" where
  "latestProofStorageKey h provider = mapStorageKey h ''Availability'' ''LatestProof'' provider"

definition rewardBalanceStorageKey :: "chain_hashes \<Rightarrow> bytes \<Rightarrow> string" where
  "rewardBalanceStorageKey h provider = mapStorageKey h ''Rewards'' ''RewardBalances'' provider"

definition resourceMarketOfferStorageKey :: "chain_hashes \<Rightarrow> bytes \<Rightarrow> string" where
  "resourceMarketOfferStorageKey h provider = mapStorageKey h ''ResourceMarket'' ''Offers'' provider"

definition validatorStorageKey :: "chain_hashes \<Rightarrow> bytes \<Rightarrow> string" where
  "validatorStorageKey h acct = mapStorageKey h ''NetworkValidator'' ''Validators'' acct"

definition networkValidatorStorageKey :: "chain_hashes \<Rightarrow> string \<Rightarrow> string" where
  "networkValidatorStorageKey h item = hex0x (twox128 h ''NetworkValidator'' @ twox128 h item)"

datatype ScoreDimension = DimensionCompute | DimensionStorage | DimensionNetwork | DimensionAvailability | DimensionReliability

fun dimension_byte :: "ScoreDimension \<Rightarrow> byte" where
  "dimension_byte DimensionCompute = 0"
| "dimension_byte DimensionStorage = 1"
| "dimension_byte DimensionNetwork = 2"
| "dimension_byte DimensionAvailability = 3"
| "dimension_byte DimensionReliability = 4"

fun dimension_String :: "ScoreDimension \<Rightarrow> string" where
  "dimension_String DimensionCompute = ''compute''"
| "dimension_String DimensionStorage = ''storage''"
| "dimension_String DimensionNetwork = ''network''"
| "dimension_String DimensionAvailability = ''availability''"
| "dimension_String DimensionReliability = ''reliability''"

definition ParseScoreDimension :: "string \<Rightarrow> ScoreDimension option" where
  "ParseScoreDimension name =
     (if name = ''compute'' then Some DimensionCompute
      else if name = ''storage'' then Some DimensionStorage
      else if name = ''network'' then Some DimensionNetwork
      else if name = ''availability'' then Some DimensionAvailability
      else if name = ''reliability'' then Some DimensionReliability
      else None)"

definition networkValidatorRoundKey :: "chain_hashes \<Rightarrow> string \<Rightarrow> bytes \<Rightarrow> u64 \<Rightarrow> ScoreDimension \<Rightarrow> string" where
  "networkValidatorRoundKey h item provider rnd dimension =
     hex0x (twox128 h ''NetworkValidator'' @ twox128 h item @ blake2b_128 h provider @ provider @
       twox64 h (put_le64 rnd) @ put_le64 rnd @ twox64 h [dimension_byte dimension] @ [dimension_byte dimension])"

definition roundResultStorageKey :: "chain_hashes \<Rightarrow> bytes \<Rightarrow> u64 \<Rightarrow> ScoreDimension \<Rightarrow> string" where
  "roundResultStorageKey h = networkValidatorRoundKey h ''Rounds''"

definition evidenceStorageKey :: "chain_hashes \<Rightarrow> bytes \<Rightarrow> u64 \<Rightarrow> ScoreDimension \<Rightarrow> string" where
  "evidenceStorageKey h = networkValidatorRoundKey h ''Evidence''"

definition providerRegistryKeysPrefix :: "chain_hashes \<Rightarrow> string" where
  "providerRegistryKeysPrefix h = hex0x (twox128 h ''ProviderRegistry'' @ twox128 h ''Providers'')"

definition decodeProviderAccountFromKey :: "string \<Rightarrow> string + bytes" where
  "decodeProviderAccountFromKey key =
     (case decodeHex key of
        Inl e \<Rightarrow> Inl (''decode provider registry key: '' @ e)
      | Inr decoded \<Rightarrow>
          if length decoded \<noteq> 32 + (16 + 32) then Inl ''provider registry key has an unexpected length''
          else Inr (drop (32 + 16) decoded))"

section \<open>Records in storage\<close>

record ChainReputationVector =
  cv_Compute :: u32
  cv_Storage :: u32
  cv_Network :: u32
  cv_Availability :: u32
  cv_Reliability :: u32
  cv_Global :: u32

definition decodeReputationVector :: "bytes \<Rightarrow> string + ChainReputationVector" where
  "decodeReputationVector data =
     (if length data \<noteq> 6 * 4 then Inl ''reputation vector has an unexpected encoded length''
      else Inr \<lparr>cv_Compute = le_value (slice 0 4 data), cv_Storage = le_value (slice 4 8 data),
                cv_Network = le_value (slice 8 12 data), cv_Availability = le_value (slice 12 16 data),
                cv_Reliability = le_value (slice 16 20 data), cv_Global = le_value (slice 20 24 data)\<rparr>)"

record AvailabilitySummary =
  as_Sequence :: u64
  as_ObservedAt :: u32
  as_SuccessfulSamples :: u32
  as_TotalSamples :: u32
  as_AvailabilityBps :: "16 word"
  as_PayloadHash :: bytes
  as_Signature :: bytes

text \<open>\<open>uint64(start) + length\<close> is computed in 64 bits; the length is at most 96 by then.\<close>

definition decodeAvailabilitySummary :: "bytes \<Rightarrow> string + AvailabilitySummary" where
  "decodeAvailabilitySummary data =
     (if length data < 54 then Inl ''availability summary is shorter than its fixed fields''
      else case decodeCompactUint (drop 54 data) of
        Inl e \<Rightarrow> Inl e
      | Inr (len, prefixSize) \<Rightarrow>
          if len > 96 then Inl ''availability summary signature exceeds the pallet's bound''
          else if length data \<noteq> 54 + prefixSize + unat len then Inl ''availability summary has an unexpected encoded length''
          else Inr \<lparr>as_Sequence = le_value (slice 0 8 data), as_ObservedAt = le_value (slice 8 12 data),
                     as_SuccessfulSamples = le_value (slice 12 16 data), as_TotalSamples = le_value (slice 16 20 data),
                     as_AvailabilityBps = le_value (slice 20 22 data), as_PayloadHash = slice 22 54 data,
                     as_Signature = drop (54 + prefixSize) data\<rparr>)"

definition decodeRewardPoints :: "bytes \<Rightarrow> string + u64" where
  "decodeRewardPoints data =
     (if length data \<noteq> 8 then Inl ''reward points have an unexpected encoded length'' else Inr (le_value data))"

record chain_submission =
  sb_Validator :: bytes
  sb_ScoreBps :: "16 word"
  sb_SampleCount :: u32
  sb_PayloadHash :: bytes

definition submissionEncodedLength :: nat where "submissionEncodedLength = 32 + 2 + 4 + 32"

definition NetworkValidatorMaxSubmissionsPerRound :: u64 where "NetworkValidatorMaxSubmissionsPerRound = 32"

definition decodeSubmission :: "bytes \<Rightarrow> chain_submission" where
  "decodeSubmission element =
     \<lparr>sb_Validator = slice 0 32 element, sb_ScoreBps = le_value (slice 32 34 element),
      sb_SampleCount = le_value (slice 34 38 element), sb_PayloadHash = slice 38 70 element\<rparr>"

definition decodeSubmissions :: "bytes \<Rightarrow> string + chain_submission list" where
  "decodeSubmissions data =
     (case decodeCompactUint data of
        Inl e \<Rightarrow> Inl (''evidence vec length: '' @ e)
      | Inr (len, prefixLength) \<Rightarrow>
          if len > NetworkValidatorMaxSubmissionsPerRound
          then Inl ''evidence vec claims more submissions than the runtime bound allows''
          else let body = drop prefixLength data in
            if length body \<noteq> unat len * submissionEncodedLength then Inl ''evidence vec has an unexpected encoded length''
            else Inr (map (\<lambda>i. decodeSubmission (slice (i * submissionEncodedLength) ((i + 1) * submissionEncodedLength) body))
                        [0..<unat len]))"

text \<open>The product \<open>len * 32\<close> wraps at 64 bits; a len that passes although it does not fit makes
  the allocation of the result panic.\<close>

definition decodeAccountIdVec :: "bytes \<Rightarrow> codec_error + bytes list" where
  "decodeAccountIdVec data =
     (case decodeCompactUint data of
        Inl e \<Rightarrow> Inl (Malformed e)
      | Inr (len, offset) \<Rightarrow>
          if (word_of_nat (length data - offset) :: u64) \<noteq> len * 32
          then Inl (Malformed ''account id vector length does not match its prefix'')
          else if length data - offset \<noteq> unat len * 32 then Inl Panics
          else Inr (map (\<lambda>i. slice (offset + i * 32) (offset + (i + 1) * 32) data) [0..<unat len]))"

datatype ValidatorLifecycleStatus = ValidatorActive | ValidatorSuspended | ValidatorExiting

record ValidatorRecord =
  vr_Status :: ValidatorLifecycleStatus
  vr_AvailableAt :: u32
  vr_Stake :: u64
  vr_RegisteredAt :: u32

definition decodeValidatorTail :: "ValidatorLifecycleStatus \<Rightarrow> u32 \<Rightarrow> nat \<Rightarrow> bytes \<Rightarrow> string + ValidatorRecord" where
  "decodeValidatorTail status availableAt offset data =
     (if length data \<noteq> offset + 8 + 4 then Inl ''validator record has an unexpected encoded length''
      else Inr \<lparr>vr_Status = status, vr_AvailableAt = availableAt, vr_Stake = le_value (slice offset (offset + 8) data),
                vr_RegisteredAt = le_value (slice (offset + 8) (offset + 12) data)\<rparr>)"

definition decodeValidatorRecord :: "bytes \<Rightarrow> string + ValidatorRecord" where
  "decodeValidatorRecord data =
     (case data of
        [] \<Rightarrow> Inl ''validator record is empty''
      | b # _ \<Rightarrow>
          if b = 0 then decodeValidatorTail ValidatorActive 0 1 data
          else if b = 1 then decodeValidatorTail ValidatorSuspended 0 1 data
          else if b = 2
          then if length data < 5 then Inl ''validator record truncated in Exiting.available_at''
               else decodeValidatorTail ValidatorExiting (le_value (slice 1 5 data)) 5 data
          else Inl ''validator record has an unknown status variant'')"

datatype RoundStatus = RoundFinal | RoundDisputed | RoundDisputeUpheld | RoundDisputeRejected

record RoundResult =
  rr_ScoreBps :: "16 word"
  rr_PreviousScoreBps :: "16 word"
  rr_Submissions :: u32
  rr_CommitteeTarget :: u32
  rr_ClosedAt :: u32
  rr_Status :: RoundStatus

definition round_status :: "byte \<Rightarrow> RoundStatus option" where
  "round_status b =
     (if b = 0 then Some RoundFinal else if b = 1 then Some RoundDisputed else if b = 2 then Some RoundDisputeUpheld
      else if b = 3 then Some RoundDisputeRejected else None)"

definition decodeRoundResult :: "bytes \<Rightarrow> string + RoundResult" where
  "decodeRoundResult data =
     (if length data \<noteq> 2 + 2 + 4 + 4 + 4 + 1 then Inl ''round result has an unexpected encoded length''
      else case round_status (data ! 16) of
        None \<Rightarrow> Inl ''round result has an unknown status variant''
      | Some status \<Rightarrow>
          Inr \<lparr>rr_ScoreBps = le_value (slice 0 2 data), rr_PreviousScoreBps = le_value (slice 2 4 data),
               rr_Submissions = le_value (slice 4 8 data), rr_CommitteeTarget = le_value (slice 8 12 data),
               rr_ClosedAt = le_value (slice 12 16 data), rr_Status = status\<rparr>)"

definition ConfidenceBps :: "RoundResult \<Rightarrow> u32" where
  "ConfidenceBps r =
     (if rr_CommitteeTarget r = 0 then 0
      else let confidence = (ucast (rr_Submissions r) :: u64) * 10000 div ucast (rr_CommitteeTarget r) in
        ucast (if confidence > 10000 then 10000 else confidence))"

record ResourceOffer =
  of_CPUMillicores :: u32
  of_RAMMB :: u64
  of_StorageGB :: u64
  of_Capabilities :: bytes

text \<open>\<^verbatim>\<open>int(length)\<close> reads the 64-bit length as signed; a slice with its end before its start
  panics.\<close>

definition decodeResourceOffer :: "bytes \<Rightarrow> codec_error + ResourceOffer" where
  "decodeResourceOffer data =
     (if length data < 20 then Inl (Malformed ''resource offer is shorter than its fixed-size fields'')
      else case decodeCompactUint (drop 20 data) of
        Inl e \<Rightarrow> Inl (Malformed e)
      | Inr (len, offset) \<Rightarrow>
          let start = 20 + int offset; stop = i64 (start + sint len) in
          if stop > int (length data)
          then Inl (Malformed ''resource offer capabilities length exceeds the encoded value'')
          else if stop < start then Inl Panics
          else if stop \<noteq> int (length data)
          then Inl (Malformed ''resource offer has trailing bytes past its capabilities field'')
          else Inr \<lparr>of_CPUMillicores = le_value (slice 0 4 data), of_RAMMB = le_value (slice 4 12 data),
                     of_StorageGB = le_value (slice 12 20 data), of_Capabilities = slice (nat start) (nat stop) data\<rparr>)"

record FinalizedLease =
  fl_LeaseID :: u64
  fl_Provider :: bytes
  fl_Consumer :: bytes
  fl_ResourceHash :: bytes
  fl_Start :: u32
  fl_End :: u32
  fl_State :: byte
  fl_FinalizedBlockHash :: bytes
  fl_FinalizedBlockNumber :: u64

definition decodeLease :: "u64 \<Rightarrow> bytes \<Rightarrow> FinalizedLease" where
  "decodeLease leaseID value =
     \<lparr>fl_LeaseID = leaseID, fl_Provider = slice 0 32 value, fl_Consumer = slice 32 64 value,
      fl_ResourceHash = slice 64 96 value, fl_Start = le_value (slice 96 100 value), fl_End = le_value (slice 100 104 value),
      fl_State = value ! 104, fl_FinalizedBlockHash = [], fl_FinalizedBlockNumber = 0\<rparr>"

section \<open>Calls\<close>

definition createLeaseCall :: "u64 \<Rightarrow> bytes \<Rightarrow> bytes \<Rightarrow> u32 \<Rightarrow> bytes" where
  "createLeaseCall leaseID provider resourceHash duration =
     [12, 0] @ put_le64 leaseID @ provider @ resourceHash @ put_le32 duration"

definition updateLeaseStateCall :: "u64 \<Rightarrow> byte \<Rightarrow> bytes" where
  "updateLeaseStateCall leaseID state = [12, 1] @ put_le64 leaseID @ [state]"

definition sudoCall :: "bytes \<Rightarrow> bytes" where "sudoCall inner = [2, 0] @ inner"

definition registerForCall :: "bytes \<Rightarrow> bytes" where "registerForCall provider = [10, 2] @ provider @ provider"

definition statusCall :: "bytes \<Rightarrow> byte \<Rightarrow> bytes" where "statusCall provider status = [10, 1] @ provider @ [status]"

definition encodeTransferAllowDeathCall :: "bytes \<Rightarrow> u64 \<Rightarrow> bytes" where
  "encodeTransferAllowDeathCall dest amount = [3, 0, 0] @ dest @ compactUint amount"

definition registerValidatorCall :: "u64 \<Rightarrow> bytes" where "registerValidatorCall stake = [16, 0] @ put_le64 stake"

definition requestExitCall :: bytes where "requestExitCall = [16, 1]"

definition withdrawUnbondedCall :: bytes where "withdrawUnbondedCall = [16, 2]"

definition encodeSubmitEvidenceCall :: "bytes \<Rightarrow> u64 \<Rightarrow> ScoreDimension \<Rightarrow> 16 word \<Rightarrow> u32 \<Rightarrow> bytes \<Rightarrow> bytes" where
  "encodeSubmitEvidenceCall provider rnd dimension scoreBps sampleCount payloadHash =
     [16, 5] @ provider @ put_le64 rnd @ [dimension_byte dimension] @ put_le16 scoreBps @ put_le32 sampleCount @ payloadHash"

definition encodeCloseRoundCall :: "bytes \<Rightarrow> u64 \<Rightarrow> ScoreDimension \<Rightarrow> bytes" where
  "encodeCloseRoundCall provider rnd dimension = [16, 6] @ provider @ put_le64 rnd @ [dimension_byte dimension]"

definition encodeDisputeRoundCall :: "bytes \<Rightarrow> u64 \<Rightarrow> ScoreDimension \<Rightarrow> bytes" where
  "encodeDisputeRoundCall provider rnd dimension = [16, 7] @ provider @ put_le64 rnd @ [dimension_byte dimension]"

definition encodeResolveDisputeCall :: "bytes \<Rightarrow> u64 \<Rightarrow> ScoreDimension \<Rightarrow> bool \<Rightarrow> bytes" where
  "encodeResolveDisputeCall provider rnd dimension uphold =
     [16, 8] @ provider @ put_le64 rnd @ [dimension_byte dimension] @ [if uphold then 1 else 0]"

definition announceOfferCall :: "bytes \<Rightarrow> ResourceOffer \<Rightarrow> bytes" where
  "announceOfferCall provider offer =
     [11, 2] @ provider @ put_le32 (of_CPUMillicores offer) @ put_le64 (of_RAMMB offer) @ put_le64 (of_StorageGB offer) @
       encodeBoundedBytes (of_Capabilities offer)"

definition removeOfferCall :: "bytes \<Rightarrow> bytes" where "removeOfferCall provider = [11, 3] @ provider"

section \<open>Committees\<close>

text \<open>\<^verbatim>\<open>committee.go\<close>: the draw of a round's validators. \<open>nth\<close> is the draw's number and
  \<open>wanted\<close> how many are still to come.\<close>

definition NetworkValidatorTargetCommitteeSize :: u32 where "NetworkValidatorTargetCommitteeSize = 5"

definition committeeSeed :: "chain_hashes \<Rightarrow> bytes \<Rightarrow> u64 \<Rightarrow> u32 \<Rightarrow> bytes" where
  "committeeSeed h provider rnd n = blake2b_256 h (provider @ put_le64 rnd @ put_le32 n)"

definition committeeIndex :: "chain_hashes \<Rightarrow> bytes \<Rightarrow> u64 \<Rightarrow> nat \<Rightarrow> nat \<Rightarrow> nat" where
  "committeeIndex h provider rnd n len =
     unat ((le_value (take 8 (committeeSeed h provider rnd (word_of_nat n))) :: u64) mod word_of_nat len)"

fun drawCommittee :: "chain_hashes \<Rightarrow> bytes \<Rightarrow> u64 \<Rightarrow> nat \<Rightarrow> nat \<Rightarrow> bytes list \<Rightarrow> bytes list" where
  "drawCommittee h provider rnd n 0 candidates = []"
| "drawCommittee h provider rnd n (Suc wanted) candidates =
     (let index = committeeIndex h provider rnd n (length candidates) in
      candidates ! index #
        drawCommittee h provider rnd (Suc n) wanted (take index candidates @ drop (index + 1) candidates))"

definition Committee :: "chain_hashes \<Rightarrow> bytes \<Rightarrow> u64 \<Rightarrow> bytes list \<Rightarrow> u32 \<Rightarrow> bytes list" where
  "Committee h provider rnd activeValidators targetCommitteeSize =
     (let candidates = filter (\<lambda>c. c \<noteq> provider) activeValidators in
      drawCommittee h provider rnd 0 (min (unat targetCommitteeSize) (length candidates)) candidates)"

definition IsAssigned :: "chain_hashes \<Rightarrow> bytes \<Rightarrow> bytes \<Rightarrow> u64 \<Rightarrow> bytes list \<Rightarrow> u32 \<Rightarrow> bool" where
  "IsAssigned h validator provider rnd activeValidators targetCommitteeSize =
     list_ex (\<lambda>member. member = validator) (Committee h provider rnd activeValidators targetCommitteeSize)"

end
