(* ===== verification/Chain_Laws.thy ===== *)
theory Chain_Laws
  imports Chain_Codec
begin

text \<open>
  The decoders of the chain bridge read back what the encoders write, storage keys lead back to
  their account, the committee draw keeps its promises, and two decoders panic on a malformed
  length.
\<close>

section \<open>Hexadecimal\<close>

lemma hex_value_digit: "n < 16 \<Longrightarrow> hex_value (hex_digits ! n) = Some n"
proof -
  have "list_all (\<lambda>n. hex_value (hex_digits ! n) = Some n) [0..<16]" by code_simp
  then show "n < 16 \<Longrightarrow> hex_value (hex_digits ! n) = Some n" by (simp add: list_all_iff)
qed

lemma hex_decode_encode [simp]: "hex_decode (hex_encode bs) = Some bs"
proof (induction bs)
  case (Cons b bs)
  have "unat b < 256" using unsigned_less [of b, where ?'a = nat] by simp
  then have b: "unat b div 16 < 16" "unat b mod 16 < 16" by simp_all
  have "hex_encode (b # bs) = hex_digits ! (unat b div 16) # hex_digits ! (unat b mod 16) # hex_encode bs"
    by (simp add: hex_encode_def)
  moreover have "word_of_nat (16 * (unat b div 16) + unat b mod 16) = b" by simp
  ultimately show ?case using Cons b by (simp add: hex_value_digit)
qed (simp add: hex_encode_def)

lemma length_hex_encode [simp]: "length (hex_encode bs) = 2 * length bs"
  by (induction bs) (simp_all add: hex_encode_def)

lemma decodeHex_hex0x [simp]: "decodeHex (hex0x bs) = Inr bs"
  by (simp add: decodeHex_def hex0x_def)

lemma hex0x_inject: "hex0x a = hex0x b \<longleftrightarrow> a = b"
  by (metis decodeHex_hex0x sum.inject(2))

lemma fixedHash_hex0x: "length bs = 32 \<Longrightarrow> fixedHash (hex0x bs) = Inr bs"
  by (simp add: fixedHash_def)

lemma equal32_iff: "equal32 a b \<longleftrightarrow> length a = 32 \<and> length b = 32 \<and> a = b"
proof -
  have fold: "fold (\<lambda>i d. d OR (a ! i XOR b ! i)) is acc = 0 \<longleftrightarrow> acc = 0 \<and> (\<forall>i \<in> set is. a ! i = b ! i)" for "is" and acc :: byte
  proof (induction "is" arbitrary: acc)
    case (Cons i "is")
    have "(acc OR (a ! i XOR b ! i) = 0) \<longleftrightarrow> acc = 0 \<and> a ! i = b ! i"
      by (auto simp: bit_eq_iff bit_or_iff bit_xor_iff)
    with Cons show ?case by auto
  qed simp
  show ?thesis
    unfolding equal32_def fold by (auto intro: nth_equalityI)
qed

section \<open>Storage keys\<close>

lemma length_twox128 [simp]: "length (twox128 h s) = 16"
  by (simp add: twox128_def)

text \<open>The key of a map item ends with the item's own key, so distinct accounts have distinct keys
  and the registry's account is read back from its key.\<close>

lemma mapStorageKey_inject:
  "length k = length k' \<Longrightarrow> mapStorageKey h pallet item k = mapStorageKey h pallet item k' \<longleftrightarrow> k = k'"
  by (auto simp: mapStorageKey_def hex0x_inject append_eq_append_conv)

lemma decodeProviderAccountFromKey_providerStorageKey:
  assumes "\<And>m. length (blake2b_128 h m) = 16" and "length provider = 32"
  shows "decodeProviderAccountFromKey (providerStorageKey h provider) = Inr provider"
  using assms by (simp add: decodeProviderAccountFromKey_def providerStorageKey_def mapStorageKey_def)

lemma ParseScoreDimension_String: "ParseScoreDimension (dimension_String d) = Some d"
  by (cases d) (simp_all add: ParseScoreDimension_def)

text \<open>The confidence of a round is exact: nothing wraps in 64 bits, and it is capped at 10,000.\<close>

lemma ConfidenceBps_exact:
  "unat (ConfidenceBps r) =
     (if rr_CommitteeTarget r = 0 then 0 else min 10000 (unat (rr_Submissions r) * 10000 div unat (rr_CommitteeTarget r)))"
proof (cases "rr_CommitteeTarget r = 0")
  case False
  let ?c = "(ucast (rr_Submissions r) :: u64) * 10000 div ucast (rr_CommitteeTarget r)"
  have lt: "unat (rr_Submissions r) < 2 ^ 32" "unat (rr_CommitteeTarget r) < 2 ^ 32"
    using unsigned_less [of "rr_Submissions r", where ?'a = nat] unsigned_less [of "rr_CommitteeTarget r", where ?'a = nat] by simp_all
  then have "unat (ucast (rr_Submissions r) :: u64) = unat (rr_Submissions r)"
    "unat (ucast (rr_CommitteeTarget r) :: u64) = unat (rr_CommitteeTarget r)"
    by (simp_all add: unsigned_ucast_eq take_bit_nat_eq_self)
  then have c: "unat ?c = unat (rr_Submissions r) * 10000 div unat (rr_CommitteeTarget r)"
    using lt by (simp add: unat_div unat_word_ariths)
  have small: "unat (ucast x :: u32) = unat x" if "unat x \<le> 10000" for x :: u64
    using that by (simp add: unsigned_ucast_eq take_bit_nat_eq_self)
  show ?thesis
  proof (cases "?c > 10000")
    case True
    then have "10000 < unat ?c" by (simp add: word_less_nat_alt)
    with True False c show ?thesis by (simp add: ConfidenceBps_def Let_def)
  next
    case f: False
    then have "unat ?c \<le> 10000" by (simp add: word_less_nat_alt)
    with f False c small [of ?c] show ?thesis by (simp add: ConfidenceBps_def Let_def)
  qed
qed (simp add: ConfidenceBps_def)

section \<open>Offers\<close>

text \<open>
  What the bridge writes for an offer is what it reads back from storage: the offer encoded in
  the call decodes to the same offer, whatever its numbers and its capabilities.
\<close>

theorem announced_offer_roundtrip:
  assumes "length provider = 32" and "length (of_Capabilities offer) < 2 ^ 62"
  shows "decodeResourceOffer (drop 34 (announceOfferCall provider offer)) = Inr offer"
proof -
  let ?n = "length (of_Capabilities offer)" and ?len = "word_of_nat (length (of_Capabilities offer)) :: u64"
  define fixed where "fixed = put_le32 (of_CPUMillicores offer) @ put_le64 (of_RAMMB offer) @ put_le64 (of_StorageGB offer)"
  define data where "data = fixed @ encodeBoundedBytes (of_Capabilities offer)"
  have "length fixed = 20" by (simp add: fixed_def)
  have data: "drop 34 (announceOfferCall provider offer) = data" "length data = 20 + length (compactUint ?len) + ?n"
    using assms(1) by (simp_all add: announceOfferCall_def data_def fixed_def encodeBoundedBytes_def)
  have dec: "decodeCompactUint (drop 20 data) = Inr (?len, length (compactUint ?len))"
    by (simp add: data_def \<open>length fixed = 20\<close> encodeBoundedBytes_def decodeCompactUint_compactUint)
  have "unat ?len = ?n" using assms(2) by (simp add: unat_of_nat)
  then have "sint ?len = int ?n" using assms(2) by (simp add: sint_uint uint_nat signed_take_bit_int_eq_self)
  moreover have "length (compactUint ?len) \<le> 9" by (auto simp: compactUint_def Let_def)
  ultimately have stop: "i64 (20 + int (length (compactUint ?len)) + sint ?len) = int (length data)"
    using assms(2) data(2) by (simp add: i64_id in_i64_def)
  have fields: "le_value (slice 0 4 data) = of_CPUMillicores offer" "le_value (slice 4 12 data) = of_RAMMB offer"
    "le_value (slice 12 20 data) = of_StorageGB offer"
    by (simp_all add: data_def fixed_def slice_def le_value_32 le_value_64)
  have "slice (20 + length (compactUint ?len)) (length data) data = of_Capabilities offer"
    using \<open>length fixed = 20\<close> by (simp add: data_def encodeBoundedBytes_def slice_def)
  then have "slice (nat (20 + int (length (compactUint ?len)))) (nat (int (length data))) data = of_Capabilities offer"
    by (simp add: nat_add_distrib)
  with data dec stop fields show ?thesis by (simp add: decodeResourceOffer_def Let_def)
qed

definition sample_offer :: ResourceOffer where
  "sample_offer = \<lparr>of_CPUMillicores = 4000, of_RAMMB = 8192, of_StorageGB = 2 ^ 40, of_Capabilities = [1, 2, 3]\<rparr>"

theorem announced_offer_roundtrip_witness:
  "decodeResourceOffer (drop 34 (announceOfferCall (replicate 32 1) sample_offer)) = Inr sample_offer"
  by (rule announced_offer_roundtrip) (simp_all add: sample_offer_def)

text \<open>A length whose 64 bits read as a negative \<^verbatim>\<open>int\<close> makes the slice of the capabilities panic, and
  an account count whose product with 32 wraps to the bytes that are there makes the allocation
  panic.\<close>

theorem decoders_panic:
  "decodeResourceOffer (replicate 20 0 @ [19] @ replicate 8 255) = Inl Panics \<and>
   decodeAccountIdVec ([19] @ replicate 7 0 @ [8]) = Inl Panics"
proof
  show "decodeResourceOffer (replicate 20 0 @ [19] @ replicate 8 255) = Inl Panics" by code_simp
  have "decodeCompactUint ([19] @ replicate 7 0 @ [8]) = Inr (576460752303423488, 9)" by code_simp
  then show "decodeAccountIdVec ([19] @ replicate 7 0 @ [8]) = Inl Panics" by (simp add: decodeAccountIdVec_def)
qed

text \<open>The vectors of accounts and of submissions are read back.\<close>

lemma slice_concat:
  assumes "\<forall>x \<in> set xs. length x = n" and "i < length xs"
  shows "slice (i * n) ((i + 1) * n) (concat xs) = xs ! i"
  using assms
proof (induction xs arbitrary: i)
  case (Cons x xs)
  show ?case
  proof (cases i)
    case 0
    with Cons.prems show ?thesis by (simp add: slice_def)
  next
    case (Suc j)
    with Cons show ?thesis by (simp add: slice_def algebra_simps)
  qed
qed simp

lemma length_concat_const: "\<forall>x \<in> set xs. length x = n \<Longrightarrow> length (concat xs) = length xs * n"
  by (induction xs) simp_all

lemma decodeAccountIdVec_roundtrip:
  assumes "\<forall>a \<in> set accounts. length a = 32" and "length accounts < 2 ^ 58"
  shows "decodeAccountIdVec (compactUint (word_of_nat (length accounts)) @ concat accounts) = Inr accounts"
proof -
  let ?len = "word_of_nat (length accounts) :: u64" and ?k = "length (compactUint (word_of_nat (length accounts)))"
  have n: "unat ?len = length accounts" using assms(2) by (simp add: unat_of_nat)
  have body: "length (concat accounts) = length accounts * 32" by (rule length_concat_const [OF assms(1)])
  have word: "(word_of_nat (length accounts * 32) :: u64) = ?len * 32" by simp
  have items: "map (\<lambda>i. slice (?k + i * 32) (?k + (i + 1) * 32) (compactUint ?len @ concat accounts)) [0..<length accounts] = accounts"
  proof (rule nth_equalityI)
    fix i
    assume "i < length (map (\<lambda>i. slice (?k + i * 32) (?k + (i + 1) * 32) (compactUint ?len @ concat accounts)) [0..<length accounts])"
    then have "i < length accounts" by simp
    then show "map (\<lambda>i. slice (?k + i * 32) (?k + (i + 1) * 32) (compactUint ?len @ concat accounts)) [0..<length accounts] ! i = accounts ! i"
      using slice_concat [OF assms(1), of i] by (simp add: slice_skip)
  qed simp
  show ?thesis
    using n body word items by (simp add: decodeAccountIdVec_def decodeCompactUint_compactUint)
qed

definition put_submission :: "chain_submission \<Rightarrow> bytes" where
  "put_submission s = sb_Validator s @ put_le16 (sb_ScoreBps s) @ put_le32 (sb_SampleCount s) @ sb_PayloadHash s"

lemma decodeSubmissions_roundtrip:
  assumes "\<forall>s \<in> set subs. length (sb_Validator s) = 32 \<and> length (sb_PayloadHash s) = 32" and "length subs \<le> 32"
  shows "decodeSubmissions (compactUint (word_of_nat (length subs)) @ concat (map put_submission subs)) = Inr subs"
proof -
  let ?len = "word_of_nat (length subs) :: u64" and ?body = "concat (map put_submission subs)"
  have n: "unat ?len = length subs" using assms(2) by (simp add: unat_of_nat)
  have small: "\<not> ?len > NetworkValidatorMaxSubmissionsPerRound"
    using assms(2) n by (simp add: NetworkValidatorMaxSubmissionsPerRound_def word_less_nat_alt)
  have each: "\<forall>x \<in> set (map put_submission subs). length x = 70" using assms(1) by (auto simp: put_submission_def)
  have body: "length ?body = length subs * 70" using length_concat_const [OF each] by simp
  have one: "decodeSubmission (put_submission s) = s" if "s \<in> set subs" for s
    using assms(1) that by (simp add: decodeSubmission_def put_submission_def slice_def le_value_16 le_value_32)
  have items: "map (\<lambda>i. decodeSubmission (slice (i * 70) ((i + 1) * 70) ?body)) [0..<length subs] = subs"
  proof (rule nth_equalityI)
    fix i
    assume "i < length (map (\<lambda>i. decodeSubmission (slice (i * 70) ((i + 1) * 70) ?body)) [0..<length subs])"
    then have "i < length subs" by simp
    then show "map (\<lambda>i. decodeSubmission (slice (i * 70) ((i + 1) * 70) ?body)) [0..<length subs] ! i = subs ! i"
      using slice_concat [OF each, of i] one by simp
  qed simp
  show ?thesis
    using n small body items by (simp add: decodeSubmissions_def decodeCompactUint_compactUint submissionEncodedLength_def Let_def)
qed

section \<open>Committees\<close>

lemma committeeIndex_less:
  assumes "0 < n" and "n < 2 ^ 64"
  shows "committeeIndex h provider rnd k n < n"
proof -
  have n: "unat (word_of_nat n :: u64) = n" using assms(2) by (simp add: unat_of_nat)
  then have "0 < unat (word_of_nat n :: u64)" using assms(1) by simp
  then show ?thesis unfolding committeeIndex_def by (simp add: unat_mod n)
qed

lemma drawCommittee_draws:
  assumes "distinct candidates" and "wanted \<le> length candidates" and "length candidates < 2 ^ 64"
  shows "distinct (drawCommittee h provider rnd n wanted candidates) \<and>
    set (drawCommittee h provider rnd n wanted candidates) \<subseteq> set candidates \<and>
    length (drawCommittee h provider rnd n wanted candidates) = wanted"
  using assms
proof (induction wanted arbitrary: n candidates)
  case (Suc wanted)
  let ?i = "committeeIndex h provider rnd n (length candidates)"
  let ?rest = "take ?i candidates @ drop (?i + 1) candidates"
  have i: "?i < length candidates" using Suc.prems by (intro committeeIndex_less) auto
  have cand: "candidates = take ?i candidates @ candidates ! ?i # drop (?i + 1) candidates"
    using i by (simp add: id_take_nth_drop)
  have "distinct (take ?i candidates @ candidates ! ?i # drop (?i + 1) candidates)"
    using Suc.prems(1) by (simp only: cand [symmetric])
  then have rest: "distinct ?rest" "candidates ! ?i \<notin> set ?rest" by auto
  have sub: "set ?rest \<subseteq> set candidates" by (auto dest: in_set_takeD in_set_dropD)
  have "wanted \<le> length ?rest" "length ?rest < 2 ^ 64" using i Suc.prems(2,3) by simp_all
  from Suc.IH [OF rest(1) this, of "Suc n"] rest(2) sub i show ?case by (auto simp: Let_def)
qed simp

text \<open>
  C40. A round's committee consists of distinct active validators other than the provider that is
  scored, exactly the target size of them or all when there are fewer, and a validator considers
  itself assigned exactly when it is a member.
\<close>

theorem Committee_sound:
  assumes "distinct activeValidators" and "length activeValidators < 2 ^ 64"
  shows "distinct (Committee h provider rnd activeValidators target) \<and>
    set (Committee h provider rnd activeValidators target) \<subseteq> set activeValidators - {provider} \<and>
    length (Committee h provider rnd activeValidators target) =
      min (unat target) (length (filter (\<lambda>c. c \<noteq> provider) activeValidators)) \<and>
    (IsAssigned h validator provider rnd activeValidators target \<longleftrightarrow>
       validator \<in> set (Committee h provider rnd activeValidators target))"
proof -
  let ?cs = "filter (\<lambda>c. c \<noteq> provider) activeValidators"
  have "length ?cs < 2 ^ 64" using length_filter_le [of "\<lambda>c. c \<noteq> provider" activeValidators] assms(2) by linarith
  from drawCommittee_draws [of ?cs "min (unat target) (length ?cs)", OF _ _ this, of h provider rnd 0] assms(1)
  show ?thesis by (auto simp: Committee_def Let_def IsAssigned_def list_ex_iff)
qed

definition sample_hashes :: chain_hashes where
  "sample_hashes = \<lparr>blake2b_128 = (\<lambda>m. take 16 (m @ replicate 16 0)), blake2b_256 = (\<lambda>m. take 32 (rev m @ replicate 32 0)),
     xxh64 = (\<lambda>m seed. word_of_nat (length m) + seed)\<rparr>"

definition sample_validators :: "bytes list" where
  "sample_validators = map (replicate 32) [1, 2, 3, 4]"

theorem Committee_sound_witness:
  "length (Committee sample_hashes (replicate 32 2) 7 sample_validators 5) = 3 \<and>
   distinct (Committee sample_hashes (replicate 32 2) 7 sample_validators 5)"
proof -
  have "distinct sample_validators" by (simp add: sample_validators_def)
  moreover have "length (filter (\<lambda>c. c \<noteq> replicate 32 2) sample_validators) = 3" "length sample_validators < 2 ^ 64"
    by (simp_all add: sample_validators_def)
  ultimately show ?thesis using Committee_sound [of sample_validators sample_hashes "replicate 32 2" 7 5] by simp
qed

end
