(* ===== verification/Chain_Rpc.thy ===== *)
theory Chain_Rpc
  imports Chain_Laws
begin

text \<open>
  \<^verbatim>\<open>control-plane/internal/blockchainbridge/rpc.go\<close>: the JSON-RPC client of the chain node. The
  node may answer anything, and differently over time: the transport is a parameter that sees
  every request sent so far, and so are the decoders of the JSON results. An operation takes the
  requests sent so far and returns its result with the requests sent in the end.
\<close>

datatype rpc_request =
    GetRuntimeVersion | GetBlockHash u64 | GetFinalizedHead | GetHeader string | GetLatestHeader | GetHealth
  | AccountNextIndexOf string | SubmitExtrinsicOf string | GetStorage string string
  | GetKeysPaged string nat "string option" string

record RPCError =
  Code :: int
  Message :: string

datatype rpc_failure = NodeError RPCError | CallFailed string

record rpc_envelope =
  en_JSONRPC :: string
  en_ID :: u64
  en_Result :: string
  en_Error :: "RPCError option"

datatype http_reply = HttpFailed | HttpStatus nat "rpc_envelope option"

record RuntimeVersion =
  SpecVersion :: u32
  TransactionVersion :: u32

record ChainHealth =
  Peers :: u64
  IsSyncing :: bool
  ShouldHavePeers :: bool

record RPCClient =
  rc_transport :: "rpc_request list \<Rightarrow> rpc_request \<Rightarrow> u64 \<Rightarrow> http_reply"
  rc_version :: "string \<Rightarrow> RuntimeVersion option"
  rc_text :: "string \<Rightarrow> string option"
  rc_header :: "string \<Rightarrow> Header option"
  rc_health :: "string \<Rightarrow> ChainHealth option"
  rc_number :: "string \<Rightarrow> u64 option"
  rc_keys :: "string \<Rightarrow> string list option"

definition IsTemporarilyBanned :: "rpc_failure \<Rightarrow> bool" where
  "IsTemporarilyBanned e = (case e of NodeError err \<Rightarrow> Code err = 1012 | CallFailed _ \<Rightarrow> False)"

definition IsPriorityTooLow :: "rpc_failure \<Rightarrow> bool" where
  "IsPriorityTooLow e = (case e of NodeError err \<Rightarrow> Code err = 1014 | CallFailed _ \<Rightarrow> False)"

section \<open>Sequencing\<close>

type_synonym 'a chain_io = "rpc_request list \<Rightarrow> (rpc_failure + 'a) \<times> rpc_request list"

definition io_return :: "'a \<Rightarrow> 'a chain_io" where "io_return x h = (Inr x, h)"

definition io_fail :: "rpc_failure \<Rightarrow> 'a chain_io" where "io_fail e h = (Inl e, h)"

definition io_bind :: "'a chain_io \<Rightarrow> ('a \<Rightarrow> 'b chain_io) \<Rightarrow> 'b chain_io" where
  "io_bind m f h = (case m h of (Inl e, h') \<Rightarrow> (Inl e, h') | (Inr x, h') \<Rightarrow> f x h')"

definition io_lift :: "string + 'a \<Rightarrow> 'a chain_io" where
  "io_lift r = (case r of Inl e \<Rightarrow> io_fail (CallFailed e) | Inr x \<Rightarrow> io_return x)"

lemma io_bindE:
  assumes "io_bind m f h = (Inr y, h')"
  obtains x h1 where "m h = (Inr x, h1)" "f x h1 = (Inr y, h')"
  using assms by (auto simp: io_bind_def split: prod.splits sum.splits)

lemma io_simps [simp]:
  "io_return x h = (Inr y, h') \<longleftrightarrow> x = y \<and> h = h'"
  "io_fail e h = (Inr y, h') \<longleftrightarrow> False"
  "io_lift r h = (Inr y, h') \<longleftrightarrow> r = Inr y \<and> h = h'"
  by (auto simp: io_return_def io_fail_def io_lift_def split: sum.splits)

text \<open>An operation only appends requests.\<close>

definition appends :: "'a chain_io \<Rightarrow> bool" where
  "appends m \<longleftrightarrow> (\<forall>h. \<exists>rs. snd (m h) = h @ rs)"

lemma appends_return [intro, simp]: "appends (io_return x)"
  by (simp add: appends_def io_return_def)

lemma appends_fail [intro, simp]: "appends (io_fail e)"
  by (simp add: appends_def io_fail_def)

lemma appends_lift [intro, simp]: "appends (io_lift r)"
  by (cases r) (simp_all add: io_lift_def)

lemma appends_bind [intro]:
  assumes "appends m" and "\<And>x. appends (f x)"
  shows "appends (io_bind m f)"
  unfolding appends_def
proof
  fix h
  obtain rs where rs: "snd (m h) = h @ rs" using assms(1) by (auto simp: appends_def)
  show "\<exists>rs. snd (io_bind m f h) = h @ rs"
  proof (cases "m h")
    case (Pair r h1)
    show ?thesis
    proof (cases r)
      case (Inl e)
      with Pair rs show ?thesis by (simp add: io_bind_def)
    next
      case (Inr x)
      from assms(2) [of x] obtain rs' where "snd (f x h1) = h1 @ rs'" by (auto simp: appends_def)
      with Pair Inr rs show ?thesis by (simp add: io_bind_def)
    qed
  qed
qed

lemma appendsD: "appends m \<Longrightarrow> m h = (r, h') \<Longrightarrow> \<exists>rs. h' = h @ rs"
  unfolding appends_def by (metis snd_conv)

section \<open>Calls\<close>

text \<open>The client numbers its requests from 1; \<^verbatim>\<open>len(envelope.Result) == 0\<close> is the empty string.\<close>

definition callWithNullPolicy :: "RPCClient \<Rightarrow> rpc_request \<Rightarrow> bool \<Rightarrow> string chain_io" where
  "callWithNullPolicy c request allowNull h =
     (let ident = word_of_nat (length h + 1); h' = h @ [request] in
      case rc_transport c h request ident of
        HttpFailed \<Rightarrow> (Inl (CallFailed ''call Substrate RPC''), h')
      | HttpStatus status body \<Rightarrow>
          if status \<noteq> 200 then (Inl (CallFailed ''unexpected HTTP status''), h')
          else (case body of
             None \<Rightarrow> (Inl (CallFailed ''decode Substrate RPC response''), h')
           | Some envelope \<Rightarrow>
               if en_JSONRPC envelope \<noteq> ''2.0'' \<or> en_ID envelope \<noteq> ident
               then (Inl (CallFailed ''invalid Substrate RPC response envelope''), h')
               else (case en_Error envelope of
                  Some e \<Rightarrow> (Inl (NodeError e), h')
                | None \<Rightarrow>
                    if en_Result envelope = '''' \<or> (\<not> allowNull \<and> en_Result envelope = ''null'')
                    then (Inl (CallFailed ''Substrate RPC returned no result''), h')
                    else (Inr (en_Result envelope), h'))))"

definition rpc_call :: "RPCClient \<Rightarrow> rpc_request \<Rightarrow> (string \<Rightarrow> 'a option) \<Rightarrow> 'a chain_io" where
  "rpc_call c request unmarshal =
     io_bind (callWithNullPolicy c request False)
       (\<lambda>result. case unmarshal result of None \<Rightarrow> io_fail (CallFailed ''decode Substrate RPC result'') | Some x \<Rightarrow> io_return x)"

definition rpc_RuntimeVersion :: "RPCClient \<Rightarrow> RuntimeVersion chain_io" where
  "rpc_RuntimeVersion c = rpc_call c GetRuntimeVersion (rc_version c)"

definition Health :: "RPCClient \<Rightarrow> ChainHealth chain_io" where
  "Health c = rpc_call c GetHealth (rc_health c)"

definition LatestHeader :: "RPCClient \<Rightarrow> Header chain_io" where
  "LatestHeader c = rpc_call c GetLatestHeader (rc_header c)"

definition BlockHash :: "RPCClient \<Rightarrow> u64 \<Rightarrow> string chain_io" where
  "BlockHash c number = rpc_call c (GetBlockHash number) (rc_text c)"

definition FinalizedHead :: "RPCClient \<Rightarrow> string chain_io" where
  "FinalizedHead c = rpc_call c GetFinalizedHead (rc_text c)"

definition HeaderAt :: "RPCClient \<Rightarrow> string \<Rightarrow> Header chain_io" where
  "HeaderAt c hash = rpc_call c (GetHeader hash) (rc_header c)"

definition AccountNextIndex :: "RPCClient \<Rightarrow> string \<Rightarrow> u64 chain_io" where
  "AccountNextIndex c acct = rpc_call c (AccountNextIndexOf acct) (rc_number c)"

definition SubmitExtrinsic :: "RPCClient \<Rightarrow> string \<Rightarrow> string chain_io" where
  "SubmitExtrinsic c encoded = rpc_call c (SubmitExtrinsicOf encoded) (rc_text c)"

definition rpc_Storage :: "RPCClient \<Rightarrow> string \<Rightarrow> string \<Rightarrow> bytes option chain_io" where
  "rpc_Storage c key blockHash =
     io_bind (callWithNullPolicy c (GetStorage key blockHash) True)
       (\<lambda>result.
          if result = ''null'' then io_return None
          else case rc_text c result of
            None \<Rightarrow> io_fail (CallFailed ''decode Substrate RPC result'')
          | Some value \<Rightarrow>
              (case decodeHex value of
                 Inl e \<Rightarrow> io_fail (CallFailed (''decode Substrate storage value: '' @ e))
               | Inr decoded \<Rightarrow> io_return (Some decoded)))"

definition stateGetKeysPaged :: "RPCClient \<Rightarrow> string \<Rightarrow> nat \<Rightarrow> string \<Rightarrow> string \<Rightarrow> string list chain_io" where
  "stateGetKeysPaged c keyPrefix n startKey blockHash =
     rpc_call c (GetKeysPaged keyPrefix n (if startKey = '''' then None else Some startKey) blockHash) (rc_keys c)"

lemma appends_callWithNullPolicy [intro, simp]: "appends (callWithNullPolicy c request allowNull)"
  unfolding appends_def callWithNullPolicy_def by (auto simp: Let_def split: http_reply.split option.split)

lemma appends_rpc_call [intro, simp]: "appends (rpc_call c request unmarshal)"
  unfolding rpc_call_def by (intro appends_bind) (auto split: option.split)

lemma appends_rpc [intro, simp]:
  "appends (rpc_RuntimeVersion c)" "appends (BlockHash c n)" "appends (FinalizedHead c)" "appends (HeaderAt c hash)"
  "appends (SubmitExtrinsic c encoded)" "appends (stateGetKeysPaged c keyPrefix limit startKey blockHash)"
  by (simp_all add: rpc_RuntimeVersion_def BlockHash_def FinalizedHead_def HeaderAt_def SubmitExtrinsic_def stateGetKeysPaged_def)

lemma appends_rpc_Storage [intro, simp]: "appends (rpc_Storage c key blockHash)"
  unfolding rpc_Storage_def by (intro appends_bind) (auto split: option.split sum.split)

end
