(* ===== verification/Registrar.thy ===== *)
theory Registrar
  imports Chain_Rpc
begin

text \<open>
  \<^verbatim>\<open>control-plane/internal/blockchainbridge/registrar.go\<close> and the callers of its signer
  (networkvalidatorregistrar.go, resourcemarket.go, balances.go, providerregistry.go and the
  readers of the other files). The signature is a parameter of the registrar, as are the hash
  functions. A wait on the chain takes the number of poll intervals that pass before the context
  is done; every value of it is covered, and at that point the wait returns an error.
\<close>

record Registrar =
  rg_rpc :: RPCClient
  rg_hashes :: chain_hashes
  rg_sign :: "bytes \<Rightarrow> bytes"
  rg_account :: bytes

definition supportedSpecVersion :: u32 where "supportedSpecVersion = 4"

definition supportedTransactionVersion :: u32 where "supportedTransactionVersion = 2"

definition maxTipBumpAttempts :: nat where "maxTipBumpAttempts = 3"

definition maxTip :: u64 where "maxTip = 100"

section \<open>Signing and submitting\<close>

definition signedExtra :: "u64 \<Rightarrow> u64 \<Rightarrow> bytes" where
  "signedExtra nonce tip = [0] @ compactUint nonce @ compactUint tip"

definition signCall :: "Registrar \<Rightarrow> bytes \<Rightarrow> u64 \<Rightarrow> u64 \<Rightarrow> RuntimeVersion \<Rightarrow> bytes \<Rightarrow> bytes \<times> bytes" where
  "signCall r call nonce tip version genesis =
     (let extra = signedExtra nonce tip;
          payload = call @ extra;
          implicit = put_le32 (SpecVersion version) @ put_le32 (TransactionVersion version) @ genesis @ genesis;
          payload = payload @ implicit;
          payload = (if length payload > 256 then blake2b_256 (rg_hashes r) payload else payload);
          signature = rg_sign r payload;
          body = [0x80 OR 4, 0] @ rg_account r @ [0] @ signature @ extra @ call;
          extrinsic = compactUint (word_of_nat (length body)) @ body in
      (extrinsic, blake2b_256 (rg_hashes r) extrinsic))"

definition nextTip :: "u64 \<Rightarrow> u64" where
  "nextTip tip = (if tip = 0 then 1 else if tip > maxTip div 2 then maxTip else tip * 2)"

text \<open>\<open>left\<close> is \<^verbatim>\<open>maxTipBumpAttempts - attempt\<close>.\<close>

fun submitLoop :: "Registrar \<Rightarrow> bytes \<Rightarrow> u64 \<Rightarrow> RuntimeVersion \<Rightarrow> bytes \<Rightarrow> u64 \<Rightarrow> nat \<Rightarrow> bytes chain_io" where
  "submitLoop r call nonce version genesis tip left h =
     (case signCall r call nonce tip version genesis of
        (extrinsic, hash) \<Rightarrow>
     (case SubmitExtrinsic (rg_rpc r) (hex0x extrinsic) h of
        (Inr submitted, h') \<Rightarrow>
          if submitted \<noteq> hex0x hash then (Inl (CallFailed ''Substrate returned an unexpected extrinsic hash''), h')
          else (Inr hash, h')
      | (Inl e, h') \<Rightarrow>
          (case left of
             0 \<Rightarrow> (Inl e, h')
           | Suc n \<Rightarrow>
               if \<not> IsPriorityTooLow e then (Inl e, h')
               else submitLoop r call nonce version genesis (nextTip tip) n h')))"

declare submitLoop.simps [simp del]

definition submitSigned :: "Registrar \<Rightarrow> bytes \<Rightarrow> u64 \<Rightarrow> RuntimeVersion \<Rightarrow> bytes \<Rightarrow> bytes chain_io" where
  "submitSigned r call nonce version genesis = submitLoop r call nonce version genesis 0 maxTipBumpAttempts"

definition supportedVersion :: "Registrar \<Rightarrow> RuntimeVersion chain_io" where
  "supportedVersion r =
     io_bind (rpc_RuntimeVersion (rg_rpc r))
       (\<lambda>version.
          if SpecVersion version \<noteq> supportedSpecVersion \<or> TransactionVersion version \<noteq> supportedTransactionVersion
          then io_fail (CallFailed ''unsupported runtime version'') else io_return version)"

definition genesisHash :: "Registrar \<Rightarrow> bytes chain_io" where
  "genesisHash r = io_bind (BlockHash (rg_rpc r) 0) (\<lambda>genesisHex. io_lift (fixedHash genesisHex))"

definition finalizedAccountNonce :: "Registrar \<Rightarrow> u64 chain_io" where
  "finalizedAccountNonce r =
     io_bind (FinalizedHead (rg_rpc r)) (\<lambda>head.
     io_bind (rpc_Storage (rg_rpc r) (accountStorageKey (rg_hashes r) (rg_account r)) head) (\<lambda>value.
       case value of
         None \<Rightarrow> io_return 0
       | Some v \<Rightarrow>
           if length v < 4 then io_fail (CallFailed ''system account storage is shorter than its nonce'')
           else io_return (ucast (le_value (take 4 v) :: u32))))"

definition SubmitDirect :: "Registrar \<Rightarrow> bytes \<Rightarrow> unit chain_io" where
  "SubmitDirect r call =
     io_bind (supportedVersion r) (\<lambda>version.
     io_bind (genesisHash r) (\<lambda>genesis.
     io_bind (finalizedAccountNonce r) (\<lambda>nonce.
     io_bind (submitSigned r call nonce version genesis) (\<lambda>_. io_return ()))))"

definition SubmitSudo :: "Registrar \<Rightarrow> bytes \<Rightarrow> unit chain_io" where
  "SubmitSudo r call =
     io_bind (supportedVersion r) (\<lambda>version.
     io_bind (genesisHash r) (\<lambda>genesis.
     io_bind (finalizedAccountNonce r) (\<lambda>nonce.
     io_bind (submitSigned r (sudoCall call) nonce version genesis) (\<lambda>_. io_return ()))))"

definition RegisterValidator :: "Registrar \<Rightarrow> u64 \<Rightarrow> unit chain_io" where
  "RegisterValidator r stake = SubmitDirect r (registerValidatorCall stake)"

definition RequestExit :: "Registrar \<Rightarrow> unit chain_io" where "RequestExit r = SubmitDirect r requestExitCall"

definition WithdrawUnbonded :: "Registrar \<Rightarrow> unit chain_io" where "WithdrawUnbonded r = SubmitDirect r withdrawUnbondedCall"

definition SubmitEvidence :: "Registrar \<Rightarrow> bytes \<Rightarrow> u64 \<Rightarrow> ScoreDimension \<Rightarrow> 16 word \<Rightarrow> u32 \<Rightarrow> bytes \<Rightarrow> unit chain_io" where
  "SubmitEvidence r provider rnd dimension scoreBps sampleCount payloadHash =
     SubmitDirect r (encodeSubmitEvidenceCall provider rnd dimension scoreBps sampleCount payloadHash)"

definition CloseRound :: "Registrar \<Rightarrow> bytes \<Rightarrow> u64 \<Rightarrow> ScoreDimension \<Rightarrow> unit chain_io" where
  "CloseRound r provider rnd dimension = SubmitDirect r (encodeCloseRoundCall provider rnd dimension)"

definition DisputeRound :: "Registrar \<Rightarrow> bytes \<Rightarrow> u64 \<Rightarrow> ScoreDimension \<Rightarrow> unit chain_io" where
  "DisputeRound r provider rnd dimension = SubmitDirect r (encodeDisputeRoundCall provider rnd dimension)"

definition ResolveDispute :: "Registrar \<Rightarrow> bytes \<Rightarrow> u64 \<Rightarrow> ScoreDimension \<Rightarrow> bool \<Rightarrow> unit chain_io" where
  "ResolveDispute r provider rnd dimension uphold = SubmitSudo r (encodeResolveDisputeCall provider rnd dimension uphold)"

definition FundAccount :: "Registrar \<Rightarrow> bytes \<Rightarrow> u64 \<Rightarrow> unit chain_io" where
  "FundAccount r dest amount = SubmitDirect r (encodeTransferAllowDeathCall dest amount)"

text \<open>The two offer calls take the runtime version as it is.\<close>

definition AnnounceOfferFor :: "Registrar \<Rightarrow> bytes \<Rightarrow> ResourceOffer \<Rightarrow> unit chain_io" where
  "AnnounceOfferFor r provider offer =
     io_bind (rpc_RuntimeVersion (rg_rpc r)) (\<lambda>version.
     io_bind (genesisHash r) (\<lambda>genesis.
     io_bind (finalizedAccountNonce r) (\<lambda>nonce.
     io_bind (submitSigned r (sudoCall (announceOfferCall provider offer)) nonce version genesis) (\<lambda>_. io_return ()))))"

definition RemoveOfferFor :: "Registrar \<Rightarrow> bytes \<Rightarrow> unit chain_io" where
  "RemoveOfferFor r provider =
     io_bind (rpc_RuntimeVersion (rg_rpc r)) (\<lambda>version.
     io_bind (genesisHash r) (\<lambda>genesis.
     io_bind (finalizedAccountNonce r) (\<lambda>nonce.
     io_bind (submitSigned r (sudoCall (removeOfferCall provider)) nonce version genesis) (\<lambda>_. io_return ()))))"

section \<open>Leases\<close>

definition finalizedLease :: "Registrar \<Rightarrow> u64 \<Rightarrow> FinalizedLease option chain_io" where
  "finalizedLease r leaseID =
     io_bind (FinalizedHead (rg_rpc r)) (\<lambda>head.
     io_bind (rpc_Storage (rg_rpc r) (leaseStorageKey (rg_hashes r) leaseID) head) (\<lambda>value.
       case value of
         None \<Rightarrow> io_return None
       | Some v \<Rightarrow>
           if length v \<noteq> 105 then io_fail (CallFailed ''lease storage has invalid length'')
           else io_bind (HeaderAt (rg_rpc r) head) (\<lambda>header.
             io_bind (io_lift (BlockNumber header)) (\<lambda>number.
             io_bind (io_lift (decodeHex head)) (\<lambda>blockHash.
               io_return (Some ((decodeLease leaseID v)\<lparr>fl_FinalizedBlockHash := blockHash, fl_FinalizedBlockNumber := number\<rparr>)))))))"

definition validateLease :: "Registrar \<Rightarrow> FinalizedLease \<Rightarrow> bytes \<Rightarrow> bytes \<Rightarrow> u32 \<Rightarrow> bool" where
  "validateLease r lease provider resourceHash duration \<longleftrightarrow>
     \<not> (fl_Provider lease \<noteq> provider \<or> fl_Consumer lease \<noteq> rg_account r \<or> fl_ResourceHash lease \<noteq> resourceHash \<or>
        fl_End lease < fl_Start lease \<or> fl_End lease - fl_Start lease \<noteq> duration)"

definition sameLeaseIdentity :: "FinalizedLease \<Rightarrow> FinalizedLease \<Rightarrow> bool" where
  "sameLeaseIdentity actual expected \<longleftrightarrow>
     fl_LeaseID actual = fl_LeaseID expected \<and> fl_Provider actual = fl_Provider expected \<and>
     fl_Consumer actual = fl_Consumer expected \<and> fl_ResourceHash actual = fl_ResourceHash expected \<and>
     fl_Start actual = fl_Start expected \<and> fl_End actual = fl_End expected"

text \<open>One look at the lease; \<open>None\<close> means to wait.\<close>

definition pollActive :: "Registrar \<Rightarrow> u64 \<Rightarrow> bytes \<Rightarrow> bytes \<Rightarrow> u32 \<Rightarrow> FinalizedLease option chain_io" where
  "pollActive r leaseID provider resourceHash duration =
     io_bind (finalizedLease r leaseID) (\<lambda>found.
       case found of
         None \<Rightarrow> io_return None
       | Some lease \<Rightarrow>
           if \<not> validateLease r lease provider resourceHash duration
           then io_fail (CallFailed ''lease finalized data does not match request'')
           else io_return (if fl_State lease = 1 then Some lease else None))"

fun pollUntil :: "'a option chain_io \<Rightarrow> nat \<Rightarrow> 'a chain_io" where
  "pollUntil check 0 =
     io_bind check (\<lambda>x. case x of Some y \<Rightarrow> io_return y | None \<Rightarrow> io_fail (CallFailed ''context done''))"
| "pollUntil check (Suc polls) =
     io_bind check (\<lambda>x. case x of Some y \<Rightarrow> io_return y | None \<Rightarrow> pollUntil check polls)"

definition activateLease ::
  "Registrar \<Rightarrow> nat \<Rightarrow> u64 \<Rightarrow> bytes \<Rightarrow> bytes \<Rightarrow> u32 \<Rightarrow> RuntimeVersion \<Rightarrow> bytes \<Rightarrow> bool \<Rightarrow> FinalizedLease chain_io" where
  "activateLease r polls leaseID provider resourceHash duration version genesis found =
     io_bind (finalizedAccountNonce r) (\<lambda>nonce.
     io_bind (if found then io_return nonce
              else io_bind (submitSigned r (createLeaseCall leaseID provider resourceHash duration) nonce version genesis)
                     (\<lambda>_. io_return (nonce + 1))) (\<lambda>nonce.
     io_bind (submitSigned r (sudoCall (updateLeaseStateCall leaseID 1)) nonce version genesis) (\<lambda>_.
       pollUntil (pollActive r leaseID provider resourceHash duration) polls)))"

definition EnsureLeaseActive ::
  "Registrar \<Rightarrow> nat \<Rightarrow> u64 \<Rightarrow> bytes \<Rightarrow> bytes \<Rightarrow> u32 \<Rightarrow> FinalizedLease chain_io" where
  "EnsureLeaseActive r polls leaseID provider resourceHash duration =
     (if duration = 0 \<or> duration > 1000000
      then io_fail (CallFailed ''lease duration must be between 1 and 1000000 blocks'')
      else io_bind (supportedVersion r) (\<lambda>version.
        io_bind (genesisHash r) (\<lambda>genesis.
        io_bind (finalizedLease r leaseID) (\<lambda>found.
          case found of
            None \<Rightarrow> activateLease r polls leaseID provider resourceHash duration version genesis False
          | Some lease \<Rightarrow>
              if \<not> validateLease r lease provider resourceHash duration
              then io_fail (CallFailed ''lease finalized data does not match request'')
              else if fl_State lease = 1 then io_return lease
              else if fl_State lease \<noteq> 0 then io_fail (CallFailed ''lease has unsupported state'')
              else activateLease r polls leaseID provider resourceHash duration version genesis True))))"

definition pollCompleted :: "Registrar \<Rightarrow> u64 \<Rightarrow> FinalizedLease \<Rightarrow> FinalizedLease option chain_io" where
  "pollCompleted r leaseID expected =
     io_bind (finalizedLease r leaseID) (\<lambda>found.
       case found of
         None \<Rightarrow> io_fail (CallFailed ''lease disappeared from finalized storage'')
       | Some lease \<Rightarrow>
           if \<not> sameLeaseIdentity lease expected then io_fail (CallFailed ''lease finalized data changed while completing'')
           else if fl_State lease = 2 then io_return (Some lease)
           else if fl_State lease \<noteq> 1 then io_fail (CallFailed ''lease reached unexpected state while completing'')
           else io_return None)"

definition EnsureLeaseCompleted :: "Registrar \<Rightarrow> nat \<Rightarrow> u64 \<Rightarrow> FinalizedLease chain_io" where
  "EnsureLeaseCompleted r polls leaseID =
     io_bind (supportedVersion r) (\<lambda>version.
     io_bind (finalizedLease r leaseID) (\<lambda>found.
       case found of
         None \<Rightarrow> io_fail (CallFailed ''lease does not exist in finalized storage'')
       | Some lease \<Rightarrow>
           if fl_Consumer lease \<noteq> rg_account r then io_fail (CallFailed ''lease is not owned by the bridge account'')
           else if fl_State lease = 2 then io_return lease
           else if fl_State lease \<noteq> 1 then io_fail (CallFailed ''lease cannot transition to Completed'')
           else io_bind (genesisHash r) (\<lambda>genesis.
             io_bind (finalizedAccountNonce r) (\<lambda>nonce.
             io_bind (submitSigned r (sudoCall (updateLeaseStateCall leaseID 2)) nonce version genesis) (\<lambda>_.
               pollUntil (pollCompleted r leaseID lease) polls)))))"

section \<open>Provider registration\<close>

record provider_read =
  pd_status :: "byte option"
  pd_headHash :: bytes
  pd_headNumber :: u64

definition finalizedProvider :: "Registrar \<Rightarrow> bytes \<Rightarrow> provider_read chain_io" where
  "finalizedProvider r provider =
     io_bind (FinalizedHead (rg_rpc r)) (\<lambda>head.
     io_bind (rpc_Storage (rg_rpc r) (providerStorageKey (rg_hashes r) provider) head) (\<lambda>value.
     io_bind (HeaderAt (rg_rpc r) head) (\<lambda>header.
     io_bind (io_lift (BlockNumber header)) (\<lambda>number.
     io_bind (io_lift (decodeHex head)) (\<lambda>headBytes.
       case value of
         None \<Rightarrow> io_return \<lparr>pd_status = None, pd_headHash = headBytes, pd_headNumber = number\<rparr>
       | Some v \<Rightarrow>
           if length v \<noteq> 65 \<or> \<not> equal32 (take 32 v) provider \<or> \<not> equal32 (slice 32 64 v) provider
           then io_fail (CallFailed ''provider registry returned an invalid identity record'')
           else io_return \<lparr>pd_status = Some (v ! 64), pd_headHash = headBytes, pd_headNumber = number\<rparr>)))))"

definition waitForFinalizedStatus :: "Registrar \<Rightarrow> nat \<Rightarrow> bytes \<Rightarrow> byte \<Rightarrow> unit chain_io" where
  "waitForFinalizedStatus r polls provider expected =
     pollUntil (io_bind (finalizedProvider r provider)
       (\<lambda>p. io_return (if pd_status p = Some expected then Some () else None))) polls"

text \<open>The calls that lead from a status to Active; \<open>None\<close> for a provider not registered.\<close>

definition registrationSteps :: "bytes \<Rightarrow> byte option \<Rightarrow> bytes list" where
  "registrationSteps provider status =
     (let steps = (case status of None \<Rightarrow> [registerForCall provider] | Some _ \<Rightarrow> []);
          status = (case status of None \<Rightarrow> 0 | Some s \<Rightarrow> s);
          steps = (if status = 0 then steps @ [statusCall provider 1] else steps);
          status = (if status = 0 then 1 else status) in
      if status = 1 then steps @ [statusCall provider 2] else steps)"

fun submitSteps :: "Registrar \<Rightarrow> RuntimeVersion \<Rightarrow> bytes \<Rightarrow> bytes list \<Rightarrow> u64 \<Rightarrow> bytes option \<Rightarrow> bytes option chain_io" where
  "submitSteps r version genesis [] nonce lastHash = io_return lastHash"
| "submitSteps r version genesis (inner # steps) nonce lastHash =
     io_bind (submitSigned r (sudoCall inner) nonce version genesis)
       (\<lambda>hash. submitSteps r version genesis steps (nonce + 1) (Some hash))"

definition EnsureActive :: "Registrar \<Rightarrow> nat \<Rightarrow> bytes \<Rightarrow> (bytes option \<times> bytes \<times> u64) chain_io" where
  "EnsureActive r polls provider =
     io_bind (supportedVersion r) (\<lambda>version.
     io_bind (genesisHash r) (\<lambda>genesis.
     io_bind (finalizedProvider r provider) (\<lambda>p.
       if pd_status p = Some 2 then io_return (None, pd_headHash p, pd_headNumber p)
       else let steps = registrationSteps provider (pd_status p) in
         if steps = [] then io_fail (CallFailed ''provider has unsupported on-chain status'')
         else io_bind (finalizedAccountNonce r) (\<lambda>nonce.
           io_bind (submitSteps r version genesis steps nonce None) (\<lambda>lastHash.
           io_bind (waitForFinalizedStatus r polls provider 2) (\<lambda>_.
           io_bind (finalizedProvider r provider) (\<lambda>p'. io_return (lastHash, pd_headHash p', pd_headNumber p'))))))))"

section \<open>Readers\<close>

text \<open>A record at a block, or at the finalized head; a decoder that panics is a failure here.\<close>

definition readRecord :: "RPCClient \<Rightarrow> string \<Rightarrow> (bytes \<Rightarrow> string + 'a) \<Rightarrow> string \<Rightarrow> 'a option chain_io" where
  "readRecord c key decode blockHash =
     io_bind (rpc_Storage c key blockHash) (\<lambda>value.
       case value of None \<Rightarrow> io_return None | Some v \<Rightarrow> io_bind (io_lift (decode v)) (\<lambda>x. io_return (Some x)))"

definition ProviderReputationVector :: "Registrar \<Rightarrow> bytes \<Rightarrow> string \<Rightarrow> ChainReputationVector option chain_io" where
  "ProviderReputationVector r provider =
     readRecord (rg_rpc r) (reputationVectorStorageKey (rg_hashes r) provider) decodeReputationVector"

definition LatestReputationVector :: "Registrar \<Rightarrow> bytes \<Rightarrow> ChainReputationVector option chain_io" where
  "LatestReputationVector r provider = io_bind (FinalizedHead (rg_rpc r)) (ProviderReputationVector r provider)"

definition ProviderLatestProof :: "Registrar \<Rightarrow> bytes \<Rightarrow> string \<Rightarrow> AvailabilitySummary option chain_io" where
  "ProviderLatestProof r provider =
     readRecord (rg_rpc r) (latestProofStorageKey (rg_hashes r) provider) decodeAvailabilitySummary"

definition LatestProviderProof :: "Registrar \<Rightarrow> bytes \<Rightarrow> AvailabilitySummary option chain_io" where
  "LatestProviderProof r provider = io_bind (FinalizedHead (rg_rpc r)) (ProviderLatestProof r provider)"

definition ProviderRewardPoints :: "Registrar \<Rightarrow> bytes \<Rightarrow> string \<Rightarrow> u64 chain_io" where
  "ProviderRewardPoints r provider blockHash =
     io_bind (readRecord (rg_rpc r) (rewardBalanceStorageKey (rg_hashes r) provider) decodeRewardPoints blockHash)
       (\<lambda>points. io_return (case points of None \<Rightarrow> 0 | Some p \<Rightarrow> p))"

definition LatestProviderRewardPoints :: "Registrar \<Rightarrow> bytes \<Rightarrow> u64 chain_io" where
  "LatestProviderRewardPoints r provider = io_bind (FinalizedHead (rg_rpc r)) (ProviderRewardPoints r provider)"

definition FinalizedEvidence :: "Registrar \<Rightarrow> bytes \<Rightarrow> u64 \<Rightarrow> ScoreDimension \<Rightarrow> chain_submission list chain_io" where
  "FinalizedEvidence r provider rnd dimension =
     io_bind (FinalizedHead (rg_rpc r)) (\<lambda>head.
     io_bind (readRecord (rg_rpc r) (evidenceStorageKey (rg_hashes r) provider rnd dimension) decodeSubmissions head)
       (\<lambda>subs. io_return (case subs of None \<Rightarrow> [] | Some xs \<Rightarrow> xs)))"

definition FinalizedRoundResult :: "Registrar \<Rightarrow> bytes \<Rightarrow> u64 \<Rightarrow> ScoreDimension \<Rightarrow> RoundResult option chain_io" where
  "FinalizedRoundResult r provider rnd dimension =
     io_bind (FinalizedHead (rg_rpc r))
       (readRecord (rg_rpc r) (roundResultStorageKey (rg_hashes r) provider rnd dimension) decodeRoundResult)"

definition FinalizedValidatorRecord :: "Registrar \<Rightarrow> bytes \<Rightarrow> ValidatorRecord option chain_io" where
  "FinalizedValidatorRecord r acct =
     io_bind (FinalizedHead (rg_rpc r)) (readRecord (rg_rpc r) (validatorStorageKey (rg_hashes r) acct) decodeValidatorRecord)"

text \<open>The accounts of the registry, page by page; \<open>pages\<close> is how many calls are answered before
  the context is done.\<close>

definition maxProviderKeysPerPage :: nat where "maxProviderKeysPerPage = 1000"

fun decodeKeys :: "string list \<Rightarrow> string + bytes list" where
  "decodeKeys [] = Inr []"
| "decodeKeys (key # keys) =
     (case decodeProviderAccountFromKey key of
        Inl e \<Rightarrow> Inl e
      | Inr acct \<Rightarrow> (case decodeKeys keys of Inl e \<Rightarrow> Inl e | Inr accts \<Rightarrow> Inr (acct # accts)))"

fun accountPages :: "Registrar \<Rightarrow> string \<Rightarrow> nat \<Rightarrow> string \<Rightarrow> bytes list \<Rightarrow> bytes list chain_io" where
  "accountPages r head 0 startKey accounts = io_fail (CallFailed ''context done'')"
| "accountPages r head (Suc pages) startKey accounts =
     io_bind (stateGetKeysPaged (rg_rpc r) (providerRegistryKeysPrefix (rg_hashes r)) maxProviderKeysPerPage startKey head) (\<lambda>keys.
       if keys = [] then io_return accounts
       else io_bind (io_lift (decodeKeys keys)) (\<lambda>decoded.
         if length keys < maxProviderKeysPerPage then io_return (accounts @ decoded)
         else accountPages r head pages (last keys) (accounts @ decoded)))"

definition FinalizedProviderAccounts :: "Registrar \<Rightarrow> nat \<Rightarrow> bytes list chain_io" where
  "FinalizedProviderAccounts r pages =
     io_bind (FinalizedHead (rg_rpc r)) (\<lambda>head. accountPages r head pages '''' [])"

text \<open>\<^verbatim>\<open>ActiveNetworkValidators\<close> and \<^verbatim>\<open>FinalizedOffer\<close>, whose decoders can panic: \<open>Inl Panics\<close>.\<close>

definition ActiveNetworkValidators :: "Registrar \<Rightarrow> string \<Rightarrow> (codec_error + bytes list) chain_io" where
  "ActiveNetworkValidators r blockHash =
     io_bind (rpc_Storage (rg_rpc r) (networkValidatorStorageKey (rg_hashes r) ''ActiveValidatorSet'') blockHash) (\<lambda>value.
       case value of None \<Rightarrow> io_return (Inr []) | Some v \<Rightarrow> io_return (decodeAccountIdVec v))"

definition LatestActiveNetworkValidators :: "Registrar \<Rightarrow> (codec_error + bytes list) chain_io" where
  "LatestActiveNetworkValidators r = io_bind (FinalizedHead (rg_rpc r)) (ActiveNetworkValidators r)"

definition FinalizedOffer :: "Registrar \<Rightarrow> bytes \<Rightarrow> string \<Rightarrow> (codec_error + ResourceOffer) option chain_io" where
  "FinalizedOffer r provider blockHash =
     io_bind (rpc_Storage (rg_rpc r) (resourceMarketOfferStorageKey (rg_hashes r) provider) blockHash) (\<lambda>value.
       io_return (map_option decodeResourceOffer value))"

end
