(* ===== verification/Registrar_Properties.thy ===== *)
theory Registrar_Properties
  imports Registrar "HOL-Library.Sublist"
begin

text \<open>
  What the chain registrar promises: a bounded number of submissions per call, extrinsics that say
  what was meant, and answers that rest on finalized storage.
\<close>

section \<open>Submissions\<close>

definition extrinsic_request :: "Registrar \<Rightarrow> bytes \<Rightarrow> u64 \<Rightarrow> RuntimeVersion \<Rightarrow> bytes \<Rightarrow> u64 \<Rightarrow> rpc_request" where
  "extrinsic_request r call nonce version genesis tip =
     SubmitExtrinsicOf (hex0x (fst (signCall r call nonce tip version genesis)))"

fun tips_from :: "u64 \<Rightarrow> nat \<Rightarrow> u64 list" where
  "tips_from tip 0 = [tip]"
| "tips_from tip (Suc n) = tip # tips_from (nextTip tip) n"

lemma rpc_call_snd: "snd (rpc_call c request unmarshal h) = h @ [request]"
  by (auto simp: rpc_call_def io_bind_def callWithNullPolicy_def io_return_def io_fail_def Let_def
      split: http_reply.split option.split)

lemma submitLoop_requests:
  "\<exists>n. 1 \<le> n \<and> n \<le> Suc left \<and> snd (submitLoop r call nonce version genesis tip left h) =
     h @ map (extrinsic_request r call nonce version genesis) (take n (tips_from tip left))"
proof (induction left arbitrary: tip h)
  case 0
  let ?x = "fst (signCall r call nonce tip version genesis)"
  have "snd (SubmitExtrinsic (rg_rpc r) (hex0x ?x) h) = h @ [SubmitExtrinsicOf (hex0x ?x)]"
    by (simp add: SubmitExtrinsic_def rpc_call_snd)
  then show ?case
    by (intro exI [of _ 1]) (auto simp: submitLoop.simps extrinsic_request_def split: prod.split sum.split)
next
  case (Suc left)
  obtain x hash where sc: "signCall r call nonce tip version genesis = (x, hash)" by (cases "signCall r call nonce tip version genesis")
  let ?h = "h @ [extrinsic_request r call nonce version genesis tip]"
  have sent: "snd (SubmitExtrinsic (rg_rpc r) (hex0x x) h) = ?h"
    by (simp add: SubmitExtrinsic_def rpc_call_snd extrinsic_request_def sc)
  note loop = submitLoop.simps [of r call nonce version genesis tip "Suc left" h, unfolded sc prod.case]
  consider (stop) "snd (submitLoop r call nonce version genesis tip (Suc left) h) = ?h"
    | (again) "submitLoop r call nonce version genesis tip (Suc left) h =
        submitLoop r call nonce version genesis (nextTip tip) left ?h"
  proof (cases "SubmitExtrinsic (rg_rpc r) (hex0x x) h")
    case (Pair res h')
    with sent have h': "h' = ?h" by simp
    show ?thesis
    proof (cases res)
      case (Inr submitted)
      with Pair h' stop loop show ?thesis by simp
    next
      case (Inl e)
      with Pair h' stop again loop show ?thesis by (cases "IsPriorityTooLow e") simp_all
    qed
  qed
  then show ?case
  proof cases
    case stop
    then show ?thesis by (intro exI [of _ 1]) simp
  next
    case again
    from Suc.IH [of "nextTip tip" ?h] obtain n where "1 \<le> n" "n \<le> Suc left"
      "snd (submitLoop r call nonce version genesis (nextTip tip) left ?h) =
         ?h @ map (extrinsic_request r call nonce version genesis) (take n (tips_from (nextTip tip) left))" by blast
    with again show ?thesis by (intro exI [of _ "Suc n"]) simp
  qed
qed

text \<open>
  C39. Submitting a call sends at most four extrinsics, whatever the node answers: the same call and
  nonce each time, with tips 0, 1, 2 and 4 in this order.
\<close>

theorem submitSigned_bounded:
  "\<exists>n. 1 \<le> n \<and> n \<le> 4 \<and> snd (submitSigned r call nonce version genesis h) =
     h @ map (extrinsic_request r call nonce version genesis) (take n [0, 1, 2, 4])"
proof -
  have "tips_from 0 maxTipBumpAttempts = [0, 1, 2, 4]" by code_simp
  moreover have "Suc maxTipBumpAttempts = 4" by (simp add: maxTipBumpAttempts_def)
  ultimately show ?thesis
    using submitLoop_requests [of maxTipBumpAttempts r call nonce version genesis 0 h] unfolding submitSigned_def by metis
qed

section \<open>Extrinsics\<close>

text \<open>Reading an extrinsic the way the runtime does: account, signature, nonce, tip and call.\<close>

definition parse_extrinsic :: "bytes \<Rightarrow> (bytes \<times> bytes \<times> u64 \<times> u64 \<times> bytes) option" where
  "parse_extrinsic bs =
     (case get_compact bs of
        None \<Rightarrow> None
      | Some (n, body) \<Rightarrow>
          if length body \<noteq> unat n \<or> take 2 body \<noteq> [0x84, 0] then None
          else (case get_fixed 32 (drop 2 body) of
             None \<Rightarrow> None
           | Some (acct, rest) \<Rightarrow>
               if take 1 rest \<noteq> [0] then None
               else (case get_fixed 64 (drop 1 rest) of
                  None \<Rightarrow> None
                | Some (signature, rest) \<Rightarrow>
                    if take 1 rest \<noteq> [0] then None
                    else (case get_compact (drop 1 rest) of
                       None \<Rightarrow> None
                     | Some (nonce, rest) \<Rightarrow>
                         (case get_compact rest of
                            None \<Rightarrow> None
                          | Some (tip, call) \<Rightarrow> Some (acct, signature, nonce, tip, call))))))"

definition signed_payload :: "Registrar \<Rightarrow> bytes \<Rightarrow> u64 \<Rightarrow> u64 \<Rightarrow> RuntimeVersion \<Rightarrow> bytes \<Rightarrow> bytes" where
  "signed_payload r call nonce tip version genesis =
     (let payload = call @ signedExtra nonce tip @ put_le32 (SpecVersion version) @ put_le32 (TransactionVersion version) @
        genesis @ genesis in
      if length payload > 256 then blake2b_256 (rg_hashes r) payload else payload)"

lemma length_compactUint: "length (compactUint v) \<le> 9"
  by (auto simp: compactUint_def Let_def)

text \<open>
  C38. An extrinsic the registrar signs reads back, at every nonce and tip, as exactly the account,
  the signature over the payload, the nonce, the tip and the call that were meant.
\<close>

theorem signCall_roundtrip:
  assumes "length (rg_account r) = 32" and "\<And>m. length (rg_sign r m) = 64" and "length call < 2 ^ 60"
  shows "parse_extrinsic (fst (signCall r call nonce tip version genesis)) =
    Some (rg_account r, rg_sign r (signed_payload r call nonce tip version genesis), nonce, tip, call)"
proof -
  let ?extra = "signedExtra nonce tip" and ?sig = "rg_sign r (signed_payload r call nonce tip version genesis)"
  define body where "body = [0x84, 0] @ rg_account r @ [0] @ ?sig @ ?extra @ call"
  have "length ?extra \<le> 19" using length_compactUint [of nonce] length_compactUint [of tip] by (simp add: signedExtra_def)
  then have "length body < 2 ^ 64" using assms by (simp add: body_def)
  then have len: "unat (word_of_nat (length body) :: u64) = length body" by (simp add: unat_of_nat)
  have "fst (signCall r call nonce tip version genesis) = compactUint (word_of_nat (length body)) @ body"
    by (simp add: signCall_def body_def signed_payload_def Let_def)
  moreover have "drop 2 body = rg_account r @ [0] @ ?sig @ ?extra @ call" "take 2 body = [0x84, 0]"
    by (simp_all add: body_def)
  ultimately show ?thesis
    using assms(1,2) len
    by (simp add: parse_extrinsic_def compact.dec_enc account.dec_enc signedExtra_def)
qed

section \<open>Answers rest on finalized storage\<close>

text \<open>The node has reported \<open>head\<close> as finalized, and \<open>value\<close> under a key at that block, in the
  course of the requests \<open>h\<close>.\<close>

definition head_reported :: "RPCClient \<Rightarrow> rpc_request list \<Rightarrow> string \<Rightarrow> bool" where
  "head_reported c h head \<longleftrightarrow> (\<exists>h1. prefix (h1 @ [GetFinalizedHead]) h \<and> fst (FinalizedHead c h1) = Inr head)"

definition value_reported :: "RPCClient \<Rightarrow> rpc_request list \<Rightarrow> string \<Rightarrow> string \<Rightarrow> bytes \<Rightarrow> bool" where
  "value_reported c h key head value \<longleftrightarrow>
     (\<exists>h1. prefix (h1 @ [GetStorage key head]) h \<and> fst (rpc_Storage c key head h1) = Inr (Some value))"

lemma head_reported_mono: "head_reported c h head \<Longrightarrow> prefix h h' \<Longrightarrow> head_reported c h' head"
  unfolding head_reported_def by (blast intro: prefix_order.trans)

lemma value_reported_mono: "value_reported c h key head v \<Longrightarrow> prefix h h' \<Longrightarrow> value_reported c h' key head v"
  unfolding value_reported_def by (blast intro: prefix_order.trans)

lemma appends_prefix: "appends m \<Longrightarrow> m h = (x, h') \<Longrightarrow> prefix h h'"
  by (metis appendsD prefixI)

lemma FinalizedHead_reported:
  assumes "FinalizedHead c h = (Inr head, h')"
  shows "head_reported c h' head"
proof -
  have "h' = h @ [GetFinalizedHead]" using rpc_call_snd [of c GetFinalizedHead "rc_text c" h] assms by (simp add: FinalizedHead_def)
  with assms show ?thesis unfolding head_reported_def by (intro exI [of _ h]) simp
qed

lemma rpc_Storage_reported:
  assumes "rpc_Storage c key head h = (Inr (Some v), h')"
  shows "value_reported c h' key head v"
proof -
  have "snd (rpc_Storage c key head h) = h @ [GetStorage key head]"
    by (auto simp: rpc_Storage_def io_bind_def callWithNullPolicy_def io_return_def io_fail_def Let_def
        split: http_reply.split option.split sum.split)
  with assms have "h' = h @ [GetStorage key head]" by simp
  with assms show ?thesis unfolding value_reported_def by (intro exI [of _ h]) simp
qed

lemma appends_finalizedLease [intro, simp]: "appends (finalizedLease r leaseID)"
  unfolding finalizedLease_def by (intro appends_bind) (auto split: option.split intro!: appends_bind)

lemma finalizedLease_reported:
  assumes "finalizedLease r leaseID h = (Inr (Some lease), h')"
  obtains head v number blockHash where "head_reported (rg_rpc r) h' head"
    "value_reported (rg_rpc r) h' (leaseStorageKey (rg_hashes r) leaseID) head v" "length v = 105"
    "decodeHex head = Inr blockHash"
    "lease = (decodeLease leaseID v)\<lparr>fl_FinalizedBlockHash := blockHash, fl_FinalizedBlockNumber := number\<rparr>"
proof -
  let ?c = "rg_rpc r" and ?key = "leaseStorageKey (rg_hashes r) leaseID"
  from assms obtain head h1 where head: "FinalizedHead ?c h = (Inr head, h1)"
    and rest: "io_bind (rpc_Storage ?c ?key head) (\<lambda>stored. case stored of None \<Rightarrow> io_return None
       | Some v \<Rightarrow> if length v \<noteq> 105 then io_fail (CallFailed ''lease storage has invalid length'')
           else io_bind (HeaderAt ?c head) (\<lambda>header. io_bind (io_lift (BlockNumber header)) (\<lambda>number.
             io_bind (io_lift (decodeHex head)) (\<lambda>blockHash.
               io_return (Some ((decodeLease leaseID v)\<lparr>fl_FinalizedBlockHash := blockHash, fl_FinalizedBlockNumber := number\<rparr>)))))) h1 =
      (Inr (Some lease), h')"
    unfolding finalizedLease_def by (rule io_bindE)
  from rest obtain stored h2 where stored: "rpc_Storage ?c ?key head h1 = (Inr stored, h2)"
    and rest: "(case stored of None \<Rightarrow> io_return None
       | Some v \<Rightarrow> if length v \<noteq> 105 then io_fail (CallFailed ''lease storage has invalid length'')
           else io_bind (HeaderAt ?c head) (\<lambda>header. io_bind (io_lift (BlockNumber header)) (\<lambda>number.
             io_bind (io_lift (decodeHex head)) (\<lambda>blockHash.
               io_return (Some ((decodeLease leaseID v)\<lparr>fl_FinalizedBlockHash := blockHash, fl_FinalizedBlockNumber := number\<rparr>)))))) h2 =
      (Inr (Some lease), h')"
    by (rule io_bindE)
  from rest obtain v where v: "stored = Some v" "length v = 105" by (cases stored) (auto split: if_splits)
  from rest v obtain header h3 where "HeaderAt ?c head h2 = (Inr header, h3)"
    and rest: "io_bind (io_lift (BlockNumber header)) (\<lambda>number. io_bind (io_lift (decodeHex head)) (\<lambda>blockHash.
       io_return (Some ((decodeLease leaseID v)\<lparr>fl_FinalizedBlockHash := blockHash, fl_FinalizedBlockNumber := number\<rparr>)))) h3 =
      (Inr (Some lease), h')"
    by (auto elim: io_bindE)
  from rest obtain number blockHash where last: "decodeHex head = Inr blockHash" "h' = h3"
    "lease = (decodeLease leaseID v)\<lparr>fl_FinalizedBlockHash := blockHash, fl_FinalizedBlockNumber := number\<rparr>"
    by (auto elim!: io_bindE)
  have "prefix h1 h2" using appends_prefix [OF appends_rpc_Storage stored] .
  moreover have "prefix h2 h'" using appends_prefix [OF appends_rpc(4) \<open>HeaderAt ?c head h2 = (Inr header, h3)\<close>] last(2) by simp
  ultimately have "head_reported ?c h' head" "value_reported ?c h' ?key head v"
    using head_reported_mono [OF FinalizedHead_reported [OF head]] value_reported_mono [OF rpc_Storage_reported] stored v(1)
    by (blast intro: prefix_order.trans)+
  with that v(2) last show thesis by blast
qed

lemma pollUntil_found:
  assumes "pollUntil check n h = (Inr y, h')"
  obtains h1 where "check h1 = (Inr (Some y), h')"
  using assms
proof (induction n arbitrary: h thesis)
  case 0
  then show ?case by (auto elim!: io_bindE split: option.splits)
next
  case (Suc n)
  from Suc.prems(2) obtain x h1 where "check h = (Inr x, h1)"
    "(case x of None \<Rightarrow> pollUntil check n | Some y \<Rightarrow> io_return y) h1 = (Inr y, h')" by (auto elim: io_bindE)
  with Suc.prems(1) Suc.IH show ?case by (cases x) auto
qed

text \<open>
  The registrar says a lease is active only when the node has reported it so in finalized
  storage: at a head reported as finalized, under that lease's own key, a record of 105 bytes that
  names the provider, the bridge account and the resource hash asked for, runs for exactly the
  duration, which is within the limits, and is in state Active.
\<close>

lemma EnsureLeaseActive_sound:
  assumes "EnsureLeaseActive r polls leaseID provider resourceHash duration h = (Inr lease, h')"
  shows "\<exists>head v. head_reported (rg_rpc r) h' head \<and>
    value_reported (rg_rpc r) h' (leaseStorageKey (rg_hashes r) leaseID) head v \<and> length v = 105 \<and>
    slice 0 32 v = provider \<and> slice 32 64 v = rg_account r \<and> slice 64 96 v = resourceHash \<and>
    unat (le_value (slice 100 104 v) :: u32) = unat (le_value (slice 96 100 v) :: u32) + unat duration \<and>
    1 \<le> unat duration \<and> unat duration \<le> 1000000 \<and> v ! 104 = 1 \<and>
    fl_LeaseID lease = leaseID \<and> decodeHex head = Inr (fl_FinalizedBlockHash lease)"
proof -
  define seen where "seen \<longleftrightarrow> (\<exists>h1. finalizedLease r leaseID h1 = (Inr (Some lease), h') \<and>
    validateLease r lease provider resourceHash duration \<and> fl_State lease = 1)"
  have now: "finalizedLease r leaseID h1 = (Inr (Some lease), h') \<Longrightarrow> validateLease r lease provider resourceHash duration \<Longrightarrow>
      fl_State lease = 1 \<Longrightarrow> seen" for h1
    unfolding seen_def by blast
  have found: seen if "pollActive r leaseID provider resourceHash duration h2 = (Inr (Some lease), h')" for h2
    using that by (auto simp: pollActive_def elim!: io_bindE split: option.splits if_splits dest: now)
  have polled: seen
    if "activateLease r polls leaseID provider resourceHash duration version genesis b h2 = (Inr lease, h')" for version genesis b h2
  proof -
    from that obtain h3 where "pollUntil (pollActive r leaseID provider resourceHash duration) polls h3 = (Inr lease, h')"
      unfolding activateLease_def by (elim io_bindE)
    then show ?thesis by (elim pollUntil_found) (rule found)
  qed
  have dur: "\<not> (duration = 0 \<or> duration > 1000000)" using assms by (auto simp: EnsureLeaseActive_def)
  have seen
    using assms dur unfolding EnsureLeaseActive_def
    by (auto elim!: io_bindE split: option.splits if_splits dest: polled now)
  then obtain h1 where read: "finalizedLease r leaseID h1 = (Inr (Some lease), h')"
    and valid: "validateLease r lease provider resourceHash duration" "fl_State lease = 1" unfolding seen_def by blast
  from read obtain head v number blockHash where rep: "head_reported (rg_rpc r) h' head"
    "value_reported (rg_rpc r) h' (leaseStorageKey (rg_hashes r) leaseID) head v" "length v = 105"
    "decodeHex head = Inr blockHash"
    and lease: "lease = (decodeLease leaseID v)\<lparr>fl_FinalizedBlockHash := blockHash, fl_FinalizedBlockNumber := number\<rparr>"
    by (rule finalizedLease_reported)
  have window: "unat e = unat s + unat duration" if "\<not> e < s" "e - s = duration" for e s :: u32
    using that by (metis le_add_diff_inverse not_less unat_sub word_le_nat_alt)
  have "unat duration \<noteq> 0" "unat duration \<le> 1000000" using dur by (simp_all add: unat_eq_0 word_less_nat_alt)
  with rep valid lease window show ?thesis
    by (intro exI [of _ head] exI [of _ v]) (auto simp: validateLease_def decodeLease_def)
qed

text \<open>The same for a completed lease, and for a provider: the registrar answers that a provider is
  active only after the node has reported the record of exactly that key with status Active at a
  finalized head.\<close>

lemma EnsureLeaseCompleted_sound:
  assumes "EnsureLeaseCompleted r polls leaseID h = (Inr lease, h')"
  shows "\<exists>head v. head_reported (rg_rpc r) h' head \<and>
    value_reported (rg_rpc r) h' (leaseStorageKey (rg_hashes r) leaseID) head v \<and> slice 32 64 v = rg_account r \<and> v ! 104 = 2"
proof -
  define seen where "seen \<longleftrightarrow> (\<exists>h1. finalizedLease r leaseID h1 = (Inr (Some lease), h') \<and>
    fl_Consumer lease = rg_account r \<and> fl_State lease = 2)"
  have now: "finalizedLease r leaseID h1 = (Inr (Some lease), h') \<Longrightarrow> fl_Consumer lease = rg_account r \<Longrightarrow>
      fl_State lease = 2 \<Longrightarrow> seen" for h1
    unfolding seen_def by blast
  have polled: seen if "pollUntil (pollCompleted r leaseID expected) polls h2 = (Inr lease, h')" "fl_Consumer expected = rg_account r"
    for expected h2
  proof -
    from that(1) obtain h3 where "pollCompleted r leaseID expected h3 = (Inr (Some lease), h')" by (rule pollUntil_found)
    with that(2) show ?thesis
      by (auto simp: pollCompleted_def sameLeaseIdentity_def elim!: io_bindE split: option.splits if_splits dest: now)
  qed
  have seen
    using assms unfolding EnsureLeaseCompleted_def
    by (auto elim!: io_bindE split: option.splits if_splits dest: polled now)
  then obtain h1 where read: "finalizedLease r leaseID h1 = (Inr (Some lease), h')"
    and lease: "fl_Consumer lease = rg_account r" "fl_State lease = 2" unfolding seen_def by blast
  from read show ?thesis by (elim finalizedLease_reported) (use lease in \<open>auto simp: decodeLease_def\<close>)
qed

lemma finalizedProvider_reported:
  assumes "finalizedProvider r provider h = (Inr p, h')" and "pd_status p = Some s"
  shows "\<exists>head v. head_reported (rg_rpc r) h' head \<and>
    value_reported (rg_rpc r) h' (providerStorageKey (rg_hashes r) provider) head v \<and> length v = 65 \<and>
    take 32 v = provider \<and> slice 32 64 v = provider \<and> v ! 64 = s"
proof -
  let ?c = "rg_rpc r" and ?key = "providerStorageKey (rg_hashes r) provider"
  from assms obtain head h1 v h2 header h3 where step: "FinalizedHead ?c h = (Inr head, h1)"
    "rpc_Storage ?c ?key head h1 = (Inr (Some v), h2)" "HeaderAt ?c head h2 = (Inr header, h3)" "h' = h3"
    and v: "length v = 65" "equal32 (take 32 v) provider" "equal32 (slice 32 64 v) provider" "v ! 64 = s"
    unfolding finalizedProvider_def by (auto elim!: io_bindE split: option.splits if_splits)
  have pre: "prefix h1 h2" "prefix h2 h'"
    using appends_prefix [OF appends_rpc_Storage step(2)] appends_prefix [OF appends_rpc(4) step(3)] step(4) by simp_all
  have "head_reported ?c h' head"
    using head_reported_mono [OF FinalizedHead_reported [OF step(1)]] pre by (blast intro: prefix_order.trans)
  moreover have "value_reported ?c h' ?key head v"
    using value_reported_mono [OF rpc_Storage_reported [OF step(2)]] pre by blast
  ultimately show ?thesis using v by (auto simp: equal32_iff)
qed

lemma appends_finalizedProvider [intro, simp]: "appends (finalizedProvider r provider)"
  unfolding finalizedProvider_def by (intro appends_bind) (auto split: option.split)

lemma EnsureActive_sound:
  assumes "EnsureActive r polls provider h = (Inr out, h')"
  shows "\<exists>head v. head_reported (rg_rpc r) h' head \<and>
    value_reported (rg_rpc r) h' (providerStorageKey (rg_hashes r) provider) head v \<and> length v = 65 \<and>
    take 32 v = provider \<and> slice 32 64 v = provider \<and> v ! 64 = 2"
proof -
  have "\<exists>h1 p h2. finalizedProvider r provider h1 = (Inr p, h2) \<and> pd_status p = Some 2 \<and> prefix h2 h'"
  proof -
    from assms obtain version genesis h1 p h2 where read: "finalizedProvider r provider h1 = (Inr p, h2)"
      and rest: "(if pd_status p = Some 2 then io_return (None, pd_headHash p, pd_headNumber p)
        else let steps = registrationSteps provider (pd_status p) in
          if steps = [] then io_fail (CallFailed ''provider has unsupported on-chain status'')
          else io_bind (finalizedAccountNonce r) (\<lambda>nonce. io_bind (submitSteps r version genesis steps nonce None) (\<lambda>lastHash.
            io_bind (waitForFinalizedStatus r polls provider 2) (\<lambda>_. io_bind (finalizedProvider r provider)
              (\<lambda>p'. io_return (lastHash, pd_headHash p', pd_headNumber p')))))) h2 = (Inr out, h')"
      unfolding EnsureActive_def by (elim io_bindE) blast
    show ?thesis
    proof (cases "pd_status p = Some 2")
      case True
      with rest read show ?thesis by auto
    next
      case False
      with rest obtain h3 h4 p' where wait: "waitForFinalizedStatus r polls provider 2 h3 = (Inr (), h4)"
        and again: "finalizedProvider r provider h4 = (Inr p', h')"
        by (auto simp: Let_def elim!: io_bindE split: if_splits)
      from wait obtain h5 q where "finalizedProvider r provider h5 = (Inr q, h4)" "pd_status q = Some 2"
        unfolding waitForFinalizedStatus_def by (elim pollUntil_found) (auto elim!: io_bindE split: if_splits)
      with appends_prefix [OF appends_finalizedProvider again] show ?thesis by blast
    qed
  qed
  then obtain h1 p h2 where read: "finalizedProvider r provider h1 = (Inr p, h2)" "pd_status p = Some 2" and pre: "prefix h2 h'" by blast
  from finalizedProvider_reported [OF read] head_reported_mono [OF _ pre] value_reported_mono [OF _ pre] show ?thesis by blast
qed

section \<open>A concrete node\<close>

text \<open>A node that answers every read of storage with the same value.\<close>

definition sample_lease_record :: bytes where
  "sample_lease_record = replicate 32 1 @ replicate 32 4 @ replicate 32 9 @ put_le32 10 @ put_le32 1210 @ [1]"

definition sample_answer :: "bytes \<Rightarrow> rpc_request \<Rightarrow> string" where
  "sample_answer stored request =
     (case request of
        GetRuntimeVersion \<Rightarrow> ''version''
      | GetBlockHash _ \<Rightarrow> hex0x (replicate 32 9)
      | GetFinalizedHead \<Rightarrow> hex0x (replicate 32 2)
      | GetStorage _ _ \<Rightarrow> hex0x stored
      | _ \<Rightarrow> ''header'')"

definition sample_client :: "bytes \<Rightarrow> RuntimeVersion \<Rightarrow> RPCClient" where
  "sample_client stored version =
     \<lparr>rc_transport = (\<lambda>h request ident. HttpStatus 200 (Some \<lparr>en_JSONRPC = ''2.0'', en_ID = ident, en_Result = sample_answer stored request,
        en_Error = None\<rparr>)),
      rc_version = (\<lambda>_. Some version), rc_text = Some,
      rc_header = (\<lambda>_. Some \<lparr>ParentHash = '''', hd_Number = ''0x9'', StateRoot = '''', ExtrinsicsRoot = ''''\<rparr>),
      rc_health = (\<lambda>_. None), rc_number = (\<lambda>_. None), rc_keys = (\<lambda>_. None)\<rparr>"

definition sample_registrar :: "bytes \<Rightarrow> RuntimeVersion \<Rightarrow> Registrar" where
  "sample_registrar stored version =
     \<lparr>rg_rpc = sample_client stored version, rg_hashes = sample_hashes, rg_sign = (\<lambda>m. take 64 (m @ replicate 64 0)), rg_account = replicate 32 4\<rparr>"

definition sample_version :: RuntimeVersion where "sample_version = \<lparr>SpecVersion = 4, TransactionVersion = 2\<rparr>"

lemma sample_rpc [simp]:
  "rpc_call (sample_client stored version) request f h =
     (case f (sample_answer stored request) of
        None \<Rightarrow> if sample_answer stored request = [] \<or> sample_answer stored request = ''null'' then (Inl (CallFailed ''Substrate RPC returned no result''), h @ [request])
                else (Inl (CallFailed ''decode Substrate RPC result''), h @ [request])
      | Some x \<Rightarrow> if sample_answer stored request = [] \<or> sample_answer stored request = ''null'' then (Inl (CallFailed ''Substrate RPC returned no result''), h @ [request])
                else (Inr x, h @ [request]))"
  by (simp add: rpc_call_def callWithNullPolicy_def sample_client_def io_bind_def io_fail_def io_return_def Let_def split: option.split)

lemma sample_storage [simp]:
  "rpc_Storage (sample_client stored version) key head h = (Inr (Some stored), h @ [GetStorage key head])"
  by (simp add: rpc_Storage_def callWithNullPolicy_def sample_client_def sample_answer_def io_bind_def io_return_def Let_def
      decodeHex_hex0x hex0x_def [of stored, symmetric])
    (simp add: hex0x_def)

lemma sample_finalizedLease:
  "finalizedLease (sample_registrar sample_lease_record version) leaseID h =
     (Inr (Some ((decodeLease leaseID sample_lease_record)\<lparr>fl_FinalizedBlockHash := replicate 32 2, fl_FinalizedBlockNumber := 9\<rparr>)),
      h @ [GetFinalizedHead, GetStorage (leaseStorageKey sample_hashes leaseID) (hex0x (replicate 32 2)), GetHeader (hex0x (replicate 32 2))])"
proof -
  have number: "BlockNumber \<lparr>ParentHash = [], hd_Number = ''0x9'', StateRoot = [], ExtrinsicsRoot = []\<rparr> = Inr 9"
    by (simp add: BlockNumber_def hex_value_def)
  have len: "length sample_lease_record = 105" by (simp add: sample_lease_record_def put_le32_def)
  have ne: "hex0x bs \<noteq> []" "hex0x bs \<noteq> ''null''" for bs by (simp_all add: hex0x_def)
  show ?thesis
    by (simp add: finalizedLease_def FinalizedHead_def HeaderAt_def io_bind_def io_lift_def io_return_def sample_registrar_def len ne number
        sample_answer_def sample_client_def [THEN arg_cong, of rc_text] sample_client_def [THEN arg_cong, of rc_header])
qed

lemma sample_supportedVersion:
  "supportedVersion (sample_registrar stored version) h =
     (if version = sample_version then Inr version else Inl (CallFailed ''unsupported runtime version''), h @ [GetRuntimeVersion])"
  by (cases version) (simp add: supportedVersion_def rpc_RuntimeVersion_def io_bind_def io_fail_def io_return_def sample_registrar_def
      sample_answer_def sample_client_def [THEN arg_cong, of rc_version] sample_version_def supportedSpecVersion_def
      supportedTransactionVersion_def)

lemma sample_genesisHash:
  "genesisHash (sample_registrar stored version) h = (Inr (replicate 32 9), h @ [GetBlockHash 0])"
  by (simp add: genesisHash_def BlockHash_def io_bind_def io_lift_def io_return_def sample_registrar_def sample_answer_def
      sample_client_def [THEN arg_cong, of rc_text] fixedHash_hex0x) (simp add: hex0x_def)

definition sample_active :: "(rpc_failure + FinalizedLease) \<times> rpc_request list" where
  "sample_active = EnsureLeaseActive (sample_registrar sample_lease_record sample_version) 0 1 (replicate 32 1) (replicate 32 9) 1200 []"

lemma sample_active_eval:
  "fst sample_active = Inr ((decodeLease 1 sample_lease_record)\<lparr>fl_FinalizedBlockHash := replicate 32 2, fl_FinalizedBlockNumber := 9\<rparr>)"
proof -
  have fields: "slice 0 32 sample_lease_record = replicate 32 1" "slice 32 64 sample_lease_record = replicate 32 4"
    "slice 64 96 sample_lease_record = replicate 32 9" "le_value (slice 96 100 sample_lease_record) = (10 :: u32)"
    "le_value (slice 100 104 sample_lease_record) = (1210 :: u32)" "sample_lease_record ! 104 = 1"
    by (simp_all add: sample_lease_record_def slice_def le_value_32 nth_append)
  have ok: "validateLease (sample_registrar sample_lease_record version) ((decodeLease 1 sample_lease_record)\<lparr>fl_FinalizedBlockHash := hash,
      fl_FinalizedBlockNumber := number\<rparr>) (replicate 32 1) (replicate 32 9) 1200" for version hash number
    by (simp add: validateLease_def decodeLease_def fields sample_registrar_def)
  have state: "fl_State (decodeLease 1 sample_lease_record) = 1" by (simp add: decodeLease_def fields)
  show ?thesis
    by (simp add: sample_active_def EnsureLeaseActive_def io_bind_def sample_supportedVersion sample_genesisHash sample_finalizedLease
        ok state io_return_def)
qed

text \<open>A provider that is active on the chain is reported at once.\<close>

definition sample_provider_record :: bytes where
  "sample_provider_record = replicate 64 7 @ [2]"

lemma sample_EnsureActive:
  "fst (EnsureActive (sample_registrar sample_provider_record sample_version) polls (replicate 32 7) h) = Inr (None, replicate 32 2, 9)"
proof -
  have number: "BlockNumber \<lparr>ParentHash = [], hd_Number = ''0x9'', StateRoot = [], ExtrinsicsRoot = []\<rparr> = Inr 9"
    by (simp add: BlockNumber_def hex_value_def)
  have stored: "length sample_provider_record = 65" "take 32 sample_provider_record = replicate 32 7"
    "slice 32 64 sample_provider_record = replicate 32 7" "sample_provider_record ! 64 = 2"
    by (simp_all add: sample_provider_record_def slice_def nth_append)
  have ne: "hex0x bs \<noteq> []" "hex0x bs \<noteq> ''null''" for bs by (simp_all add: hex0x_def)
  have "fst (finalizedProvider (sample_registrar sample_provider_record sample_version) (replicate 32 7) (h @ [GetRuntimeVersion, GetBlockHash 0])) =
      Inr \<lparr>pd_status = Some 2, pd_headHash = replicate 32 2, pd_headNumber = 9\<rparr>"
    by (simp add: finalizedProvider_def FinalizedHead_def HeaderAt_def io_bind_def io_lift_def io_return_def sample_registrar_def stored ne
        number sample_answer_def sample_client_def [THEN arg_cong, of rc_text] sample_client_def [THEN arg_cong, of rc_header] equal32_iff)
  then obtain h' where "finalizedProvider (sample_registrar sample_provider_record sample_version) (replicate 32 7)
      (h @ [GetRuntimeVersion, GetBlockHash 0]) = (Inr \<lparr>pd_status = Some 2, pd_headHash = replicate 32 2, pd_headNumber = 9\<rparr>, h')"
    by (metis prod.collapse)
  then show ?thesis
    by (simp add: EnsureActive_def io_bind_def sample_supportedVersion sample_genesisHash io_return_def)
qed

theorem signCall_roundtrip_witness:
  "parse_extrinsic (fst (signCall (sample_registrar sample_lease_record sample_version) [1, 2] 70000 3 sample_version (replicate 32 9))) =
     Some (replicate 32 4, take 64 (signed_payload (sample_registrar sample_lease_record sample_version) [1, 2] 70000 3 sample_version (replicate 32 9) @
       replicate 64 0), 70000, 3, [1, 2])"
  using signCall_roundtrip [of "sample_registrar sample_lease_record sample_version" "[1, 2]" 70000 3 sample_version "replicate 32 9"]
  by (simp add: sample_registrar_def)

text \<open>An offer is announced whatever runtime the node runs, while a call to another pallet stops after
  asking for the version when it is not the supported one.\<close>

definition newer_version :: RuntimeVersion where "newer_version = \<lparr>SpecVersion = 5, TransactionVersion = 3\<rparr>"

theorem offers_ignore_runtime_version:
  "SubmitSudo (sample_registrar sample_lease_record newer_version) call [] = (Inl (CallFailed ''unsupported runtime version''), [GetRuntimeVersion]) \<and>
   (\<exists>x. SubmitExtrinsicOf x \<in> set (snd (AnnounceOfferFor (sample_registrar sample_lease_record newer_version) provider offer [])))"
proof -
  have nonce: "finalizedAccountNonce (sample_registrar sample_lease_record version) h = (Inr (ucast (le_value (take 4 sample_lease_record) :: u32)),
      h @ [GetFinalizedHead, GetStorage (accountStorageKey sample_hashes (replicate 32 4)) (hex0x (replicate 32 2))])" for version h
  proof -
    have len: "length sample_lease_record = 105" by (simp add: sample_lease_record_def)
    have ne: "hex0x bs \<noteq> []" "hex0x bs \<noteq> ''null''" for bs by (simp_all add: hex0x_def)
    show ?thesis
      by (simp add: finalizedAccountNonce_def FinalizedHead_def io_bind_def io_return_def sample_registrar_def len ne sample_answer_def
          sample_client_def [THEN arg_cong, of rc_text])
  qed
  have version: "rpc_RuntimeVersion (rg_rpc (sample_registrar sample_lease_record newer_version)) h = (Inr newer_version, h @ [GetRuntimeVersion])" for h
    by (simp add: rpc_RuntimeVersion_def sample_registrar_def sample_answer_def sample_client_def [THEN arg_cong, of rc_version])
  have last_step: "snd (case p of (Inl e, h') \<Rightarrow> (Inl e, h') | (Inr x, h') \<Rightarrow> io_return () h') = snd p" for p :: "(rpc_failure + bytes) \<times> _"
    by (auto simp: io_return_def split: prod.split sum.split)
  have announced: "\<exists>nonce h. snd (AnnounceOfferFor (sample_registrar sample_lease_record newer_version) provider offer []) =
      snd (submitSigned (sample_registrar sample_lease_record newer_version) (sudoCall (announceOfferCall provider offer)) nonce newer_version (replicate 32 9) h)"
    by (simp add: AnnounceOfferFor_def io_bind_def version sample_genesisHash nonce last_step) blast
  have "\<exists>x. SubmitExtrinsicOf x \<in> set (snd (submitSigned r call nonce version genesis h))" for r call nonce version genesis h
  proof -
    from submitLoop_requests [of maxTipBumpAttempts r call nonce version genesis 0 h] obtain n where "1 \<le> n"
      "snd (submitSigned r call nonce version genesis h) = h @ map (extrinsic_request r call nonce version genesis) (take n (tips_from 0 maxTipBumpAttempts))"
      unfolding submitSigned_def by blast
    moreover have "tips_from 0 maxTipBumpAttempts = [0, 1, 2, 4]" by code_simp
    ultimately show ?thesis by (cases n) (auto simp: extrinsic_request_def)
  qed
  with announced show ?thesis
    by (auto simp: SubmitSudo_def io_bind_def sample_supportedVersion newer_version_def sample_version_def)
qed

end
