(* ===== verification/Chain_Backing.thy ===== *)
theory Chain_Backing
  imports Orchestration_Run Join_Properties Registrar_Properties
begin

text \<open>
  Workers and provider join with the chain registrar in place of the answers they take from it:
  a worker or a join handler is told that a lease or a provider is active only by a call of
  \<^verbatim>\<open>EnsureLeaseActive\<close> or \<^verbatim>\<open>EnsureActive\<close> of registrar.go, whose requests are part of the
  log of requests sent to the node.
\<close>

section \<open>Leases\<close>

definition lease_confirmed :: "Registrar \<Rightarrow> rpc_request list \<Rightarrow> nat \<Rightarrow> bytes \<Rightarrow> bytes \<Rightarrow> u32 \<Rightarrow> bool" where
  "lease_confirmed g h leaseID key hash blocks \<longleftrightarrow>
     (\<exists>polls h1 lease h2. Registrar.EnsureLeaseActive g polls (word_of_nat leaseID) key hash blocks h1 = (Inr lease, h2) \<and> prefix h2 h)"

inductive chain_orchestration :: "Registrar \<Rightarrow> Worker \<Rightarrow> orch \<times> rpc_request list \<Rightarrow> orch \<times> rpc_request list \<Rightarrow> bool" for g w where
  silent: "orchestration w \<sigma> \<sigma>' \<Longrightarrow> o_events \<sigma>' = o_events \<sigma> \<Longrightarrow> prefix h h' \<Longrightarrow> chain_orchestration g w (\<sigma>, h) (\<sigma>', h')"
| work: "item \<in> o_claims \<sigma> \<Longrightarrow> \<forall>x. length (we_sha256 env x) = 32 \<Longrightarrow> prefix h h' \<Longrightarrow>
     (\<And>leaseID key hash blocks. worker_env.EnsureLeaseActive env leaseID key hash blocks \<Longrightarrow> lease_confirmed g h' leaseID key hash blocks) \<Longrightarrow>
     processItem (postgres_store c1 c2 locked workerID) env w item (o_store \<sigma>) = (r, s', es) \<Longrightarrow>
     chain_orchestration g w (\<sigma>, h) (\<sigma>\<lparr>o_store := s', o_events := o_events \<sigma> \<union> set es,
       o_worked := (if s' = o_store \<sigma> then o_worked \<sigma>
         else (o_worked \<sigma>)(wl_WorkloadID item := Suc (o_worked \<sigma> (wl_WorkloadID item))))\<rparr>, h')"

definition leases_confirmed :: "Registrar \<Rightarrow> orch \<times> rpc_request list \<Rightarrow> bool" where
  "leases_confirmed g = (\<lambda>(\<sigma>, h). \<forall>leaseID key hash blocks. LeaseActive leaseID key hash blocks \<in> o_events \<sigma> \<longrightarrow>
     lease_confirmed g h leaseID key hash blocks)"

lemma lease_confirmed_mono: "lease_confirmed g h leaseID key hash blocks \<Longrightarrow> prefix h h' \<Longrightarrow> lease_confirmed g h' leaseID key hash blocks"
  unfolding lease_confirmed_def by (meson prefix_order.order_trans)

lemma leaseItem_event:
  assumes "leaseItem st env w item s = (r, s', es)" and "LeaseActive leaseID key hash blocks \<in> set es"
  shows "worker_env.EnsureLeaseActive env leaseID key hash blocks"
  using assms unfolding leaseItem_def stored_def retried_def
  by (auto split: option.splits if_splits prod.splits sum.splits)

lemma scheduleItem_events: "scheduleItem st env w item s = (r, s', es) \<Longrightarrow> es = []"
  unfolding scheduleItem_def retried_def by (auto simp: Let_def split: option.splits if_splits prod.splits sum.splits)

lemma stopItem_events: "stopItem st env w item s = (r, s', es) \<Longrightarrow> LeaseActive leaseID key hash blocks \<notin> set es"
  unfolding stopItem_def stored_def retried_def by (auto simp: Let_def split: option.splits if_splits prod.splits sum.splits)

lemma deployItem_events: "deployItem st env w item s = (r, s', es) \<Longrightarrow> LeaseActive leaseID key hash blocks \<notin> set es"
  unfolding deployItem_def dispatchItem_def stored_def retried_def
  by (auto simp: Let_def split: option.splits if_splits prod.splits sum.splits)

lemma other_item_events:
  assumes "wl_State item \<noteq> LEASE_PENDING" and "processItem st env w item s = (r, s', es)"
  shows "LeaseActive leaseID key hash blocks \<notin> set es"
  using assms unfolding processItem_def
  by (auto simp: stored_def dest: scheduleItem_events stopItem_events deployItem_events
      split: workload_state.splits option.splits prod.splits sum.splits)

lemma processItem_event:
  assumes "processItem st env w item s = (r, s', es)" and "LeaseActive leaseID key hash blocks \<in> set es"
  shows "worker_env.EnsureLeaseActive env leaseID key hash blocks"
proof (cases "wl_State item = LEASE_PENDING")
  case True
  with assms show ?thesis by (intro leaseItem_event) (simp_all add: processItem_def)
next
  case False
  from other_item_events [OF this assms(1)] assms(2) show ?thesis by blast
qed

lemma chain_orchestration_sound:
  assumes "chain_orchestration g w x y"
  shows "orchestration w (fst x) (fst y) \<and> (leases_confirmed g x \<longrightarrow> leases_confirmed g y)"
  using assms
proof cases
  case (silent \<sigma> \<sigma>' h h')
  then show ?thesis by (auto simp: leases_confirmed_def intro: lease_confirmed_mono [OF _ silent(5)])
next
  case (work item \<sigma> env h h' c1 c2 locked workerID r s' es)
  have "orchestration w (fst x) (fst y)"
    using orchestration.work [OF work(3,4,7)] work(1,2) by simp
  moreover have "lease_confirmed g h' leaseID key hash blocks" if "LeaseActive leaseID key hash blocks \<in> set es" for leaseID key hash blocks
    using processItem_event [OF work(7) that] by (rule work(6))
  ultimately show ?thesis using work(1,2) by (auto simp: leases_confirmed_def intro: lease_confirmed_mono [OF _ work(5)])
qed

lemma chain_orchestration_run:
  assumes "(chain_orchestration g w)\<^sup>*\<^sup>* x y"
  shows "(orchestration w)\<^sup>*\<^sup>* (fst x) (fst y) \<and> (leases_confirmed g x \<longrightarrow> leases_confirmed g y)"
  using assms
proof induction
  case (step y z)
  with chain_orchestration_sound [OF step(2)] show ?case by (auto intro: rtranclp.rtrancl_into_rtrancl)
qed simp

lemma orchestration_events: "orchestration w \<sigma> \<sigma>' \<Longrightarrow> o_events \<sigma> \<subseteq> o_events \<sigma>'"
  by (erule orchestration.cases) auto

lemma orchestration_run_events: "(orchestration w)\<^sup>*\<^sup>* \<sigma> \<sigma>' \<Longrightarrow> o_events \<sigma> \<subseteq> o_events \<sigma>'"
  by (induction rule: rtranclp_induct) (auto dest: orchestration_events)

lemma silent_run:
  assumes "(orchestration w)\<^sup>*\<^sup>* \<sigma> \<sigma>'" and "o_events \<sigma>' = o_events \<sigma>"
  shows "(chain_orchestration g w)\<^sup>*\<^sup>* (\<sigma>, h) (\<sigma>', h)"
  using assms
proof (induction rule: rtranclp_induct)
  case (step \<sigma>1 \<sigma>2)
  from orchestration_run_events [OF step(1)] orchestration_events [OF step(2)] step(4) have "o_events \<sigma>1 = o_events \<sigma>" "o_events \<sigma>2 = o_events \<sigma>1"
    by auto
  with step(3) chain_orchestration.silent [OF step(2)] show ?case by (meson prefix_order.order_refl rtranclp.rtrancl_into_rtrancl)
qed simp

section \<open>Providers\<close>

fun finalization_of :: "bytes option \<times> bytes \<times> u64 \<Rightarrow> ChainFinalization" where
  "finalization_of (extrinsic, blockHash, number) =
     \<lparr>ExtrinsicHash = extrinsic, FinalizedBlockHash = blockHash, FinalizedBlockNumber = number\<rparr>"

definition provider_confirmed :: "Registrar \<Rightarrow> rpc_request list \<Rightarrow> bytes \<Rightarrow> ChainFinalization \<Rightarrow> bool" where
  "provider_confirmed g h key f \<longleftrightarrow>
     (\<exists>polls h1 out h2. EnsureActive g polls key h1 = (Inr out, h2) \<and> prefix h2 h \<and> f = finalization_of out)"

inductive chain_join :: "Registrar \<Rightarrow> join_service \<Rightarrow> ReconcilerConfig \<Rightarrow> join_system \<times> rpc_request list \<Rightarrow> join_system \<times> rpc_request list \<Rightarrow> bool"
  for g svc cfg where
  silent: "join_step svc cfg \<sigma> \<sigma>' \<Longrightarrow> (\<And>k. ChainActive k \<in> jy_events \<sigma>' \<Longrightarrow> ChainActive k \<in> jy_events \<sigma>) \<Longrightarrow> prefix h h' \<Longrightarrow>
     chain_join g svc cfg (\<sigma>, h) (\<sigma>', h')"
| activate: "cm \<in> jy_completed \<sigma> \<Longrightarrow> prefix h h' \<Longrightarrow>
     (\<And>f. ensure (completed_key cm) = Some f \<Longrightarrow> provider_confirmed g h' (completed_key cm) f) \<Longrightarrow>
     activateCompletion (svc\<lparr>jn_EnsureActive := Some ensure\<rparr>) c (jy_store \<sigma>) cm = (out, s') \<Longrightarrow>
     chain_join g svc cfg (\<sigma>, h) (\<sigma>\<lparr>jy_store := s', jy_events := jy_events \<sigma> \<union> activation_events ensure cm\<rparr>, h')"
| reconcile: "pr \<in> jy_pending \<sigma> \<Longrightarrow> prefix h h' \<Longrightarrow>
     (\<And>ensure f. re_EnsureActive env = Some ensure \<Longrightarrow> ensure (pr_PublicKey pr) = Inr f \<Longrightarrow> provider_confirmed g h' (pr_PublicKey pr) f) \<Longrightarrow>
     chain_join g svc cfg (\<sigma>, h) (\<sigma>\<lparr>jy_store := reconcileOne cfg env i (jy_store \<sigma>) pr,
       jy_events := jy_events \<sigma> \<union> reconcile_events env pr\<rparr>, h')"

definition providers_confirmed :: "Registrar \<Rightarrow> join_system \<times> rpc_request list \<Rightarrow> bool" where
  "providers_confirmed g = (\<lambda>(\<sigma>, h). \<forall>k. ChainActive k \<in> jy_events \<sigma> \<longrightarrow> (\<exists>f. provider_confirmed g h k f))"

lemma provider_confirmed_mono: "provider_confirmed g h k f \<Longrightarrow> prefix h h' \<Longrightarrow> provider_confirmed g h' k f"
  unfolding provider_confirmed_def using prefix_order.order_trans [of _ h h'] by blast

lemma providers_confirmed_later:
  assumes "providers_confirmed g (\<sigma>, h)" and "prefix h h'"
    and "\<And>k. ChainActive k \<in> jy_events \<sigma>' \<Longrightarrow> ChainActive k \<in> jy_events \<sigma> \<or> (\<exists>f. provider_confirmed g h' k f)"
  shows "providers_confirmed g (\<sigma>', h')"
  unfolding providers_confirmed_def
proof (simp, intro allI impI)
  fix k
  assume "ChainActive k \<in> jy_events \<sigma>'"
  from assms(3) [OF this] show "\<exists>f. provider_confirmed g h' k f"
  proof
    assume "ChainActive k \<in> jy_events \<sigma>"
    with assms(1) obtain f where "provider_confirmed g h k f" by (auto simp: providers_confirmed_def)
    with provider_confirmed_mono [OF _ assms(2)] show ?thesis by blast
  qed
qed

lemma chain_join_sound:
  assumes "chain_join g svc cfg x y"
  shows "join_step svc cfg (fst x) (fst y) \<and> (providers_confirmed g x \<longrightarrow> providers_confirmed g y)"
  using assms
proof cases
  case (silent \<sigma> \<sigma>' h h')
  with providers_confirmed_later [of g \<sigma> h h' \<sigma>'] show ?thesis by simp
next
  case (activate cm \<sigma> h h' ensure c out s')
  have "join_step svc cfg (fst x) (fst y)" using join_step.activate [OF activate(3,6)] activate(1,2) by simp
  moreover have "\<exists>f. provider_confirmed g h' k f" if "ChainActive k \<in> activation_events ensure cm" for k
    using that activate(5) by (auto simp: activation_events_def split: if_splits)
  ultimately show ?thesis using activate(1,2) by (auto intro!: providers_confirmed_later [OF _ activate(4)]) blast
next
  case (reconcile pr \<sigma> h h' env i)
  have "join_step svc cfg (fst x) (fst y)" using join_step.reconcile [OF reconcile(3)] reconcile(1,2) by simp
  moreover have "\<exists>f. provider_confirmed g h' k f" if new: "ChainActive k \<in> reconcile_events env pr" for k
  proof -
    from new obtain ensure f where "re_EnsureActive env = Some ensure" "ensure (pr_PublicKey pr) = Inr f" "k = pr_PublicKey pr"
      by (cases "re_EnsureActive env") (auto simp: reconcile_events_def isl_def split: if_splits intro: sum.exhaust)
    with reconcile(5) show ?thesis by blast
  qed
  ultimately show ?thesis using reconcile(1,2) by (auto intro!: providers_confirmed_later [OF _ reconcile(4)]) blast
qed

lemma chain_join_run:
  assumes "(chain_join g svc cfg)\<^sup>*\<^sup>* x y"
  shows "(join_step svc cfg)\<^sup>*\<^sup>* (fst x) (fst y) \<and> (providers_confirmed g x \<longrightarrow> providers_confirmed g y)"
  using assms
proof induction
  case (step y z)
  with chain_join_sound [OF step(2)] show ?case by (auto intro: rtranclp.rtrancl_into_rtrancl)
qed simp

end
