(* ===== verification/Spec2Isabelle.thy ===== *)
theory Spec2Isabelle
  imports Metering_Audit Ranking_Cases Orchestration_Run Heartbeat_Usage Certificates Chain_Backing
begin

text \<open>
  \<^bold>\<open>The OpenInfra control plane.\<close> The control plane is the Go server under
  \<^verbatim>\<open>control-plane/\<close>. Providers join it with an Ed25519 key and report heartbeats, tenants submit
  workloads, a worker ranks the providers and takes every workload through a lease on a Substrate
  chain to a container on a provider, and the metering service bills the usage providers report.
  Its durable state is PostgreSQL, its volatile state Redis, and everything on the chain goes
  through one signing account.

  \<^bold>\<open>How the model is made.\<close> A handler is one function from its inputs and the state to its
  result and the new state; an error is a value of its own. A table is a list of rows, and one
  statement or transaction is one step, so interleavings are sequences of steps. Unsigned
  integers are words of their width; an \<^verbatim>\<open>int64\<close> is an \<^typ>\<open>int\<close> with the wrap-around written out
  where the source can overflow. Code that is not in the repository (Ed25519, SHA-256, BLAKE2,
  protobuf, X.509, the UUID and URL parsers, PostgreSQL's clock and availability, the chain node)
  is a parameter; the records \<open>db_call\<close>, \<open>redis_call\<close>, \<open>join_service\<close>, \<open>worker_env\<close>, \<open>RPCClient\<close>
  and their like hold such parameters, and a property assumes of them only what it names.

  \<^bold>\<open>Theories and sources.\<close>

  \<^item> \<^verbatim>\<open>Prelude\<close>: types, \<^verbatim>\<open>int64\<close> arithmetic, tables. \<^verbatim>\<open>Byte_Codec\<close>: the locale \<open>codec\<close> of encodings
  that read back, with the big-endian ones. \<^verbatim>\<open>Go_Float\<close>, \<^verbatim>\<open>Go_Sort\<close>, \<^verbatim>\<open>Go_Strconv\<close>, \<^verbatim>\<open>Go_Regexp\<close>: what the
  sources use of Go's library.

  \<^item> \<^verbatim>\<open>metering/\<close>: \<^verbatim>\<open>Metering_Price\<close> (price.go), \<^verbatim>\<open>Metering_Signing\<close> (signing.go), \<^verbatim>\<open>Metering_Ledger\<close>
  (postgres.go over migration 16; the repository interface is the locale \<open>metering_repository\<close>),
  \<^verbatim>\<open>Metering_Service\<close> (service.go), \<^verbatim>\<open>Metering_History\<close> and \<^verbatim>\<open>Metering_Audit\<close> (the system and its
  properties). Over any history with any failures each usage report is billed at most once, for
  the exact charge of a summary the provider signed; while the database answers, every refusal of a
  submission with a well-formed workload id is recorded, except for figures beyond \<open>2 ^ 63\<close>; the
  ledger only grows.

  \<^item> \<^verbatim>\<open>scheduler/rank.go\<close>: \<^verbatim>\<open>Scheduler\<close>, \<^verbatim>\<open>Ranking\<close>, \<^verbatim>\<open>Ranking_Cases\<close>. The ranking lists exactly the
  candidates that are eligible over unbounded integers, does not depend on their order, and keeps
  its scores in range, as long as the figures and the demanded reputation do not overflow; when
  they do, the overflowing provider wins and the reputation floor wraps.

  \<^item> \<^verbatim>\<open>workloadapi/\<close>: \<^verbatim>\<open>Workload_Store\<close> (postgres.go), \<^verbatim>\<open>Workload_Lifecycle\<close>, \<^verbatim>\<open>Workload_System\<close> (all
  callers interleaved), \<^verbatim>\<open>Workload_Properties\<close>, \<^verbatim>\<open>Workload_Service\<close> (service.go) and
  \<^verbatim>\<open>Workload_Refinement\<close>, where every query is one step of a map from ids to states of the life
  cycle. Providers are never overcommitted while amounts stay below \<open>2 ^ 62\<close>, rows only move forward, stale claims change nothing, retries
  are answered as before, tenants do not see each other's workloads.

  \<^item> \<^verbatim>\<open>orchestrator/worker.go\<close>: \<^verbatim>\<open>Orchestrator\<close> (the step of the worker), \<^verbatim>\<open>Orchestration\<close> (the locale
  \<open>persistent_store\<close> of its store, interpreted on the tables, and the system of workers, tenants
  and heartbeats), \<^verbatim>\<open>Orchestration_Run\<close> (a concrete run). \<^verbatim>\<open>Backoff\<close>: the retry schedule it shares
  with the registration reconciler, as the locale \<open>retry_schedule\<close>. \<^verbatim>\<open>Agent_Manager\<close>
  (agentmanager/), \<^verbatim>\<open>OpenStack_Types\<close> (records it reads). A running workload has a confirmed lease,
  and the processing of one workload, its claims apart, is bounded.

  \<^item> \<^verbatim>\<open>providerjoin/\<close>: \<^verbatim>\<open>Join_Store\<close> (postgres.go), \<^verbatim>\<open>Join_Service\<close> (service.go and reconciler.go),
  \<^verbatim>\<open>Join_Lifecycle\<close> (the invariant), \<^verbatim>\<open>Join_System\<close> (requests, passes and revocations interleaved),
  \<^verbatim>\<open>Join_Liveness\<close>, \<^verbatim>\<open>Join_Properties\<close>; \<^verbatim>\<open>Heartbeat\<close> (ReportHeartbeat, redis.go, bandwidth.go,
  postgres_bandwidth.go), \<^verbatim>\<open>Heartbeat_System\<close>, \<^verbatim>\<open>Heartbeat_Usage\<close>; \<^verbatim>\<open>Certificates\<close> (certificates.go)
  over \<^verbatim>\<open>Pki\<close> (pki/). A provider is registered only for a key whose owner signed its challenge,
  every registration settles under a polling loop that works often enough, a schedulable provider was alive a bounded time ago, renewals need
  the registered key and a fresh nonce, revoked leaves are refused; and a revoked provider comes
  back by repeating its join request.

  \<^item> \<^verbatim>\<open>blockchainbridge/\<close>: \<^verbatim>\<open>Scale\<close> (the SCALE encoding, as instances of \<open>codec\<close>), \<^verbatim>\<open>Chain_Codec\<close> (storage
  keys, decoders, calls, committees), \<^verbatim>\<open>Chain_Laws\<close> (their laws), \<^verbatim>\<open>Chain_Rpc\<close> (rpc.go),
  \<^verbatim>\<open>Registrar\<close> (registrar.go, networkvalidatorregistrar.go, resourcemarket.go, balances.go and the
  readers), \<^verbatim>\<open>Registrar_Properties\<close>. What is written reads back, submissions are bounded, and the
  registrar calls a lease or a provider active only after the node reported it so at a finalized
  head.

  \<^item> \<^verbatim>\<open>Chain_Backing\<close> puts the registrar in place of the answers the worker and provider join take
  from it; the two properties below follow.

  \<^bold>\<open>Bounds.\<close> Every function is total. A wait on the chain (\<open>pollUntil\<close>) and the paging of keys
  (\<open>accountPages\<close>) take the number of rounds that pass before the caller's context ends and fail
  then, as the code does; the properties hold for every such number. The tip loop of
  \<^verbatim>\<open>submitSigned\<close> is bounded by the code itself. No other loop needs a bound.

  \<^bold>\<open>Not modelled.\<close> The HTTP surfaces (dashboard/, openstackapi/) and their SQL, user accounts and
  wallet login (userauth/, walletlogin/), projects/, the front-end release tools, the network
  validator daemon (networkvalidator/), rate limiting, the WireGuard manager, the offer reconciler
  and the older in-memory orchestrator are separate programs or handlers that the components above
  do not call, except through interfaces that are parameters here. The \<^verbatim>\<open>cmd/\<close> mains read the
  environment and start servers. Generated protobuf code is data only. The Rust provider agent
  (provider-agent/) and the Substrate pallets (blockchain/) are programs of their own; the control
  plane sees them through RPC, and the model lets them answer anything. Inside the modelled files,
  log output, metrics, ticker loops and the wording of internal errors are left out. A transaction
  either commits and is answered or has no effect; a commit whose acknowledgement is lost is not an
  outcome of \<open>db_call\<close>. The Redis set of revoked ids is kept once written; its loss on a restart of
  Redis, until the next sweep rebuilds it, is not a step.
\<close>

section \<open>Across the components\<close>

text \<open>
  C2. Every workload that is leased, deploying or running has its lease on the chain: whatever
  workers, tenants, Agents and the node do, the node has reported, at a head it reported as
  finalized and under the key of the workload's lease id, a record that names the bridge account
  and the workload's resource hash and is in state Active.
\<close>

theorem running_workload_on_chain:
  assumes "new_orch \<sigma>" and "(chain_orchestration g w)\<^sup>*\<^sup>* (\<sigma>, h) (\<sigma>', h')" and "0 < MaxAttempts (w_retryPolicy w)"
    and "r \<in> set (ws_rows (o_store \<sigma>'))" and "w_state r \<in> {LEASED, DEPLOYING, RUNNING}"
  shows "\<exists>leaseID hash head v. w_lease_id r = Some (int leaseID) \<and> w_resource_hash r = Some hash \<and>
    head_reported (rg_rpc g) h' head \<and>
    value_reported (rg_rpc g) h' (leaseStorageKey (rg_hashes g) (word_of_nat leaseID)) head v \<and> length v = 105 \<and>
    slice 32 64 v = rg_account g \<and> slice 64 96 v = hash \<and> v ! 104 = 1"
proof -
  from chain_orchestration_run [OF assms(2)] have run: "(orchestration w)\<^sup>*\<^sup>* \<sigma> \<sigma>'"
    and "leases_confirmed g (\<sigma>, h) \<longrightarrow> leases_confirmed g (\<sigma>', h')" by simp_all
  then have confirmed: "leases_confirmed g (\<sigma>', h')" using assms(1) by (simp add: leases_confirmed_def new_orch_def)
  from orchestration_run_inv [OF run assms(1,3)] assms(4,5) have "lease_recorded (o_events \<sigma>') r"
    by (simp add: orch_inv_def row_inv_def under_lease_def) blast
  then obtain leaseID key hash blocks where row: "w_lease_id r = Some (int leaseID)" "w_resource_hash r = Some hash"
    and "LeaseActive leaseID key hash blocks \<in> o_events \<sigma>'" unfolding lease_recorded_def by blast
  with confirmed have "lease_confirmed g h' leaseID key hash blocks" by (simp add: leases_confirmed_def)
  then obtain polls h1 lease h2 where
    "Registrar.EnsureLeaseActive g polls (word_of_nat leaseID) key hash blocks h1 = (Inr lease, h2)" and pre: "prefix h2 h'"
    unfolding lease_confirmed_def by blast
  from EnsureLeaseActive_sound [OF this(1)] row head_reported_mono [OF _ pre] value_reported_mono [OF _ pre] show ?thesis by blast
qed

text \<open>
  C6. Every active provider is active on the chain: whatever joins, revocations and passes of the
  reconciler have run and whatever the node answered, the node has reported, at a head it reported
  as finalized, a registry record in state Active for a key the provider's id is the hash of.
\<close>

theorem active_provider_on_chain:
  assumes "new_join \<sigma>" and "(chain_join g svc cfg)\<^sup>*\<^sup>* (\<sigma>, h) (\<sigma>', h')"
    and "p \<in> set (js_providers (jy_store \<sigma>'))" and "pv_status p = NODE_ACTIVE"
  shows "\<exists>k head v. pv_id p = hex_encode (jn_sha256 svc k) \<and> head_reported (rg_rpc g) h' head \<and>
    value_reported (rg_rpc g) h' (providerStorageKey (rg_hashes g) k) head v \<and> length v = 65 \<and> take 32 v = k \<and> v ! 64 = 2"
proof -
  from chain_join_run [OF assms(2)] have run: "(join_step svc cfg)\<^sup>*\<^sup>* \<sigma> \<sigma>'"
    and "providers_confirmed g (\<sigma>, h) \<longrightarrow> providers_confirmed g (\<sigma>', h')" by simp_all
  then have confirmed: "providers_confirmed g (\<sigma>', h')" using assms(1) by (simp add: providers_confirmed_def new_join_def)
  have "on_chain svc (jy_events \<sigma>') (pv_id p)"
    using join_run_inv [OF run assms(1)] assms(3,4) by (simp add: sys_inv_def observed_def)
  then obtain k where k: "pv_id p = hex_encode (jn_sha256 svc k)" "ChainActive k \<in> jy_events \<sigma>'" unfolding on_chain_def by blast
  with confirmed obtain polls h1 out h2 where "EnsureActive g polls k h1 = (Inr out, h2)" and pre: "prefix h2 h'"
    unfolding providers_confirmed_def provider_confirmed_def by blast
  from EnsureActive_sound [OF this(1)] k head_reported_mono [OF _ pre] value_reported_mono [OF _ pre] show ?thesis by blast
qed

text \<open>The runs of the components with the sample node.\<close>

lemma sample_lease_confirmed:
  "lease_confirmed (sample_registrar sample_lease_record sample_version) (snd sample_active) 1 (replicate 32 1) (replicate 32 9)
     (leaseBlocks ex_worker ex_definition)"
proof -
  have "leaseBlocks ex_worker ex_definition = 1200" by code_simp
  moreover from sample_active_eval obtain lease where "fst sample_active = Inr lease" by blast
  then have "Registrar.EnsureLeaseActive (sample_registrar sample_lease_record sample_version) 0 (word_of_nat 1) (replicate 32 1) (replicate 32 9) 1200 [] =
      (Inr lease, snd sample_active)"
    unfolding sample_active_def by (intro prod_eqI) simp_all
  ultimately show ?thesis unfolding lease_confirmed_def by fastforce
qed

theorem running_workload_on_chain_witness:
  "\<exists>\<sigma> head v. (chain_orchestration (sample_registrar sample_lease_record sample_version) ex_worker)\<^sup>*\<^sup>* (ex_start, []) (\<sigma>, snd sample_active) \<and>
     map w_state (ws_rows (o_store \<sigma>)) = [LEASED] \<and> head_reported (sample_client sample_lease_record sample_version) (snd sample_active) head \<and>
     value_reported (sample_client sample_lease_record sample_version) (snd sample_active) (leaseStorageKey sample_hashes 1) head v \<and> v ! 104 = 1"
proof -
  let ?g = "sample_registrar sample_lease_record sample_version" and ?h = "snd sample_active"
  let ?ensure = "\<lambda>id key hash blocks. id = 1 \<and> key = replicate 32 1 \<and> hash = replicate 32 9 \<and> blocks = leaseBlocks ex_worker ex_definition"
  from ex_pending obtain C n where pending: "(orchestration ex_worker)\<^sup>*\<^sup>* ex_start (orch_of ex_store6 (insert ex_item6 C) {} n)" by blast
  then have "(chain_orchestration ?g ex_worker)\<^sup>*\<^sup>* (ex_start, []) (orch_of ex_store6 (insert ex_item6 C) {} n, [])"
    by (rule silent_run) (simp add: ex_start_def)
  moreover have "\<exists>\<sigma>. chain_orchestration ?g ex_worker (orch_of ex_store6 (insert ex_item6 C) {} n, []) (\<sigma>, ?h) \<and> o_store \<sigma> = ex_store5 ex_row7"
  proof -
    note chain_orchestration.work [where \<sigma> = "orch_of ex_store6 (insert ex_item6 C) {} n" and h = "[]" and h' = ?h and g = ?g
        and env = "ex_env\<lparr>worker_env.EnsureLeaseActive := ?ensure\<rparr>" and item = ex_item6]
    moreover have "processItem (ex_pg 7) (ex_env\<lparr>worker_env.EnsureLeaseActive := ?ensure\<rparr>) ex_worker ex_item6 (o_store (orch_of ex_store6 (insert ex_item6 C) {} n)) =
        (Inr (), ex_store5 ex_row7, [LeaseActive 1 (replicate 32 1) (replicate 32 9) (leaseBlocks ex_worker ex_definition)])"
      using ex_lease_confirmed [of ?ensure] by simp
    moreover have "\<forall>x. length (we_sha256 (ex_env\<lparr>worker_env.EnsureLeaseActive := ?ensure\<rparr>) x) = 32" using ex_hash by simp
    ultimately show ?thesis using sample_lease_confirmed by fastforce
  qed
  ultimately obtain \<sigma> where run: "(chain_orchestration ?g ex_worker)\<^sup>*\<^sup>* (ex_start, []) (\<sigma>, ?h)" and store: "o_store \<sigma> = ex_store5 ex_row7"
    by (meson rtranclp.rtrancl_into_rtrancl)
  have row: "ex_row7 \<in> set (ws_rows (o_store \<sigma>))" "w_state ex_row7 \<in> {LEASED, DEPLOYING, RUNNING}" "w_lease_id ex_row7 = Some 1"
    "map w_state (ws_rows (o_store \<sigma>)) = [LEASED]" by (simp_all add: store ex_lease_defs)
  have "rg_rpc ?g = sample_client sample_lease_record sample_version" "rg_hashes ?g = sample_hashes" by (simp_all add: sample_registrar_def)
  with running_workload_on_chain [OF ex_new_orch run ex_policy row(1,2)] row(3) obtain head v where
    "head_reported (sample_client sample_lease_record sample_version) ?h head"
    "value_reported (sample_client sample_lease_record sample_version) ?h (leaseStorageKey sample_hashes 1) head v" "v ! 104 = 1" by auto
  with run row(4) show ?thesis by (intro exI conjI)
qed

theorem active_provider_on_chain_witness:
  "\<exists>h k head v. (chain_join (sample_registrar sample_provider_record sample_version) sample_join DefaultReconcilerConfig)\<^sup>*\<^sup>* (sample_new, []) (sample_system, h) \<and>
     head_reported (sample_client sample_provider_record sample_version) h head \<and>
     value_reported (sample_client sample_provider_record sample_version) h (providerStorageKey sample_hashes k) head v \<and> v ! 64 = 2"
proof -
  let ?g = "sample_registrar sample_provider_record sample_version" and ?cm = "projr (fst sample_acceptance)"
  let ?h = "snd (EnsureActive ?g 0 (replicate 32 7) [])" and ?ensure = "the (jn_EnsureActive sample_join)"
  let ?join = "chain_join ?g sample_join DefaultReconcilerConfig"
  have "?join\<^sup>*\<^sup>* (sample_new, []) (sample_new\<lparr>jy_store := sample_challenged\<rparr>, [])"
    by (intro r_into_rtranclp chain_join.silent [OF sample_begins]) simp_all
  also have "?join (sample_new\<lparr>jy_store := sample_challenged\<rparr>, []) (sample_pending_system, [])"
    by (rule chain_join.silent [OF sample_accepts]) (simp_all add: sample_pending_system_def)
  finally have accepted: "?join\<^sup>*\<^sup>* (sample_new, []) (sample_pending_system, [])" .
  have fin: "?ensure k = Some (finalization_of (None, replicate 32 2, 9))" for k by (simp add: sample_join_def)
  have "EnsureActive ?g 0 (replicate 32 7) [] = (Inr (None, replicate 32 2, 9), ?h)"
    using sample_EnsureActive by (intro prod_eqI) simp_all
  then have confirmed: "provider_confirmed ?g ?h (completed_key ?cm) (finalization_of (None, replicate 32 2, 9))"
    unfolding provider_confirmed_def sample_key by blast
  have "sample_join\<lparr>jn_EnsureActive := Some ?ensure\<rparr> = sample_join" by (simp add: sample_join_def)
  then have "activateCompletion (sample_join\<lparr>jn_EnsureActive := Some ?ensure\<rparr>) (sample_call '''' second) (jy_store sample_pending_system) ?cm =
      (fst (activateCompletion sample_join (sample_call '''' second) (snd sample_acceptance) ?cm), sample_activated)"
    by (simp add: sample_activated_def sample_pending_system_def)
  moreover have "?cm \<in> jy_completed sample_pending_system" by (simp add: sample_pending_system_def sample_system_def)
  ultimately have "?join (sample_pending_system, []) (sample_pending_system\<lparr>jy_store := sample_activated,
      jy_events := jy_events sample_pending_system \<union> activation_events ?ensure ?cm\<rparr>, ?h)"
    using confirmed by (intro chain_join.activate) (simp_all add: fin)
  moreover have "activation_events ?ensure ?cm = {ChainActive (replicate 32 7)}"
    unfolding activation_events_def sample_key sample_pending by (simp add: sample_join_def)
  ultimately have "?join (sample_pending_system, []) (sample_system, ?h)"
    by (simp add: sample_pending_system_def sample_system_def insert_commute)
  with accepted have run: "?join\<^sup>*\<^sup>* (sample_new, []) (sample_system, ?h)" by (rule rtranclp.rtrancl_into_rtrancl)
  let ?p = "hd (js_providers sample_activated)"
  have "js_providers sample_activated \<noteq> [] \<and> pv_status ?p = NODE_ACTIVE" by code_simp
  then have p: "?p \<in> set (js_providers (jy_store sample_system))" "pv_status ?p = NODE_ACTIVE"
    by (simp_all add: sample_system_def)
  have "rg_rpc ?g = sample_client sample_provider_record sample_version" "rg_hashes ?g = sample_hashes" by (simp_all add: sample_registrar_def)
  with active_provider_on_chain [OF sample_new_join run p] run show ?thesis by auto
qed

end
